(* ===== verification/JsNumber.thy ===== *)
theory JsNumber
  imports Complex_Main "HOL-Library.Log_Nat"
begin

text \<open>
  The numbers of the program. A JavaScript number is an IEEE binary64 value; every arithmetic
  operation returns the binary64 value nearest to the exact result, ties to even. A value is a
  \<^typ>\<open>real\<close>, \<open>rnd\<close> is the rounding, and \<open>jadd\<close>, \<open>jsub\<close>, \<open>jmul\<close>, \<open>jdiv\<close> are the four
  operations; a decimal literal of the source is \<open>rnd\<close> of its decimal value. The exponent range
  is unbounded: overflow, subnormals, infinities and NaN are outside the model, and the program's
  quantities (hit points, metres, probabilities) stay far from them. Everything here computes on
  rational arguments, so that concrete values are evaluated by \<open>code_simp\<close>.

  The lemmas are what the components need: rounding is monotone, odd, exact on every integer up
  to \<open>2 ^ 53\<close> and on every binary64 value, and moves a value by at most the relative error
  \<open>2 ^ -53\<close>.
\<close>

named_theorems js_num \<open>unfolds the rounded arithmetic operations\<close>
named_theorems js_mono \<open>monotonicity of the rounded arithmetic operations\<close>

section \<open>Rounding to binary64\<close>

text \<open>The exponent of the leading bit: the integer part of the binary logarithm.\<close>

definition ilog2 :: "real \<Rightarrow> int" where
  "ilog2 x = (if 1 \<le> x then bitlen \<lfloor>x\<rfloor> - 1 else - bitlen (\<lceil>1 / x\<rceil> - 1))"

definition round_even :: "real \<Rightarrow> int" where
  "round_even x =
     (let f = \<lfloor>x\<rfloor>; d = x - of_int f in
      if d < 1 / 2 then f
      else if 1 / 2 < d then f + 1
      else if even f then f else f + 1)"

definition rnd :: "real \<Rightarrow> real" where
  "rnd x =
     (if x = 0 then 0
      else let u = 2 powi (ilog2 \<bar>x\<bar> - 52) in of_int (round_even (x / u)) * u)"

definition jadd :: "real \<Rightarrow> real \<Rightarrow> real" where [js_num]: "jadd x y = rnd (x + y)"
definition jsub :: "real \<Rightarrow> real \<Rightarrow> real" where [js_num]: "jsub x y = rnd (x - y)"
definition jmul :: "real \<Rightarrow> real \<Rightarrow> real" where [js_num]: "jmul x y = rnd (x * y)"
definition jdiv :: "real \<Rightarrow> real \<Rightarrow> real" where [js_num]: "jdiv x y = rnd (x / y)"

text \<open>\<open>Math.round\<close>: the nearest integer, ties towards positive infinity.\<close>

definition math_round :: "real \<Rightarrow> int" where "math_round x = \<lfloor>x + 1 / 2\<rfloor>"

section \<open>The exponent\<close>

lemma two_powi_nat: "0 \<le> k \<Longrightarrow> (2::real) powi k = 2 ^ nat k"
  by (simp add: power_int_def)

lemma bitlen_real_bounds:
  assumes "0 < n"
  shows "0 < bitlen n" and "2 powi (bitlen n - 1) \<le> real_of_int n"
    and "real_of_int n + 1 \<le> 2 powi bitlen n"
proof -
  show bl: "0 < bitlen n"
    using assms bitlen_nonneg[of n] bitlen_eq_zero_iff[of n] by linarith
  have b: "2 ^ nat (bitlen n - 1) \<le> n" "n + 1 \<le> 2 ^ nat (bitlen n)"
    using bitlen_bounds[OF assms] by simp_all
  from b(1) have "real_of_int (2 ^ nat (bitlen n - 1)) \<le> of_int n"
    by (simp only: of_int_le_iff)
  then show "2 powi (bitlen n - 1) \<le> real_of_int n"
    using bl by (simp add: two_powi_nat)
  from b(2) have "real_of_int (n + 1) \<le> of_int (2 ^ nat (bitlen n))"
    by (simp only: of_int_le_iff)
  then show "real_of_int n + 1 \<le> 2 powi bitlen n"
    using bl by (simp add: two_powi_nat)
qed

lemma ilog2_bounds:
  assumes "0 < x"
  shows "2 powi ilog2 x \<le> x" and "x < 2 powi (ilog2 x + 1)"
proof -
  have "2 powi ilog2 x \<le> x \<and> x < 2 powi (ilog2 x + 1)"
  proof (cases "1 \<le> x")
    case True
    then have "0 < \<lfloor>x\<rfloor>" by simp
    from bitlen_real_bounds[OF this] show ?thesis
      using True floor_correct[of x] by (simp add: ilog2_def) linarith
  next
    case False
    define n where "n = \<lceil>1 / x\<rceil> - 1"
    have "1 < 1 / x" using False assms by simp
    then have n: "0 < n" unfolding n_def by linarith
    have nx: "real_of_int n < 1 / x" "1 / x \<le> real_of_int n + 1"
      unfolding n_def by linarith+
    have lo: "2 powi (bitlen n - 1) < 1 / x" and hi: "1 / x \<le> 2 powi bitlen n"
      using bitlen_real_bounds[OF n] nx by linarith+
    have e: "(2::real) powi (- bitlen n) = 1 / 2 powi bitlen n"
      "(2::real) powi (- bitlen n + 1) = 1 / 2 powi (bitlen n - 1)"
      by (simp_all add: power_int_minus_divide power_int_diff power_int_add)
    have "ilog2 x = - bitlen n"
      using False by (simp add: ilog2_def n_def)
    then show ?thesis
      unfolding \<open>ilog2 x = - bitlen n\<close> e using lo hi assms by (simp add: divide_simps mult.commute)
  qed
  then show "2 powi ilog2 x \<le> x" and "x < 2 powi (ilog2 x + 1)" by simp_all
qed

lemma powi_less_iff [simp]: "(2::real) powi a < 2 powi b \<longleftrightarrow> a < b"
  using power_int_strict_increasing[of a b "2::real"] power_int_increasing[of b a "2::real"]
  by fastforce

lemma powi_le_iff [simp]: "(2::real) powi a \<le> 2 powi b \<longleftrightarrow> a \<le> b"
  using powi_less_iff[of b a] by linarith

lemma ilog2_less:
  assumes "0 < x" and "x < 2 powi k"
  shows "ilog2 x < k"
proof -
  from ilog2_bounds(1)[OF assms(1)] assms(2) have "2 powi ilog2 x < (2::real) powi k"
    by linarith
  then show ?thesis by simp
qed

lemma ilog2_mono:
  assumes "0 < x" and "x \<le> y"
  shows "ilog2 x \<le> ilog2 y"
proof -
  have "x < 2 powi (ilog2 y + 1)"
    using ilog2_bounds(2)[of y] assms by linarith
  then have "ilog2 x < ilog2 y + 1" by (rule ilog2_less[OF assms(1)])
  then show ?thesis by simp
qed

section \<open>Ties to even\<close>

lemma round_even_near: "\<bar>of_int (round_even x) - x\<bar> \<le> 1 / 2"
proof -
  have "x - of_int \<lfloor>x\<rfloor> < 1" "0 \<le> x - of_int \<lfloor>x\<rfloor>" by linarith+
  then show ?thesis by (auto simp: round_even_def Let_def abs_le_iff)
qed

lemma round_even_of_int [simp]: "round_even (of_int n) = n"
  by (simp add: round_even_def)

lemma round_even_mono:
  assumes "x \<le> y"
  shows "round_even x \<le> round_even y"
proof (cases "\<lfloor>x\<rfloor> = \<lfloor>y\<rfloor>")
  case True
  then show ?thesis using assms by (auto simp: round_even_def Let_def)
next
  case False
  with assms have "\<lfloor>x\<rfloor> + 1 \<le> \<lfloor>y\<rfloor>" using floor_mono[OF assms] by linarith
  then show ?thesis by (auto simp: round_even_def Let_def)
qed

lemma round_even_minus [simp]: "round_even (- x) = - round_even x"
proof (cases "of_int \<lfloor>x\<rfloor> = x")
  case True
  then show ?thesis
    by (metis of_int_minus round_even_of_int)
next
  case False
  then have "\<lfloor>- x\<rfloor> = - \<lfloor>x\<rfloor> - 1" by linarith
  then show ?thesis by (auto simp: round_even_def Let_def)
qed

section \<open>Rounding\<close>

lemma rnd_0 [simp]: "rnd 0 = 0"
  by (simp add: rnd_def)

lemma rnd_minus [simp]: "rnd (- x) = - rnd x"
  by (simp add: rnd_def Let_def)

lemma rnd_pos: "0 < x \<Longrightarrow>
    rnd x = of_int (round_even (x / 2 powi (ilog2 x - 52))) * 2 powi (ilog2 x - 52)"
  by (simp add: rnd_def Let_def)

text \<open>A value with at most 53 significant bits is its own rounding.\<close>

lemma rnd_dyadic_pos:
  assumes "0 < m" and "m < 2 ^ 53"
  shows "rnd (of_int m * 2 powi k) = of_int m * 2 powi k"
proof -
  let ?x = "real_of_int m * 2 powi k"
  have x: "0 < ?x" using assms by simp
  have "real_of_int m < 2 ^ 53"
    using assms(2) by (metis of_int_less_iff of_int_numeral of_int_power)
  then have "?x < 2 ^ 53 * 2 powi k"
    by (intro mult_strict_right_mono) simp_all
  also have "\<dots> = 2 powi (53 + k)"
    by (simp add: power_int_add)
  finally have e: "ilog2 ?x < 53 + k"
    by (rule ilog2_less[OF x])
  define j where "j = nat (k - (ilog2 ?x - 52))"
  have "2 powi k / 2 powi (ilog2 ?x - 52) = (2::real) powi (k - (ilog2 ?x - 52))"
    by (simp add: power_int_diff)
  also have "\<dots> = 2 ^ j"
    unfolding j_def using e by (intro two_powi_nat) simp
  finally have q: "?x / 2 powi (ilog2 ?x - 52) = of_int (m * 2 ^ j)"
    by (simp add: field_simps)
  have "rnd ?x = of_int (m * 2 ^ j) * 2 powi (ilog2 ?x - 52)"
    unfolding rnd_pos[OF x] q round_even_of_int ..
  also have "\<dots> = ?x"
    unfolding q[symmetric] by simp
  finally show ?thesis .
qed

lemma rnd_dyadic:
  assumes "\<bar>m\<bar> \<le> 2 ^ 53"
  shows "rnd (of_int m * 2 powi k) = of_int m * 2 powi k"
proof -
  have pos: "rnd (of_int n * 2 powi k) = of_int n * 2 powi k" if n: "0 < n" "n \<le> 2 ^ 53" for n
  proof (cases "n = 2 ^ 53")
    case True
    have "real_of_int (2 ^ 53) * 2 powi k = of_int 1 * 2 powi (53 + k)"
      by (simp add: power_int_add)
    then show ?thesis
      unfolding True by (simp only:) (rule rnd_dyadic_pos, simp_all)
  next
    case False
    then show ?thesis using n by (intro rnd_dyadic_pos) simp_all
  qed
  consider "0 < m" | "m = 0" | "0 < - m" by linarith
  then show ?thesis
  proof cases
    case 3
    with assms have "rnd (of_int (- m) * 2 powi k) = of_int (- m) * 2 powi k"
      by (intro pos) simp_all
    then show ?thesis by simp
  qed (use assms pos in simp_all)
qed

lemma rnd_of_int: "\<bar>n\<bar> \<le> 2 ^ 53 \<Longrightarrow> rnd (of_int n) = of_int n"
  using rnd_dyadic[of n 0] by simp

lemma rnd_numeral: "numeral w \<le> (2::int) ^ 53 \<Longrightarrow> rnd (numeral w) = numeral w"
  using rnd_of_int[of "numeral w"] by simp

lemma rnd_1 [simp]: "rnd 1 = 1"
  using rnd_of_int[of 1] by simp

text \<open>The mantissa produced by rounding has at most 53 bits.\<close>

lemma rnd_mantissa:
  assumes "0 < x"
  shows "2 ^ 52 \<le> round_even (x / 2 powi (ilog2 x - 52))"
    and "round_even (x / 2 powi (ilog2 x - 52)) \<le> 2 ^ 53"
proof -
  have s: "(2::real) powi ilog2 x = of_int (2 ^ 52) * 2 powi (ilog2 x - 52)"
    "(2::real) powi (ilog2 x + 1) = of_int (2 ^ 53) * 2 powi (ilog2 x - 52)"
    by (simp_all add: power_int_diff power_int_add)
  have "real_of_int (2 ^ 52) \<le> x / 2 powi (ilog2 x - 52)"
    using ilog2_bounds(1)[OF assms] unfolding s by (simp add: field_simps)
  from round_even_mono[OF this] show "2 ^ 52 \<le> round_even (x / 2 powi (ilog2 x - 52))"
    by (simp only: round_even_of_int)
  have "x / 2 powi (ilog2 x - 52) \<le> real_of_int (2 ^ 53)"
    using ilog2_bounds(2)[OF assms] unfolding s by (simp add: field_simps)
  from round_even_mono[OF this] show "round_even (x / 2 powi (ilog2 x - 52)) \<le> 2 ^ 53"
    by (simp only: round_even_of_int)
qed

lemma rnd_binade:
  assumes "0 < x"
  shows "2 powi ilog2 x \<le> rnd x" and "rnd x \<le> 2 powi (ilog2 x + 1)"
proof -
  let ?u = "(2::real) powi (ilog2 x - 52)"
  let ?m = "round_even (x / ?u)"
  have s: "(2::real) powi ilog2 x = of_int (2 ^ 52) * ?u"
    "(2::real) powi (ilog2 x + 1) = of_int (2 ^ 53) * ?u"
    by (simp_all add: power_int_diff power_int_add)
  have "real_of_int (2 ^ 52) \<le> of_int ?m" "real_of_int ?m \<le> of_int (2 ^ 53)"
    unfolding of_int_le_iff using rnd_mantissa[OF assms] by simp_all
  then show "2 powi ilog2 x \<le> rnd x" and "rnd x \<le> 2 powi (ilog2 x + 1)"
    unfolding s rnd_pos[OF assms] by (intro mult_right_mono, simp_all)+
qed

lemma rnd_idem [simp]: "rnd (rnd x) = rnd x"
proof -
  have pos: "rnd (rnd y) = rnd y" if "0 < y" for y
  proof -
    have "\<bar>round_even (y / 2 powi (ilog2 y - 52))\<bar> \<le> 2 ^ 53"
      using rnd_mantissa[OF that] by simp
    from rnd_dyadic[OF this] show ?thesis
      unfolding rnd_pos[OF that] .
  qed
  consider "0 < x" | "x = 0" | "0 < - x" by linarith
  then show ?thesis
  proof cases
    case 3
    from pos[OF this] show ?thesis by simp
  qed (simp_all add: pos)
qed

lemma rnd_nonneg: "0 \<le> x \<Longrightarrow> 0 \<le> rnd x"
  using rnd_binade(1)[of x] by (cases "x = 0") (auto intro: order_trans[rotated])

lemma rnd_mono [js_mono]:
  assumes "x \<le> y"
  shows "rnd x \<le> rnd y"
proof -
  have pos: "rnd a \<le> rnd b" if "0 < a" "a \<le> b" for a b
  proof (cases "ilog2 a = ilog2 b")
    case True
    have "round_even (a / 2 powi (ilog2 b - 52)) \<le> round_even (b / 2 powi (ilog2 b - 52))"
      using that by (intro round_even_mono divide_right_mono) simp_all
    then show ?thesis
      using that True by (simp add: rnd_pos mult_right_mono)
  next
    case False
    with ilog2_mono[OF that] have "ilog2 a + 1 \<le> ilog2 b" by simp
    then have "(2::real) powi (ilog2 a + 1) \<le> 2 powi ilog2 b" by simp
    then show ?thesis
      using rnd_binade(2)[of a] rnd_binade(1)[of b] that by linarith
  qed
  consider "0 < x" | "x \<le> 0" "0 \<le> y" | "y < 0" by linarith
  then show ?thesis
  proof cases
    case 1
    then show ?thesis using assms by (rule pos)
  next
    case 2
    then have "0 \<le> rnd (- x)" "0 \<le> rnd y" by (intro rnd_nonneg, simp)+
    then show ?thesis by simp
  next
    case 3
    then have "rnd (- y) \<le> rnd (- x)" using assms by (intro pos) simp_all
    then show ?thesis by simp
  qed
qed

lemma rnd_le_of_int: "x \<le> of_int n \<Longrightarrow> \<bar>n\<bar> \<le> 2 ^ 53 \<Longrightarrow> rnd x \<le> of_int n"
  using rnd_mono[of x "of_int n"] by (simp add: rnd_of_int)

lemma rnd_ge_of_int: "of_int n \<le> x \<Longrightarrow> \<bar>n\<bar> \<le> 2 ^ 53 \<Longrightarrow> of_int n \<le> rnd x"
  using rnd_mono[of "of_int n" x] by (simp add: rnd_of_int)

text \<open>The relative error of one rounding is at most the unit roundoff \<open>2 ^ -53\<close>.\<close>

lemma rnd_error: "\<bar>rnd x - x\<bar> \<le> \<bar>x\<bar> / 2 ^ 53"
proof -
  have pos: "\<bar>rnd y - y\<bar> \<le> y / 2 ^ 53" if y: "0 < y" for y
  proof -
    let ?u = "(2::real) powi (ilog2 y - 52)"
    have "rnd y - y = (of_int (round_even (y / ?u)) - y / ?u) * ?u"
      unfolding rnd_pos[OF y] by (simp add: algebra_simps)
    then have "\<bar>rnd y - y\<bar> = \<bar>of_int (round_even (y / ?u)) - y / ?u\<bar> * ?u"
      by (simp add: abs_mult)
    also have "\<dots> \<le> 1 / 2 * ?u"
      by (intro mult_right_mono round_even_near) simp
    also have "\<dots> = 2 powi ilog2 y / 2 ^ 53"
      by (simp add: power_int_diff)
    also have "\<dots> \<le> y / 2 ^ 53"
      by (intro divide_right_mono ilog2_bounds(1)[OF y]) simp
    finally show ?thesis .
  qed
  consider "0 < x" | "x = 0" | "0 < - x" by linarith
  then show ?thesis
  proof cases
    case 3
    from pos[OF this] show ?thesis using 3 by (simp add: abs_minus_commute)
  qed (use pos[of x] in simp_all)
qed

lemma rnd_upper:
  assumes "0 \<le> x"
  shows "rnd x \<le> x * (1 + 1 / 2 ^ 53)"
proof -
  have "\<bar>rnd x - x\<bar> \<le> x / 2 ^ 53" using rnd_error[of x] assms by simp
  then have "rnd x \<le> x + x / 2 ^ 53" "x - x / 2 ^ 53 \<le> rnd x" by linarith+
  then show ?thesis by (simp add: algebra_simps)
qed

lemma rnd_lower:
  assumes "0 \<le> x"
  shows "x * (1 - 1 / 2 ^ 53) \<le> rnd x"
proof -
  have "\<bar>rnd x - x\<bar> \<le> x / 2 ^ 53" using rnd_error[of x] assms by simp
  then have "rnd x \<le> x + x / 2 ^ 53" "x - x / 2 ^ 53 \<le> rnd x" by linarith+
  then show ?thesis by (simp add: algebra_simps)
qed

lemma rnd_strict_pos: "0 < x \<Longrightarrow> 0 < rnd x"
  using rnd_binade(1)[of x] by (auto intro: less_le_trans[rotated])

section \<open>Monotonicity of the operations\<close>

lemma jadd_mono [js_mono]: "a \<le> b \<Longrightarrow> c \<le> d \<Longrightarrow> jadd a c \<le> jadd b d"
  by (simp add: js_num rnd_mono)

lemma jsub_mono [js_mono]: "a \<le> b \<Longrightarrow> d \<le> c \<Longrightarrow> jsub a c \<le> jsub b d"
  by (simp add: js_num rnd_mono)

lemma jmul_mono [js_mono]: "a \<le> b \<Longrightarrow> c \<le> d \<Longrightarrow> 0 \<le> a \<Longrightarrow> 0 \<le> c \<Longrightarrow> jmul a c \<le> jmul b d"
  by (simp add: js_num rnd_mono mult_mono)

lemma jdiv_mono [js_mono]: "a \<le> b \<Longrightarrow> d \<le> c \<Longrightarrow> 0 \<le> a \<Longrightarrow> 0 < d \<Longrightarrow> jdiv a c \<le> jdiv b d"
  by (simp add: js_num rnd_mono frac_le)

lemma jmul_nonneg: "0 \<le> a \<Longrightarrow> 0 \<le> b \<Longrightarrow> 0 \<le> jmul a b"
  by (simp add: js_num rnd_nonneg)

lemma jadd_nonneg: "0 \<le> a \<Longrightarrow> 0 \<le> b \<Longrightarrow> 0 \<le> jadd a b"
  by (simp add: js_num rnd_nonneg)

lemma jdiv_nonneg: "0 \<le> a \<Longrightarrow> 0 \<le> b \<Longrightarrow> 0 \<le> jdiv a b"
  by (simp add: js_num rnd_nonneg)

lemmas js_nonneg = rnd_nonneg jmul_nonneg jadd_nonneg jdiv_nonneg

text \<open>Sums and products of integers below \<open>2 ^ 53\<close> are exact.\<close>

lemma jadd_of_int: "\<bar>m + n\<bar> \<le> 2 ^ 53 \<Longrightarrow> jadd (of_int m) (of_int n) = of_int (m + n)"
  using rnd_of_int[of "m + n"] by (simp add: js_num)

lemma jmul_of_int: "\<bar>m * n\<bar> \<le> 2 ^ 53 \<Longrightarrow> jmul (of_int m) (of_int n) = of_int (m * n)"
  using rnd_of_int[of "m * n"] by (simp add: js_num)

end
