(* ===== verification/Prelude.thy ===== *)
theory Prelude
  imports JsNumber "HOL-Library.Stream"
begin

text \<open>
  What the components share: the theorem collections of the development, the random numbers the
  program draws, the array operations of the language it uses, the integer square root behind the
  experience curve, and the generic interfaces. \<open>guarded_machine\<close> is the contract of a component
  whose state changes by handling events one at a time, where the state decides which events are
  admissible: its invariant holds after every admissible sequence of events. \<open>step_machine\<close> is the
  special case in which the events alone decide. \<open>damageable\<close> is the contract of a combatant with
  hit points, met by the player and by the creatures, and \<open>weighted_table\<close> that of a table of
  weights from which a draw selects.
\<close>

named_theorems app_defs \<open>definitions of small operations, unfolded by default in proofs\<close>
named_theorems inv_intros \<open>operations that keep their component's invariant\<close>

section \<open>Random numbers\<close>

text \<open>
  \<open>Math.random\<close> is the environment's: the program's draws are the elements of a stream, consumed
  in order. A valid stream has binary64 values in the half-open unit interval, so its largest
  possible element is \<open>1 - 2 ^ -53\<close>.
\<close>

type_synonym rng = "real stream"

definition next_random :: "rng \<Rightarrow> real \<times> rng" where
  "next_random r = (shd r, stl r)"

definition valid_draw :: "real \<Rightarrow> bool" where
  "valid_draw x \<longleftrightarrow> 0 \<le> x \<and> x \<le> 1 - 1 / 2 ^ 53"

definition valid_rng :: "rng \<Rightarrow> bool" where
  "valid_rng r \<longleftrightarrow> (\<forall>x \<in> sset r. valid_draw x)"

lemma valid_rng_shd: "valid_rng r \<Longrightarrow> valid_draw (shd r)"
  by (cases r) (auto simp: valid_rng_def)

lemma valid_rng_stl: "valid_rng r \<Longrightarrow> valid_rng (stl r)"
  by (cases r) (auto simp: valid_rng_def)

lemma valid_rng_SCons [simp]: "valid_rng (x ## r) \<longleftrightarrow> valid_draw x \<and> valid_rng r"
  by (auto simp: valid_rng_def)

lemma valid_rng_sconst [simp]: "valid_rng (sconst x) \<longleftrightarrow> valid_draw x"
  by (auto simp: valid_rng_def)

text \<open>\<open>Math.floor(Math.random() * n)\<close>: rounding never carries the product up to \<open>n\<close>.\<close>

definition rand_index :: "real \<Rightarrow> int \<Rightarrow> int" where
  "rand_index x n = \<lfloor>jmul x (of_int n)\<rfloor>"

lemma draw_mul_less:
  assumes "valid_draw x" and "0 < (c::real)"
  shows "0 \<le> jmul x c" and "jmul x c < c"
proof -
  have x: "0 \<le> x" "x \<le> 1 - 1 / 2 ^ 53" using assms(1) by (auto simp: valid_draw_def)
  show "0 \<le> jmul x c" using x assms(2) by (intro jmul_nonneg) simp_all
  have "jmul x c \<le> x * c * (1 + 1 / 2 ^ 53)"
    unfolding js_num using x assms(2) by (intro rnd_upper) simp
  also have "\<dots> \<le> (1 - 1 / 2 ^ 53) * c * (1 + 1 / 2 ^ 53)"
    using x assms(2) by (intro mult_right_mono) simp_all
  also have "\<dots> = c * ((1 - 1 / 2 ^ 53) * (1 + 1 / 2 ^ 53))"
    by (simp add: algebra_simps)
  also have "\<dots> < c"
    using assms(2) by simp
  finally show "jmul x c < c" .
qed

lemma rand_index_range:
  assumes "valid_draw x" and "0 < n"
  shows "0 \<le> rand_index x n" and "rand_index x n < n"
  using draw_mul_less[OF assms(1), of "of_int n"] assms(2)
  by (simp_all add: rand_index_def floor_less_iff)

section \<open>Arrays\<close>

text \<open>\<open>findIndex\<close> with \<open>None\<close> for the source's \<open>-1\<close>.\<close>

fun find_index :: "('a \<Rightarrow> bool) \<Rightarrow> 'a list \<Rightarrow> nat option" where
  "find_index P [] = None"
| "find_index P (x # xs) = (if P x then Some 0 else map_option Suc (find_index P xs))"

lemma find_index_Some:
  "find_index P xs = Some i \<Longrightarrow> i < length xs \<and> P (xs ! i) \<and> (\<forall>j < i. \<not> P (xs ! j))"
proof (induction xs arbitrary: i)
  case (Cons x xs)
  show ?case
  proof (cases "P x")
    case False
    with Cons.prems obtain k where "find_index P xs = Some k" "i = Suc k" by auto
    with Cons.IH[of k] False show ?thesis by (auto simp: nth_Cons split: nat.splits)
  qed (use Cons.prems in simp)
qed simp

lemma find_index_None [simp]: "find_index P xs = None \<longleftrightarrow> (\<forall>x \<in> set xs. \<not> P x)"
  by (induction xs) auto

lemma find_index_length: "find_index P xs = Some i \<Longrightarrow> i < length xs"
  by (simp add: find_index_Some)

text \<open>Overwriting a position changes a count by the difference of the two elements.\<close>

lemma length_filter_update:
  "i < length xs \<Longrightarrow>
   length (filter P (xs[i := y])) + (if P (xs ! i) then 1 else 0) =
   length (filter P xs) + (if P y then 1 else 0)"
proof (induction xs arbitrary: i)
  case (Cons x xs)
  show ?case
  proof (cases i)
    case (Suc k)
    with Cons.prems Cons.IH[of k] show ?thesis by simp
  qed simp
qed simp

text \<open>\<open>slice(-n)\<close>: the last \<open>n\<close> elements.\<close>

definition slice_last :: "nat \<Rightarrow> 'a list \<Rightarrow> 'a list" where
  "slice_last n xs = drop (length xs - n) xs"

lemma length_slice_last [simp]: "length (slice_last n xs) = min n (length xs)"
  by (simp add: slice_last_def)

section \<open>Weighted choice\<close>

text \<open>
  The loop of the three weighted tables (encounter rarity, creature within a rarity, item
  rarity): subtract each weight from the roll and stop at the first entry that brings it to zero
  or below; \<open>None\<close> when the loop falls through.
\<close>

fun roll_loop :: "real \<Rightarrow> ('a \<times> real) list \<Rightarrow> 'a option" where
  "roll_loop roll [] = None"
| "roll_loop roll ((x, w) # rest) =
     (let roll' = jsub roll w in if roll' \<le> 0 then Some x else roll_loop roll' rest)"

lemma roll_loop_mem: "roll_loop roll tbl = Some x \<Longrightarrow> x \<in> fst ` set tbl"
  by (induction roll tbl rule: roll_loop.induct) (auto simp: Let_def split: if_splits)

text \<open>
  With integer weights the loop never falls through, and it never reaches an entry behind the
  prefix that carries the whole weight.
\<close>

lemma roll_loop_prefix:
  assumes "roll \<le> of_int (sum_list (map snd tbl))"
    and "\<forall>e \<in> set tbl. 0 \<le> snd e" and "sum_list (map snd tbl) \<le> 2 ^ 53"
    and "tbl \<noteq> []"
  shows "\<exists>x \<in> fst ` set tbl. roll_loop roll (map (apsnd real_of_int) tbl @ more) = Some x"
  using assms
proof (induction tbl arbitrary: roll)
  case (Cons e tbl)
  obtain x w where e: "e = (x, w)" by (cases e)
  let ?r = "jsub roll (of_int w)"
  have nn: "0 \<le> w" "0 \<le> sum_list (map snd tbl)"
    using Cons.prems(2) e by (auto intro!: sum_list_nonneg)
  have "roll - of_int w \<le> of_int (sum_list (map snd tbl))"
    using Cons.prems(1) e by simp
  then have r: "?r \<le> of_int (sum_list (map snd tbl))"
    unfolding js_num using Cons.prems(3) e nn by (intro rnd_le_of_int) simp_all
  show ?case
  proof (cases "?r \<le> 0")
    case True
    then show ?thesis using e by simp
  next
    case False
    with r have "tbl \<noteq> []" by auto
    with Cons.IH[of ?r] r Cons.prems e nn False show ?thesis by (auto simp: Let_def)
  qed
qed simp

text \<open>The loop stops inside the prefix of positive weights.\<close>

lemma roll_positive_prefix:
  assumes "valid_draw d" and "tbl \<noteq> []" and "\<forall>e \<in> set tbl. 0 < snd e"
    and "sum_list (map snd tbl) \<le> 2 ^ 53" and "\<forall>e \<in> set rest. snd e = 0"
  shows "\<exists>x \<in> fst ` set tbl.
    roll_loop (jmul d (of_int (sum_list (map snd (tbl @ rest))))) (map (apsnd real_of_int) (tbl @ rest)) = Some x"
proof -
  have rest: "sum_list (map snd rest) = 0" using assms(5) by (induction rest) auto
  have pos: "0 < sum_list (map snd tbl)"
    using assms(2,3) by (induction tbl) (force intro!: add_pos_nonneg sum_list_nonneg simp: less_imp_le)+
  show ?thesis
    using roll_loop_prefix[of "jmul d (of_int (sum_list (map snd tbl)))" tbl "map (apsnd real_of_int) rest"]
      draw_mul_less(2)[OF assms(1), of "of_int (sum_list (map snd tbl))"] assms(2-4) pos rest
    by (auto simp: less_imp_le)
qed

section \<open>Integer square root\<close>

fun isqrt :: "nat \<Rightarrow> nat" where
  "isqrt n =
     (if n = 0 then 0
      else let r = 2 * isqrt (n div 4) in if (r + 1) * (r + 1) \<le> n then r + 1 else r)"

declare isqrt.simps [simp del]

lemma isqrt_correct: "isqrt n * isqrt n \<le> n \<and> n < (isqrt n + 1) * (isqrt n + 1)"
proof (induction n rule: isqrt.induct)
  case (1 n)
  show ?case
  proof (cases "n = 0")
    case True
    then show ?thesis by (simp add: isqrt.simps)
  next
    case False
    define s where "s = isqrt (n div 4)"
    have s: "s * s \<le> n div 4" "n div 4 + 1 \<le> (s + 1) * (s + 1)"
      using "1.IH"[OF False] by (simp_all add: s_def)
    have "4 * (s * s) \<le> n" using s(1) by linarith
    moreover have "n < 4 * ((s + 1) * (s + 1))" using s(2) by linarith
    moreover have "isqrt n = (if (2 * s + 1) * (2 * s + 1) \<le> n then 2 * s + 1 else 2 * s)"
      using False by (subst isqrt.simps) (simp add: s_def Let_def)
    ultimately show ?thesis by (auto simp: algebra_simps)
  qed
qed

lemma isqrt_unique:
  assumes "k * k \<le> n" and "n < (k + 1) * (k + 1)"
  shows "isqrt n = k"
proof -
  have "k < isqrt n + 1" and "isqrt n < k + 1"
    using assms isqrt_correct[of n]
    by (metis le_less_trans mult_le_mono not_le)+
  then show ?thesis by simp
qed

lemma isqrt_mono: "m \<le> n \<Longrightarrow> isqrt m \<le> isqrt n"
  using isqrt_correct[of m] isqrt_correct[of n]
  by (metis Suc_eq_plus1 less_Suc_eq_le le_less_trans mult_le_mono not_le order_trans)

text \<open>It is the integer part of the real square root.\<close>

lemma isqrt_floor: "int (isqrt n) = \<lfloor>sqrt (real n)\<rfloor>"
proof -
  have "real (isqrt n) * real (isqrt n) \<le> real n"
    using isqrt_correct[of n] by (metis of_nat_le_iff of_nat_mult)
  then have lo: "real (isqrt n) \<le> sqrt (real n)"
    by (simp add: real_le_rsqrt power2_eq_square)
  have "real n < real (isqrt n + 1) * real (isqrt n + 1)"
    using isqrt_correct[of n] by (metis of_nat_less_iff of_nat_mult)
  then have hi: "sqrt (real n) < real (isqrt n) + 1"
    by (intro real_less_lsqrt) (simp_all add: power2_eq_square algebra_simps)
  show ?thesis using lo hi by linarith
qed

section \<open>Interfaces\<close>

text \<open>Runs whose events may depend on the state they meet, and machines that keep an invariant.\<close>

fun run_ok :: "('s \<Rightarrow> 'e \<Rightarrow> 's) \<Rightarrow> ('s \<Rightarrow> 'e \<Rightarrow> bool) \<Rightarrow> 's \<Rightarrow> 'e list \<Rightarrow> bool" where
  "run_ok step ok s [] \<longleftrightarrow> True"
| "run_ok step ok s (e # es) \<longleftrightarrow> ok s e \<and> run_ok step ok (step s e) es"

locale guarded_machine =
  fixes step :: "'s \<Rightarrow> 'e \<Rightarrow> 's" and inv :: "'s \<Rightarrow> bool" and ok :: "'s \<Rightarrow> 'e \<Rightarrow> bool"
  assumes guarded_step_inv: "inv s \<Longrightarrow> ok s e \<Longrightarrow> inv (step s e)"
begin

lemma guarded_run_inv: "inv s \<Longrightarrow> run_ok step ok s es \<Longrightarrow> inv (foldl step s es)"
  by (induction es arbitrary: s) (auto simp: guarded_step_inv)

end

text \<open>When the admissible events do not depend on the state, a run is admissible event by event.\<close>

lemma run_ok_events: "run_ok step (\<lambda>_. ok) s es \<longleftrightarrow> list_all ok es"
  by (induction es arbitrary: s) simp_all

locale step_machine =
  fixes step :: "'s \<Rightarrow> 'e \<Rightarrow> 's" and inv :: "'s \<Rightarrow> bool" and ok :: "'e \<Rightarrow> bool"
  assumes step_inv: "inv s \<Longrightarrow> ok e \<Longrightarrow> inv (step s e)"

sublocale step_machine \<subseteq> guarded: guarded_machine step inv "\<lambda>_. ok"
  by unfold_locales (rule step_inv)

context step_machine
begin

lemma run_inv: "inv s \<Longrightarrow> list_all ok es \<Longrightarrow> inv (foldl step s es)"
  using guarded.guarded_run_inv by (simp add: run_ok_events)

end

locale damageable =
  fixes hp :: "'c \<Rightarrow> int" and takeDamage :: "'c \<Rightarrow> int \<Rightarrow> 'c" and isDefeated :: "'c \<Rightarrow> bool"
  assumes hp_takeDamage: "hp (takeDamage c d) = max 0 (hp c - d)"
    and isDefeated_iff: "isDefeated c \<longleftrightarrow> hp c \<le> 0"
begin

lemma hp_hits:
  assumes "0 \<le> hp c" and "list_all (\<lambda>d. 0 \<le> d) ds"
  shows "hp (foldl takeDamage c ds) = max 0 (hp c - sum_list ds)"
  using assms
proof (induction ds arbitrary: c)
  case (Cons d ds)
  have "0 \<le> sum_list ds" using Cons.prems by (intro sum_list_nonneg) (auto simp: list_all_iff)
  with Cons show ?case by (simp add: hp_takeDamage)
qed simp

lemma defeated_after_hits:
  assumes "0 \<le> hp c" and "list_all (\<lambda>d. 0 \<le> d) ds"
  shows "isDefeated (foldl takeDamage c ds) \<longleftrightarrow> hp c \<le> sum_list ds"
  using hp_hits[OF assms] by (simp add: isDefeated_iff)

end

text \<open>
  A table of integer weights by level whose zero weights, if any, come last: whatever the draw,
  the loop returns an entry of positive weight, so the fallback behind the loop is dead code.
\<close>

locale weighted_table =
  fixes table :: "int \<Rightarrow> ('a \<times> int) list"
  assumes parts: "\<exists>pos zero. table l = pos @ zero \<and> pos \<noteq> [] \<and> (\<forall>e \<in> set pos. 0 < snd e) \<and>
      (\<forall>e \<in> set zero. snd e = 0)"
    and bounded: "sum_list (map snd (table l)) \<le> 2 ^ 53"
begin

lemma roll_positive:
  assumes "valid_draw d"
  shows "\<exists>x w. 0 < w \<and> (x, w) \<in> set (table l) \<and>
    roll_loop (jmul d (of_int (sum_list (map snd (table l))))) (map (apsnd real_of_int) (table l)) = Some x"
proof -
  obtain pos zero where t: "table l = pos @ zero" "pos \<noteq> []" "\<forall>e \<in> set pos. 0 < snd e"
    "\<forall>e \<in> set zero. snd e = 0"
    using parts by blast
  moreover have "sum_list (map snd pos) \<le> 2 ^ 53"
  proof -
    have "sum_list (map snd zero) = 0" using t(4) by (induction zero) auto
    then show ?thesis using bounded[of l] t(1) by simp
  qed
  ultimately show ?thesis
    using roll_positive_prefix[OF assms t(2,3) _ t(4)] by fastforce
qed

end

end
