(* ===== verification/Archetypes.thy ===== *)
theory Archetypes
  imports Prelude
begin

text \<open>
  The three character classes of \<open>models/Archetype.ts\<close>: their configuration table, the primary
  attributes at a level, and the combat statistics derived from the attributes.
\<close>

section \<open>Model\<close>

datatype archetype = Martial | Agile | Mage

datatype resource = Rage | Energy | Mana

record archetype_config =
  cfg_name :: string
  cfg_description :: string
  cfg_resource :: resource
  strBase :: int
  strPerLevel :: int
  agiBase :: int
  agiPerLevel :: int
  intBase :: int
  intPerLevel :: int
  hpConstant :: int

fun ARCHETYPE_CONFIGS :: "archetype \<Rightarrow> archetype_config" where
  "ARCHETYPE_CONFIGS Martial =
     \<lparr> cfg_name = ''Warrior'',
       cfg_description = ''Melee physical damage dealer. High armor and health, fuelled by rage.'',
       cfg_resource = Rage, strBase = 10, strPerLevel = 3, agiBase = 6, agiPerLevel = 1,
       intBase = 4, intPerLevel = 0, hpConstant = 64 \<rparr>"
| "ARCHETYPE_CONFIGS Agile =
     \<lparr> cfg_name = ''Rogue'',
       cfg_description =
         ''Finesse fighter. Swift and precise, medium survivability, fuelled by energy.'',
       cfg_resource = Energy, strBase = 6, strPerLevel = 1, agiBase = 10, agiPerLevel = 3,
       intBase = 6, intPerLevel = 1, hpConstant = 52 \<rparr>"
| "ARCHETYPE_CONFIGS Mage =
     \<lparr> cfg_name = ''Mage'',
       cfg_description =
         ''Elemental spellcaster. Devastating spell damage, fragile body, fuelled by mana.'',
       cfg_resource = Mana, strBase = 4, strPerLevel = 0, agiBase = 6, agiPerLevel = 1,
       intBase = 10, intPerLevel = 3, hpConstant = 42 \<rparr>"

record attributes =
  at_str :: int
  at_agi :: int
  at_int :: int

definition computeAttributes :: "archetype \<Rightarrow> int \<Rightarrow> attributes" where
  "computeAttributes archetype level =
     (let cfg = ARCHETYPE_CONFIGS archetype; l = max 1 level
      in \<lparr> at_str = strBase cfg + (l - 1) * strPerLevel cfg,
           at_agi = agiBase cfg + (l - 1) * agiPerLevel cfg,
           at_int = intBase cfg + (l - 1) * intPerLevel cfg \<rparr>)"

definition deriveAttack :: "int \<Rightarrow> int \<Rightarrow> int" where
  "deriveAttack str agi =
     max 1 \<lfloor>jadd (jadd (jmul (of_int str) (rnd (8 / 10))) (jmul (of_int agi) (rnd (6 / 10)))) 8\<rfloor>"

definition deriveDefense :: "int \<Rightarrow> int \<Rightarrow> int" where
  "deriveDefense str agi =
     max 1 \<lfloor>jadd (jmul (of_int str) (rnd (5 / 10))) (jmul (of_int agi) (rnd (25 / 100)))\<rfloor>"

definition deriveMaxHp :: "archetype \<Rightarrow> int \<Rightarrow> int \<Rightarrow> int" where
  "deriveMaxHp archetype str agi = hpConstant (ARCHETYPE_CONFIGS archetype) + str * 3 + agi * 1"

definition deriveSpeed :: "int \<Rightarrow> int" where
  "deriveSpeed agi = max 1 \<lfloor>jadd (jmul (of_int agi) (rnd (6 / 10))) 5\<rfloor>"

section \<open>Lemmas\<close>

lemma cfg_nonneg:
  "0 < strBase (ARCHETYPE_CONFIGS a)" "0 \<le> strPerLevel (ARCHETYPE_CONFIGS a)"
  "0 < agiBase (ARCHETYPE_CONFIGS a)" "0 < agiPerLevel (ARCHETYPE_CONFIGS a)"
  "0 < intBase (ARCHETYPE_CONFIGS a)" "0 \<le> intPerLevel (ARCHETYPE_CONFIGS a)"
  "0 < hpConstant (ARCHETYPE_CONFIGS a)"
  by (cases a; simp)+

lemma computeAttributes_pos:
  "0 < at_str (computeAttributes a l)" "0 < at_agi (computeAttributes a l)"
  "0 < at_int (computeAttributes a l)"
  using cfg_nonneg[of a] by (simp_all add: computeAttributes_def Let_def add_pos_nonneg)

text \<open>One more level adds exactly the per-level growth, which is what the level-up loop does.\<close>

lemma computeAttributes_Suc:
  assumes "1 \<le> l"
  shows "at_str (computeAttributes a (l + 1)) = at_str (computeAttributes a l) + strPerLevel (ARCHETYPE_CONFIGS a)"
    and "at_agi (computeAttributes a (l + 1)) = at_agi (computeAttributes a l) + agiPerLevel (ARCHETYPE_CONFIGS a)"
    and "at_int (computeAttributes a (l + 1)) = at_int (computeAttributes a l) + intPerLevel (ARCHETYPE_CONFIGS a)"
  using assms by (simp_all add: computeAttributes_def Let_def algebra_simps)

lemma computeAttributes_mono:
  assumes "l \<le> k"
  shows "at_str (computeAttributes a l) \<le> at_str (computeAttributes a k)"
    and "at_agi (computeAttributes a l) \<le> at_agi (computeAttributes a k)"
    and "at_int (computeAttributes a l) \<le> at_int (computeAttributes a k)"
  using assms cfg_nonneg[of a]
  by (auto simp: computeAttributes_def Let_def intro!: mult_right_mono)

lemma of_int_jmul_mono: "m \<le> n \<Longrightarrow> 0 \<le> c \<Longrightarrow> jmul (of_int m) c \<le> jmul (of_int n) c"
  unfolding jmul_def by (intro rnd_mono mult_right_mono) simp_all

lemma deriveAttack_mono: "s \<le> s' \<Longrightarrow> g \<le> g' \<Longrightarrow> deriveAttack s g \<le> deriveAttack s' g'"
  unfolding deriveAttack_def
  by (intro max.mono floor_mono jadd_mono of_int_jmul_mono order_refl) (simp_all add: rnd_nonneg)

lemma deriveDefense_mono: "s \<le> s' \<Longrightarrow> g \<le> g' \<Longrightarrow> deriveDefense s g \<le> deriveDefense s' g'"
  unfolding deriveDefense_def
  by (intro max.mono floor_mono jadd_mono of_int_jmul_mono order_refl) (simp_all add: rnd_nonneg)

lemma deriveSpeed_mono: "g \<le> g' \<Longrightarrow> deriveSpeed g \<le> deriveSpeed g'"
  unfolding deriveSpeed_def
  by (intro max.mono floor_mono jadd_mono of_int_jmul_mono order_refl) (simp_all add: rnd_nonneg)

lemma deriveMaxHp_pos: "0 \<le> s \<Longrightarrow> 0 \<le> g \<Longrightarrow> 0 < deriveMaxHp a s g"
  using cfg_nonneg(7)[of a] by (simp add: deriveMaxHp_def)

lemma derive_ge_1: "1 \<le> deriveAttack s g" "1 \<le> deriveDefense s g" "1 \<le> deriveSpeed g"
  by (simp_all add: deriveAttack_def deriveDefense_def deriveSpeed_def)

text \<open>At every level the agile class is the fastest.\<close>

lemma deriveSpeed_agile:
  "deriveSpeed (at_agi (computeAttributes a l)) \<le> deriveSpeed (at_agi (computeAttributes Agile l))"
  by (cases a) (auto intro!: deriveSpeed_mono simp: computeAttributes_def Let_def)

lemma deriveMaxHp_growth:
  assumes "1 \<le> l"
  shows "deriveMaxHp a (at_str (computeAttributes a l)) (at_agi (computeAttributes a l))
       < deriveMaxHp a (at_str (computeAttributes a (l + 1))) (at_agi (computeAttributes a (l + 1)))"
  unfolding deriveMaxHp_def computeAttributes_Suc[OF assms] using cfg_nonneg[of a] by simp

end
