(* ===== verification/Items.thy ===== *)
theory Items
  imports Prelude "HOL-Library.Multiset"
begin

text \<open>
  Items and equipment slots: \<open>models/Item.ts\<close>, the slot type and the empty equipment and
  inventory of \<open>models/Player.ts\<close>, and the rarity tiers of \<open>models/Creature.ts\<close> with their order
  and colours (\<open>constants/rarity.ts\<close>).
\<close>

section \<open>Rarity\<close>

datatype rarity = Common | Uncommon | Rare | Epic | Legendary

fun rarity_rank :: "rarity \<Rightarrow> nat" where
  "rarity_rank Common = 0"
| "rarity_rank Uncommon = 1"
| "rarity_rank Rare = 2"
| "rarity_rank Epic = 3"
| "rarity_rank Legendary = 4"

lemma rarity_rank_inj: "rarity_rank r = rarity_rank s \<Longrightarrow> r = s"
  by (cases r; cases s) simp_all

instantiation rarity :: linorder
begin

definition less_eq_rarity :: "rarity \<Rightarrow> rarity \<Rightarrow> bool" where
  "less_eq_rarity r s \<longleftrightarrow> rarity_rank r \<le> rarity_rank s"

definition less_rarity :: "rarity \<Rightarrow> rarity \<Rightarrow> bool" where
  "less_rarity r s \<longleftrightarrow> rarity_rank r < rarity_rank s"

instance
  by standard (auto simp: less_eq_rarity_def less_rarity_def dest: rarity_rank_inj)

end

fun RARITY_COLORS :: "rarity \<Rightarrow> string" where
  "RARITY_COLORS Common = ''#9E9E9E''"
| "RARITY_COLORS Uncommon = ''#4CAF50''"
| "RARITY_COLORS Rare = ''#2196F3''"
| "RARITY_COLORS Epic = ''#9C27B0''"
| "RARITY_COLORS Legendary = ''#FF9800''"

section \<open>Items\<close>

datatype affix_stat = AffixAttack | AffixDefense | AffixMaxHp

record affix =
  af_stat :: affix_stat
  af_value :: int

datatype item_type = Weapon | Offhand | Head | Chest | Legs | Boots | Gloves | Accessory

datatype equipment_slot =
  SWeapon | SOffhand | SHead | SChest | SLegs | SBoots | SGloves | SAccessory1 | SAccessory2

text \<open>
  The tagged union of the eight item kinds: the tag \<open>i_type\<close> fixes the literal \<open>slot\<close> field of the
  seven kinds that have one (\<open>fixed_slot\<close>); an accessory has none.
\<close>

record item =
  i_id :: string
  i_name :: string
  i_description :: string
  i_rarity :: rarity
  i_level :: int
  i_attack :: "int option"
  i_defense :: "int option"
  i_maxHp :: "int option"
  i_dropChance :: real
  i_affixes :: "affix list option"
  i_type :: item_type

fun fixed_slot :: "item_type \<Rightarrow> equipment_slot option" where
  "fixed_slot Weapon = Some SWeapon"
| "fixed_slot Offhand = Some SOffhand"
| "fixed_slot Head = Some SHead"
| "fixed_slot Chest = Some SChest"
| "fixed_slot Legs = Some SLegs"
| "fixed_slot Boots = Some SBoots"
| "fixed_slot Gloves = Some SGloves"
| "fixed_slot Accessory = None"

definition getItemSlot :: "item \<Rightarrow> equipment_slot" where
  "getItemSlot it = (case fixed_slot (i_type it) of None \<Rightarrow> SAccessory1 | Some s \<Rightarrow> s)"

definition canEquipInSlot :: "item \<Rightarrow> equipment_slot \<Rightarrow> bool" where
  "canEquipInSlot it slot =
     (case fixed_slot (i_type it) of
        None \<Rightarrow> slot = SAccessory1 \<or> slot = SAccessory2
      | Some s \<Rightarrow> s = slot)"

section \<open>Equipment and inventory\<close>

type_synonym equipment = "equipment_slot \<Rightarrow> item option"
type_synonym inventory = "item option list"

definition createEmptyEquipment :: equipment where
  "createEmptyEquipment = (\<lambda>_. None)"

definition MAX_INVENTORY_SIZE :: nat where "MAX_INVENTORY_SIZE = 50"

definition createEmptyInventory :: inventory where
  "createEmptyInventory = replicate MAX_INVENTORY_SIZE None"

text \<open>The slots in the order of \<open>Object.values\<close> on an equipment object.\<close>

definition all_slots :: "equipment_slot list" where
  "all_slots =
     [SWeapon, SOffhand, SHead, SChest, SLegs, SBoots, SGloves, SAccessory1, SAccessory2]"

definition worn :: "equipment \<Rightarrow> item list" where
  "worn e = List.map_filter e all_slots"

definition carried :: "inventory \<Rightarrow> item list" where
  "carried iv = List.map_filter id iv"

definition stat_or_0 :: "int option \<Rightarrow> int" where
  "stat_or_0 v = (case v of None \<Rightarrow> 0 | Some n \<Rightarrow> n)"

definition statTotal :: "item \<Rightarrow> int" where
  "statTotal it = stat_or_0 (i_attack it) + stat_or_0 (i_defense it) + stat_or_0 (i_maxHp it)"

section \<open>Invariants\<close>

definition item_ok :: "item \<Rightarrow> bool" where
  "item_ok it \<longleftrightarrow> 1 \<le> i_level it \<and> 0 \<le> stat_or_0 (i_attack it) \<and>
     0 \<le> stat_or_0 (i_defense it) \<and> 0 \<le> stat_or_0 (i_maxHp it)"

definition equipment_ok :: "equipment \<Rightarrow> bool" where
  "equipment_ok e \<longleftrightarrow>
     list_all (\<lambda>s. case e s of None \<Rightarrow> True | Some it \<Rightarrow> item_ok it \<and> canEquipInSlot it s) all_slots"

definition inventory_ok :: "inventory \<Rightarrow> bool" where
  "inventory_ok iv \<longleftrightarrow> length iv = MAX_INVENTORY_SIZE \<and>
     list_all (\<lambda>s. case s of None \<Rightarrow> True | Some it \<Rightarrow> item_ok it) iv"

section \<open>Lemmas\<close>

lemma set_all_slots [simp]: "s \<in> set all_slots"
  by (cases s) (simp_all add: all_slots_def)

lemma distinct_all_slots: "distinct all_slots"
  by (simp add: all_slots_def)

lemma equipment_ok_iff:
  "equipment_ok e \<longleftrightarrow> (\<forall>s it. e s = Some it \<longrightarrow> item_ok it \<and> canEquipInSlot it s)"
  unfolding equipment_ok_def list_all_iff by (auto split: option.splits)

lemma inventory_ok_iff:
  "inventory_ok iv \<longleftrightarrow> length iv = MAX_INVENTORY_SIZE \<and> (\<forall>it. Some it \<in> set iv \<longrightarrow> item_ok it)"
  unfolding inventory_ok_def list_all_iff by (auto split: option.splits)

lemma getItemSlot_equips: "canEquipInSlot it (getItemSlot it)"
  by (auto simp: canEquipInSlot_def getItemSlot_def split: option.splits)

lemma equipment_ok_empty [simp]: "equipment_ok createEmptyEquipment"
  by (simp add: equipment_ok_iff createEmptyEquipment_def)

lemma inventory_ok_empty [simp]: "inventory_ok createEmptyInventory"
  by (simp add: inventory_ok_iff createEmptyInventory_def)

lemma inventory_ok_update:
  "inventory_ok iv \<Longrightarrow> (\<And>it. x = Some it \<Longrightarrow> item_ok it) \<Longrightarrow> inventory_ok (iv[i := x])"
  by (auto simp: inventory_ok_iff dest: set_update_subset_insert[THEN subsetD])

text \<open>The worn items as a multiset: a slot update swaps one entry.\<close>

lemma mset_map_filter_update_notin:
  "s \<notin> set ss \<Longrightarrow> List.map_filter (e(s := x)) ss = List.map_filter e ss"
  by (induction ss) (auto simp: List.map_filter_simps split: option.splits)

lemma mset_map_filter_update:
  "distinct ss \<Longrightarrow> s \<in> set ss \<Longrightarrow>
   mset (List.map_filter (e(s := x)) ss) + mset_set (set_option (e s)) =
   mset (List.map_filter e ss) + mset_set (set_option x)"
proof (induction ss)
  case (Cons t ss)
  show ?case
  proof (cases "t = s")
    case True
    with Cons.prems have "s \<notin> set ss" by simp
    note rest = mset_map_filter_update_notin[OF this, of e x]
    show ?thesis unfolding True List.map_filter_simps rest by (auto split: option.splits)
  next
    case False
    with Cons show ?thesis by (auto simp: List.map_filter_simps split: option.splits)
  qed
qed simp

lemma mset_worn_update:
  "mset (worn (e(s := x))) + mset_set (set_option (e s)) = mset (worn e) + mset_set (set_option x)"
  unfolding worn_def by (rule mset_map_filter_update[OF distinct_all_slots]) simp

lemma mset_carried_update:
  "i < length iv \<Longrightarrow>
   mset (carried (iv[i := x])) + mset_set (set_option (iv ! i)) =
   mset (carried iv) + mset_set (set_option x)"
proof (induction iv arbitrary: i)
  case (Cons y iv)
  show ?case
  proof (cases i)
    case 0
    then show ?thesis by (auto simp: carried_def List.map_filter_simps split: option.splits)
  next
    case (Suc k)
    with Cons.prems Cons.IH[of k] show ?thesis
      by (auto simp: carried_def List.map_filter_simps split: option.splits)
  qed
qed simp

end
