(* ===== verification/CombatMath.thy ===== *)
theory CombatMath
  imports Prelude
begin

text \<open>
  The pure combat arithmetic: damage mitigation by defense (\<open>models/combat.ts\<close>), typed resistance
  (\<open>models/DamageType.ts\<close>), speed-driven evasion with streak protection (\<open>models/evasion.ts\<close>),
  the reward bonus of active combat (\<open>models/combatRewards.ts\<close>) and the length of the
  counter-attack beat (\<open>models/combatPacing.ts\<close>). Whole quantities are integers, fractions are
  binary64 values with the source's order of operations.
\<close>

section \<open>Damage mitigation\<close>

definition mitigateDamage :: "int \<Rightarrow> int \<Rightarrow> real \<Rightarrow> int" where
  "mitigateDamage attack defense multiplier =
     (let atk = max 0 attack;
          def = max 0 defense;
          denom = atk + def;
          raw = (if denom = 0 then 0 else jdiv (jmul (of_int atk) (of_int atk)) (of_int denom))
      in max 1 \<lfloor>jmul raw multiplier\<rfloor>)"

section \<open>Resistances\<close>

datatype damage_type = Physical | Fire | Frost | Arcane

type_synonym resistances = "damage_type \<Rightarrow> real"

definition DEFAULT_RESISTANCES :: resistances where
  "DEFAULT_RESISTANCES = (\<lambda>_. 0)"

definition applyResistance :: "int \<Rightarrow> real \<Rightarrow> int" where
  "applyResistance rawDamage resistance = max 0 \<lfloor>jmul (of_int rawDamage) (jsub 1 resistance)\<rfloor>"

section \<open>Evasion\<close>

datatype evade_outcome = Normal | Glancing | Dodged

datatype defender = DPlayer | DCreature

definition glanceMultiplier :: real where "glanceMultiplier = rnd (1 / 2)"
definition base_glance :: real where "base_glance = rnd (8 / 100)"
definition base_dodge :: real where "base_dodge = rnd (3 / 100)"
definition slope_glance :: real where "slope_glance = rnd (12 / 1000)"
definition slope_dodge :: real where "slope_dodge = rnd (5 / 1000)"

fun cap_glance :: "defender \<Rightarrow> real" where
  "cap_glance DPlayer = rnd (4 / 10)"
| "cap_glance DCreature = rnd (16 / 100)"

fun cap_dodge :: "defender \<Rightarrow> real" where
  "cap_dodge DPlayer = rnd (18 / 100)"
| "cap_dodge DCreature = rnd (8 / 100)"

definition prdDodgeGrowth :: real where "prdDodgeGrowth = rnd (1 / 2)"

definition clamp :: "real \<Rightarrow> real \<Rightarrow> real \<Rightarrow> real" where
  "clamp n lo hi = max lo (min hi n)"

definition glance_chance :: "int \<Rightarrow> defender \<Rightarrow> real" where
  "glance_chance delta d =
     clamp (jadd base_glance (jmul slope_glance (of_int delta))) 0 (cap_glance d)"

definition dodge_base :: "int \<Rightarrow> defender \<Rightarrow> real" where
  "dodge_base delta d = clamp (jadd base_dodge (jmul slope_dodge (of_int delta))) 0 (cap_dodge d)"

definition dodge_chance :: "int \<Rightarrow> defender \<Rightarrow> int \<Rightarrow> real" where
  "dodge_chance delta d dodgeStreak =
     min (cap_dodge d)
       (jmul (dodge_base delta d) (jadd 1 (jmul prdDodgeGrowth (of_int dodgeStreak))))"

text \<open>The last argument is the draw of the generator; the result is the outcome and the next streak.\<close>

definition rollEvasion :: "int \<Rightarrow> int \<Rightarrow> defender \<Rightarrow> int \<Rightarrow> real \<Rightarrow> evade_outcome \<times> int" where
  "rollEvasion attackerSpeed defenderSpeed d dodgeStreak r =
     (let delta = defenderSpeed - attackerSpeed;
          glance = glance_chance delta d;
          dodge = dodge_chance delta d dodgeStreak
      in if r < dodge then (Dodged, 0)
         else if r < jadd dodge glance then (Glancing, dodgeStreak + 1)
         else (Normal, dodgeStreak + 1))"

definition applyEvasionDamage :: "int \<Rightarrow> evade_outcome \<Rightarrow> int" where
  "applyEvasionDamage baseDamage outcome =
     (if outcome = Dodged \<or> baseDamage \<le> 0 then 0
      else if outcome = Glancing then max 1 \<lfloor>jmul (of_int baseDamage) glanceMultiplier\<rfloor>
      else baseDamage)"

section \<open>Rewards of active combat\<close>

definition ACTIVE_COMBAT_XP_MULTIPLIER :: real where "ACTIVE_COMBAT_XP_MULTIPLIER = rnd (15 / 10)"
definition BASE_DROP_CHANCE :: real where "BASE_DROP_CHANCE = rnd (4 / 10)"
definition ACTIVE_COMBAT_DROP_CHANCE_BONUS :: real where
  "ACTIVE_COMBAT_DROP_CHANCE_BONUS = rnd (2 / 10)"

definition activeCombatXp :: "int \<Rightarrow> int" where
  "activeCombatXp baseReward = \<lfloor>jmul (of_int baseReward) ACTIVE_COMBAT_XP_MULTIPLIER\<rfloor>"

definition activeCombatDropChance :: real where
  "activeCombatDropChance = jadd BASE_DROP_CHANCE ACTIVE_COMBAT_DROP_CHANCE_BONUS"

section \<open>The counter-attack beat\<close>

definition COUNTER_BEAT_MAX_MS :: int where "COUNTER_BEAT_MAX_MS = 2000"
definition COUNTER_BEAT_MIN_MS :: int where "COUNTER_BEAT_MIN_MS = 1000"
definition COUNTER_BEAT_RAMP_TURNS :: int where "COUNTER_BEAT_RAMP_TURNS = 20"

text \<open>\<open>Number.isFinite\<close> holds of every value of the model.\<close>

definition counterBeatMs :: "int \<Rightarrow> int" where
  "counterBeatMs combatTurnsTaken =
     (let turns = max 0 combatTurnsTaken;
          progress = min 1 (jdiv (of_int turns) (of_int COUNTER_BEAT_RAMP_TURNS))
      in math_round (jsub (of_int COUNTER_BEAT_MAX_MS)
           (jmul progress (of_int (COUNTER_BEAT_MAX_MS - COUNTER_BEAT_MIN_MS)))))"

section \<open>Lemmas: mitigation\<close>

lemma mitigateDamage_ge_1: "1 \<le> mitigateDamage a d m"
  by (simp add: mitigateDamage_def Let_def)

lemma square_exact:
  assumes "0 \<le> a" and "a \<le> 2 ^ 26"
  shows "jmul (of_int a) (of_int a) = of_int (a * a)"
proof -
  have "a * a \<le> 2 ^ 26 * 2 ^ 26" using assms by (intro mult_mono) simp_all
  with assms show ?thesis by (intro jmul_of_int) simp
qed

lemma ratio_mono:
  assumes "0 < a" and "a \<le> b" and "0 \<le> (d::real)"
  shows "a * a / (a + d) \<le> b * b / (b + d)"
proof -
  have "a * a * (b + d) \<le> b * b * (a + d)"
  proof -
    have "a * a * b \<le> b * b * a" using assms by (simp add: mult_mono mult.assoc mult.left_commute)
    moreover have "a * a * d \<le> b * b * d" using assms by (intro mult_right_mono mult_mono) simp_all
    ultimately show ?thesis by (simp add: algebra_simps)
  qed
  then show ?thesis using assms by (simp add: frac_le_eq divide_simps algebra_simps)
qed

lemma mitigateDamage_mono_attack:
  assumes "a \<le> b" and "b \<le> 2 ^ 26" and "0 \<le> m"
  shows "mitigateDamage a d m \<le> mitigateDamage b d m"
proof (cases "a \<le> 0")
  case True
  then have "mitigateDamage a d m = 1"
    by (simp add: mitigateDamage_def Let_def js_num)
  then show ?thesis using mitigateDamage_ge_1 by simp
next
  case False
  let ?d = "max 0 d"
  have "jdiv (jmul (of_int a) (of_int a)) (of_int (a + ?d))
      \<le> jdiv (jmul (of_int b) (of_int b)) (of_int (b + ?d))"
    using ratio_mono[of "of_int a" "of_int b" "of_int ?d"] assms False
    by (simp add: square_exact) (simp add: jdiv_def rnd_mono)
  then have "jmul (jdiv (jmul (of_int a) (of_int a)) (of_int (a + ?d))) m
      \<le> jmul (jdiv (jmul (of_int b) (of_int b)) (of_int (b + ?d))) m"
    using assms(3) False by (intro jmul_mono js_nonneg) simp_all
  then show ?thesis
    using False assms by (auto simp: mitigateDamage_def Let_def intro: floor_mono max.coboundedI2)
qed

lemma mitigateDamage_antimono_defense:
  assumes "d \<le> e" and "0 \<le> m"
  shows "mitigateDamage a e m \<le> mitigateDamage a d m"
proof (cases "a \<le> 0")
  case True
  then show ?thesis by (simp add: mitigateDamage_def Let_def js_num)
next
  case False
  have "jdiv (jmul (of_int a) (of_int a)) (of_int (a + max 0 e))
      \<le> jdiv (jmul (of_int a) (of_int a)) (of_int (a + max 0 d))"
    using assms False by (intro jdiv_mono js_nonneg) simp_all
  then have "jmul (jdiv (jmul (of_int a) (of_int a)) (of_int (a + max 0 e))) m
      \<le> jmul (jdiv (jmul (of_int a) (of_int a)) (of_int (a + max 0 d))) m"
    using assms(2) False by (intro jmul_mono js_nonneg) simp_all
  then show ?thesis
    using False by (auto simp: mitigateDamage_def Let_def intro: floor_mono max.coboundedI2)
qed

lemma mitigateDamage_no_defense:
  assumes "1 \<le> a" and "a \<le> 2 ^ 26"
  shows "mitigateDamage a 0 1 = a"
  using assms by (simp add: mitigateDamage_def Let_def square_exact) (simp add: js_num rnd_of_int)

lemma mitigateDamage_le_attack:
  assumes "1 \<le> a" and "a \<le> 2 ^ 26"
  shows "mitigateDamage a d 1 \<le> a"
proof -
  have "mitigateDamage a d 1 = mitigateDamage a (max 0 d) 1"
    by (simp add: mitigateDamage_def Let_def)
  also have "\<dots> \<le> mitigateDamage a 0 1"
    by (rule mitigateDamage_antimono_defense) simp_all
  finally show ?thesis using mitigateDamage_no_defense[OF assms] by simp
qed

lemma rnd_half: "\<bar>n\<bar> \<le> 2 ^ 53 \<Longrightarrow> rnd (of_int n / 2) = of_int n / 2"
  using rnd_dyadic[of n "-1"] by (simp add: power_int_minus)

lemma floor_rnd_half: "\<bar>n\<bar> \<le> 2 ^ 53 \<Longrightarrow> \<lfloor>rnd (of_int n / 2)\<rfloor> = n div 2"
  unfolding rnd_half using floor_divide_of_int_eq[of n 2] by simp

lemma mitigateDamage_equal:
  assumes "1 \<le> a" and "a \<le> 2 ^ 26"
  shows "mitigateDamage a a 1 = max 1 (a div 2)"
proof -
  have "jdiv (of_int (a * a)) (of_int (a + a)) = of_int a / 2"
    using assms rnd_half[of a] by (simp add: js_num)
  then have "mitigateDamage a a 1 = max 1 \<lfloor>rnd (of_int a / 2)\<rfloor>"
    using assms by (simp add: mitigateDamage_def Let_def square_exact) (simp add: js_num)
  then show ?thesis using assms by (simp add: floor_rnd_half)
qed

section \<open>Lemmas: resistance\<close>

lemma applyResistance_nonneg: "0 \<le> applyResistance raw r"
  by (simp add: applyResistance_def)

lemma applyResistance_neutral: "0 \<le> raw \<Longrightarrow> raw \<le> 2 ^ 53 \<Longrightarrow> applyResistance raw 0 = raw"
  by (simp add: applyResistance_def js_num rnd_of_int)

lemma applyResistance_immune: "applyResistance raw 1 = 0"
  by (simp add: applyResistance_def js_num)

lemma applyResistance_antimono:
  assumes "0 \<le> raw" and "r \<le> s"
  shows "applyResistance raw s \<le> applyResistance raw r"
proof -
  have "jsub 1 s \<le> jsub 1 r" using assms(2) by (intro jsub_mono) simp_all
  then have "of_int raw * jsub 1 s \<le> of_int raw * jsub 1 r"
    using assms(1) by (intro mult_left_mono) simp_all
  then have "jmul (of_int raw) (jsub 1 s) \<le> jmul (of_int raw) (jsub 1 r)"
    unfolding jmul_def by (rule rnd_mono)
  then show ?thesis by (auto simp: applyResistance_def intro: floor_mono max.coboundedI2)
qed

lemma applyResistance_double: "0 \<le> raw \<Longrightarrow> raw \<le> 2 ^ 52 \<Longrightarrow> applyResistance raw (-1) = 2 * raw"
  using rnd_of_int[of "2 * raw"] floor_of_int[of "2 * raw", where 'a = real]
  by (simp add: applyResistance_def js_num rnd_numeral mult.commute)

lemma applyResistance_bounds:
  assumes "0 \<le> raw" and "raw \<le> 2 ^ 52"
  shows "0 \<le> r \<Longrightarrow> applyResistance raw r \<le> raw"
    and "r \<le> 0 \<Longrightarrow> raw \<le> applyResistance raw r"
    and "- 1 \<le> r \<Longrightarrow> applyResistance raw r \<le> 2 * raw"
  using applyResistance_antimono[OF assms(1), of 0 r] applyResistance_antimono[OF assms(1), of r 0]
    applyResistance_antimono[OF assms(1), of "-1" r] applyResistance_neutral[of raw]
    applyResistance_double[of raw] assms
  by simp_all

section \<open>Lemmas: evasion\<close>

lemma evasion_consts:
  "cap_dodge DPlayer = 3242591731706757 / 18014398509481984"
  "cap_dodge DCreature = 5764607523034235 / 72057594037927936"
  "cap_glance DPlayer = 3602879701896397 / 9007199254740992"
  "cap_glance DCreature = 5764607523034235 / 36028797018963968"
  "prdDodgeGrowth = 1 / 2" "glanceMultiplier = 1 / 2"
  by code_simp+

lemma cap_dodge_pos: "0 < cap_dodge d"
  by (cases d) (simp_all add: evasion_consts del: cap_dodge.simps)

lemma cap_glance_pos: "0 < cap_glance d"
  by (cases d) (simp_all add: evasion_consts del: cap_glance.simps)

lemma cap_favours_player:
  "cap_dodge DCreature \<le> cap_dodge DPlayer" "cap_glance DCreature \<le> cap_glance DPlayer"
  by (simp_all add: evasion_consts del: cap_dodge.simps cap_glance.simps)

lemma clamp_range: "lo \<le> hi \<Longrightarrow> lo \<le> clamp n lo hi \<and> clamp n lo hi \<le> hi"
  by (simp add: clamp_def)

lemma clamp_mono: "n \<le> m \<Longrightarrow> h \<le> k \<Longrightarrow> clamp n lo h \<le> clamp m lo k"
  by (auto simp: clamp_def)

lemma dodge_base_range: "0 \<le> dodge_base delta d" "dodge_base delta d \<le> cap_dodge d"
  using clamp_range[of 0 "cap_dodge d"] cap_dodge_pos[of d] by (simp_all add: dodge_base_def)

lemma glance_chance_range: "0 \<le> glance_chance delta d" "glance_chance delta d \<le> cap_glance d"
  using clamp_range[of 0 "cap_glance d"] cap_glance_pos[of d] by (simp_all add: glance_chance_def)

lemma prd_factor_nonneg: "0 \<le> n \<Longrightarrow> 0 \<le> jadd 1 (jmul prdDodgeGrowth (of_int n))"
  by (intro jadd_nonneg jmul_nonneg) (simp_all add: evasion_consts)

lemma dodge_chance_range:
  assumes "0 \<le> n"
  shows "0 \<le> dodge_chance delta d n" and "dodge_chance delta d n \<le> cap_dodge d"
  using cap_dodge_pos[of d] dodge_base_range(1)[of delta d] prd_factor_nonneg[OF assms]
  by (simp_all add: dodge_chance_def jmul_nonneg)

lemma dodge_chance_mono_streak:
  assumes "0 \<le> m" and "m \<le> n"
  shows "dodge_chance delta d m \<le> dodge_chance delta d n"
proof -
  have "jadd 1 (jmul prdDodgeGrowth (of_int m)) \<le> jadd 1 (jmul prdDodgeGrowth (of_int n))"
    using assms by (intro jadd_mono jmul_mono) (simp_all add: evasion_consts)
  then show ?thesis
    using dodge_base_range(1)[of delta d] prd_factor_nonneg[OF assms(1)]
    unfolding dodge_chance_def by (intro min.mono jmul_mono) simp_all
qed

lemma dodge_chance_mono_delta:
  assumes "\<delta> \<le> \<epsilon>" and "0 \<le> n"
  shows "dodge_chance \<delta> d n \<le> dodge_chance \<epsilon> d n"
proof -
  have "slope_dodge * of_int \<delta> \<le> slope_dodge * of_int \<epsilon>"
    using assms(1) by (intro mult_left_mono) (simp_all add: slope_dodge_def rnd_nonneg)
  then have "dodge_base \<delta> d \<le> dodge_base \<epsilon> d"
    unfolding dodge_base_def jmul_def by (intro clamp_mono jadd_mono rnd_mono) simp_all
  then show ?thesis
    using dodge_base_range(1)[of \<delta> d] prd_factor_nonneg[OF assms(2)]
    unfolding dodge_chance_def by (intro min.mono jmul_mono) simp_all
qed

lemma dodge_chance_favours_player:
  assumes "0 \<le> n"
  shows "dodge_chance delta DCreature n \<le> dodge_chance delta DPlayer n"
proof -
  have "dodge_base delta DCreature \<le> dodge_base delta DPlayer"
    unfolding dodge_base_def by (intro clamp_mono cap_favours_player) simp
  then show ?thesis
    using dodge_base_range(1)[of delta DCreature] prd_factor_nonneg[OF assms] cap_favours_player
    unfolding dodge_chance_def by (intro min.mono jmul_mono) simp_all
qed

lemma evade_total_less_1:
  assumes "0 \<le> n"
  shows "jadd (dodge_chance delta d n) (glance_chance delta d) \<le> 3 / 5"
proof -
  have "jadd (dodge_chance delta d n) (glance_chance delta d) \<le> jadd (cap_dodge d) (cap_glance d)"
    using dodge_chance_range[OF assms, of delta d] glance_chance_range[of delta d]
    by (intro jadd_mono) simp_all
  also have "jadd (cap_dodge d) (cap_glance d) \<le> jadd (cap_dodge DPlayer) (cap_glance DPlayer)"
    by (cases d) (auto intro!: jadd_mono cap_favours_player simp del: cap_dodge.simps cap_glance.simps)
  also have "jadd (cap_dodge DPlayer) (cap_glance DPlayer) \<le> 3 / 5"
    by code_simp
  finally show ?thesis .
qed

lemma rollEvasion_streak:
  "snd (rollEvasion a b d n r) = (if fst (rollEvasion a b d n r) = Dodged then 0 else n + 1)"
  by (simp add: rollEvasion_def Let_def)

lemma rollEvasion_streak_nonneg: "0 \<le> n \<Longrightarrow> 0 \<le> snd (rollEvasion a b d n r)"
  by (simp add: rollEvasion_def Let_def)

lemma glance_half: "0 < n \<Longrightarrow> n \<le> 2 ^ 53 \<Longrightarrow> \<lfloor>jmul (of_int n) glanceMultiplier\<rfloor> = n div 2"
  by (simp add: js_num evasion_consts floor_rnd_half)

lemma applyEvasionDamage_glancing:
  "0 < n \<Longrightarrow> n \<le> 2 ^ 53 \<Longrightarrow> applyEvasionDamage n Glancing = max 1 (n div 2)"
  by (simp add: applyEvasionDamage_def glance_half)

lemma applyEvasionDamage_range:
  assumes "n \<le> 2 ^ 53"
  shows "0 \<le> applyEvasionDamage n ev" and "applyEvasionDamage n ev \<le> max 0 n"
  using assms by (cases ev; cases "0 < n"; simp add: applyEvasionDamage_def glance_half)+

section \<open>Lemmas: rewards and pacing\<close>

lemma activeCombatXp_exact:
  assumes "0 \<le> n" and "n \<le> 2 ^ 50"
  shows "activeCombatXp n = 3 * n div 2"
proof -
  have mult: "ACTIVE_COMBAT_XP_MULTIPLIER = 3 / 2" by code_simp
  have "activeCombatXp n = \<lfloor>rnd (of_int (3 * n) / 2)\<rfloor>"
    unfolding activeCombatXp_def jmul_def mult by (simp add: mult.commute)
  then show ?thesis using assms floor_rnd_half[of "3 * n"] by simp
qed

lemma counterBeatMs_range: "COUNTER_BEAT_MIN_MS \<le> counterBeatMs n \<and> counterBeatMs n \<le> COUNTER_BEAT_MAX_MS"
proof -
  define p where "p = min 1 (jdiv (of_int (max 0 n)) (of_int COUNTER_BEAT_RAMP_TURNS))"
  have p: "0 \<le> p" "p \<le> 1"
    by (simp_all add: p_def jdiv_nonneg COUNTER_BEAT_RAMP_TURNS_def)
  have "0 \<le> jmul p 1000" using p by (intro jmul_nonneg) simp_all
  moreover have "jmul p 1000 \<le> 1000"
    using rnd_le_of_int[of "p * 1000" 1000] p by (simp add: js_num)
  ultimately have "1000 \<le> jsub 2000 (jmul p 1000)" and "jsub 2000 (jmul p 1000) \<le> 2000"
    using rnd_ge_of_int[of 1000 "2000 - jmul p 1000"] rnd_le_of_int[of "2000 - jmul p 1000" 2000]
    by (simp_all add: jsub_def)
  then show ?thesis
    unfolding counterBeatMs_def Let_def p_def[symmetric] math_round_def
      COUNTER_BEAT_MAX_MS_def COUNTER_BEAT_MIN_MS_def
    by simp
qed

lemma counterBeatMs_antimono:
  assumes "m \<le> n"
  shows "counterBeatMs n \<le> counterBeatMs m"
proof -
  have "min 1 (jdiv (of_int (max 0 m)) 20) \<le> min 1 (jdiv (of_int (max 0 n)) 20)"
    using assms by (intro min.mono jdiv_mono) simp_all
  then have "jsub 2000 (jmul (min 1 (jdiv (of_int (max 0 n)) 20)) 1000)
      \<le> jsub 2000 (jmul (min 1 (jdiv (of_int (max 0 m)) 20)) 1000)"
    by (intro jsub_mono jmul_mono) (simp_all add: jdiv_nonneg)
  then show ?thesis
    unfolding counterBeatMs_def Let_def math_round_def COUNTER_BEAT_MAX_MS_def
      COUNTER_BEAT_MIN_MS_def COUNTER_BEAT_RAMP_TURNS_def
    by (simp add: floor_mono)
qed

end
