(* ===== verification/PlayerModel.thy ===== *)
theory PlayerModel
  imports Archetypes Items CombatMath
begin

text \<open>
  The \<open>Player\<close> class of \<open>models/Player.ts\<close>. The object is a record; each method is a function on it
  that returns the updated record, paired with the method's result where it has one. The stored
  form (\<open>PlayerData\<close>) and the constructor's parameters have an option for each optional field.
  The experience curve \<open>floor(100 * level ** 1.5)\<close> is the integer square root of
  \<open>10000 * level ^ 3\<close>.
\<close>

section \<open>Data\<close>

record player =
  p_id :: string
  p_name :: string
  p_level :: int
  p_experience :: int
  p_attack :: int
  p_defense :: int
  p_hp :: int
  p_maxHp :: int
  p_totalDistance :: real
  p_totalEncounters :: int
  p_creaturesDefeated :: int
  p_combatTurnsTaken :: int
  p_equipment :: equipment
  p_inventory :: inventory
  p_archetype :: archetype
  p_str :: int
  p_agi :: int
  p_int :: int

record player_data =
  d_id :: string
  d_name :: string
  d_level :: int
  d_experience :: int
  d_attack :: int
  d_defense :: int
  d_hp :: "int option"
  d_maxHp :: "int option"
  d_totalDistance :: real
  d_totalEncounters :: int
  d_creaturesDefeated :: int
  d_combatTurnsTaken :: "int option"
  d_equipment :: equipment
  d_inventory :: "inventory option"
  d_archetype :: "archetype option"
  d_str :: "int option"
  d_agi :: "int option"
  d_int :: "int option"

record player_params =
  q_id :: "string option"
  q_name :: "string option"
  q_level :: "int option"
  q_experience :: "int option"
  q_attack :: "int option"
  q_defense :: "int option"
  q_hp :: "int option"
  q_maxHp :: "int option"
  q_totalDistance :: "real option"
  q_totalEncounters :: "int option"
  q_creaturesDefeated :: "int option"
  q_combatTurnsTaken :: "int option"
  q_equipment :: "equipment option"
  q_inventory :: "inventory option"
  q_archetype :: "archetype option"
  q_str :: "int option"
  q_agi :: "int option"
  q_int :: "int option"

definition or_else :: "'a option \<Rightarrow> 'a \<Rightarrow> 'a" where
  "or_else x d = (case x of None \<Rightarrow> d | Some v \<Rightarrow> v)"

definition no_params :: player_params where
  "no_params =
     \<lparr> q_id = None, q_name = None, q_level = None, q_experience = None, q_attack = None,
       q_defense = None, q_hp = None, q_maxHp = None, q_totalDistance = None,
       q_totalEncounters = None, q_creaturesDefeated = None, q_combatTurnsTaken = None,
       q_equipment = None, q_inventory = None, q_archetype = None, q_str = None, q_agi = None,
       q_int = None \<rparr>"

section \<open>Construction\<close>

text \<open>The padding loop and \<open>slice(0, maxSlots)\<close>.\<close>

definition normalizeInventory :: "inventory option \<Rightarrow> inventory" where
  "normalizeInventory i =
     (case i of
        Some xs \<Rightarrow>
          if length xs = MAX_INVENTORY_SIZE then xs
          else take MAX_INVENTORY_SIZE (xs @ replicate (MAX_INVENTORY_SIZE - length xs) None)
      | None \<Rightarrow> createEmptyInventory)"

definition new_Player :: "player_params \<Rightarrow> player" where
  "new_Player q =
     (let level = or_else (q_level q) 1;
          archetype = or_else (q_archetype q) Martial;
          computed = computeAttributes archetype level;
          str = or_else (q_str q) (at_str computed);
          agi = or_else (q_agi q) (at_agi computed);
          int = or_else (q_int q) (at_int computed);
          attack = or_else (q_attack q) (deriveAttack str agi);
          defense = or_else (q_defense q) (deriveDefense str agi);
          maxHp = or_else (q_maxHp q) (deriveMaxHp archetype str agi);
          hp0 = or_else (q_hp q) maxHp;
          hp = (if hp0 > maxHp then maxHp else hp0)
      in \<lparr> p_id = or_else (q_id q) ''player1'', p_name = or_else (q_name q) ''Adventurer'',
           p_level = level, p_experience = or_else (q_experience q) 0,
           p_attack = attack, p_defense = defense, p_hp = hp, p_maxHp = maxHp,
           p_totalDistance = or_else (q_totalDistance q) 0,
           p_totalEncounters = or_else (q_totalEncounters q) 0,
           p_creaturesDefeated = or_else (q_creaturesDefeated q) 0,
           p_combatTurnsTaken = or_else (q_combatTurnsTaken q) 0,
           p_equipment = or_else (q_equipment q) createEmptyEquipment,
           p_inventory = normalizeInventory (q_inventory q),
           p_archetype = archetype, p_str = str, p_agi = agi, p_int = int \<rparr>)"

section \<open>Statistics, experience and levels\<close>

definition recalculateStats :: "player \<Rightarrow> player" where
  "recalculateStats p =
     (let gear = worn (p_equipment p);
          baseAttack = deriveAttack (p_str p) (p_agi p) + sum_list (map (stat_or_0 \<circ> i_attack) gear);
          baseDefense = deriveDefense (p_str p) (p_agi p) + sum_list (map (stat_or_0 \<circ> i_defense) gear);
          baseMaxHp = deriveMaxHp (p_archetype p) (p_str p) (p_agi p)
            + sum_list (map (stat_or_0 \<circ> i_maxHp) gear);
          maxHpChange = baseMaxHp - p_maxHp p
      in p\<lparr> p_attack := baseAttack, p_defense := baseDefense, p_maxHp := baseMaxHp,
            p_hp := max 0 (min baseMaxHp (p_hp p + maxHpChange)) \<rparr>)"

definition experienceForNextLevel :: "int \<Rightarrow> int" where
  "experienceForNextLevel level = int (isqrt (nat (10000 * max 1 level ^ 3)))"

definition getExperienceForNextLevel :: "player \<Rightarrow> int" where
  "getExperienceForNextLevel p = experienceForNextLevel (p_level p)"

lemma experienceForNextLevel_ge: "100 \<le> experienceForNextLevel level"
proof -
  have "10000 * (1::int) \<le> 10000 * max 1 level ^ 3" by (intro mult_left_mono one_le_power) simp_all
  then have "nat (10000 * 1) \<le> nat (10000 * max 1 level ^ 3)" by (rule nat_mono)
  then have "isqrt 10000 \<le> isqrt (nat (10000 * max 1 level ^ 3))" by (intro isqrt_mono) simp
  moreover have "isqrt 10000 = 100" by (rule isqrt_unique) simp_all
  ultimately show ?thesis by (simp add: experienceForNextLevel_def)
qed

text \<open>The loop of \<open>checkLevelUp\<close>; the second component counts the levels gained.\<close>

function levelUpLoop :: "player \<Rightarrow> int \<Rightarrow> player \<times> int" where
  "levelUpLoop p levelsGained =
     (let expNeeded = getExperienceForNextLevel p; cfg = ARCHETYPE_CONFIGS (p_archetype p)
      in if p_experience p \<ge> expNeeded
         then levelUpLoop
                (p\<lparr> p_experience := p_experience p - expNeeded, p_level := p_level p + 1,
                    p_str := p_str p + strPerLevel cfg, p_agi := p_agi p + agiPerLevel cfg,
                    p_int := p_int p + intPerLevel cfg \<rparr>) (levelsGained + 1)
         else (p, levelsGained))"
  by pat_completeness auto
termination
proof (relation "measure (\<lambda>(p, n). nat (p_experience p))")
  fix p :: player and n e :: int and cfg :: archetype_config
  assume "e = getExperienceForNextLevel p" "e \<le> p_experience p"
  then show "((p\<lparr> p_experience := p_experience p - e, p_level := p_level p + 1,
                    p_str := p_str p + strPerLevel cfg, p_agi := p_agi p + agiPerLevel cfg,
                    p_int := p_int p + intPerLevel cfg \<rparr>, n + 1), p, n)
        \<in> measure (\<lambda>(p, n). nat (p_experience p))"
    using experienceForNextLevel_ge[of "p_level p"] by (simp add: getExperienceForNextLevel_def)
qed simp

declare levelUpLoop.simps [simp del]

definition checkLevelUp :: "player \<Rightarrow> player \<times> int" where
  "checkLevelUp p =
     (let (p', levelsGained) = levelUpLoop p 0
      in (if levelsGained > 0 then recalculateStats p' else p', levelsGained))"

definition addExperience :: "player \<Rightarrow> int \<Rightarrow> player \<times> int" where
  "addExperience p amount = checkLevelUp (p\<lparr> p_experience := p_experience p + amount \<rparr>)"

definition applyAttributes :: "player \<Rightarrow> attributes \<Rightarrow> player" where
  "applyAttributes p attrs =
     (let p' = recalculateStats
        (p\<lparr> p_str := at_str attrs, p_agi := at_agi attrs, p_int := at_int attrs \<rparr>)
      in p'\<lparr> p_hp := p_maxHp p' \<rparr>)"

definition setLevel :: "player \<Rightarrow> int \<Rightarrow> player" where
  "setLevel p targetLevel =
     (let l = max 1 targetLevel
      in applyAttributes (p\<lparr> p_level := l, p_experience := 0 \<rparr>) (computeAttributes (p_archetype p) l))"

definition setArchetype :: "player \<Rightarrow> archetype \<Rightarrow> player" where
  "setArchetype p a =
     applyAttributes (p\<lparr> p_archetype := a \<rparr>) (computeAttributes a (p_level p))"

section \<open>Combat and counters\<close>

definition p_calculateDamage :: "player \<Rightarrow> int \<Rightarrow> real \<Rightarrow> int" where
  "p_calculateDamage p creatureDefense damageMultiplier =
     mitigateDamage (p_attack p) creatureDefense damageMultiplier"

definition p_speed :: "player \<Rightarrow> int" where
  "p_speed p = deriveSpeed (p_agi p)"

definition p_takeDamage :: "player \<Rightarrow> int \<Rightarrow> player" where
  "p_takeDamage p amount = p\<lparr> p_hp := max 0 (p_hp p - amount) \<rparr>"

definition p_isDefeated :: "player \<Rightarrow> bool" where
  "p_isDefeated p \<longleftrightarrow> p_hp p \<le> 0"

definition restoreHp :: "player \<Rightarrow> int \<Rightarrow> player" where
  "restoreHp p amount = p\<lparr> p_hp := min (p_maxHp p) (p_hp p + amount) \<rparr>"

definition fullHeal :: "player \<Rightarrow> player" where
  "fullHeal p = p\<lparr> p_hp := p_maxHp p \<rparr>"

definition addDistance :: "player \<Rightarrow> real \<Rightarrow> player" where
  "addDistance p distance = p\<lparr> p_totalDistance := jadd (p_totalDistance p) distance \<rparr>"

definition incrementEncounters :: "player \<Rightarrow> player" where
  "incrementEncounters p = p\<lparr> p_totalEncounters := p_totalEncounters p + 1 \<rparr>"

definition defeatCreature :: "player \<Rightarrow> player" where
  "defeatCreature p = p\<lparr> p_creaturesDefeated := p_creaturesDefeated p + 1 \<rparr>"

definition incrementCombatTurns :: "player \<Rightarrow> player" where
  "incrementCombatTurns p = p\<lparr> p_combatTurnsTaken := p_combatTurnsTaken p + 1 \<rparr>"

section \<open>Inventory\<close>

definition addItemToInventory :: "player \<Rightarrow> item \<Rightarrow> player \<times> int" where
  "addItemToInventory p it =
     (case find_index (\<lambda>s. s = None) (p_inventory p) of
        Some i \<Rightarrow> (p\<lparr> p_inventory := (p_inventory p)[i := Some it] \<rparr>, int i)
      | None \<Rightarrow> (p, - 1))"

definition clearInventory :: "player \<Rightarrow> player" where
  "clearInventory p = p\<lparr> p_inventory := createEmptyInventory \<rparr>"

definition removeItemFromInventory :: "player \<Rightarrow> int \<Rightarrow> player \<times> item option" where
  "removeItemFromInventory p index =
     (if index < 0 \<or> index \<ge> int (length (p_inventory p)) then (p, None)
      else (p\<lparr> p_inventory := (p_inventory p)[nat index := None] \<rparr>, p_inventory p ! nat index))"

definition getEmptyInventorySlots :: "player \<Rightarrow> int" where
  "getEmptyInventorySlots p = int (length (filter (\<lambda>s. s = None) (p_inventory p)))"

definition getUsedInventorySlots :: "player \<Rightarrow> int" where
  "getUsedInventorySlots p = int (length (filter (\<lambda>s. s \<noteq> None) (p_inventory p)))"

definition isInventoryFull :: "player \<Rightarrow> bool" where
  "isInventoryFull p \<longleftrightarrow> getEmptyInventorySlots p = 0"

section \<open>Equipment\<close>

definition getEquipTargetSlot :: "player \<Rightarrow> item \<Rightarrow> equipment_slot" where
  "getEquipTargetSlot p it =
     (case fixed_slot (i_type it) of
        None \<Rightarrow> if p_equipment p SAccessory1 = None then SAccessory1 else SAccessory2
      | Some s \<Rightarrow> s)"

definition wouldUpgrade :: "player \<Rightarrow> item \<Rightarrow> bool" where
  "wouldUpgrade p it =
     (case p_equipment p (getEquipTargetSlot p it) of
        None \<Rightarrow> False
      | Some replaced \<Rightarrow> statTotal it > statTotal replaced)"

definition resolveEquipTargetSlot :: "player \<Rightarrow> item \<Rightarrow> equipment_slot option \<Rightarrow> equipment_slot" where
  "resolveEquipTargetSlot p it preferredSlot =
     (if i_type it = Accessory \<and> (preferredSlot = Some SAccessory1 \<or> preferredSlot = Some SAccessory2)
      then the preferredSlot
      else getEquipTargetSlot p it)"

text \<open>The assignment of the item to its slot: two branches for accessories, a switch otherwise.\<close>

definition assignSlot :: "equipment \<Rightarrow> item \<Rightarrow> equipment_slot \<Rightarrow> equipment" where
  "assignSlot e it targetSlot =
     (if i_type it = Accessory
      then (if targetSlot = SAccessory1 then e(SAccessory1 := Some it) else e(SAccessory2 := Some it))
      else if targetSlot = SAccessory1 \<or> targetSlot = SAccessory2 then e
      else e(targetSlot := Some it))"

definition equipItem :: "player \<Rightarrow> int \<Rightarrow> equipment_slot option \<Rightarrow> player \<times> bool" where
  "equipItem p inventoryIndex preferredSlot =
     (if inventoryIndex < 0 \<or> inventoryIndex \<ge> int (length (p_inventory p)) then (p, False)
      else case p_inventory p ! nat inventoryIndex of
        None \<Rightarrow> (p, False)
      | Some it \<Rightarrow>
          if i_level it > p_level p then (p, False)
          else
            let targetSlot = resolveEquipTargetSlot p it preferredSlot;
                iv = (p_inventory p)[nat inventoryIndex := None];
                placed = (case p_equipment p targetSlot of
                            None \<Rightarrow> Some iv
                          | Some existingItem \<Rightarrow>
                              map_option (\<lambda>i. iv[i := Some existingItem]) (find_index (\<lambda>s. s = None) iv))
            in case placed of
                 None \<Rightarrow> (p\<lparr> p_inventory := iv[nat inventoryIndex := Some it] \<rparr>, False)
               | Some iv' \<Rightarrow>
                   (recalculateStats (p\<lparr> p_inventory := iv',
                      p_equipment := assignSlot (p_equipment p) it targetSlot \<rparr>), True))"

section \<open>Stored form\<close>

definition p_toJSON :: "player \<Rightarrow> player_data" where
  "p_toJSON p =
     \<lparr> d_id = p_id p, d_name = p_name p, d_level = p_level p, d_experience = p_experience p,
       d_attack = p_attack p, d_defense = p_defense p, d_hp = Some (p_hp p),
       d_maxHp = Some (p_maxHp p), d_totalDistance = p_totalDistance p,
       d_totalEncounters = p_totalEncounters p, d_creaturesDefeated = p_creaturesDefeated p,
       d_combatTurnsTaken = Some (p_combatTurnsTaken p), d_equipment = p_equipment p,
       d_inventory = Some (p_inventory p), d_archetype = Some (p_archetype p),
       d_str = Some (p_str p), d_agi = Some (p_agi p), d_int = Some (p_int p) \<rparr>"

text \<open>Passing a stored form to the constructor, as \<open>new Player(p.toJSON())\<close> does.\<close>

definition params_of_data :: "player_data \<Rightarrow> player_params" where
  "params_of_data d =
     \<lparr> q_id = Some (d_id d), q_name = Some (d_name d), q_level = Some (d_level d),
       q_experience = Some (d_experience d), q_attack = Some (d_attack d),
       q_defense = Some (d_defense d), q_hp = d_hp d, q_maxHp = d_maxHp d,
       q_totalDistance = Some (d_totalDistance d), q_totalEncounters = Some (d_totalEncounters d),
       q_creaturesDefeated = Some (d_creaturesDefeated d),
       q_combatTurnsTaken = d_combatTurnsTaken d, q_equipment = Some (d_equipment d),
       q_inventory = d_inventory d, q_archetype = d_archetype d, q_str = d_str d,
       q_agi = d_agi d, q_int = d_int d \<rparr>"

definition p_fromJSON :: "player_data \<Rightarrow> player" where
  "p_fromJSON d =
     (let archetype = or_else (d_archetype d) Martial;
          attrs = computeAttributes archetype (d_level d);
          (str, agi, int) =
            (case (d_str d, d_agi d, d_int d) of
               (Some s, Some a, Some i) \<Rightarrow> (s, a, i)
             | _ \<Rightarrow> (at_str attrs, at_agi attrs, at_int attrs))
      in new_Player ((params_of_data d)\<lparr> q_archetype := Some archetype, q_str := Some str,
           q_agi := Some agi, q_int := Some int \<rparr>))"

definition clone_player :: "player \<Rightarrow> player" where
  "clone_player p = new_Player (params_of_data (p_toJSON p))"

section \<open>Invariant\<close>

definition gear_attack :: "equipment \<Rightarrow> int" where
  "gear_attack e = sum_list (map (stat_or_0 \<circ> i_attack) (worn e))"

definition gear_defense :: "equipment \<Rightarrow> int" where
  "gear_defense e = sum_list (map (stat_or_0 \<circ> i_defense) (worn e))"

definition gear_maxHp :: "equipment \<Rightarrow> int" where
  "gear_maxHp e = sum_list (map (stat_or_0 \<circ> i_maxHp) (worn e))"

definition attributes_ok :: "player \<Rightarrow> bool" where
  "attributes_ok p \<longleftrightarrow> p_str p = at_str (computeAttributes (p_archetype p) (p_level p)) \<and>
     p_agi p = at_agi (computeAttributes (p_archetype p) (p_level p)) \<and>
     p_int p = at_int (computeAttributes (p_archetype p) (p_level p))"

definition stats_ok :: "player \<Rightarrow> bool" where
  "stats_ok p \<longleftrightarrow>
     p_attack p = deriveAttack (p_str p) (p_agi p) + gear_attack (p_equipment p) \<and>
     p_defense p = deriveDefense (p_str p) (p_agi p) + gear_defense (p_equipment p) \<and>
     p_maxHp p = deriveMaxHp (p_archetype p) (p_str p) (p_agi p) + gear_maxHp (p_equipment p)"

text \<open>
  A well-formed player: attributes are those of the class at the level, the three combat
  statistics are the derived base plus the bonuses of the worn gear, the hit points are within
  bounds, every item sits in a slot of its kind, and the inventory has its fixed length.
\<close>

definition player_ok :: "player \<Rightarrow> bool" where
  "player_ok p \<longleftrightarrow> 1 \<le> p_level p \<and> 0 \<le> p_experience p \<and> attributes_ok p \<and> stats_ok p \<and>
     0 \<le> p_hp p \<and> p_hp p \<le> p_maxHp p \<and> equipment_ok (p_equipment p) \<and> inventory_ok (p_inventory p)"

lemmas player_inv_defs = player_ok_def attributes_ok_def stats_ok_def

lemma attributes_ok_frame [simp]:
  "attributes_ok (p\<lparr> p_experience := x \<rparr>) = attributes_ok p"
  "attributes_ok (p\<lparr> p_hp := h \<rparr>) = attributes_ok p"
  "attributes_ok (p\<lparr> p_maxHp := h \<rparr>) = attributes_ok p"
  "attributes_ok (p\<lparr> p_inventory := iv \<rparr>) = attributes_ok p"
  "attributes_ok (p\<lparr> p_equipment := e \<rparr>) = attributes_ok p"
  "attributes_ok (p\<lparr> p_totalDistance := d \<rparr>) = attributes_ok p"
  "attributes_ok (p\<lparr> p_totalEncounters := n \<rparr>) = attributes_ok p"
  "attributes_ok (p\<lparr> p_creaturesDefeated := n \<rparr>) = attributes_ok p"
  "attributes_ok (p\<lparr> p_combatTurnsTaken := n \<rparr>) = attributes_ok p"
  by (simp_all add: attributes_ok_def)

lemma stats_ok_frame [simp]:
  "stats_ok (p\<lparr> p_experience := x \<rparr>) = stats_ok p"
  "stats_ok (p\<lparr> p_hp := h \<rparr>) = stats_ok p"
  "stats_ok (p\<lparr> p_inventory := iv \<rparr>) = stats_ok p"
  "stats_ok (p\<lparr> p_totalDistance := d \<rparr>) = stats_ok p"
  "stats_ok (p\<lparr> p_totalEncounters := n \<rparr>) = stats_ok p"
  "stats_ok (p\<lparr> p_creaturesDefeated := n \<rparr>) = stats_ok p"
  "stats_ok (p\<lparr> p_combatTurnsTaken := n \<rparr>) = stats_ok p"
  by (simp_all add: stats_ok_def)

text \<open>Everything the player owns, worn or carried.\<close>

definition owned :: "player \<Rightarrow> item multiset" where
  "owned p = mset (worn (p_equipment p)) + mset (carried (p_inventory p))"

section \<open>Lemmas: statistics\<close>

lemma worn_ok: "equipment_ok e \<Longrightarrow> it \<in> set (worn e) \<Longrightarrow> item_ok it"
  by (auto simp: equipment_ok_iff worn_def List.map_filter_def)

lemma gear_nonneg:
  assumes "equipment_ok e"
  shows "0 \<le> gear_attack e" "0 \<le> gear_defense e" "0 \<le> gear_maxHp e"
  using worn_ok[OF assms]
  by (auto simp: gear_attack_def gear_defense_def gear_maxHp_def item_ok_def intro!: sum_list_nonneg)

lemma recalculateStats_fields [simp]:
  "p_level (recalculateStats p) = p_level p"
  "p_experience (recalculateStats p) = p_experience p"
  "p_str (recalculateStats p) = p_str p" "p_agi (recalculateStats p) = p_agi p"
  "p_int (recalculateStats p) = p_int p" "p_archetype (recalculateStats p) = p_archetype p"
  "p_equipment (recalculateStats p) = p_equipment p"
  "p_inventory (recalculateStats p) = p_inventory p"
  "p_totalDistance (recalculateStats p) = p_totalDistance p"
  "p_totalEncounters (recalculateStats p) = p_totalEncounters p"
  "p_creaturesDefeated (recalculateStats p) = p_creaturesDefeated p"
  "p_combatTurnsTaken (recalculateStats p) = p_combatTurnsTaken p"
  "p_id (recalculateStats p) = p_id p" "p_name (recalculateStats p) = p_name p"
  by (simp_all add: recalculateStats_def Let_def)

lemma recalculateStats_stats_ok: "stats_ok (recalculateStats p)"
  by (simp add: recalculateStats_def Let_def stats_ok_def gear_attack_def gear_defense_def gear_maxHp_def)

lemma recalculateStats_hp:
  "p_hp (recalculateStats p) =
     max 0 (min (p_maxHp (recalculateStats p)) (p_hp p + (p_maxHp (recalculateStats p) - p_maxHp p)))"
  by (simp add: recalculateStats_def Let_def)

lemma recalculateStats_stable: "stats_ok p \<Longrightarrow> 0 \<le> p_hp p \<Longrightarrow> p_hp p \<le> p_maxHp p \<Longrightarrow> recalculateStats p = p"
  by (simp add: recalculateStats_def Let_def stats_ok_def gear_attack_def gear_defense_def gear_maxHp_def)

lemma maxHp_pos:
  assumes "stats_ok p" and "0 \<le> p_str p" and "0 \<le> p_agi p" and "equipment_ok (p_equipment p)"
  shows "0 < p_maxHp p"
  using assms deriveMaxHp_pos[of "p_str p" "p_agi p" "p_archetype p"] gear_nonneg(3)[of "p_equipment p"]
  by (simp add: stats_ok_def)

lemma player_ok_recalculate:
  assumes "1 \<le> p_level p" "0 \<le> p_experience p" "attributes_ok p"
    "equipment_ok (p_equipment p)" "inventory_ok (p_inventory p)"
  shows "player_ok (recalculateStats p)"
proof -
  have "0 < p_maxHp (recalculateStats p)"
    using assms recalculateStats_stats_ok[of p] computeAttributes_pos[of "p_archetype p" "p_level p"]
    by (intro maxHp_pos) (simp_all add: attributes_ok_def)
  then show ?thesis
    using assms recalculateStats_stats_ok[of p] recalculateStats_hp[of p]
    by (simp add: player_ok_def attributes_ok_def)
qed

section \<open>Lemmas: construction and storage\<close>

lemma length_normalizeInventory [simp]: "length (normalizeInventory i) = MAX_INVENTORY_SIZE"
  by (auto simp: normalizeInventory_def createEmptyInventory_def split: option.splits)

lemma normalizeInventory_id [simp]:
  "length xs = MAX_INVENTORY_SIZE \<Longrightarrow> normalizeInventory (Some xs) = xs"
  by (simp add: normalizeInventory_def)

lemma or_else_simps [simp]: "or_else (Some x) d = x" "or_else None d = d"
  by (simp_all add: or_else_def)

lemma worn_empty [simp]: "worn createEmptyEquipment = []"
  by (simp add: worn_def createEmptyEquipment_def List.map_filter_def)

lemma new_Player_ok:
  "1 \<le> l \<Longrightarrow> player_ok (new_Player (no_params\<lparr> q_archetype := Some a, q_level := Some l \<rparr>))"
  using deriveMaxHp_pos[of "at_str (computeAttributes a l)" "at_agi (computeAttributes a l)" a]
    computeAttributes_pos[of a l]
  by (simp add: new_Player_def no_params_def Let_def player_inv_defs gear_attack_def
      gear_defense_def gear_maxHp_def normalizeInventory_def)

lemma clone_player_id: "p_hp p \<le> p_maxHp p \<Longrightarrow> length (p_inventory p) = MAX_INVENTORY_SIZE \<Longrightarrow> clone_player p = p"
  by (simp add: clone_player_def params_of_data_def p_toJSON_def new_Player_def Let_def)

lemma clone_ok: "player_ok p \<Longrightarrow> clone_player p = p"
  by (simp add: clone_player_id player_ok_def inventory_ok_iff)

lemma fromJSON_toJSON: "p_hp p \<le> p_maxHp p \<Longrightarrow> length (p_inventory p) = MAX_INVENTORY_SIZE \<Longrightarrow> p_fromJSON (p_toJSON p) = p"
  by (simp add: p_fromJSON_def params_of_data_def p_toJSON_def new_Player_def Let_def)

lemma new_Player_bounds:
  "p_hp (new_Player q) \<le> p_maxHp (new_Player q)"
  "length (p_inventory (new_Player q)) = MAX_INVENTORY_SIZE"
  by (simp_all add: new_Player_def Let_def)

lemma fromJSON_bounds:
  "p_hp (p_fromJSON d) \<le> p_maxHp (p_fromJSON d)"
  "length (p_inventory (p_fromJSON d)) = MAX_INVENTORY_SIZE"
  by (simp_all add: p_fromJSON_def Let_def new_Player_bounds split: prod.splits)

lemma fromJSON_legacy_attributes:
  "d_archetype d = None \<Longrightarrow> d_str d = None \<or> d_agi d = None \<or> d_int d = None \<Longrightarrow>
   p_archetype (p_fromJSON d) = Martial \<and> attributes_ok (p_fromJSON d)"
  by (auto simp: p_fromJSON_def params_of_data_def new_Player_def Let_def attributes_ok_def
      split: option.splits)

section \<open>Lemmas: experience\<close>

text \<open>The curve is \<open>floor(100 * level ** 1.5)\<close>.\<close>

lemma experienceForNextLevel_floor:
  assumes "1 \<le> l"
  shows "experienceForNextLevel l = \<lfloor>100 * real_of_int l powr (3 / 2)\<rfloor>"
proof -
  have "sqrt (real_of_int l ^ 3) = real_of_int l powr (3 / 2)"
    using assms powr_powr[of "real_of_int l" 3 "1 / 2"] by (simp add: powr_half_sqrt powr_realpow)
  moreover have "real (nat (10000 * max 1 l ^ 3)) = 100 ^ 2 * real_of_int l ^ 3"
    using assms by simp
  ultimately show ?thesis
    unfolding experienceForNextLevel_def isqrt_floor by (simp only: real_sqrt_mult) simp
qed

text \<open>Experience earned over a lifetime: what the passed levels cost plus the current amount.\<close>

definition levels_cost :: "int \<Rightarrow> int" where
  "levels_cost level = sum_list (map experienceForNextLevel [1..level - 1])"

definition lifetime_xp :: "player \<Rightarrow> int" where
  "lifetime_xp p = levels_cost (p_level p) + p_experience p"

lemma levels_cost_Suc: "1 \<le> l \<Longrightarrow> levels_cost (l + 1) = levels_cost l + experienceForNextLevel l"
  using upto_rec2[of 1 l] by (simp add: levels_cost_def)

lemma levelUpLoop_step:
  "levelUpLoop p n =
     (if p_experience p \<ge> experienceForNextLevel (p_level p)
      then levelUpLoop
             (p\<lparr> p_experience := p_experience p - experienceForNextLevel (p_level p),
                 p_level := p_level p + 1,
                 p_str := p_str p + strPerLevel (ARCHETYPE_CONFIGS (p_archetype p)),
                 p_agi := p_agi p + agiPerLevel (ARCHETYPE_CONFIGS (p_archetype p)),
                 p_int := p_int p + intPerLevel (ARCHETYPE_CONFIGS (p_archetype p)) \<rparr>) (n + 1)
      else (p, n))"
  by (subst levelUpLoop.simps) (simp add: getExperienceForNextLevel_def Let_def)

lemma levelUpLoop_result:
  assumes "levelUpLoop p n = (p', g)"
  shows "g - n = p_level p' - p_level p \<and> n \<le> g \<and>
    p_experience p' < experienceForNextLevel (p_level p') \<and>
    (0 \<le> p_experience p \<longrightarrow> 0 \<le> p_experience p') \<and>
    (1 \<le> p_level p \<longrightarrow> lifetime_xp p' = lifetime_xp p) \<and>
    (1 \<le> p_level p \<longrightarrow> attributes_ok p \<longrightarrow> attributes_ok p')"
  using assms
proof (induction p n rule: levelUpLoop.induct)
  case (1 p n)
  show ?case
  proof (cases "experienceForNextLevel (p_level p) \<le> p_experience p")
    case True
    then show ?thesis
      using "1.IH"[OF refl refl] "1.prems" levels_cost_Suc[of "p_level p"]
        computeAttributes_Suc[of "p_level p" "p_archetype p"]
      by (subst (asm) levelUpLoop_step)
        (simp add: getExperienceForNextLevel_def lifetime_xp_def attributes_ok_def)
  next
    case False
    with "1.prems" have "p' = p" "g = n" by (subst (asm) levelUpLoop_step; simp)+
    with False show ?thesis by simp
  qed
qed

lemma levelUpLoop_frame:
  assumes "levelUpLoop p n = (p', g)"
  shows "\<exists>x l s a i. p' = p\<lparr> p_experience := x, p_level := l, p_str := s, p_agi := a, p_int := i \<rparr>"
  using assms
proof (induction p n rule: levelUpLoop.induct)
  case (1 p n)
  show ?case
  proof (cases "experienceForNextLevel (p_level p) \<le> p_experience p")
    case True
    then show ?thesis
      using "1.IH"[OF refl refl] "1.prems"
      by (subst (asm) levelUpLoop_step) (auto simp: getExperienceForNextLevel_def)
  next
    case False
    with "1.prems" have "p' = p" by (subst (asm) levelUpLoop_step; simp)
    then have "p' = p\<lparr> p_experience := p_experience p, p_level := p_level p, p_str := p_str p,
        p_agi := p_agi p, p_int := p_int p \<rparr>" by simp
    then show ?thesis by blast
  qed
qed

lemma experience_update_commute:
  "p\<lparr> p_level := l, p_str := s, p_agi := a, p_int := i, p_experience := x \<rparr> =
   p\<lparr> p_experience := x, p_level := l, p_str := s, p_agi := a, p_int := i \<rparr>"
  by simp

text \<open>Experience that arrives later only continues the loop.\<close>

lemma levelUpLoop_more:
  assumes "levelUpLoop p n = (p', g)" and "0 \<le> b"
  shows "levelUpLoop (p\<lparr> p_experience := p_experience p + b \<rparr>) n =
         levelUpLoop (p'\<lparr> p_experience := p_experience p' + b \<rparr>) g"
  using assms(1)
proof (induction p n rule: levelUpLoop.induct)
  case (1 p n)
  show ?case
  proof (cases "experienceForNextLevel (p_level p) \<le> p_experience p")
    case True
    then show ?thesis
      using "1.IH"[OF refl refl] "1.prems" assms(2)
      by (subst (asm) levelUpLoop_step, subst levelUpLoop_step)
        (simp add: getExperienceForNextLevel_def experience_update_commute algebra_simps)
  next
    case False
    with "1.prems" have "p' = p" "g = n" by (subst (asm) levelUpLoop_step; simp)+
    then show ?thesis by simp
  qed
qed

lemma levelUpLoop_count:
  "levelUpLoop p (n + k) = (case levelUpLoop p n of (p', g) \<Rightarrow> (p', g + k))"
proof (induction p n rule: levelUpLoop.induct)
  case (1 p n)
  show ?case
  proof (cases "experienceForNextLevel (p_level p) \<le> p_experience p")
    case True
    then show ?thesis
      using "1.IH"[OF refl refl]
      by (subst levelUpLoop_step, subst (2) levelUpLoop_step)
        (simp add: getExperienceForNextLevel_def add.assoc add.commute[of k])
  qed (simp add: levelUpLoop_step[of p])
qed

lemma stats_update_commute:
  "p\<lparr> p_experience := x, p_level := l, p_str := s, p_agi := a, p_int := i,
      p_attack := A, p_defense := D, p_maxHp := M, p_hp := h \<rparr> =
   p\<lparr> p_attack := A, p_defense := D, p_maxHp := M, p_hp := h,
      p_experience := x, p_level := l, p_str := s, p_agi := a, p_int := i \<rparr>"
  by simp

lemma levelUpLoop_stats:
  "levelUpLoop (p\<lparr> p_attack := A, p_defense := D, p_maxHp := M, p_hp := h \<rparr>) n =
     (case levelUpLoop p n of
        (p', g) \<Rightarrow> (p'\<lparr> p_attack := A, p_defense := D, p_maxHp := M, p_hp := h \<rparr>, g))"
proof (induction p n rule: levelUpLoop.induct)
  case (1 p n)
  show ?case
  proof (cases "experienceForNextLevel (p_level p) \<le> p_experience p")
    case True
    then show ?thesis
      using "1.IH"[OF refl refl]
      by (subst levelUpLoop_step, subst (2) levelUpLoop_step)
        (simp add: getExperienceForNextLevel_def stats_update_commute)
  qed (simp add: levelUpLoop_step[of p] levelUpLoop_step[of "p\<lparr> p_attack := A, p_defense := D, p_maxHp := M, p_hp := h \<rparr>"])
qed

text \<open>
  Recalculating twice with growth in between is recalculating once at the end, when the first
  recalculation did not lower the maximum.
\<close>

lemma recalculateStats_grow:
  assumes "0 \<le> p_hp p" and "p_hp p \<le> p_maxHp p" and "p_maxHp p \<le> p_maxHp (recalculateStats p)"
  shows "recalculateStats ((recalculateStats p)\<lparr> p_experience := x, p_level := l, p_str := s, p_agi := a, p_int := i \<rparr>)
       = recalculateStats (p\<lparr> p_experience := x, p_level := l, p_str := s, p_agi := a, p_int := i \<rparr>)"
  using assms by (simp add: recalculateStats_def Let_def)

lemma player_ok_experience:
  "player_ok p \<Longrightarrow> 0 \<le> p_experience (p\<lparr> p_experience := x \<rparr>) \<Longrightarrow> player_ok (p\<lparr> p_experience := x \<rparr>)"
  by (simp add: player_ok_def)

lemma addExperience_result:
  assumes "player_ok p" and "0 \<le> amount" and "addExperience p amount = (p', g)"
  shows "player_ok p'" and "0 \<le> g" and "p_level p' = p_level p + g"
    and "p_experience p' < experienceForNextLevel (p_level p')"
    and "lifetime_xp p' = lifetime_xp p + amount"
    and "owned p' = owned p" and "p_maxHp p' - p_hp p' = p_maxHp p - p_hp p"
proof -
  let ?q = "p\<lparr> p_experience := p_experience p + amount \<rparr>"
  obtain q g' where q: "levelUpLoop ?q 0 = (q, g')" by force
  note res = levelUpLoop_result[OF q]
  have lvl: "1 \<le> p_level ?q" "attributes_ok ?q" "0 \<le> p_experience ?q"
    using assms(1,2) by (simp_all add: player_inv_defs)
  obtain x l s a i where fr:
    "q = ?q\<lparr> p_experience := x, p_level := l, p_str := s, p_agi := a, p_int := i \<rparr>"
    using levelUpLoop_frame[OF q] by blast
  have g: "g = g'" and p': "p' = (if g' > 0 then recalculateStats q else q)"
    using assms(3) q by (auto simp: addExperience_def checkLevelUp_def)
  have fields: "p_equipment q = p_equipment p" "p_inventory q = p_inventory p"
    "p_archetype q = p_archetype p" "p_hp q = p_hp p" "p_maxHp q = p_maxHp p" "p_attack q = p_attack p"
    "p_defense q = p_defense p"
    by (simp_all add: fr)
  have zero: "q = ?q" if "g' \<le> 0"
    using q res that levelUpLoop_step[of ?q 0] levelUpLoop_result[of _ 1 q g'] by (auto split: if_splits)
  show "0 \<le> g" "p_level p' = p_level p + g" using res g p' by auto
  show ok: "player_ok p'"
  proof (cases "g' > 0")
    case True
    have "player_ok (recalculateStats q)"
      using assms(1)[unfolded player_ok_def] res lvl fields by (intro player_ok_recalculate) auto
    then show ?thesis using True p' by simp
  next
    case False
    then show ?thesis using player_ok_experience[OF assms(1) lvl(3)] p' zero by simp
  qed
  show "p_experience p' < experienceForNextLevel (p_level p')" using res p' by auto
  show "lifetime_xp p' = lifetime_xp p + amount"
    using res lvl p' by (auto simp: lifetime_xp_def)
  show "owned p' = owned p" using p' fields by (auto simp: owned_def)
  show "p_maxHp p' - p_hp p' = p_maxHp p - p_hp p"
  proof (cases "g' > 0")
    case True
    have "p_level p \<le> p_level q" using res by simp
    then have "p_maxHp p \<le> p_maxHp (recalculateStats q)"
      using recalculateStats_stats_ok[of q] assms(1) res lvl fields
        computeAttributes_mono[of "p_level p" "p_level q" "p_archetype p"]
      by (simp add: player_inv_defs deriveMaxHp_def)
    then show ?thesis
      using True p' recalculateStats_hp[of q] assms(1) fields by (simp add: player_ok_def)
  qed (use p' zero in simp)
qed

lemma levelUpLoop_none: "levelUpLoop p 0 = (p', g) \<Longrightarrow> g \<le> 0 \<Longrightarrow> p' = p"
  using levelUpLoop_step[of p 0] levelUpLoop_result[of _ 1 p' g] by (auto split: if_splits)

text \<open>An award after a recalculation ends where the loop would have ended without it.\<close>

lemma addExperience_recalculated:
  assumes hp: "0 \<le> p_hp p" "p_hp p \<le> p_maxHp p" "p_maxHp p \<le> p_maxHp (recalculateStats p)"
    and loop: "levelUpLoop (p\<lparr> p_experience := p_experience p + b \<rparr>) 0 = (p2, g2)"
  shows "fst (addExperience (recalculateStats p) b) = recalculateStats p2"
proof -
  let ?m = "recalculateStats p"
  obtain A D M h where m: "?m = p\<lparr> p_attack := A, p_defense := D, p_maxHp := M, p_hp := h \<rparr>"
    by (simp add: recalculateStats_def Let_def)
  obtain x l s c i where fr:
    "p2 = p\<lparr> p_experience := x, p_level := l, p_str := s, p_agi := c, p_int := i \<rparr>"
    using levelUpLoop_frame[OF loop] by auto
  let ?n = "?m\<lparr> p_experience := x, p_level := l, p_str := s, p_agi := c, p_int := i \<rparr>"
  have "?m\<lparr> p_experience := p_experience ?m + b \<rparr> =
      p\<lparr> p_experience := p_experience p + b, p_attack := A, p_defense := D, p_maxHp := M, p_hp := h \<rparr>"
    unfolding m by simp
  then have "levelUpLoop (?m\<lparr> p_experience := p_experience ?m + b \<rparr>) 0 =
      (p2\<lparr> p_attack := A, p_defense := D, p_maxHp := M, p_hp := h \<rparr>, g2)"
    using loop by (simp only: levelUpLoop_stats prod.case)
  also have "p2\<lparr> p_attack := A, p_defense := D, p_maxHp := M, p_hp := h \<rparr> = ?n"
    unfolding m fr by simp
  finally have add: "fst (addExperience ?m b) = (if g2 > 0 then recalculateStats ?n else ?n)"
    by (simp add: addExperience_def checkLevelUp_def)
  have grow: "recalculateStats ?n = recalculateStats p2"
    unfolding fr by (rule recalculateStats_grow[OF hp])
  have "?n = recalculateStats p2" if "g2 \<le> 0"
  proof -
    have "p2 = p\<lparr> p_experience := p_experience p + b \<rparr>" by (rule levelUpLoop_none[OF loop that])
    moreover from this have "x = p_experience p + b" "l = p_level p" "s = p_str p" "c = p_agi p" "i = p_int p"
      unfolding fr by (auto dest: arg_cong[where f = p_experience] arg_cong[where f = p_level]
          arg_cong[where f = p_str] arg_cong[where f = p_agi] arg_cong[where f = p_int])
    ultimately show ?thesis by (simp add: recalculateStats_def Let_def)
  qed
  with add grow show ?thesis by (cases "g2 > 0") simp_all
qed

text \<open>Two awards in a row are one award of the sum.\<close>

lemma addExperience_batch:
  assumes "player_ok p" and "0 \<le> a" and "0 \<le> b"
  shows "fst (addExperience (fst (addExperience p a)) b) = fst (addExperience p (a + b))"
proof -
  let ?q = "p\<lparr> p_experience := p_experience p + a \<rparr>"
  obtain p1 g1 where 1: "levelUpLoop ?q 0 = (p1, g1)" by force
  let ?r = "p1\<lparr> p_experience := p_experience p1 + b \<rparr>"
  obtain p2 g2 where 2: "levelUpLoop ?r 0 = (p2, g2)" by force
  have "levelUpLoop (?q\<lparr> p_experience := p_experience ?q + b \<rparr>) 0 = levelUpLoop ?r (0 + g1)"
    using levelUpLoop_more[OF 1 assms(3)] by simp
  also have "\<dots> = (p2, g2 + g1)" using levelUpLoop_count[of ?r 0 g1] 2 by simp
  finally have both: "levelUpLoop (p\<lparr> p_experience := p_experience p + (a + b) \<rparr>) 0 = (p2, g2 + g1)"
    by (simp add: add.assoc)
  have nn: "0 \<le> g1" "0 \<le> g2" using levelUpLoop_result[OF 1] levelUpLoop_result[OF 2] by simp_all
  show ?thesis
  proof (cases "g1 > 0")
    case False
    then show ?thesis using 1 2 both nn by (simp add: addExperience_def checkLevelUp_def)
  next
    case True
    let ?m = "recalculateStats p1"
    have add: "addExperience p a = (?m, g1)" using True 1 by (simp add: addExperience_def checkLevelUp_def)
    note res = addExperience_result[OF assms(1,2) add]
    have p1: "p_hp p1 = p_hp p" "p_maxHp p1 = p_maxHp p" using levelUpLoop_frame[OF 1] by auto
    have eq: "p_archetype ?m = p_archetype p" "p_equipment ?m = p_equipment p"
      using levelUpLoop_frame[OF 1] by auto
    have "p_maxHp p \<le> p_maxHp ?m"
      using computeAttributes_mono[of "p_level p" "p_level ?m" "p_archetype p"]
        assms(1)[unfolded player_inv_defs] res(1)[unfolded player_inv_defs] res(3) nn(1) eq
      by (simp add: deriveMaxHp_def)
    then have "fst (addExperience ?m b) = recalculateStats p2"
      using assms(1)[unfolded player_ok_def] p1 2 by (intro addExperience_recalculated) simp_all
    then show ?thesis using add True nn both by (simp add: addExperience_def checkLevelUp_def)
  qed
qed

lemma addExperience_portions:
  assumes "player_ok p" and "0 \<le> n" and "list_all (\<lambda>k. 0 \<le> k) ns"
  shows "foldl (\<lambda>q k. fst (addExperience q k)) (fst (addExperience p n)) ns = fst (addExperience p (n + sum_list ns))"
  using assms
proof (induction ns arbitrary: n)
  case (Cons k ns)
  then show ?case using addExperience_batch[of p n k] Cons.IH[of "n + k"] by (simp add: add.assoc)
qed simp

end
