(* ===== verification/PlayerOps.thy ===== *)
theory PlayerOps
  imports PlayerModel
begin

text \<open>
  What the methods of \<open>Player\<close> guarantee: each keeps \<open>player_ok\<close>, the inventory methods account
  for every item, and \<open>equipItem\<close> either changes nothing or swaps the item into its slot. The
  methods form a \<open>step_machine\<close> and the player is a \<open>damageable\<close>.
\<close>

section \<open>Inventory\<close>

lemma inventory_slots: "getEmptyInventorySlots p + getUsedInventorySlots p = int (length (p_inventory p))"
  using sum_length_filter_compl[of "\<lambda>s. s = None" "p_inventory p"]
  by (simp add: getEmptyInventorySlots_def getUsedInventorySlots_def)

lemma isInventoryFull_iff: "isInventoryFull p \<longleftrightarrow> None \<notin> set (p_inventory p)"
  unfolding isInventoryFull_def getEmptyInventorySlots_def
  by (auto simp: filter_empty_conv) (metis option.exhaust)

lemma addItem_full: "isInventoryFull p \<Longrightarrow> addItemToInventory p it = (p, - 1)"
proof -
  assume "isInventoryFull p"
  then have "find_index (\<lambda>s. s = None) (p_inventory p) = None"
    by (auto simp: isInventoryFull_iff) (metis option.exhaust)
  then show ?thesis by (simp only: addItemToInventory_def option.case)
qed

lemma addItem_free:
  assumes "\<not> isInventoryFull p"
  shows "\<exists>i < length (p_inventory p). p_inventory p ! i = None \<and> (\<forall>j < i. p_inventory p ! j \<noteq> None) \<and>
    addItemToInventory p it = (p\<lparr> p_inventory := (p_inventory p)[i := Some it] \<rparr>, int i)"
proof -
  obtain i where i: "find_index (\<lambda>s. s = None) (p_inventory p) = Some i"
    using assms by (cases "find_index (\<lambda>s. s = None) (p_inventory p)") (auto simp: isInventoryFull_iff)
  then show ?thesis using find_index_Some[OF i] by (auto simp: addItemToInventory_def)
qed

lemma owned_inventory_update:
  "i < length (p_inventory p) \<Longrightarrow>
   owned (p\<lparr> p_inventory := (p_inventory p)[i := x] \<rparr>) + mset_set (set_option (p_inventory p ! i)) =
   owned p + mset_set (set_option x)"
  using mset_carried_update[of i "p_inventory p" x] by (simp add: owned_def ac_simps)

lemma addItem_owned:
  "owned (fst (addItemToInventory p it)) = (if isInventoryFull p then owned p else add_mset it (owned p))"
proof (cases "isInventoryFull p")
  case False
  with addItem_free[OF False, of it] show ?thesis
    using owned_inventory_update[of _ p "Some it"] by fastforce
qed (simp add: addItem_full)

lemma removeItem_owned:
  "owned (fst (removeItemFromInventory p i)) + mset_set (set_option (snd (removeItemFromInventory p i))) = owned p"
  using owned_inventory_update[of "nat i" p None] by (auto simp: removeItemFromInventory_def)

section \<open>Equipment\<close>

lemma target_equips: "canEquipInSlot it (resolveEquipTargetSlot p it pref)"
  by (cases "i_type it") (auto simp: canEquipInSlot_def resolveEquipTargetSlot_def getEquipTargetSlot_def)

lemma assignSlot_update:
  "canEquipInSlot it s \<Longrightarrow> assignSlot e it s = e(s := Some it)"
  by (cases "i_type it"; cases s) (simp_all add: assignSlot_def canEquipInSlot_def)

text \<open>
  The three guards are the only reasons to refuse: clearing the item's own slot always leaves
  room for the item it replaces, so the rollback branch is never taken.
\<close>

definition equippable :: "player \<Rightarrow> int \<Rightarrow> bool" where
  "equippable p i \<longleftrightarrow> 0 \<le> i \<and> i < int (length (p_inventory p)) \<and>
     (case p_inventory p ! nat i of None \<Rightarrow> False | Some it \<Rightarrow> i_level it \<le> p_level p)"

lemma cleared_slot_found:
  assumes "i < length iv"
  obtains k where "find_index (\<lambda>s. s = None) (iv[i := None]) = Some k" "k < length iv" "iv[i := None] ! k = None"
proof (cases "find_index (\<lambda>s. s = None) (iv[i := None])")
  case None
  then have "None \<notin> set (iv[i := None])" by auto
  then show ?thesis using assms set_update_memI[of i iv None] by blast
next
  case (Some k)
  with find_index_Some[OF Some] that show ?thesis by simp
qed

lemma equipItem_refused: "\<not> equippable p i \<Longrightarrow> equipItem p i pref = (p, False)"
  by (auto simp: equippable_def equipItem_def split: option.splits)

lemma equipItem_done:
  assumes "equippable p i"
  obtains it iv s where "p_inventory p ! nat i = Some it" "i_level it \<le> p_level p"
    "s = resolveEquipTargetSlot p it pref"
    "equipItem p i pref = (recalculateStats (p\<lparr> p_inventory := iv, p_equipment := (p_equipment p)(s := Some it) \<rparr>), True)"
    "length iv = length (p_inventory p)"
    "mset (carried iv) + {# it #} = mset (carried (p_inventory p)) + mset_set (set_option (p_equipment p s))"
    "inventory_ok (p_inventory p) \<Longrightarrow> equipment_ok (p_equipment p) \<Longrightarrow> inventory_ok iv"
proof -
  obtain it where it: "p_inventory p ! nat i = Some it" "i_level it \<le> p_level p"
    and i: "0 \<le> i" "nat i < length (p_inventory p)" "\<not> int (length (p_inventory p)) \<le> i"
    using assms by (auto simp: equippable_def split: option.splits)
  let ?s = "resolveEquipTargetSlot p it pref" and ?iv = "(p_inventory p)[nat i := None]"
  have out: "mset (carried ?iv) + {# it #} = mset (carried (p_inventory p))"
    using mset_carried_update[OF i(2), of None] it(1) by simp
  show thesis
  proof (cases "p_equipment p ?s")
    case None
    then have "equipItem p i pref = (recalculateStats (p\<lparr> p_inventory := ?iv, p_equipment := (p_equipment p)(?s := Some it) \<rparr>), True)"
      using it i by (simp add: equipItem_def Let_def assignSlot_update[OF target_equips])
    then show ?thesis by (rule that[OF it refl]) (use out None in \<open>auto intro!: inventory_ok_update\<close>)
  next
    case (Some old)
    obtain k where k: "find_index (\<lambda>s. s = None) ?iv = Some k" "k < length (p_inventory p)" "?iv ! k = None"
      using cleared_slot_found[OF i(2)] by blast
    let ?jv = "?iv[k := Some old]"
    have "equipItem p i pref = (recalculateStats (p\<lparr> p_inventory := ?jv, p_equipment := (p_equipment p)(?s := Some it) \<rparr>), True)"
      using it i Some k(1) by (simp add: equipItem_def Let_def assignSlot_update[OF target_equips])
    moreover have "mset (carried ?jv) + {# it #} = mset (carried (p_inventory p)) + {# old #}"
      using mset_carried_update[of k ?iv "Some old"] k out by simp
    moreover have "inventory_ok ?jv" if "inventory_ok (p_inventory p)" "equipment_ok (p_equipment p)"
      using that Some by (auto intro!: inventory_ok_update simp: equipment_ok_iff)
    ultimately show ?thesis using that[OF it refl, of ?jv] Some by simp
  qed
qed

lemma equipItem_owned: "owned (fst (equipItem p i pref)) = owned p"
proof (cases "equippable p i")
  case True
  then show ?thesis
  proof (rule equipItem_done[where pref = pref])
    fix it iv s
    assume eq: "equipItem p i pref = (recalculateStats (p\<lparr> p_inventory := iv, p_equipment := (p_equipment p)(s := Some it) \<rparr>), True)"
      and iv: "mset (carried iv) + {# it #} = mset (carried (p_inventory p)) + mset_set (set_option (p_equipment p s))"
    have "owned (fst (equipItem p i pref)) + mset_set (set_option (p_equipment p s)) + {# it #}
        = mset (worn (p_equipment p)) + {# it #} + (mset (carried iv) + {# it #})"
      using mset_worn_update[of "p_equipment p" s "Some it"] by (simp add: eq owned_def ac_simps)
    also have "\<dots> = owned p + mset_set (set_option (p_equipment p s)) + {# it #}"
      unfolding iv by (simp add: owned_def ac_simps)
    finally show ?thesis by simp
  qed
qed (simp add: equipItem_refused)

lemma inventory_nth_ok:
  "inventory_ok iv \<Longrightarrow> n < length iv \<Longrightarrow> iv ! n = Some it \<Longrightarrow> item_ok it"
  by (metis inventory_ok_iff nth_mem)

lemma equipItem_ok:
  assumes "player_ok p"
  shows "player_ok (fst (equipItem p i pref))"
proof (cases "equippable p i")
  case True
  then show ?thesis
  proof (rule equipItem_done[where pref = pref])
    fix it iv s
    assume it: "p_inventory p ! nat i = Some it" and s: "s = resolveEquipTargetSlot p it pref"
      and eq: "equipItem p i pref = (recalculateStats (p\<lparr> p_inventory := iv, p_equipment := (p_equipment p)(s := Some it) \<rparr>), True)"
      and iv: "inventory_ok (p_inventory p) \<Longrightarrow> equipment_ok (p_equipment p) \<Longrightarrow> inventory_ok iv"
    have "item_ok it"
      using True it assms inventory_nth_ok[of "p_inventory p" "nat i"]
      by (auto simp: equippable_def player_ok_def)
    then have "equipment_ok ((p_equipment p)(s := Some it))"
      using assms target_equips[of it p pref] by (auto simp: equipment_ok_iff player_ok_def s)
    then show ?thesis
      using assms[unfolded player_ok_def] iv by (auto simp: eq intro!: player_ok_recalculate)
  qed
qed (use assms in \<open>simp add: equipItem_refused\<close>)

section \<open>The methods as a machine\<close>

datatype player_op =
  AddExperience int | TakeDamage int | RestoreHp int | FullHeal | AddDistance real
| IncrementEncounters | DefeatCreature | IncrementCombatTurns | SetLevel int
| SetArchetype archetype | AddItem item | ClearInventory | RemoveItem int
| EquipItem int "equipment_slot option" | Clone

fun player_step :: "player \<Rightarrow> player_op \<Rightarrow> player" where
  "player_step p (AddExperience n) = fst (addExperience p n)"
| "player_step p (TakeDamage n) = p_takeDamage p n"
| "player_step p (RestoreHp n) = restoreHp p n"
| "player_step p FullHeal = fullHeal p"
| "player_step p (AddDistance d) = addDistance p d"
| "player_step p IncrementEncounters = incrementEncounters p"
| "player_step p DefeatCreature = defeatCreature p"
| "player_step p IncrementCombatTurns = incrementCombatTurns p"
| "player_step p (SetLevel l) = setLevel p l"
| "player_step p (SetArchetype a) = setArchetype p a"
| "player_step p (AddItem it) = fst (addItemToInventory p it)"
| "player_step p ClearInventory = clearInventory p"
| "player_step p (RemoveItem i) = fst (removeItemFromInventory p i)"
| "player_step p (EquipItem i s) = fst (equipItem p i s)"
| "player_step p Clone = clone_player p"

fun op_ok :: "player_op \<Rightarrow> bool" where
  "op_ok (AddExperience n) \<longleftrightarrow> 0 \<le> n"
| "op_ok (TakeDamage n) \<longleftrightarrow> 0 \<le> n"
| "op_ok (RestoreHp n) \<longleftrightarrow> 0 \<le> n"
| "op_ok (AddItem it) \<longleftrightarrow> item_ok it"
| "op_ok _ \<longleftrightarrow> True"

lemma applyAttributes_ok:
  assumes "1 \<le> p_level p" "0 \<le> p_experience p" "equipment_ok (p_equipment p)" "inventory_ok (p_inventory p)"
  shows "player_ok (applyAttributes p (computeAttributes (p_archetype p) (p_level p)))"
proof -
  let ?a = "computeAttributes (p_archetype p) (p_level p)"
  have "player_ok (recalculateStats (p\<lparr> p_str := at_str ?a, p_agi := at_agi ?a, p_int := at_int ?a \<rparr>))"
    using assms by (intro player_ok_recalculate) (simp_all add: attributes_ok_def)
  then show ?thesis by (simp add: applyAttributes_def Let_def player_ok_def)
qed

lemma setLevel_ok: "player_ok p \<Longrightarrow> player_ok (setLevel p l)"
  using applyAttributes_ok[of "p\<lparr> p_level := max 1 l, p_experience := 0 \<rparr>"]
  by (simp add: setLevel_def Let_def player_ok_def)

lemma setArchetype_ok: "player_ok p \<Longrightarrow> player_ok (setArchetype p a)"
  using applyAttributes_ok[of "p\<lparr> p_archetype := a \<rparr>"] by (simp add: setArchetype_def player_ok_def)

lemma inventory_op_ok:
  assumes "player_ok p"
  shows "item_ok it \<Longrightarrow> player_ok (fst (addItemToInventory p it))"
    and "player_ok (clearInventory p)" and "player_ok (fst (removeItemFromInventory p i))"
proof -
  show "player_ok (fst (addItemToInventory p it))" if "item_ok it"
    using assms that addItem_free[of p it] addItem_full[of p it]
    by (cases "isInventoryFull p") (auto simp: player_ok_def intro!: inventory_ok_update)
  show "player_ok (clearInventory p)" and "player_ok (fst (removeItemFromInventory p i))"
    using assms by (auto simp: clearInventory_def removeItemFromInventory_def player_ok_def
        intro!: inventory_ok_update)
qed

lemma addExperience_ok: "player_ok p \<Longrightarrow> 0 \<le> n \<Longrightarrow> player_ok (fst (addExperience p n))"
  using addExperience_result(1)[of p n] by (metis prod.collapse)

lemma vitals_ok:
  assumes "player_ok p"
  shows "0 \<le> n \<Longrightarrow> player_ok (p_takeDamage p n)" and "0 \<le> n \<Longrightarrow> player_ok (restoreHp p n)"
    and "player_ok (fullHeal p)"
  using assms by (auto simp: p_takeDamage_def restoreHp_def fullHeal_def player_ok_def)

lemma counters_ok:
  assumes "player_ok p"
  shows "player_ok (addDistance p d)" and "player_ok (incrementEncounters p)"
    and "player_ok (defeatCreature p)" and "player_ok (incrementCombatTurns p)"
  using assms by (auto simp: addDistance_def incrementEncounters_def defeatCreature_def
      incrementCombatTurns_def player_ok_def)

lemmas player_ops_ok [inv_intros] =
  addExperience_ok vitals_ok counters_ok setLevel_ok setArchetype_ok inventory_op_ok equipItem_ok

lemma player_step_ok: "player_ok p \<Longrightarrow> op_ok op \<Longrightarrow> player_ok (player_step p op)"
  by (cases op) (auto intro: player_ops_ok simp: clone_ok)

interpretation player_machine: step_machine player_step player_ok op_ok
  by unfold_locales (rule player_step_ok)

interpretation player_hits: damageable p_hp p_takeDamage p_isDefeated
  by unfold_locales (simp_all add: p_takeDamage_def p_isDefeated_def)

end
