(* ===== verification/Rand.thy ===== *)
theory Rand
  imports Prelude "HOL-Library.State_Monad"
begin

text \<open>
  Computations that draw from the generator, as state-monad programs over the stream of draws, and
  a small logic for them: \<open>rand_all P m\<close> says that on every valid stream \<open>m\<close> yields a value with
  \<open>P\<close> and leaves a valid stream. Also the decimal rendering of numbers inside template strings.
\<close>

type_synonym 'a rand = "(rng, 'a) state"

definition math_random :: "real rand" where
  "math_random = State next_random"

definition rand_all :: "('a \<Rightarrow> bool) \<Rightarrow> 'a rand \<Rightarrow> bool" where
  "rand_all P m \<longleftrightarrow> (\<forall>r. valid_rng r \<longrightarrow> P (fst (run_state m r)) \<and> valid_rng (snd (run_state m r)))"

named_theorems rand_intros \<open>rules of the logic of draws\<close>

lemma rand_all_return [rand_intros]: "P x \<Longrightarrow> rand_all P (State_Monad.return x)"
  by (simp add: rand_all_def)

lemma rand_all_bind:
  assumes "rand_all P m" and "\<And>x. P x \<Longrightarrow> rand_all Q (f x)"
  shows "rand_all Q (State_Monad.bind m f)"
  unfolding rand_all_def
proof (intro allI impI)
  fix r assume r: "valid_rng r"
  obtain x r' where x: "run_state m r = (x, r')" by force
  with assms(1) r have "P x" "valid_rng r'" by (auto simp: rand_all_def)
  with assms(2) x show "Q (fst (run_state (State_Monad.bind m f) r)) \<and> valid_rng (snd (run_state (State_Monad.bind m f) r))"
    by (auto simp: rand_all_def)
qed

lemma rand_all_mono: "rand_all P m \<Longrightarrow> (\<And>x. P x \<Longrightarrow> Q x) \<Longrightarrow> rand_all Q m"
  by (simp add: rand_all_def)

lemma rand_all_random: "rand_all valid_draw math_random"
  by (simp add: rand_all_def math_random_def next_random_def valid_rng_shd valid_rng_stl)

lemma rand_all_if [rand_intros]:
  "(b \<Longrightarrow> rand_all P m) \<Longrightarrow> (\<not> b \<Longrightarrow> rand_all P n) \<Longrightarrow> rand_all P (if b then m else n)"
  by simp

lemma rand_allD:
  "rand_all P m \<Longrightarrow> valid_rng r \<Longrightarrow> P (fst (run_state m r))"
  "rand_all P m \<Longrightarrow> valid_rng r \<Longrightarrow> valid_rng (snd (run_state m r))"
  by (simp_all add: rand_all_def)

section \<open>Drawing integers and elements\<close>

definition randInt :: "int \<Rightarrow> int \<Rightarrow> int rand" where
  "randInt lo hi = do { x \<leftarrow> math_random; State_Monad.return (rand_index x (hi - lo + 1) + lo) }"

definition pick :: "'a list \<Rightarrow> 'a rand" where
  "pick arr = do { x \<leftarrow> math_random; State_Monad.return (arr ! nat (rand_index x (int (length arr)))) }"

lemma rand_all_randInt: "lo \<le> hi \<Longrightarrow> rand_all (\<lambda>n. lo \<le> n \<and> n \<le> hi) (randInt lo hi)"
  unfolding randInt_def
  by (rule rand_all_bind[OF rand_all_random], rule rand_all_return)
    (use rand_index_range[of _ "hi - lo + 1"] in force)

lemma rand_all_pick: "arr \<noteq> [] \<Longrightarrow> rand_all (\<lambda>x. x \<in> set arr) (pick arr)"
  unfolding pick_def
proof (rule rand_all_bind[OF rand_all_random], rule rand_all_return)
  fix x assume "arr \<noteq> []" "valid_draw x"
  then have "nat (rand_index x (int (length arr))) < length arr"
    using rand_index_range[of x "int (length arr)"] by simp
  then show "arr ! nat (rand_index x (int (length arr))) \<in> set arr" by simp
qed

section \<open>Decimal rendering\<close>

fun show_digits :: "nat \<Rightarrow> string" where
  "show_digits n =
     (if n < 10 then [char_of (48 + n)] else show_digits (n div 10) @ [char_of (48 + n mod 10)])"

definition show_int :: "int \<Rightarrow> string" where
  "show_int n = (if n < 0 then ''-'' @ show_digits (nat (- n)) else show_digits (nat n))"

fun read_digits :: "string \<Rightarrow> nat" where
  "read_digits s = foldl (\<lambda>n c. n * 10 + (of_char c - 48)) 0 s"

declare show_digits.simps [simp del]

lemma read_show_digits: "read_digits (show_digits n) = n"
proof (induction n rule: show_digits.induct)
  case (1 n)
  show ?case
  proof (cases "n < 10")
    case True
    then show ?thesis by (subst show_digits.simps) simp
  next
    case False
    with 1 show ?thesis by (subst show_digits.simps) simp
  qed
qed

lemma show_digits_inj: "show_digits m = show_digits n \<Longrightarrow> m = n"
  by (metis read_show_digits)

end
