(* ===== verification/Abilities.thy ===== *)
theory Abilities
  imports CombatMath Archetypes
begin

text \<open>
  The ability system of \<open>models/Ability.ts\<close> and the class rosters of \<open>constants/abilities.ts\<close>:
  status effects and their ticks, effective statistics, resources, and the resolution of an
  ability into damage, healing, shield and effects.
\<close>

section \<open>Data\<close>

record stat_modifiers =
  sm_attack :: "int option"
  sm_defense :: "int option"

text \<open>
  The four primitives: damage multiplier and type; damage per tick, number of ticks and type;
  duration, modifiers and whether the target is the caster; flat healing, healing as a share of
  the maximum, and shield.
\<close>

datatype ability_kind =
  Direct real damage_type
| Dot int int damage_type
| BuffDebuff int stat_modifiers bool
| Defensive "int option" "real option" "int option"

record ability =
  a_id :: string
  a_name :: string
  a_resourceCost :: int
  a_icon :: string
  a_kind :: ability_kind

datatype effect_type = EDot | EBuff | EDebuff

record status_effect =
  se_id :: string
  se_type :: effect_type
  se_remainingTicks :: int
  se_damagePerTick :: "int option"
  se_damageType :: "damage_type option"
  se_statModifiers :: "stat_modifiers option"

record combatant_state =
  cs_statusEffects :: "status_effect list"
  cs_resource :: int

record resource_config =
  rc_max :: int
  rc_startValue :: int
  rc_regenPerTurn :: int

fun RESOURCE_CONFIGS :: "archetype \<Rightarrow> resource_config" where
  "RESOURCE_CONFIGS Martial = \<lparr> rc_max = 100, rc_startValue = 0, rc_regenPerTurn = 10 \<rparr>"
| "RESOURCE_CONFIGS Agile = \<lparr> rc_max = 100, rc_startValue = 80, rc_regenPerTurn = 15 \<rparr>"
| "RESOURCE_CONFIGS Mage = \<lparr> rc_max = 100, rc_startValue = 100, rc_regenPerTurn = 20 \<rparr>"

record ability_result =
  ar_damage :: int
  ar_heal :: int
  ar_shield :: int
  ar_appliedEffects :: "status_effect list"

record dot_effect =
  de_damage :: int
  de_damageType :: "damage_type option"
  de_sourceId :: string

record tick_result =
  tr_dotDamage :: int
  tr_dotEffects :: "dot_effect list"
  tr_updatedState :: combatant_state

section \<open>Operations\<close>

definition initCombatState :: "archetype \<Rightarrow> combatant_state" where
  "initCombatState a = \<lparr> cs_statusEffects = [], cs_resource = rc_startValue (RESOURCE_CONFIGS a) \<rparr>"

definition regenResource :: "combatant_state \<Rightarrow> archetype \<Rightarrow> combatant_state" where
  "regenResource st a =
     (let cfg = RESOURCE_CONFIGS a
      in st\<lparr> cs_resource := min (rc_max cfg) (cs_resource st + rc_regenPerTurn cfg) \<rparr>)"

fun tickLoop :: "status_effect list \<Rightarrow> int \<times> dot_effect list \<times> status_effect list \<Rightarrow>
    int \<times> dot_effect list \<times> status_effect list" where
  "tickLoop [] acc = acc"
| "tickLoop (e # es) (dotDamage, dotEffects, remaining) =
     (let (dmg, fx) =
        (if se_type e = EDot
         then (case se_damagePerTick e of
                 Some d \<Rightarrow>
                   (dotDamage + d,
                    dotEffects @ [\<lparr> de_damage = d, de_damageType = se_damageType e, de_sourceId = se_id e \<rparr>])
               | None \<Rightarrow> (dotDamage, dotEffects))
         else (dotDamage, dotEffects));
          rem = (if se_remainingTicks e > 1
                 then remaining @ [e\<lparr> se_remainingTicks := se_remainingTicks e - 1 \<rparr>]
                 else remaining)
      in tickLoop es (dmg, fx, rem))"

definition tickStatusEffects :: "combatant_state \<Rightarrow> tick_result" where
  "tickStatusEffects st =
     (let (dotDamage, dotEffects, remaining) = tickLoop (cs_statusEffects st) (0, [], [])
      in \<lparr> tr_dotDamage = dotDamage, tr_dotEffects = dotEffects,
           tr_updatedState = st\<lparr> cs_statusEffects := remaining \<rparr> \<rparr>)"

definition mod_or_0 :: "int option \<Rightarrow> int" where
  "mod_or_0 v = (case v of None \<Rightarrow> 0 | Some n \<Rightarrow> n)"

fun modifyStats :: "int \<times> int \<Rightarrow> status_effect \<Rightarrow> int \<times> int" where
  "modifyStats (attack, defense) e =
     (case se_statModifiers e of
        None \<Rightarrow> (attack, defense)
      | Some m \<Rightarrow> (attack + mod_or_0 (sm_attack m), defense + mod_or_0 (sm_defense m)))"

definition computeEffectiveStats :: "int \<Rightarrow> int \<Rightarrow> status_effect list \<Rightarrow> int \<times> int" where
  "computeEffectiveStats baseAttack baseDefense effects =
     (let (attack, defense) = foldl modifyStats (baseAttack, baseDefense) effects
      in (max 1 attack, max 0 defense))"

definition no_result :: ability_result where
  "no_result = \<lparr> ar_damage = 0, ar_heal = 0, ar_shield = 0, ar_appliedEffects = [] \<rparr>"

definition resolveAbility :: "ability \<Rightarrow> int \<Rightarrow> int \<Rightarrow> resistances \<Rightarrow> int \<Rightarrow> ability_result" where
  "resolveAbility ab casterAttack targetDefense targetResistances casterMaxHp =
     (case a_kind ab of
        Direct m ty \<Rightarrow>
          no_result\<lparr> ar_damage :=
            applyResistance (mitigateDamage casterAttack targetDefense m) (targetResistances ty) \<rparr>
      | Dot d n ty \<Rightarrow>
          no_result\<lparr> ar_appliedEffects :=
            [\<lparr> se_id = a_id ab, se_type = EDot, se_remainingTicks = n, se_damagePerTick = Some d,
               se_damageType = Some ty, se_statModifiers = None \<rparr>] \<rparr>
      | BuffDebuff n m targetSelf \<Rightarrow>
          no_result\<lparr> ar_appliedEffects :=
            [\<lparr> se_id = a_id ab, se_type = (if targetSelf then EBuff else EDebuff),
               se_remainingTicks = n, se_damagePerTick = None, se_damageType = None,
               se_statModifiers = Some m \<rparr>] \<rparr>
      | Defensive healAmount healPercent shieldAmount \<Rightarrow>
          no_result\<lparr>
            ar_heal := mod_or_0 healAmount
              + (case healPercent of None \<Rightarrow> 0 | Some q \<Rightarrow> \<lfloor>jmul (of_int casterMaxHp) q\<rfloor>),
            ar_shield := mod_or_0 shieldAmount \<rparr>)"

section \<open>Rosters\<close>

text \<open>The icons are emoji in UTF-8.\<close>

definition abilities_martial :: "ability list" where
  "abilities_martial =
     [
       \<lparr> a_id = ''strike'', a_name = ''Strike'', a_resourceCost = 0,
         a_icon = [CHR 0xE2, CHR 0x9A, CHR 0x94, CHR 0xEF, CHR 0xB8, CHR 0x8F],
         a_kind = Direct (rnd (11 / 10)) Physical \<rparr>,
       \<lparr> a_id = ''power_strike'', a_name = ''Power Strike'', a_resourceCost = 30,
         a_icon = [CHR 0xF0, CHR 0x9F, CHR 0x92, CHR 0xAA],
         a_kind = Direct 2 Physical \<rparr>,
       \<lparr> a_id = ''battle_cry'', a_name = ''Battle Cry'', a_resourceCost = 20,
         a_icon = [CHR 0xF0, CHR 0x9F, CHR 0x93, CHR 0xA3],
         a_kind = BuffDebuff 3 \<lparr> sm_attack = Some 10, sm_defense = None \<rparr> True \<rparr>,
       \<lparr> a_id = ''execute'', a_name = ''Execute'', a_resourceCost = 60,
         a_icon = [CHR 0xF0, CHR 0x9F, CHR 0x92, CHR 0x80],
         a_kind = Direct (rnd (35 / 10)) Physical \<rparr> ]"

definition abilities_agile :: "ability list" where
  "abilities_agile =
     [
       \<lparr> a_id = ''quick_slash'', a_name = ''Quick Slash'', a_resourceCost = 0,
         a_icon = [CHR 0xF0, CHR 0x9F, CHR 0x97, CHR 0xA1, CHR 0xEF, CHR 0xB8, CHR 0x8F],
         a_kind = Direct (rnd (85 / 100)) Physical \<rparr>,
       \<lparr> a_id = ''twin_fangs'', a_name = ''Twin Fangs'', a_resourceCost = 20,
         a_icon = [CHR 0xE2, CHR 0x9A, CHR 0xA1],
         a_kind = Direct (rnd (15 / 10)) Physical \<rparr>,
       \<lparr> a_id = ''hemorrhage'', a_name = ''Hemorrhage'', a_resourceCost = 25,
         a_icon = [CHR 0xF0, CHR 0x9F, CHR 0xA9, CHR 0xB8],
         a_kind = Dot 8 3 Physical \<rparr>,
       \<lparr> a_id = ''evasive_leap'', a_name = ''Evasive Leap'', a_resourceCost = 30,
         a_icon = [CHR 0xF0, CHR 0x9F, CHR 0x8C, CHR 0x80],
         a_kind = Defensive (Some 12) None None \<rparr> ]"

definition abilities_mage :: "ability list" where
  "abilities_mage =
     [
       \<lparr> a_id = ''arcane_bolt'', a_name = ''Arcane Bolt'', a_resourceCost = 15,
         a_icon = [CHR 0xE2, CHR 0x9C, CHR 0xA8],
         a_kind = Direct 1 Arcane \<rparr>,
       \<lparr> a_id = ''fireball'', a_name = ''Fireball'', a_resourceCost = 30,
         a_icon = [CHR 0xF0, CHR 0x9F, CHR 0x94, CHR 0xA5],
         a_kind = Direct (rnd (18 / 10)) Fire \<rparr>,
       \<lparr> a_id = ''frost_bolt'', a_name = ''Frost Bolt'', a_resourceCost = 20,
         a_icon = [CHR 0xE2, CHR 0x9D, CHR 0x84, CHR 0xEF, CHR 0xB8, CHR 0x8F],
         a_kind = Direct (rnd (13 / 10)) Frost \<rparr>,
       \<lparr> a_id = ''immolate'', a_name = ''Immolate'', a_resourceCost = 40,
         a_icon = [CHR 0xF0, CHR 0x9F, CHR 0x8C, CHR 0x8B],
         a_kind = Dot 12 4 Fire \<rparr>,
       \<lparr> a_id = ''arcane_surge'', a_name = ''Arcane Surge'', a_resourceCost = 50,
         a_icon = [CHR 0xF0, CHR 0x9F, CHR 0x8C, CHR 0x9F],
         a_kind = Direct 3 Arcane \<rparr> ]"

fun ARCHETYPE_ABILITIES :: "archetype \<Rightarrow> ability list" where
  "ARCHETYPE_ABILITIES Martial = abilities_martial"
| "ARCHETYPE_ABILITIES Agile = abilities_agile"
| "ARCHETYPE_ABILITIES Mage = abilities_mage"

section \<open>Lemmas: status effects\<close>

definition dotOf :: "status_effect \<Rightarrow> int" where
  "dotOf e = (if se_type e = EDot then mod_or_0 (se_damagePerTick e) else 0)"

definition ageEffect :: "status_effect \<Rightarrow> status_effect option" where
  "ageEffect e =
     (if se_remainingTicks e > 1 then Some (e\<lparr> se_remainingTicks := se_remainingTicks e - 1 \<rparr>) else None)"

definition dotReport :: "status_effect \<Rightarrow> dot_effect option" where
  "dotReport e =
     (if se_type e = EDot
      then map_option (\<lambda>d. \<lparr> de_damage = d, de_damageType = se_damageType e, de_sourceId = se_id e \<rparr>)
             (se_damagePerTick e)
      else None)"

text \<open>The loop is a sum, a report and a filter over the effects.\<close>

lemma tickLoop_eq:
  "tickLoop es (d, fx, rm) =
     (d + sum_list (map dotOf es), fx @ List.map_filter dotReport es, rm @ List.map_filter ageEffect es)"
proof (induction es arbitrary: d fx rm)
  case (Cons e es)
  then show ?case
    by (auto simp: Let_def dotOf_def dotReport_def ageEffect_def mod_or_0_def List.map_filter_simps
        split: option.splits)
qed (simp add: List.map_filter_simps)

lemma tickStatusEffects_eq:
  "tickStatusEffects st =
     \<lparr> tr_dotDamage = sum_list (map dotOf (cs_statusEffects st)),
       tr_dotEffects = List.map_filter dotReport (cs_statusEffects st),
       tr_updatedState = st\<lparr> cs_statusEffects := List.map_filter ageEffect (cs_statusEffects st) \<rparr> \<rparr>"
  by (simp add: tickStatusEffects_def tickLoop_eq)

lemma dotReports_sum:
  "sum_list (map de_damage (List.map_filter dotReport es)) = sum_list (map dotOf es)"
  by (induction es) (auto simp: List.map_filter_simps dotReport_def dotOf_def mod_or_0_def split: option.splits)

text \<open>Repeated ticks: the damage of \<open>n\<close> turns and the state after them.\<close>

fun tickTurns :: "nat \<Rightarrow> combatant_state \<Rightarrow> int \<times> combatant_state" where
  "tickTurns 0 st = (0, st)"
| "tickTurns (Suc n) st =
     (let r = tickStatusEffects st; (d, st') = tickTurns n (tr_updatedState r)
      in (tr_dotDamage r + d, st'))"

definition effect_ok :: "status_effect \<Rightarrow> bool" where
  "effect_ok e \<longleftrightarrow> 1 \<le> se_remainingTicks e"

lemma ageEffect_ok: "list_all effect_ok (List.map_filter ageEffect es)"
  by (induction es) (auto simp: List.map_filter_simps ageEffect_def effect_ok_def split: option.splits)

lemma age_dot_sum:
  assumes "list_all effect_ok es" and "0 \<le> n"
  shows "sum_list (map dotOf es) + sum_list (map (\<lambda>e. dotOf e * min n (se_remainingTicks e)) (List.map_filter ageEffect es))
       = sum_list (map (\<lambda>e. dotOf e * min (n + 1) (se_remainingTicks e)) es)"
  using assms(1)
proof (induction es)
  case (Cons e es)
  have "dotOf (e\<lparr> se_remainingTicks := k \<rparr>) = dotOf e" for k by (simp add: dotOf_def)
  moreover have "min (n + 1) (se_remainingTicks e) = 1 + min n (se_remainingTicks e - 1)" by simp
  ultimately show ?case
    using Cons assms(2) by (auto simp: List.map_filter_simps ageEffect_def effect_ok_def algebra_simps)
qed (simp add: List.map_filter_simps)

lemma tickTurns_total:
  "list_all effect_ok (cs_statusEffects st) \<Longrightarrow>
   fst (tickTurns n st) = sum_list (map (\<lambda>e. dotOf e * min (int n) (se_remainingTicks e)) (cs_statusEffects st))"
proof (induction n arbitrary: st)
  case 0
  have "list_all effect_ok es \<Longrightarrow> sum_list (map (\<lambda>e. dotOf e * min 0 (se_remainingTicks e)) es) = 0" for es
    by (induction es) (auto simp: effect_ok_def)
  with 0 show ?case by simp
next
  case (Suc n)
  then show ?case
    using age_dot_sum[of "cs_statusEffects st" "int n"]
    by (simp add: tickStatusEffects_eq Let_def split_beta ageEffect_ok add.commute)
qed

lemma map_filter_age_bound:
  "list_all (\<lambda>e. se_remainingTicks e \<le> k + 1) es \<Longrightarrow> list_all (\<lambda>e. se_remainingTicks e \<le> k) (List.map_filter ageEffect es)"
  by (induction es) (auto simp: List.map_filter_simps ageEffect_def split: option.splits)

lemma tickTurns_expire:
  "list_all effect_ok (cs_statusEffects st) \<Longrightarrow> list_all (\<lambda>e. se_remainingTicks e \<le> int n) (cs_statusEffects st) \<Longrightarrow>
   cs_statusEffects (snd (tickTurns n st)) = []"
proof (induction n arbitrary: st)
  case 0
  then show ?case by (cases "cs_statusEffects st") (auto simp: effect_ok_def)
next
  case (Suc n)
  then show ?case
    using map_filter_age_bound[of "int n" "cs_statusEffects st"]
    by (simp add: tickStatusEffects_eq Let_def split_beta ageEffect_ok add.commute)
qed

section \<open>Lemmas: effective statistics\<close>

definition attackMod :: "status_effect \<Rightarrow> int" where
  "attackMod e = (case se_statModifiers e of None \<Rightarrow> 0 | Some m \<Rightarrow> mod_or_0 (sm_attack m))"

definition defenseMod :: "status_effect \<Rightarrow> int" where
  "defenseMod e = (case se_statModifiers e of None \<Rightarrow> 0 | Some m \<Rightarrow> mod_or_0 (sm_defense m))"

lemma modifyStats_fold:
  "foldl modifyStats (a, d) es = (a + sum_list (map attackMod es), d + sum_list (map defenseMod es))"
  by (induction es arbitrary: a d) (auto simp: attackMod_def defenseMod_def split: option.splits)

lemma computeEffectiveStats_eq:
  "computeEffectiveStats a d es =
     (max 1 (a + sum_list (map attackMod es)), max 0 (d + sum_list (map defenseMod es)))"
  by (simp add: computeEffectiveStats_def modifyStats_fold)

section \<open>Lemmas: resources and resolution\<close>

definition state_ok :: "archetype \<Rightarrow> combatant_state \<Rightarrow> bool" where
  "state_ok a st \<longleftrightarrow> 0 \<le> cs_resource st \<and> cs_resource st \<le> rc_max (RESOURCE_CONFIGS a) \<and>
     list_all effect_ok (cs_statusEffects st)"

lemma initCombatState_ok: "state_ok a (initCombatState a)"
  by (cases a) (simp_all add: state_ok_def initCombatState_def)

lemma regenResource_ok: "state_ok a st \<Longrightarrow> state_ok a (regenResource st a)"
  by (cases a) (auto simp: state_ok_def regenResource_def Let_def)

lemma regenResource_ge: "0 \<le> cs_resource st \<Longrightarrow> rc_regenPerTurn (RESOURCE_CONFIGS a) \<le> cs_resource (regenResource st a)"
  by (cases a) (auto simp: regenResource_def Let_def)

lemma tickStatusEffects_ok: "state_ok a st \<Longrightarrow> state_ok a (tr_updatedState (tickStatusEffects st))"
  by (auto simp: state_ok_def tickStatusEffects_eq ageEffect_ok)

text \<open>Every roster has an ability that one turn of regeneration pays for.\<close>

lemma cheapest_ability:
  "\<exists>ab \<in> set (ARCHETYPE_ABILITIES a). a_resourceCost ab \<le> rc_regenPerTurn (RESOURCE_CONFIGS a) \<and>
     a_resourceCost ab \<le> rc_startValue (RESOURCE_CONFIGS a)"
  by (cases a) (simp_all add: abilities_martial_def abilities_agile_def abilities_mage_def)

lemma costs_in_range:
  "list_all (\<lambda>ab. 0 \<le> a_resourceCost ab \<and> a_resourceCost ab \<le> rc_max (RESOURCE_CONFIGS a)) (ARCHETYPE_ABILITIES a)"
  by (cases a) (simp_all add: abilities_martial_def abilities_agile_def abilities_mage_def)

definition ability_ok :: "ability \<Rightarrow> bool" where
  "ability_ok ab \<longleftrightarrow> 0 \<le> a_resourceCost ab \<and>
     (case a_kind ab of
        Direct m ty \<Rightarrow> 0 \<le> m
      | Dot d n ty \<Rightarrow> 0 \<le> d \<and> 1 \<le> n
      | BuffDebuff n m s \<Rightarrow> 1 \<le> n
      | Defensive h q s \<Rightarrow> 0 \<le> mod_or_0 h \<and> 0 \<le> mod_or_0 s \<and> (case q of None \<Rightarrow> True | Some x \<Rightarrow> 0 \<le> x))"

lemma roster_ok: "list_all ability_ok (ARCHETYPE_ABILITIES a)"
  by (cases a) (simp_all add: abilities_martial_def abilities_agile_def abilities_mage_def
      ability_ok_def mod_or_0_def rnd_nonneg)

lemma resolveAbility_nonneg:
  assumes "ability_ok ab" and "0 \<le> mh"
  shows "0 \<le> ar_damage (resolveAbility ab atk def res mh)" "0 \<le> ar_heal (resolveAbility ab atk def res mh)"
    "0 \<le> ar_shield (resolveAbility ab atk def res mh)"
    "list_all effect_ok (ar_appliedEffects (resolveAbility ab atk def res mh))"
  using assms applyResistance_nonneg
  by (auto simp: resolveAbility_def no_result_def ability_ok_def effect_ok_def jmul_nonneg
      split: ability_kind.splits option.splits intro!: add_nonneg_nonneg)

text \<open>
  Ticking damage over time for any number of turns deals, for each effect, its damage once per
  turn as long as it lasts, and no more; once every effect has run its duration none is left.
\<close>

lemma dot_totals:
  assumes "list_all effect_ok (cs_statusEffects st)"
  shows "fst (tickTurns n st) = sum_list (map (\<lambda>e. dotOf e * min (int n) (se_remainingTicks e)) (cs_statusEffects st)) \<and>
    (list_all (\<lambda>e. se_remainingTicks e \<le> int n) (cs_statusEffects st) \<longrightarrow> cs_statusEffects (snd (tickTurns n st)) = [])"
  using tickTurns_total[OF assms] tickTurns_expire[OF assms] by simp

end
