(* ===== verification/Creatures.thy ===== *)
theory Creatures
  imports CombatMath Items
begin

text \<open>
  Creatures (\<open>models/Creature.ts\<close>): the templates with their spawn windows, the \<open>Creature\<close> class,
  level scaling of a template, and the level-dependent choice of an encounter. A draw of the
  generator is an argument; the composed choice consumes a stream.
\<close>

section \<open>Spawn windows\<close>

datatype spawn_window = WDay | WNight | WAny

record creature_template =
  t_id :: string
  t_name :: string
  t_type :: string
  t_maxHp :: int
  t_attack :: int
  t_defense :: int
  t_speed :: int
  t_rarity :: rarity
  t_description :: "string option"
  t_encounterRate :: real
  t_resistances :: "(damage_type \<times> real) list"
  t_spawnWindow :: "spawn_window option"

definition SPAWN_WINDOW_BY_TYPE :: "(string \<times> spawn_window) list" where
  "SPAWN_WINDOW_BY_TYPE =
     [(''Beast'', WDay), (''Vermin'', WDay), (''Earth'', WDay), (''Construct'', WDay),
      (''Nature'', WDay), (''Shadow'', WNight), (''Undead'', WNight), (''Spirit'', WNight),
      (''Arcane'', WNight), (''Fire'', WAny), (''Frost'', WAny), (''Water'', WAny),
      (''Air'', WAny), (''Ooze'', WAny), (''Fungus'', WAny)]"

definition spawnWindowFor :: "creature_template \<Rightarrow> spawn_window" where
  "spawnWindowFor t =
     (case t_spawnWindow t of
        Some w \<Rightarrow> w
      | None \<Rightarrow> (case map_of SPAWN_WINDOW_BY_TYPE (t_type t) of Some w \<Rightarrow> w | None \<Rightarrow> WAny))"

definition weight_inWindow :: real where "weight_inWindow = 1"
definition weight_offWindow :: real where "weight_offWindow = rnd (15 / 100)"
definition weight_any :: real where "weight_any = 1"

definition spawnWeightAt :: "creature_template \<Rightarrow> bool \<Rightarrow> real" where
  "spawnWeightAt t daylight =
     (let window = spawnWindowFor t
      in if window = WAny then weight_any
         else let inWindow = (if daylight then window = WDay else window = WNight)
              in if inWindow then weight_inWindow else weight_offWindow)"

section \<open>The class\<close>

record creature =
  c_id :: string
  c_name :: string
  c_type :: string
  c_level :: int
  c_hp :: int
  c_maxHp :: int
  c_attack :: int
  c_defense :: int
  c_speed :: int
  c_rarity :: rarity
  c_description :: string
  c_encounterRate :: real
  c_resistances :: resistances

record creature_params =
  k_id :: string
  k_name :: string
  k_type :: string
  k_level :: "int option"
  k_hp :: "int option"
  k_maxHp :: int
  k_attack :: int
  k_defense :: int
  k_speed :: int
  k_rarity :: "rarity option"
  k_description :: "string option"
  k_encounterRate :: "real option"
  k_resistances :: "(damage_type \<times> real) list"

text \<open>\<open>{ ...DEFAULT_RESISTANCES, ...resistances }\<close>.\<close>

definition spreadResistances :: "(damage_type \<times> real) list \<Rightarrow> resistances" where
  "spreadResistances rs =
     (\<lambda>d. case map_of rs d of Some v \<Rightarrow> v | None \<Rightarrow> DEFAULT_RESISTANCES d)"

definition new_Creature :: "creature_params \<Rightarrow> creature" where
  "new_Creature k =
     \<lparr> c_id = k_id k, c_name = k_name k, c_type = k_type k,
       c_level = (case k_level k of None \<Rightarrow> 1 | Some l \<Rightarrow> l),
       c_hp = (case k_hp k of None \<Rightarrow> k_maxHp k | Some h \<Rightarrow> h),
       c_maxHp = k_maxHp k, c_attack = k_attack k, c_defense = k_defense k, c_speed = k_speed k,
       c_rarity = (case k_rarity k of None \<Rightarrow> Common | Some r \<Rightarrow> r),
       c_description =
         (case k_description k of
            Some d \<Rightarrow> if d = [] then ''A '' @ k_type k @ '' creature'' else d
          | None \<Rightarrow> ''A '' @ k_type k @ '' creature''),
       c_encounterRate = (case k_encounterRate k of None \<Rightarrow> rnd (5 / 10) | Some e \<Rightarrow> e),
       c_resistances = spreadResistances (k_resistances k) \<rparr>"

fun rarityMultiplier :: "rarity \<Rightarrow> real" where
  "rarityMultiplier Common = 1"
| "rarityMultiplier Uncommon = rnd (15 / 10)"
| "rarityMultiplier Rare = 2"
| "rarityMultiplier Epic = 3"
| "rarityMultiplier Legendary = 5"

definition getRarityMultiplier :: "creature \<Rightarrow> real" where
  "getRarityMultiplier c = rarityMultiplier (c_rarity c)"

definition getExperienceReward :: "creature \<Rightarrow> int" where
  "getExperienceReward c =
     (let baseExp = 10 * c_level c in \<lfloor>jmul (of_int baseExp) (getRarityMultiplier c)\<rfloor>)"

definition c_isDefeated :: "creature \<Rightarrow> bool" where
  "c_isDefeated c \<longleftrightarrow> c_hp c \<le> 0"

definition c_takeDamage :: "creature \<Rightarrow> int \<Rightarrow> creature" where
  "c_takeDamage c amount = c\<lparr> c_hp := max 0 (c_hp c - amount) \<rparr>"

definition c_calculateDamage :: "creature \<Rightarrow> int \<Rightarrow> int" where
  "c_calculateDamage c playerDefense = mitigateDamage (c_attack c) playerDefense 1"

section \<open>The templates\<close>

text \<open>The dash of two descriptions, in UTF-8.\<close>

definition em_dash :: string where
  "em_dash = [CHR 0xE2, CHR 0x80, CHR 0x94]"

definition templates_core :: "creature_template list" where
  "templates_core =
   [
     \<lparr> t_id = ''forest_sprite'', t_name = ''Forest Sprite'', t_type = ''Nature'',
       t_maxHp = 50, t_attack = 15, t_defense = 5, t_speed = 20, t_rarity = Common,
       t_description = Some ''A small nature spirit found in wooded areas'',
       t_encounterRate = rnd (6 / 10), t_resistances = [],
       t_spawnWindow = None \<rparr>,
     \<lparr> t_id = ''urban_phantom'', t_name = ''Urban Phantom'', t_type = ''Shadow'',
       t_maxHp = 60, t_attack = 18, t_defense = 8, t_speed = 25, t_rarity = Common,
       t_description = Some ''A mysterious entity that appears in city areas'',
       t_encounterRate = rnd (5 / 10), t_resistances = [],
       t_spawnWindow = None \<rparr>,
     \<lparr> t_id = ''coastal_spirit'', t_name = ''Coastal Spirit'', t_type = ''Water'',
       t_maxHp = 70, t_attack = 20, t_defense = 10, t_speed = 15, t_rarity = Uncommon,
       t_description = Some ''A spirit drawn to bodies of water'',
       t_encounterRate = rnd (3 / 10), t_resistances = [],
       t_spawnWindow = None \<rparr>,
     \<lparr> t_id = ''mountain_guardian'', t_name = ''Mountain Guardian'', t_type = ''Earth'',
       t_maxHp = 80, t_attack = 20, t_defense = 12, t_speed = 10, t_rarity = Rare,
       t_description = Some ''A powerful guardian of elevated terrain'',
       t_encounterRate = rnd (15 / 100), t_resistances = [],
       t_spawnWindow = None \<rparr>,
     \<lparr> t_id = ''wind_dancer'', t_name = ''Wind Dancer'', t_type = ''Air'',
       t_maxHp = 55, t_attack = 22, t_defense = 6, t_speed = 35, t_rarity = Uncommon,
       t_description = Some ''An agile creature that moves with the wind'',
       t_encounterRate = rnd (35 / 100), t_resistances = [],
       t_spawnWindow = None \<rparr> ]"

definition templates_elite :: "creature_template list" where
  "templates_elite =
   [
     \<lparr> t_id = ''grove_warden'', t_name = ''Grove Warden'', t_type = ''Nature'',
       t_maxHp = 95, t_attack = 22, t_defense = 15, t_speed = 12, t_rarity = Rare,
       t_description = Some ''An ancient guardian woven from the forest's oldest roots.'',
       t_encounterRate = rnd (15 / 100), t_resistances = [(Physical, rnd (2 / 10)), (Fire, - rnd (25 / 100))],
       t_spawnWindow = None \<rparr>,
     \<lparr> t_id = ''void_stalker'', t_name = ''Void Stalker'', t_type = ''Shadow'',
       t_maxHp = 72, t_attack = 28, t_defense = 8, t_speed = 30, t_rarity = Rare,
       t_description = Some (''A predator from between the streetlights '' @ em_dash @ '' all fang and shadow.''),
       t_encounterRate = rnd (12 / 100), t_resistances = [(Frost, rnd (25 / 100))],
       t_spawnWindow = None \<rparr>,
     \<lparr> t_id = ''tidal_behemoth'', t_name = ''Tidal Behemoth'', t_type = ''Water'',
       t_maxHp = 115, t_attack = 21, t_defense = 13, t_speed = 8, t_rarity = Rare,
       t_description = Some ''A leviathan that drags the tide behind it.'',
       t_encounterRate = rnd (12 / 100), t_resistances = [(Fire, rnd (3 / 10)), (Frost, - rnd (25 / 100))],
       t_spawnWindow = None \<rparr>,
     \<lparr> t_id = ''ashen_colossus'', t_name = ''Ashen Colossus'', t_type = ''Earth'',
       t_maxHp = 150, t_attack = 30, t_defense = 20, t_speed = 8, t_rarity = Epic,
       t_description = Some ''A mountain given wrath; its every step splits the earth.'',
       t_encounterRate = rnd (6 / 100), t_resistances = [(Fire, rnd (4 / 10)), (Physical, rnd (15 / 100)), (Frost, - rnd (2 / 10))],
       t_spawnWindow = Some WAny \<rparr>,
     \<lparr> t_id = ''tempest_djinn'', t_name = ''Tempest Djinn'', t_type = ''Air'',
       t_maxHp = 120, t_attack = 36, t_defense = 14, t_speed = 32, t_rarity = Epic,
       t_description = Some ''A storm bound into furious form.'',
       t_encounterRate = rnd (6 / 100), t_resistances = [(Frost, rnd (3 / 10)), (Physical, - rnd (15 / 100))],
       t_spawnWindow = None \<rparr> ]"

definition templates_common :: "creature_template list" where
  "templates_common =
   [
     \<lparr> t_id = ''alley_cur'', t_name = ''Alley Cur'', t_type = ''Beast'',
       t_maxHp = 52, t_attack = 16, t_defense = 6, t_speed = 24, t_rarity = Common,
       t_description = Some ''A half-wild dog that rules a stretch of backstreet.'',
       t_encounterRate = rnd (55 / 100), t_resistances = [],
       t_spawnWindow = None \<rparr>,
     \<lparr> t_id = ''gutter_swarm'', t_name = ''Gutter Swarm'', t_type = ''Vermin'',
       t_maxHp = 44, t_attack = 17, t_defense = 4, t_speed = 28, t_rarity = Common,
       t_description = Some ''A boiling knot of rats and roaches that moves as one body.'',
       t_encounterRate = rnd (6 / 10), t_resistances = [],
       t_spawnWindow = None \<rparr>,
     \<lparr> t_id = ''mossback_toad'', t_name = ''Mossback Toad'', t_type = ''Nature'',
       t_maxHp = 66, t_attack = 14, t_defense = 9, t_speed = 11, t_rarity = Common,
       t_description = Some ''A bloated thing crusted in creekbed moss, in no hurry at all.'',
       t_encounterRate = rnd (5 / 10), t_resistances = [],
       t_spawnWindow = None \<rparr>,
     \<lparr> t_id = ''grit_golemling'', t_name = ''Grit Golemling'', t_type = ''Earth'',
       t_maxHp = 58, t_attack = 16, t_defense = 8, t_speed = 15, t_rarity = Common,
       t_description = Some ''A knee-high clot of gravel and grime, scraped up off the path.'',
       t_encounterRate = rnd (5 / 10), t_resistances = [],
       t_spawnWindow = None \<rparr>,
     \<lparr> t_id = ''pale_stray'', t_name = ''Pale Stray'', t_type = ''Shadow'',
       t_maxHp = 48, t_attack = 19, t_defense = 4, t_speed = 22, t_rarity = Common,
       t_description = Some ''A gaunt figure that shuffles the night streets, always reaching.'',
       t_encounterRate = rnd (5 / 10), t_resistances = [],
       t_spawnWindow = None \<rparr>,
     \<lparr> t_id = ''sump_ooze'', t_name = ''Sump Ooze'', t_type = ''Ooze'',
       t_maxHp = 64, t_attack = 14, t_defense = 8, t_speed = 9, t_rarity = Common,
       t_description = Some ''A crawling slick of gutter-runoff that swallows what it touches.'',
       t_encounterRate = rnd (5 / 10), t_resistances = [],
       t_spawnWindow = None \<rparr>,
     \<lparr> t_id = ''ash_wretch'', t_name = ''Ash Wretch'', t_type = ''Undead'',
       t_maxHp = 52, t_attack = 18, t_defense = 6, t_speed = 19, t_rarity = Common,
       t_description = Some ''A soot-caked thing that claws its way out of a cold hearth.'',
       t_encounterRate = rnd (5 / 10), t_resistances = [],
       t_spawnWindow = None \<rparr>,
     \<lparr> t_id = ''copper_sentinel'', t_name = ''Copper Sentinel'', t_type = ''Construct'',
       t_maxHp = 62, t_attack = 16, t_defense = 9, t_speed = 14, t_rarity = Common,
       t_description = Some ''A knee-high watch-construct, long forgotten and still on patrol.'',
       t_encounterRate = rnd (45 / 100), t_resistances = [],
       t_spawnWindow = None \<rparr> ]"

definition templates_uncommon :: "creature_template list" where
  "templates_uncommon =
   [
     \<lparr> t_id = ''cinder_hound'', t_name = ''Cinder Hound'', t_type = ''Fire'',
       t_maxHp = 60, t_attack = 23, t_defense = 7, t_speed = 30, t_rarity = Uncommon,
       t_description = Some ''A lean hound that smoulders as it runs; flame slides off its coat.'',
       t_encounterRate = rnd (32 / 100), t_resistances = [(Fire, rnd (2 / 10))],
       t_spawnWindow = None \<rparr>,
     \<lparr> t_id = ''bog_lurker'', t_name = ''Bog Lurker'', t_type = ''Water'',
       t_maxHp = 78, t_attack = 19, t_defense = 10, t_speed = 11, t_rarity = Uncommon,
       t_description = Some ''It surfaces from cold, still water and never feels the chill.'',
       t_encounterRate = rnd (3 / 10), t_resistances = [(Frost, rnd (2 / 10))],
       t_spawnWindow = None \<rparr>,
     \<lparr> t_id = ''gale_wisp'', t_name = ''Gale Wisp'', t_type = ''Air'',
       t_maxHp = 52, t_attack = 23, t_defense = 6, t_speed = 37, t_rarity = Uncommon,
       t_description = Some (''A darting scrap of loose wind '' @ em_dash @ '' a hard frost stops it cold.''),
       t_encounterRate = rnd (33 / 100), t_resistances = [(Frost, - rnd (2 / 10))],
       t_spawnWindow = None \<rparr>,
     \<lparr> t_id = ''scrap_golem'', t_name = ''Scrap Golem'', t_type = ''Earth'',
       t_maxHp = 74, t_attack = 20, t_defense = 12, t_speed = 10, t_rarity = Uncommon,
       t_description = Some ''A shambling heap of rebar and rust; blades ring off and do little.'',
       t_encounterRate = rnd (28 / 100), t_resistances = [(Physical, rnd (2 / 10))],
       t_spawnWindow = None \<rparr>,
     \<lparr> t_id = ''frost_molting'', t_name = ''Frost Molting'', t_type = ''Frost'',
       t_maxHp = 66, t_attack = 21, t_defense = 8, t_speed = 18, t_rarity = Uncommon,
       t_description = Some ''A brittle shell of hoarfrost; one flame shatters it.'',
       t_encounterRate = rnd (3 / 10), t_resistances = [(Fire, - rnd (2 / 10))],
       t_spawnWindow = None \<rparr>,
     \<lparr> t_id = ''fungal_creeper'', t_name = ''Fungal Creeper'', t_type = ''Fungus'',
       t_maxHp = 74, t_attack = 19, t_defense = 7, t_speed = 12, t_rarity = Uncommon,
       t_description = Some ''A lattice of pale mushroom-flesh that steel shears right through.'',
       t_encounterRate = rnd (3 / 10), t_resistances = [(Physical, - rnd (2 / 10))],
       t_spawnWindow = None \<rparr>,
     \<lparr> t_id = ''null_moth'', t_name = ''Null Moth'', t_type = ''Arcane'',
       t_maxHp = 58, t_attack = 22, t_defense = 7, t_speed = 28, t_rarity = Uncommon,
       t_description = Some ''A moth of dead static that drinks stray magic from the air.'',
       t_encounterRate = rnd (3 / 10), t_resistances = [(Arcane, rnd (2 / 10))],
       t_spawnWindow = None \<rparr>,
     \<lparr> t_id = ''bound_revenant'', t_name = ''Bound Revenant'', t_type = ''Spirit'',
       t_maxHp = 70, t_attack = 20, t_defense = 10, t_speed = 13, t_rarity = Uncommon,
       t_description = Some ''A soul lashed to old bones; raw arcane snaps the binding.'',
       t_encounterRate = rnd (28 / 100), t_resistances = [(Arcane, - rnd (2 / 10))],
       t_spawnWindow = None \<rparr> ]"

definition CREATURE_TEMPLATES :: "creature_template list" where
  "CREATURE_TEMPLATES = templates_core @ templates_elite @ templates_common @ templates_uncommon"

section \<open>Encounters\<close>

definition levelVariation :: "real \<Rightarrow> int" where
  "levelVariation draw = rand_index draw 5 - 2"

definition scaleStat :: "int \<Rightarrow> int \<Rightarrow> int" where
  "scaleStat base level = \<lfloor>jmul (of_int base) (jadd 1 (jmul (of_int (level - 1)) (rnd (1 / 10))))\<rfloor>"

definition createCreatureFromTemplate :: "creature_template \<Rightarrow> int \<Rightarrow> real \<Rightarrow> creature" where
  "createCreatureFromTemplate t playerLevel draw =
     (let level = max 1 (playerLevel + levelVariation draw)
      in new_Creature
           \<lparr> k_id = t_id t, k_name = t_name t, k_type = t_type t, k_level = Some level, k_hp = None,
             k_maxHp = scaleStat (t_maxHp t) level, k_attack = scaleStat (t_attack t) level,
             k_defense = scaleStat (t_defense t) level, k_speed = scaleStat (t_speed t) level,
             k_rarity = Some (t_rarity t), k_description = t_description t,
             k_encounterRate = Some (t_encounterRate t), k_resistances = t_resistances t \<rparr>)"

definition ENCOUNTER_RARITY_WEIGHTS :: "(int \<times> (rarity \<times> int) list) list" where
  "ENCOUNTER_RARITY_WEIGHTS =
     [(20, [(Common, 25), (Uncommon, 45), (Rare, 18), (Epic, 12)]),
      (12, [(Common, 32), (Uncommon, 48), (Rare, 16), (Epic, 4)]),
      (6, [(Common, 40), (Uncommon, 45), (Rare, 15)]),
      (3, [(Common, 55), (Uncommon, 43), (Rare, 2)]),
      (1, [(Common, 85), (Uncommon, 15), (Rare, 0)])]"

definition encounterWeights :: "int \<Rightarrow> (rarity \<times> int) list" where
  "encounterWeights playerLevel =
     (case find (\<lambda>(minLevel, w). playerLevel \<ge> minLevel) ENCOUNTER_RARITY_WEIGHTS of
        Some (_, w) \<Rightarrow> w
      | None \<Rightarrow> snd (last ENCOUNTER_RARITY_WEIGHTS))"

definition rollEncounterRarity :: "int \<Rightarrow> real \<Rightarrow> rarity" where
  "rollEncounterRarity playerLevel draw =
     (let entries = encounterWeights playerLevel;
          total = sum_list (map snd entries)
      in case roll_loop (jmul draw (of_int total)) (map (apsnd real_of_int) entries) of
           Some r \<Rightarrow> r
         | None \<Rightarrow> Common)"

text \<open>\<open>daylight = None\<close> is the source's \<open>undefined\<close>: the caller has no sun information.\<close>

definition rarityPool :: "rarity \<Rightarrow> creature_template list" where
  "rarityPool r =
     (let ofRarity = filter (\<lambda>t. t_rarity t = r) CREATURE_TEMPLATES
      in if ofRarity \<noteq> [] then ofRarity else CREATURE_TEMPLATES)"

definition pickEncounterTemplateOfRarity :: "rarity \<Rightarrow> bool option \<Rightarrow> real \<Rightarrow> creature_template" where
  "pickEncounterTemplateOfRarity r daylight draw =
     (let pool = rarityPool r
      in case daylight of
           None \<Rightarrow> pool ! nat (rand_index draw (int (length pool)))
         | Some dl \<Rightarrow>
             let weights = map (\<lambda>t. spawnWeightAt t dl) pool;
                 total = foldl jadd 0 weights
             in case roll_loop (jmul draw total) (zip pool weights) of
                  Some t \<Rightarrow> t
                | None \<Rightarrow> last pool)"

definition pickEncounterTemplate :: "int \<Rightarrow> bool option \<Rightarrow> rng \<Rightarrow> creature_template \<times> rng" where
  "pickEncounterTemplate playerLevel daylight r =
     (let (d1, r1) = next_random r;
          rarity = rollEncounterRarity playerLevel d1;
          (d2, r2) = next_random r1
      in (pickEncounterTemplateOfRarity rarity daylight d2, r2))"

definition ELITE_RARITIES :: "rarity list" where
  "ELITE_RARITIES = [Rare, Epic, Legendary]"

definition isEliteCreature :: "rarity \<Rightarrow> bool" where
  "isEliteCreature r \<longleftrightarrow> r \<in> set ELITE_RARITIES"

section \<open>Lemmas: the class\<close>

interpretation creature_hits: damageable c_hp c_takeDamage c_isDefeated
  by unfold_locales (simp_all add: c_takeDamage_def c_isDefeated_def)

lemma rarityMultiplier_Uncommon: "rarityMultiplier Uncommon = 3 / 2"
  by code_simp

lemma getExperienceReward_exact:
  assumes "0 \<le> c_level c" and "c_level c \<le> 2 ^ 40"
  shows "getExperienceReward c =
    c_level c * (case c_rarity c of Common \<Rightarrow> 10 | Uncommon \<Rightarrow> 15 | Rare \<Rightarrow> 20 | Epic \<Rightarrow> 30 | Legendary \<Rightarrow> 50)"
proof -
  have whole: "\<lfloor>rnd (of_int (10 * c_level c * k))\<rfloor> = 10 * c_level c * k" if "k \<in> {1, 2, 3, 5}" for k
  proof -
    have "\<bar>10 * c_level c * k\<bar> \<le> 2 ^ 53" using that assms by auto
    then show ?thesis by (simp only: rnd_of_int floor_of_int)
  qed
  have half: "\<lfloor>rnd (of_int (30 * c_level c) / 2)\<rfloor> = 15 * c_level c"
    using assms by (subst floor_rnd_half) simp_all
  show ?thesis
    using whole[of 1] whole[of 2] whole[of 3] whole[of 5] half
    by (cases "c_rarity c")
      (simp_all only: getExperienceReward_def getRarityMultiplier_def Let_def jmul_def
        rarityMultiplier_Uncommon rarityMultiplier.simps(1,3-5) rarity.case, simp_all add: mult.commute)
qed

lemma rarityMultiplier_mono: "r \<le> s \<Longrightarrow> rarityMultiplier r \<le> rarityMultiplier s"
  using rarityMultiplier_Uncommon
  by (cases r; cases s) (simp_all add: less_eq_rarity_def del: rarityMultiplier.simps(2))

section \<open>Lemmas: level scaling\<close>

lemma levelVariation_range: "valid_draw d \<Longrightarrow> - 2 \<le> levelVariation d \<and> levelVariation d \<le> 2"
  using rand_index_range[of d 5] by (simp add: levelVariation_def)

lemma scaleStat_mono:
  assumes "0 \<le> base" and "1 \<le> l" and "l \<le> k"
  shows "scaleStat base l \<le> scaleStat base k"
proof -
  have "jadd 1 (jmul (of_int (l - 1)) (rnd (1 / 10))) \<le> jadd 1 (jmul (of_int (k - 1)) (rnd (1 / 10)))"
    using assms by (intro jadd_mono jmul_mono) (simp_all add: rnd_nonneg)
  moreover have "0 \<le> jadd 1 (jmul (of_int (l - 1)) (rnd (1 / 10)))"
    using assms by (intro js_nonneg) (simp_all add: rnd_nonneg)
  ultimately show ?thesis
    unfolding scaleStat_def using assms by (intro floor_mono jmul_mono) simp_all
qed

lemma scaleStat_1: "0 \<le> base \<Longrightarrow> base \<le> 2 ^ 53 \<Longrightarrow> scaleStat base 1 = base"
  by (simp add: scaleStat_def js_num rnd_of_int)

lemma scaleStat_ge: "0 \<le> base \<Longrightarrow> base \<le> 2 ^ 53 \<Longrightarrow> 1 \<le> l \<Longrightarrow> base \<le> scaleStat base l"
  using scaleStat_mono[of base 1 l] scaleStat_1[of base] by simp

definition template_ok :: "creature_template \<Rightarrow> bool" where
  "template_ok t \<longleftrightarrow> 1 \<le> t_maxHp t \<and> 1 \<le> t_attack t \<and> 0 \<le> t_defense t \<and> 1 \<le> t_speed t \<and>
     t_maxHp t \<le> 1000 \<and> t_attack t \<le> 1000 \<and> t_defense t \<le> 1000 \<and> t_speed t \<le> 1000 \<and>
     list_all (\<lambda>(d, v). - 1 \<le> v \<and> v \<le> 1) (t_resistances t)"

definition creature_ok :: "creature \<Rightarrow> bool" where
  "creature_ok c \<longleftrightarrow> 1 \<le> c_level c \<and> 0 \<le> c_hp c \<and> c_hp c \<le> c_maxHp c \<and> 1 \<le> c_attack c \<and>
     0 \<le> c_defense c \<and> 1 \<le> c_speed c \<and> (\<forall>d. - 1 \<le> c_resistances c d \<and> c_resistances c d \<le> 1)"

lemma templates_ok: "list_all template_ok CREATURE_TEMPLATES"
  unfolding CREATURE_TEMPLATES_def list_all_append by (intro conjI; code_simp)

lemma spreadResistances_range:
  assumes "list_all (\<lambda>(d, v). - 1 \<le> v \<and> v \<le> 1) rs"
  shows "- 1 \<le> spreadResistances rs d \<and> spreadResistances rs d \<le> 1"
  using assms map_of_SomeD[of rs d]
  by (auto simp: spreadResistances_def DEFAULT_RESISTANCES_def list_all_iff split: option.splits)

lemma createCreature_fields:
  fixes t pl d
  defines "c \<equiv> createCreatureFromTemplate t pl d"
  defines "l \<equiv> max 1 (pl + levelVariation d)"
  shows "c_level c = l" "c_hp c = c_maxHp c" "c_maxHp c = scaleStat (t_maxHp t) l"
    "c_attack c = scaleStat (t_attack t) l" "c_defense c = scaleStat (t_defense t) l"
    "c_speed c = scaleStat (t_speed t) l" "c_rarity c = t_rarity t"
    "c_resistances c = spreadResistances (t_resistances t)"
  by (simp_all add: c_def l_def createCreatureFromTemplate_def new_Creature_def Let_def)

lemma createCreature_ok:
  assumes "template_ok t"
  shows "creature_ok (createCreatureFromTemplate t pl d)"
proof -
  let ?l = "max 1 (pl + levelVariation d)"
  have "t_maxHp t \<le> scaleStat (t_maxHp t) ?l" "t_attack t \<le> scaleStat (t_attack t) ?l"
    "t_defense t \<le> scaleStat (t_defense t) ?l" "t_speed t \<le> scaleStat (t_speed t) ?l"
    using assms by (auto simp: template_ok_def intro!: scaleStat_ge)
  then show ?thesis
    using assms spreadResistances_range[of "t_resistances t"]
    by (auto simp: creature_ok_def template_ok_def createCreature_fields)
qed

lemma creature_ok_takeDamage: "creature_ok c \<Longrightarrow> 0 \<le> n \<Longrightarrow> creature_ok (c_takeDamage c n)"
  by (auto simp: creature_ok_def c_takeDamage_def)

section \<open>Lemmas: choice of an encounter\<close>

lemma spawnWeight_pos: "0 < spawnWeightAt t dl"
proof -
  have "0 < weight_offWindow" by code_simp
  then show ?thesis by (simp add: spawnWeightAt_def Let_def weight_any_def weight_inWindow_def)
qed

lemma encounterWeights_bands:
  "encounterWeights l =
     (if 20 \<le> l then [(Common, 25), (Uncommon, 45), (Rare, 18), (Epic, 12)]
      else if 12 \<le> l then [(Common, 32), (Uncommon, 48), (Rare, 16), (Epic, 4)]
      else if 6 \<le> l then [(Common, 40), (Uncommon, 45), (Rare, 15)]
      else if 3 \<le> l then [(Common, 55), (Uncommon, 43), (Rare, 2)]
      else [(Common, 85), (Uncommon, 15), (Rare, 0)])"
  by (simp add: encounterWeights_def ENCOUNTER_RARITY_WEIGHTS_def)

interpretation encounter_table: weighted_table encounterWeights
proof
  fix l
  show "\<exists>pos zero. encounterWeights l = pos @ zero \<and> pos \<noteq> [] \<and> (\<forall>e \<in> set pos. 0 < snd e) \<and>
      (\<forall>e \<in> set zero. snd e = 0)"
    by (rule exI[of _ "filter (\<lambda>e. 0 < snd e) (encounterWeights l)"],
        rule exI[of _ "filter (\<lambda>e. snd e = 0) (encounterWeights l)"])
      (auto simp: encounterWeights_bands)
  show "sum_list (map snd (encounterWeights l)) \<le> 2 ^ 53" by (simp add: encounterWeights_bands)
qed

lemma rollEncounterRarity_positive:
  assumes "valid_draw d"
  shows "\<exists>w > 0. (rollEncounterRarity l d, w) \<in> set (encounterWeights l)"
  using encounter_table.roll_positive[OF assms, of l] by (auto simp: rollEncounterRarity_def)

lemma rarityPool_ne: "rarityPool r \<noteq> []"
proof -
  have "CREATURE_TEMPLATES \<noteq> []" by (simp add: CREATURE_TEMPLATES_def templates_core_def)
  then show ?thesis by (simp add: rarityPool_def Let_def)
qed

lemma pick_in_pool:
  assumes "valid_draw d"
  shows "pickEncounterTemplateOfRarity r dl d \<in> set (rarityPool r)"
proof (cases dl)
  case None
  have "nat (rand_index d (int (length (rarityPool r)))) < length (rarityPool r)"
    using rand_index_range[OF assms, of "int (length (rarityPool r))"] rarityPool_ne[of r] by simp
  then show ?thesis using None by (simp add: pickEncounterTemplateOfRarity_def Let_def)
next
  case (Some b)
  then show ?thesis
    using rarityPool_ne[of r]
    by (auto simp: pickEncounterTemplateOfRarity_def Let_def split: option.splits
        dest!: roll_loop_mem dest: set_zip_leftD)
qed

lemma rarities_available:
  "r \<noteq> Legendary \<Longrightarrow> filter (\<lambda>t. t_rarity t = r) CREATURE_TEMPLATES \<noteq> []"
  by (cases r) (simp_all add: CREATURE_TEMPLATES_def templates_core_def templates_elite_def)

lemma rarityPool_rarity: "r \<noteq> Legendary \<Longrightarrow> t \<in> set (rarityPool r) \<Longrightarrow> t_rarity t = r"
  using rarities_available[of r] by (auto simp: rarityPool_def Let_def split: if_splits)

lemma pick_rarity:
  "valid_draw d \<Longrightarrow> r \<noteq> Legendary \<Longrightarrow> t_rarity (pickEncounterTemplateOfRarity r dl d) = r"
  using pick_in_pool rarityPool_rarity by blast

lemma rarityPool_subset: "set (rarityPool r) \<subseteq> set CREATURE_TEMPLATES"
  by (auto simp: rarityPool_def Let_def)

lemma rollEncounterRarity_not_legendary: "valid_draw d \<Longrightarrow> rollEncounterRarity l d \<noteq> Legendary"
  using rollEncounterRarity_positive[of d l] by (auto simp: encounterWeights_bands split: if_splits)

lemma pickEncounterTemplate_rarity:
  assumes "valid_rng r"
  shows "t_rarity (fst (pickEncounterTemplate l dl r)) = rollEncounterRarity l (shd r)"
  using assms pick_rarity rollEncounterRarity_not_legendary
  by (simp add: pickEncounterTemplate_def next_random_def valid_rng_shd valid_rng_stl)

lemma pickEncounterTemplate_mem:
  "valid_rng r \<Longrightarrow> fst (pickEncounterTemplate l dl r) \<in> set CREATURE_TEMPLATES"
  using pick_in_pool[OF valid_rng_shd[OF valid_rng_stl], of r "rollEncounterRarity l (shd r)" dl]
    rarityPool_subset[of "rollEncounterRarity l (shd r)"]
  by (auto simp: pickEncounterTemplate_def next_random_def)

end
