(* ===== verification/CombatText.thy ===== *)
theory CombatText
  imports Rand Abilities Creatures
begin

text \<open>
  What the fight shows: the transient hit events (\<open>models/CombatHitEvent.ts\<close>), the narration of
  the combat log (\<open>models/CombatLog.ts\<close>) and the styling of floating numbers
  (\<open>utils/combatText.ts\<close>). Strings are UTF-8 bytes; case conversion is that of ASCII letters.
\<close>

section \<open>Hit events\<close>

datatype resist_tier = Resisted | Neutral | Vulnerable

datatype combatant = TPlayer | TCreature

datatype hit_kind = KHit | KDot | KHeal | KBuff | KDebuff

text \<open>\<open>ev_evade\<close> is absent for a normal hit.\<close>

record hit_event =
  ev_id :: nat
  ev_target :: combatant
  ev_amount :: int
  ev_damageType :: "damage_type option"
  ev_resist :: resist_tier
  ev_kind :: hit_kind
  ev_targetMaxHp :: int
  ev_label :: "string option"
  ev_evade :: "evade_outcome option"

definition arrow_up :: string where "arrow_up = [CHR 0xE2, CHR 0x86, CHR 0x91]"
definition arrow_down :: string where "arrow_down = [CHR 0xE2, CHR 0x86, CHR 0x93]"

definition fmtStat :: "string \<Rightarrow> int \<Rightarrow> string" where
  "fmtStat name delta =
     name @ '' '' @ (if delta \<ge> 0 then arrow_up @ '' +'' @ show_int delta
                     else arrow_down @ '' '' @ show_int delta)"

fun join :: "string \<Rightarrow> string list \<Rightarrow> string" where
  "join sep [] = []"
| "join sep [x] = x"
| "join sep (x # y # xs) = x @ sep @ join sep (y # xs)"

definition formatStatModLabel :: "stat_modifiers \<Rightarrow> string" where
  "formatStatModLabel mods =
     join ''  ''
       ((case sm_attack mods of None \<Rightarrow> [] | Some d \<Rightarrow> [fmtStat ''ATK'' d]) @
        (case sm_defense mods of None \<Rightarrow> [] | Some d \<Rightarrow> [fmtStat ''DEF'' d]))"

definition classifyResist :: "real \<Rightarrow> resist_tier" where
  "classifyResist resistance =
     (if resistance > 0 then Resisted else if resistance < 0 then Vulnerable else Neutral)"

section \<open>The log\<close>

datatype log_tag = LResisted | LWeak | LGlancing | LDodged | LCrit

datatype log_kind = LAttack | LDot | LHeal | LBuff | LDebuff | LDefeat

record log_entry =
  lg_id :: nat
  lg_kind :: log_kind
  lg_actor :: combatant
  lg_target :: "combatant option"
  lg_source :: "string option"
  lg_amount :: "int option"
  lg_damageType :: "damage_type option"
  lg_label :: "string option"
  lg_tags :: "log_tag list"

record log_names =
  n_player :: string
  n_creature :: string

definition to_upper :: "char \<Rightarrow> char" where
  "to_upper c = (let n = of_char c :: nat in if 97 \<le> n \<and> n \<le> 122 then char_of (n - 32) else c)"

definition to_lower :: "char \<Rightarrow> char" where
  "to_lower c = (let n = of_char c :: nat in if 65 \<le> n \<and> n \<le> 90 then char_of (n + 32) else c)"

fun cap :: "string \<Rightarrow> string" where
  "cap [] = []"
| "cap (c # s) = to_upper c # s"

definition subj :: "combatant \<Rightarrow> log_names \<Rightarrow> string" where
  "subj a n = (if a = TPlayer then n_player n else n_creature n)"

definition obj :: "combatant \<Rightarrow> log_names \<Rightarrow> string" where
  "obj a n = (if a = TPlayer then map to_lower (n_player n) else n_creature n)"

definition verb :: "combatant \<Rightarrow> string \<Rightarrow> string \<Rightarrow> string" where
  "verb a playerForm creatureForm = (if a = TPlayer then playerForm else creatureForm)"

text \<open>An absent tag list and an empty one read the same.\<close>

definition tagSuffix :: "log_tag list \<Rightarrow> string" where
  "tagSuffix tags =
     (if LCrit \<in> set tags then '' '' @ em_dash @ '' critical!'' else []) @
     (if LGlancing \<in> set tags then '' '' @ em_dash @ '' glancing'' else []) @
     (if LWeak \<in> set tags then '' '' @ em_dash @ '' vulnerable!'' else []) @
     (if LResisted \<in> set tags then '' (resisted)'' else [])"

fun damage_type_name :: "damage_type \<Rightarrow> string" where
  "damage_type_name Physical = ''physical''"
| "damage_type_name Fire = ''fire''"
| "damage_type_name Frost = ''frost''"
| "damage_type_name Arcane = ''arcane''"

definition typeWord :: "damage_type option \<Rightarrow> string" where
  "typeWord t = (case t of None \<Rightarrow> [] | Some d \<Rightarrow> damage_type_name d @ '' '')"

text \<open>A source that is absent or empty adds nothing.\<close>

definition withSource :: "string \<Rightarrow> string option \<Rightarrow> string \<Rightarrow> string" where
  "withSource pre src post =
     (case src of None \<Rightarrow> [] | Some s \<Rightarrow> if s = [] then [] else pre @ s @ post)"

definition formatCombatLogEntry :: "log_entry \<Rightarrow> log_names \<Rightarrow> string" where
  "formatCombatLogEntry e n =
     (let amt = (case lg_amount e of None \<Rightarrow> 0 | Some a \<Rightarrow> a);
          actor = lg_actor e;
          targetOr = (\<lambda>d. case lg_target e of None \<Rightarrow> d | Some t \<Rightarrow> t)
      in case lg_kind e of
           LAttack \<Rightarrow>
             let t = targetOr (if actor = TPlayer then TCreature else TPlayer)
             in if LDodged \<in> set (lg_tags e)
                then subj t n @ '' '' @ verb t ''dodge'' ''dodges'' @ '' '' @ subj actor n @ CHR 0x27 # ''s attack!''
                else subj actor n @ '' '' @ verb actor ''hit'' ''hits'' @ '' '' @ obj t n @ '' for '' @
                     show_int amt @ '' '' @ typeWord (lg_damageType e) @ ''damage'' @
                     withSource '' with '' (lg_source e) [] @ tagSuffix (lg_tags e)
         | LDot \<Rightarrow>
             let t = targetOr TCreature
             in subj t n @ '' '' @ verb t ''take'' ''takes'' @ '' '' @ show_int amt @ '' '' @
                typeWord (lg_damageType e) @ ''damage'' @ withSource '' from '' (lg_source e) [] @
                tagSuffix (lg_tags e)
         | LHeal \<Rightarrow>
             subj actor n @ '' '' @ verb actor ''heal'' ''heals'' @ '' '' @ show_int amt @ '' HP'' @
             withSource '' with '' (lg_source e) []
         | LBuff \<Rightarrow>
             subj actor n @ '' '' @ verb actor ''gain'' ''gains'' @ '' '' @
             (case lg_label e of None \<Rightarrow> ''a boon'' | Some l \<Rightarrow> l) @ withSource '' ('' (lg_source e) '')''
         | LDebuff \<Rightarrow>
             let t = targetOr TCreature
             in subj t n @ '' '' @ verb t ''suffer'' ''suffers'' @ '' '' @
                (case lg_label e of None \<Rightarrow> ''a hex'' | Some l \<Rightarrow> l) @ withSource '' ('' (lg_source e) '')''
         | LDefeat \<Rightarrow>
             let t = targetOr TCreature
             in if t = TPlayer then n_player n @ '' were defeated!'' else cap (n_creature n) @ '' is defeated!'')"

section \<open>Floating numbers\<close>

record text_style =
  ts_label :: string
  ts_color :: string
  ts_fontSize :: int

definition DAMAGE_TIERS :: "(real \<times> string \<times> int) list" where
  "DAMAGE_TIERS =
     [(rnd (25 / 100), ''#D32F2F'', 34), (rnd (12 / 100), ''#FF7043'', 26), (0, ''#FFB300'', 20)]"

definition damageTier :: "real \<Rightarrow> string \<times> int" where
  "damageTier fraction =
     (case find (\<lambda>(m, _). fraction \<ge> m) DAMAGE_TIERS of
        Some (_, t) \<Rightarrow> t
      | None \<Rightarrow> snd (last DAMAGE_TIERS))"

definition damageFraction :: "int \<Rightarrow> int \<Rightarrow> real" where
  "damageFraction magnitude maxHp = (if maxHp > 0 then jdiv (of_int magnitude) (of_int maxHp) else 0)"

text \<open>Amounts are integers already, so \<open>Math.round\<close> leaves them as they are.\<close>

definition combatTextStyle :: "int \<Rightarrow> int \<Rightarrow> bool \<Rightarrow> text_style" where
  "combatTextStyle amount maxHp isHeal =
     (let magnitude = max 0 amount
      in if isHeal then \<lparr> ts_label = ''+'' @ show_int magnitude, ts_color = ''#43A047'', ts_fontSize = 22 \<rparr>
         else let (color, px) = damageTier (damageFraction magnitude maxHp)
              in \<lparr> ts_label = show_int magnitude, ts_color = color, ts_fontSize = px \<rparr>)"

fun DAMAGE_TYPE_COLOR :: "damage_type \<Rightarrow> string" where
  "DAMAGE_TYPE_COLOR Physical = ''#ECEFF1''"
| "DAMAGE_TYPE_COLOR Fire = ''#FF7043''"
| "DAMAGE_TYPE_COLOR Frost = ''#4FC3F7''"
| "DAMAGE_TYPE_COLOR Arcane = ''#BA68C8''"

definition scaleFont :: "int \<Rightarrow> real \<Rightarrow> int" where
  "scaleFont px k = math_round (jmul (of_int px) k)"

definition hitFloaterStyle :: "hit_event \<Rightarrow> text_style" where
  "hitFloaterStyle ev =
     (if ev_kind ev = KHeal then combatTextStyle (ev_amount ev) (ev_targetMaxHp ev) True
      else if ev_kind ev = KBuff \<or> ev_kind ev = KDebuff then
        \<lparr> ts_label =
            (case ev_label ev of
               Some l \<Rightarrow> l
             | None \<Rightarrow> if ev_kind ev = KBuff then [CHR 0xE2, CHR 0x96, CHR 0xB2]
                       else [CHR 0xE2, CHR 0x96, CHR 0xBC]),
          ts_color = (if ev_kind ev = KBuff then ''#FFD54F'' else ''#B39DDB''), ts_fontSize = 18 \<rparr>
      else
        let fontSize = ts_fontSize (combatTextStyle (ev_amount ev) (ev_targetMaxHp ev) False);
            amount = show_int (max 0 (ev_amount ev));
            typeColor = DAMAGE_TYPE_COLOR (case ev_damageType ev of Some t \<Rightarrow> t | None \<Rightarrow> Physical)
        in if ev_evade ev = Some Dodged then
             \<lparr> ts_label = (if ev_target ev = TPlayer then ''DODGE'' else ''MISS''),
               ts_color = ''#4FC3F7'', ts_fontSize = 18 \<rparr>
           else if ev_evade ev = Some Glancing then
             \<lparr> ts_label = amount @ '' GLANCING'', ts_color = ''#B0BEC5'',
               ts_fontSize = scaleFont fontSize (rnd (85 / 100)) \<rparr>
           else if ev_resist ev = Resisted then
             \<lparr> ts_label = amount @ '' RESIST'', ts_color = ''#90A4AE'',
               ts_fontSize = scaleFont fontSize (rnd (85 / 100)) \<rparr>
           else if ev_resist ev = Vulnerable then
             \<lparr> ts_label = amount @ '' WEAK'', ts_color = typeColor,
               ts_fontSize = scaleFont fontSize (rnd (115 / 100)) \<rparr>
           else \<lparr> ts_label = amount, ts_color = typeColor, ts_fontSize = fontSize \<rparr>)"

section \<open>Lemmas\<close>

lemma classifyResist_damage:
  assumes "0 \<le> raw" and "raw \<le> 2 ^ 52"
  shows "classifyResist r = Resisted \<Longrightarrow> applyResistance raw r \<le> raw"
    and "classifyResist r = Vulnerable \<Longrightarrow> raw \<le> applyResistance raw r"
    and "classifyResist r = Neutral \<Longrightarrow> applyResistance raw r = raw"
  using applyResistance_bounds[OF assms, of r] applyResistance_neutral[of raw] assms
  by (auto simp: classifyResist_def split: if_splits)

lemma damageTier_bands:
  "damageTier f =
     (if f \<ge> rnd (25 / 100) then (''#D32F2F'', 34) else if f \<ge> rnd (12 / 100) then (''#FF7043'', 26)
      else (''#FFB300'', 20))"
  by (simp add: damageTier_def DAMAGE_TIERS_def)

lemma damageTier_mono: "f \<le> g \<Longrightarrow> snd (damageTier f) \<le> snd (damageTier g)"
  by (auto simp: damageTier_bands)

lemma damageFraction_mono: "0 \<le> m \<Longrightarrow> m \<le> n \<Longrightarrow> damageFraction m h \<le> damageFraction n h"
  by (auto simp: damageFraction_def intro!: jdiv_mono)

lemma combatTextStyle_mono:
  "m \<le> n \<Longrightarrow> ts_fontSize (combatTextStyle m h False) \<le> ts_fontSize (combatTextStyle n h False)"
  using damageTier_mono[OF damageFraction_mono[of "max 0 m" "max 0 n" h]]
  by (simp add: combatTextStyle_def Let_def split_beta max.coboundedI2 max.mono)

lemma combatTextStyle_sizes: "ts_fontSize (combatTextStyle m h b) \<in> {20, 22, 26, 34}"
  by (simp add: combatTextStyle_def Let_def split_beta damageTier_bands)

text \<open>A damage or healing line names its amount.\<close>

lemma formatCombatLogEntry_amount:
  assumes "lg_kind e \<in> {LAttack, LDot, LHeal}" and "LDodged \<notin> set (lg_tags e)" and "lg_amount e = Some a"
  shows "\<exists>pre post. formatCombatLogEntry e n = pre @ '' '' @ show_int a @ '' '' @ post"
proof -
  consider "lg_kind e = LAttack" | "lg_kind e = LDot" | "lg_kind e = LHeal" using assms(1) by auto
  then show ?thesis
  proof cases
    case 1
    then show ?thesis using assms(2,3) by (simp add: formatCombatLogEntry_def Let_def) (metis append.assoc append_Cons append_Nil)
  next
    case 2
    then show ?thesis using assms(2,3) by (simp add: formatCombatLogEntry_def Let_def) (metis append.assoc append_Cons append_Nil)
  next
    case 3
    then show ?thesis using assms(2,3) by (simp add: formatCombatLogEntry_def Let_def) (metis append.assoc append_Cons append_Nil)
  qed
qed

end
