(* ===== verification/Loot.thy ===== *)
theory Loot
  imports Rand Creatures
begin

text \<open>
  Item generation and drops (\<open>services/LootService.ts\<close>) and the passive resolution of an
  encounter (\<open>models/AutoCombat.ts\<close>), as programs over the generator. The clock reading inside
  an item's id is a parameter.
\<close>

section \<open>Tables\<close>

definition SLOTS :: "item_type list" where
  "SLOTS = [Weapon, Offhand, Head, Chest, Legs, Boots, Gloves, Accessory]"

definition RARITIES :: "rarity list" where
  "RARITIES = [Common, Uncommon, Rare, Epic, Legendary]"

definition RARITY_WEIGHTS :: "(int \<times> int list) list" where
  "RARITY_WEIGHTS =
     [(15, [10, 25, 35, 25, 5]), (10, [20, 35, 30, 14, 1]), (5, [40, 40, 18, 2, 0]),
      (1, [65, 30, 5, 0, 0])]"

fun BASE_RANGES :: "rarity \<Rightarrow> int \<times> int" where
  "BASE_RANGES Common = (2, 5)"
| "BASE_RANGES Uncommon = (6, 12)"
| "BASE_RANGES Rare = (12, 20)"
| "BASE_RANGES Epic = (20, 30)"
| "BASE_RANGES Legendary = (28, 40)"

fun AFFIX_RANGES :: "rarity \<Rightarrow> int \<times> int" where
  "AFFIX_RANGES Common = (0, 0)"
| "AFFIX_RANGES Uncommon = (2, 5)"
| "AFFIX_RANGES Rare = (4, 9)"
| "AFFIX_RANGES Epic = (6, 14)"
| "AFFIX_RANGES Legendary = (10, 20)"

fun AFFIX_COUNT_OPTIONS :: "rarity \<Rightarrow> nat list" where
  "AFFIX_COUNT_OPTIONS Common = [0]"
| "AFFIX_COUNT_OPTIONS Uncommon = [1]"
| "AFFIX_COUNT_OPTIONS Rare = [1, 2]"
| "AFFIX_COUNT_OPTIONS Epic = [2]"
| "AFFIX_COUNT_OPTIONS Legendary = [2, 3]"

fun AFFIX_POOLS :: "item_type \<Rightarrow> affix_stat list" where
  "AFFIX_POOLS Weapon = [AffixAttack, AffixDefense, AffixMaxHp]"
| "AFFIX_POOLS Offhand = [AffixDefense, AffixMaxHp, AffixAttack]"
| "AFFIX_POOLS Head = [AffixDefense, AffixMaxHp, AffixAttack]"
| "AFFIX_POOLS Chest = [AffixDefense, AffixMaxHp, AffixAttack]"
| "AFFIX_POOLS Legs = [AffixDefense, AffixMaxHp, AffixAttack]"
| "AFFIX_POOLS Boots = [AffixDefense, AffixAttack, AffixMaxHp]"
| "AFFIX_POOLS Gloves = [AffixAttack, AffixDefense, AffixMaxHp]"
| "AFFIX_POOLS Accessory = [AffixAttack, AffixDefense, AffixMaxHp]"

fun BASE_NAMES :: "item_type \<Rightarrow> string list" where
  "BASE_NAMES Weapon = [''Blade'', ''Axe'', ''Staff'', ''Dagger'', ''Hammer'']"
| "BASE_NAMES Offhand = [''Shield'', ''Buckler'', ''Focus'']"
| "BASE_NAMES Head = [''Helm'', ''Cap'', ''Hood'']"
| "BASE_NAMES Chest = [''Chestplate'', ''Robe'', ''Vest'']"
| "BASE_NAMES Legs = [''Greaves'', ''Pants'', ''Leggings'']"
| "BASE_NAMES Boots = [''Boots'', ''Sabatons'', ''Treads'']"
| "BASE_NAMES Gloves = [''Gauntlets'', ''Gloves'', ''Grips'']"
| "BASE_NAMES Accessory = [''Ring'', ''Amulet'', ''Pendant'']"

fun AFFIX_PREFIXES :: "affix_stat \<Rightarrow> string list" where
  "AFFIX_PREFIXES AffixAttack = [''Sharp'', ''Deadly'', ''Fierce'', ''Savage'', ''Keen'']"
| "AFFIX_PREFIXES AffixDefense =
     [''Sturdy'', ''Hardened'', ''Stalwart'', ''Fortified'', ''Reinforced'']"
| "AFFIX_PREFIXES AffixMaxHp = [''Vital'', ''Hardy'', ''Enduring'', ''Resilient'', ''Robust'']"

definition COMMON_PREFIXES :: "string list" where
  "COMMON_PREFIXES = [''Worn'', ''Battered'', ''Plain'']"

fun slot_name :: "item_type \<Rightarrow> string" where
  "slot_name Weapon = ''weapon''"
| "slot_name Offhand = ''offhand''"
| "slot_name Head = ''head''"
| "slot_name Chest = ''chest''"
| "slot_name Legs = ''legs''"
| "slot_name Boots = ''boots''"
| "slot_name Gloves = ''gloves''"
| "slot_name Accessory = ''accessory''"

fun rarity_name :: "rarity \<Rightarrow> string" where
  "rarity_name Common = ''common''"
| "rarity_name Uncommon = ''uncommon''"
| "rarity_name Rare = ''rare''"
| "rarity_name Epic = ''epic''"
| "rarity_name Legendary = ''legendary''"

section \<open>Generation\<close>

definition lootWeights :: "int \<Rightarrow> (rarity \<times> int) list" where
  "lootWeights playerLevel =
     zip RARITIES
       (case find (\<lambda>(band, w). playerLevel \<ge> band) RARITY_WEIGHTS of
          Some (_, w) \<Rightarrow> w
        | None \<Rightarrow> snd (RARITY_WEIGHTS ! 3))"

definition rollRarity :: "int \<Rightarrow> rarity rand" where
  "rollRarity playerLevel = do {
     x \<leftarrow> math_random;
     let weights = lootWeights playerLevel;
     let total = sum_list (map snd weights);
     State_Monad.return
       (case roll_loop (jmul x (of_int total)) (map (apsnd real_of_int) weights) of
          Some r \<Rightarrow> r
        | None \<Rightarrow> Common)
   }"

text \<open>The loop \<open>for (i = 0; i < count && pool.length > 0; i++)\<close>; \<open>splice\<close> removes the drawn index.\<close>

fun affixLoop :: "nat \<Rightarrow> int \<times> int \<Rightarrow> affix_stat list \<Rightarrow> affix list \<Rightarrow> affix list rand" where
  "affixLoop 0 rg pool affixes = State_Monad.return affixes"
| "affixLoop (Suc n) rg pool affixes =
     (if pool = [] then State_Monad.return affixes
      else do {
        x \<leftarrow> math_random;
        let idx = nat (rand_index x (int (length pool)));
        v \<leftarrow> randInt (fst rg) (snd rg);
        affixLoop n rg (take idx pool @ drop (Suc idx) pool)
          (affixes @ [\<lparr> af_stat = pool ! idx, af_value = v \<rparr>])
      })"

definition rollAffixes :: "item_type \<Rightarrow> rarity \<Rightarrow> affix list rand" where
  "rollAffixes slot rarity = do {
     count \<leftarrow> pick (AFFIX_COUNT_OPTIONS rarity);
     if count = 0 then State_Monad.return []
     else affixLoop count (AFFIX_RANGES rarity) (AFFIX_POOLS slot) []
   }"

definition dominantAffix :: "affix list \<Rightarrow> affix" where
  "dominantAffix affixes =
     foldl (\<lambda>a b. if af_value a \<ge> af_value b then a else b) (hd affixes) (tl affixes)"

definition buildName :: "item_type \<Rightarrow> affix list \<Rightarrow> string rand" where
  "buildName slot affixes = do {
     base \<leftarrow> pick (BASE_NAMES slot);
     prefix \<leftarrow> pick (if affixes = [] then COMMON_PREFIXES
                     else AFFIX_PREFIXES (af_stat (dominantAffix affixes)));
     State_Monad.return (prefix @ '' '' @ base)
   }"

definition lootScale :: "real \<Rightarrow> int \<Rightarrow> int" where
  "lootScale statMultiplier v = \<lfloor>jmul (of_int v) statMultiplier\<rfloor>"

text \<open>The three optional statistics of an item under construction.\<close>

record baked =
  b_attack :: "int option"
  b_defense :: "int option"
  b_maxHp :: "int option"

definition bakeBase :: "affix_stat \<Rightarrow> int \<Rightarrow> baked" where
  "bakeBase primary v =
     \<lparr> b_attack = (if primary = AffixAttack then Some v else None),
       b_defense = (if primary = AffixDefense then Some v else None),
       b_maxHp = (if primary = AffixMaxHp then Some v else None) \<rparr>"

fun bakeAffix :: "baked \<Rightarrow> affix \<Rightarrow> baked" where
  "bakeAffix b a =
     (case af_stat a of
        AffixAttack \<Rightarrow> b\<lparr> b_attack := Some (stat_or_0 (b_attack b) + af_value a) \<rparr>
      | AffixDefense \<Rightarrow> b\<lparr> b_defense := Some (stat_or_0 (b_defense b) + af_value a) \<rparr>
      | AffixMaxHp \<Rightarrow> b\<lparr> b_maxHp := Some (stat_or_0 (b_maxHp b) + af_value a) \<rparr>)"

definition generateItem :: "int \<Rightarrow> int \<Rightarrow> rarity option \<Rightarrow> real \<Rightarrow> item rand" where
  "generateItem now playerLevel rarityOverride statMultiplier = do {
     slot \<leftarrow> pick SLOTS;
     rarity \<leftarrow> (case rarityOverride of
                  Some r \<Rightarrow> State_Monad.return r
                | None \<Rightarrow> rollRarity playerLevel);
     let primaryStat = AFFIX_POOLS slot ! 0;
     baseRoll \<leftarrow> randInt (fst (BASE_RANGES rarity)) (snd (BASE_RANGES rarity));
     let baseValue = lootScale statMultiplier baseRoll;
     rolled \<leftarrow> rollAffixes slot rarity;
     let affixes = map (\<lambda>a. a\<lparr> af_value := lootScale statMultiplier (af_value a) \<rparr>) rolled;
     let stats = foldl bakeAffix (bakeBase primaryStat baseValue) affixes;
     n \<leftarrow> randInt 0 9999;
     name \<leftarrow> buildName slot affixes;
     State_Monad.return
       \<lparr> i_id = ''gen_'' @ slot_name slot @ ''_'' @ show_int now @ ''_'' @ show_int n,
         i_name = name,
         i_description = ''A '' @ rarity_name rarity @ '' '' @ slot_name slot @ ''.'',
         i_rarity = rarity, i_level = max 1 (playerLevel - 1),
         i_attack = b_attack stats, i_defense = b_defense stats, i_maxHp = b_maxHp stats,
         i_dropChance = 0, i_affixes = Some affixes, i_type = slot \<rparr>
   }"

section \<open>Drops\<close>

definition shouldDropItem :: "bool rand" where
  "shouldDropItem = do { x \<leftarrow> math_random; State_Monad.return (x < BASE_DROP_CHANCE) }"

text \<open>\<open>forceDrop ||\<close> short-circuits: a forced drop draws nothing for the decision.\<close>

definition dropItem :: "int \<Rightarrow> bool \<Rightarrow> int \<Rightarrow> rarity option \<Rightarrow> item option rand" where
  "dropItem now forceDrop playerLevel rarityOverride = do {
     hit \<leftarrow> (if forceDrop then State_Monad.return True else shouldDropItem);
     if hit then do {
       it \<leftarrow> generateItem now playerLevel rarityOverride 1;
       State_Monad.return (Some it)
     } else State_Monad.return None
   }"

definition ACTIVE_COMBAT_LOOT_MULTIPLIER :: real where "ACTIVE_COMBAT_LOOT_MULTIPLIER = 2"

definition dropActiveCombatItem :: "int \<Rightarrow> bool \<Rightarrow> int \<Rightarrow> rarity option \<Rightarrow> item option rand" where
  "dropActiveCombatItem now forceDrop playerLevel rarityOverride = do {
     hit \<leftarrow> (if forceDrop then State_Monad.return True
            else do { x \<leftarrow> math_random; State_Monad.return (x < activeCombatDropChance) });
     if hit then do {
       it \<leftarrow> generateItem now playerLevel rarityOverride ACTIVE_COMBAT_LOOT_MULTIPLIER;
       State_Monad.return (Some it)
     } else State_Monad.return None
   }"

section \<open>Passive combat\<close>

record auto_combat_outcome =
  ac_won :: bool
  ac_xpGained :: int
  ac_item :: "item option"

definition AUTO_COMBAT_BASE_WIN_RATE :: real where "AUTO_COMBAT_BASE_WIN_RATE = rnd (75 / 100)"
definition AUTO_COMBAT_LEVEL_STEP :: real where "AUTO_COMBAT_LEVEL_STEP = rnd (5 / 100)"
definition AUTO_COMBAT_MIN_WIN_RATE :: real where "AUTO_COMBAT_MIN_WIN_RATE = rnd (2 / 10)"
definition AUTO_COMBAT_MAX_WIN_RATE :: real where "AUTO_COMBAT_MAX_WIN_RATE = rnd (95 / 100)"
definition LOSS_XP_FRACTION :: real where "LOSS_XP_FRACTION = rnd (25 / 100)"

definition autoCombatWinChance :: "int \<Rightarrow> int \<Rightarrow> real" where
  "autoCombatWinChance playerLevel creatureLevel =
     (let raw = jadd AUTO_COMBAT_BASE_WIN_RATE
                  (jmul AUTO_COMBAT_LEVEL_STEP (of_int (playerLevel - creatureLevel)))
      in min AUTO_COMBAT_MAX_WIN_RATE (max AUTO_COMBAT_MIN_WIN_RATE raw))"

definition computeAutoCombatXp :: "creature \<Rightarrow> bool \<Rightarrow> int" where
  "computeAutoCombatXp c won =
     (let reward = getExperienceReward c
      in if won then reward else \<lfloor>jmul (of_int reward) LOSS_XP_FRACTION\<rfloor>)"

definition resolveAutoCombat :: "int \<Rightarrow> int \<Rightarrow> creature \<Rightarrow> auto_combat_outcome rand" where
  "resolveAutoCombat now playerLevel c = do {
     x \<leftarrow> math_random;
     let won = (x < autoCombatWinChance playerLevel (c_level c));
     let xpGained = computeAutoCombatXp c won;
     it \<leftarrow> (if won then dropItem now False playerLevel None else State_Monad.return None);
     State_Monad.return \<lparr> ac_won = won, ac_xpGained = xpGained, ac_item = it \<rparr>
   }"

section \<open>Lemmas: rarity\<close>

lemma lootWeights_bands:
  "lootWeights l = zip RARITIES
     (if 15 \<le> l then [10, 25, 35, 25, 5] else if 10 \<le> l then [20, 35, 30, 14, 1]
      else if 5 \<le> l then [40, 40, 18, 2, 0] else [65, 30, 5, 0, 0])"
  by (simp add: lootWeights_def RARITY_WEIGHTS_def)

interpretation loot_table: weighted_table lootWeights
proof
  fix l
  show "\<exists>pos zero. lootWeights l = pos @ zero \<and> pos \<noteq> [] \<and> (\<forall>e \<in> set pos. 0 < snd e) \<and>
      (\<forall>e \<in> set zero. snd e = 0)"
    by (rule exI[of _ "filter (\<lambda>e. 0 < snd e) (lootWeights l)"],
        rule exI[of _ "filter (\<lambda>e. snd e = 0) (lootWeights l)"])
      (auto simp: lootWeights_bands RARITIES_def)
  show "sum_list (map snd (lootWeights l)) \<le> 2 ^ 53" by (simp add: lootWeights_bands RARITIES_def)
qed

definition rarity_possible :: "int \<Rightarrow> rarity \<Rightarrow> bool" where
  "rarity_possible l r \<longleftrightarrow> (\<exists>w > 0. (r, w) \<in> set (lootWeights l))"

lemma rarity_possible_iff:
  "rarity_possible l r \<longleftrightarrow>
     (case r of Legendary \<Rightarrow> 10 \<le> l | Epic \<Rightarrow> 5 \<le> l | _ \<Rightarrow> True)"
  by (cases r) (auto simp: rarity_possible_def lootWeights_bands RARITIES_def)

lemma rollRarity_possible: "rand_all (rarity_possible l) (rollRarity l)"
  unfolding rollRarity_def Let_def
  by (rule rand_all_bind[OF rand_all_random], rule rand_all_return)
    (use loot_table.roll_positive[of _ l] in \<open>fastforce simp: rarity_possible_def\<close>)

section \<open>Lemmas: affixes\<close>

definition affixes_ok :: "rarity \<Rightarrow> affix list \<Rightarrow> bool" where
  "affixes_ok r as \<longleftrightarrow> length as \<in> set (AFFIX_COUNT_OPTIONS r) \<and> distinct (map af_stat as) \<and>
     (\<forall>a \<in> set as. fst (AFFIX_RANGES r) \<le> af_value a \<and> af_value a \<le> snd (AFFIX_RANGES r))"

lemma affixLoop_spec:
  assumes "lo \<le> hi" and "distinct (map af_stat acc @ pool)"
    and "\<forall>a \<in> set acc. lo \<le> af_value a \<and> af_value a \<le> hi" and "n \<le> length pool"
  shows "rand_all (\<lambda>as. length as = length acc + n \<and> distinct (map af_stat as) \<and>
    (\<forall>a \<in> set as. lo \<le> af_value a \<and> af_value a \<le> hi)) (affixLoop n (lo, hi) pool acc)"
  using assms(2-)
proof (induction n arbitrary: pool acc)
  case 0
  then show ?case by (simp add: rand_all_return)
next
  case (Suc n)
  have step: "rand_all (\<lambda>as. length as = length acc + Suc n \<and> distinct (map af_stat as) \<and>
      (\<forall>a \<in> set as. lo \<le> af_value a \<and> af_value a \<le> hi))
      (affixLoop n (lo, hi) (take i pool @ drop (Suc i) pool) (acc @ [\<lparr> af_stat = pool ! i, af_value = v \<rparr>]))"
    if i: "i < length pool" and v: "lo \<le> v \<and> v \<le> hi" for i v
  proof -
    have split: "pool = take i pool @ pool ! i # drop (Suc i) pool"
      using i by (simp add: id_take_nth_drop)
    have "distinct (map af_stat (acc @ [\<lparr> af_stat = pool ! i, af_value = v \<rparr>]) @ take i pool @ drop (Suc i) pool)"
      using Suc.prems(1) by (subst (asm) split) auto
    then show ?thesis
      using Suc.IH[of "acc @ [\<lparr> af_stat = pool ! i, af_value = v \<rparr>]" "take i pool @ drop (Suc i) pool"]
        Suc.prems i v by auto
  qed
  have "pool \<noteq> []" using Suc.prems(3) by auto
  then have idx: "nat (rand_index x (int (length pool))) < length pool" if "valid_draw x" for x
    using rand_index_range[OF that, of "int (length pool)"] by simp
  show ?case
    unfolding affixLoop.simps Let_def if_not_P[OF \<open>pool \<noteq> []\<close>] fst_conv snd_conv
    by (rule rand_all_bind[OF rand_all_random], rule rand_all_bind[OF rand_all_randInt[OF assms(1)]],
        rule step[OF idx])
qed

lemma pool_distinct: "distinct (AFFIX_POOLS s)" "length (AFFIX_POOLS s) = 3"
  by (cases s; simp)+

lemma rollAffixes_spec: "rand_all (affixes_ok r) (rollAffixes s r)"
proof -
  have ne: "AFFIX_COUNT_OPTIONS r \<noteq> []" and le: "\<forall>n \<in> set (AFFIX_COUNT_OPTIONS r). n \<le> 3"
    and range: "fst (AFFIX_RANGES r) \<le> snd (AFFIX_RANGES r)"
    by (cases r; simp)+
  show ?thesis
    unfolding rollAffixes_def
  proof (rule rand_all_bind[OF rand_all_pick[OF ne]], rule rand_all_if)
    fix n assume n: "n \<in> set (AFFIX_COUNT_OPTIONS r)"
    show "rand_all (affixes_ok r) (State_Monad.return [])" if "n = 0"
      using n that by (simp add: rand_all_return affixes_ok_def)
    show "rand_all (affixes_ok r) (affixLoop n (AFFIX_RANGES r) (AFFIX_POOLS s) [])"
      using affixLoop_spec[OF range, of "[]" "AFFIX_POOLS s" n] n le pool_distinct[of s]
      by (auto simp: affixes_ok_def intro: rand_all_mono)
  qed
qed

section \<open>Lemmas: items\<close>

lemma lootScale_nonneg: "0 \<le> m \<Longrightarrow> 0 \<le> v \<Longrightarrow> 0 \<le> lootScale m v"
  by (simp add: lootScale_def jmul_nonneg)

lemma lootScale_1: "\<bar>v\<bar> \<le> 2 ^ 53 \<Longrightarrow> lootScale 1 v = v"
  by (simp add: lootScale_def js_num rnd_of_int)

lemma lootScale_2: "\<bar>v\<bar> \<le> 2 ^ 52 \<Longrightarrow> lootScale 2 v = 2 * v"
  using rnd_of_int[of "v * 2"] floor_of_int[of "v * 2", where 'a = real]
  by (simp add: lootScale_def js_num mult.commute)

definition affixSum :: "affix_stat \<Rightarrow> affix list \<Rightarrow> int" where
  "affixSum st as = sum_list (map af_value (filter (\<lambda>a. af_stat a = st) as))"

lemma bakeAffix_sums:
  "stat_or_0 (b_attack (foldl bakeAffix b as)) = stat_or_0 (b_attack b) + affixSum AffixAttack as"
  "stat_or_0 (b_defense (foldl bakeAffix b as)) = stat_or_0 (b_defense b) + affixSum AffixDefense as"
  "stat_or_0 (b_maxHp (foldl bakeAffix b as)) = stat_or_0 (b_maxHp b) + affixSum AffixMaxHp as"
  by (induction as arbitrary: b; auto simp: affixSum_def stat_or_0_def split: affix_stat.splits)+

lemma affixSum_nonneg: "\<forall>a \<in> set as. 0 \<le> af_value a \<Longrightarrow> 0 \<le> affixSum st as"
  by (auto simp: affixSum_def intro!: sum_list_nonneg)

text \<open>
  What generation promises of an item: its rarity was rolled or forced, its level fits the
  player, its affixes are distinct scaled rolls, and its statistics are the primary roll plus the
  affixes and nothing else.
\<close>

definition primaryOf :: "item \<Rightarrow> affix_stat" where
  "primaryOf it = AFFIX_POOLS (i_type it) ! 0"

definition item_stat :: "item \<Rightarrow> affix_stat \<Rightarrow> int" where
  "item_stat it st =
     (case st of
        AffixAttack \<Rightarrow> stat_or_0 (i_attack it)
      | AffixDefense \<Rightarrow> stat_or_0 (i_defense it)
      | AffixMaxHp \<Rightarrow> stat_or_0 (i_maxHp it))"

definition generated_ok :: "int \<Rightarrow> rarity option \<Rightarrow> real \<Rightarrow> item \<Rightarrow> bool" where
  "generated_ok playerLevel override m it \<longleftrightarrow>
     i_level it = max 1 (playerLevel - 1) \<and>
     (case override of Some r \<Rightarrow> i_rarity it = r | None \<Rightarrow> rarity_possible playerLevel (i_rarity it)) \<and>
     (\<exists>as v. affixes_ok (i_rarity it) as \<and>
        i_affixes it = Some (map (\<lambda>a. a\<lparr> af_value := lootScale m (af_value a) \<rparr>) as) \<and>
        fst (BASE_RANGES (i_rarity it)) \<le> v \<and> v \<le> snd (BASE_RANGES (i_rarity it)) \<and>
        (\<forall>st. item_stat it st = (if st = primaryOf it then lootScale m v else 0)
           + affixSum st (map (\<lambda>a. a\<lparr> af_value := lootScale m (af_value a) \<rparr>) as)))"

lemma buildName_total: "rand_all (\<lambda>_. True) (buildName s as)"
proof -
  have "BASE_NAMES s \<noteq> []" by (cases s) simp_all
  moreover have "(if as = [] then COMMON_PREFIXES else AFFIX_PREFIXES (af_stat (dominantAffix as))) \<noteq> []"
    by (cases "af_stat (dominantAffix as)") (simp_all add: COMMON_PREFIXES_def)
  ultimately show ?thesis
    unfolding buildName_def
    by (intro rand_all_bind[OF rand_all_pick] rand_all_return) simp_all
qed

lemma BASE_RANGES_ok: "0 < fst (BASE_RANGES r)" "fst (BASE_RANGES r) \<le> snd (BASE_RANGES r)"
  by (cases r; simp)+

lemma rolled_rarity:
  "rand_all (\<lambda>r. case override of Some q \<Rightarrow> r = q | None \<Rightarrow> rarity_possible pl r)
     (case override of Some r \<Rightarrow> State_Monad.return r | None \<Rightarrow> rollRarity pl)"
  by (cases override) (simp_all add: rand_all_return rollRarity_possible)

lemma bakeBase_stat:
  "stat_or_0 (b_attack (bakeBase p v)) = (if p = AffixAttack then v else 0)"
  "stat_or_0 (b_defense (bakeBase p v)) = (if p = AffixDefense then v else 0)"
  "stat_or_0 (b_maxHp (bakeBase p v)) = (if p = AffixMaxHp then v else 0)"
  by (simp_all add: bakeBase_def stat_or_0_def)

lemma generateItem_spec: "rand_all (generated_ok pl override m) (generateItem now pl override m)"
  unfolding generateItem_def Let_def
proof (rule rand_all_bind[OF rand_all_pick], simp add: SLOTS_def, rule rand_all_bind[OF rolled_rarity],
    rule rand_all_bind[OF rand_all_randInt[OF BASE_RANGES_ok(2)]], rule rand_all_bind[OF rollAffixes_spec],
    rule rand_all_bind[OF rand_all_randInt], simp, rule rand_all_bind[OF buildName_total], rule rand_all_return)
  fix slot r v as
  assume r: "case override of None \<Rightarrow> rarity_possible pl r | Some q \<Rightarrow> r = q"
    and v: "fst (BASE_RANGES r) \<le> v \<and> v \<le> snd (BASE_RANGES r)" and as: "affixes_ok r as"
  let ?as = "map (\<lambda>a. a\<lparr> af_value := lootScale m (af_value a) \<rparr>) as"
  let ?b = "foldl bakeAffix (bakeBase (AFFIX_POOLS slot ! 0) (lootScale m v)) ?as"
  fix n name
  define it where "it = \<lparr> i_id = ''gen_'' @ slot_name slot @ ''_'' @ show_int now @ ''_'' @ show_int n,
         i_name = name, i_description = ''A '' @ rarity_name r @ '' '' @ slot_name slot @ ''.'',
         i_rarity = r, i_level = max 1 (pl - 1), i_attack = b_attack ?b, i_defense = b_defense ?b,
         i_maxHp = b_maxHp ?b, i_dropChance = 0, i_affixes = Some ?as, i_type = slot \<rparr>"
  have stat: "item_stat it st = (if st = primaryOf it then lootScale m v else 0) + affixSum st ?as" for st
    by (cases st) (simp_all add: it_def item_stat_def primaryOf_def bakeAffix_sums bakeBase_stat)
  have fields: "i_rarity it = r" "i_level it = max 1 (pl - 1)" "i_affixes it = Some ?as"
    by (simp_all add: it_def)
  have "generated_ok pl override m it"
    unfolding generated_ok_def fields
    using r v as stat by (intro conjI refl exI[of _ as] exI[of _ v]) (auto split: option.splits)
  then show "generated_ok pl override m \<lparr> i_id = ''gen_'' @ slot_name slot @ ''_'' @ show_int now @ ''_'' @ show_int n,
         i_name = name, i_description = ''A '' @ rarity_name r @ '' '' @ slot_name slot @ ''.'',
         i_rarity = r, i_level = max 1 (pl - 1), i_attack = b_attack ?b, i_defense = b_defense ?b,
         i_maxHp = b_maxHp ?b, i_dropChance = 0, i_affixes = Some ?as, i_type = slot \<rparr>"
    unfolding it_def .
qed

lemma affixes_ok_nonneg: "affixes_ok r as \<Longrightarrow> a \<in> set as \<Longrightarrow> 0 \<le> af_value a"
  by (cases r) (auto simp: affixes_ok_def)

lemma generated_item_ok:
  assumes "generated_ok pl override m it" and "0 \<le> m"
  shows "item_ok it" and "1 \<le> pl \<Longrightarrow> i_level it \<le> pl"
proof -
  obtain as v where as: "affixes_ok (i_rarity it) as" and v: "fst (BASE_RANGES (i_rarity it)) \<le> v"
    and st: "\<And>st. item_stat it st = (if st = primaryOf it then lootScale m v else 0)
           + affixSum st (map (\<lambda>a. a\<lparr> af_value := lootScale m (af_value a) \<rparr>) as)"
    using assms(1) by (auto simp: generated_ok_def)
  have "0 \<le> item_stat it s" for s
    unfolding st using assms(2) v BASE_RANGES_ok(1)[of "i_rarity it"] affixes_ok_nonneg[OF as]
    by (auto intro!: add_nonneg_nonneg affixSum_nonneg lootScale_nonneg)
  from this[of AffixAttack] this[of AffixDefense] this[of AffixMaxHp] show "item_ok it"
    using assms(1) by (auto simp: item_ok_def item_stat_def generated_ok_def)
  show "i_level it \<le> pl" if "1 \<le> pl" using assms(1) that by (simp add: generated_ok_def)
qed

definition drop_ok :: "int \<Rightarrow> real \<Rightarrow> rarity option \<Rightarrow> item option \<Rightarrow> bool" where
  "drop_ok pl m override d = (case d of None \<Rightarrow> True | Some it \<Rightarrow> generated_ok pl override m it)"

lemma drop_ok_None [simp]: "drop_ok pl m override None"
  by (simp add: drop_ok_def)

lemma dropItem_spec: "rand_all (drop_ok pl 1 override) (dropItem now force pl override)"
proof -
  have "rand_all (\<lambda>_. True) (if force then State_Monad.return True else shouldDropItem)"
    by (auto simp: shouldDropItem_def intro!: rand_all_return rand_all_bind[OF rand_all_random])
  then show ?thesis
    unfolding dropItem_def
    by (rule rand_all_bind)
      (auto intro!: rand_intros rand_all_bind[OF generateItem_spec] simp: drop_ok_def)
qed

lemma dropActive_spec: "rand_all (drop_ok pl 2 override) (dropActiveCombatItem now force pl override)"
proof -
  have "rand_all (\<lambda>_. True) (if force then State_Monad.return True
      else State_Monad.bind math_random (\<lambda>x. State_Monad.return (x < activeCombatDropChance)))"
    by (auto intro!: rand_all_return rand_all_bind[OF rand_all_random])
  then show ?thesis
    unfolding dropActiveCombatItem_def ACTIVE_COMBAT_LOOT_MULTIPLIER_def
    by (rule rand_all_bind)
      (auto intro!: rand_intros rand_all_bind[OF generateItem_spec] simp: drop_ok_def)
qed

section \<open>Lemmas: passive combat\<close>

lemma winChance_consts:
  "0 < AUTO_COMBAT_MIN_WIN_RATE" "AUTO_COMBAT_MIN_WIN_RATE \<le> AUTO_COMBAT_BASE_WIN_RATE"
  "AUTO_COMBAT_BASE_WIN_RATE \<le> AUTO_COMBAT_MAX_WIN_RATE" "AUTO_COMBAT_MAX_WIN_RATE < 1"
  "0 \<le> AUTO_COMBAT_LEVEL_STEP"
  by code_simp+

lemma autoCombatWinChance_range:
  "AUTO_COMBAT_MIN_WIN_RATE \<le> autoCombatWinChance p c" "autoCombatWinChance p c \<le> AUTO_COMBAT_MAX_WIN_RATE"
  using winChance_consts by (auto simp: autoCombatWinChance_def Let_def)

lemma autoCombatWinChance_even: "autoCombatWinChance l l = AUTO_COMBAT_BASE_WIN_RATE"
  using winChance_consts by (simp add: autoCombatWinChance_def js_num AUTO_COMBAT_BASE_WIN_RATE_def)

lemma autoCombatWinChance_mono:
  assumes "p \<le> p'" and "c' \<le> c"
  shows "autoCombatWinChance p c \<le> autoCombatWinChance p' c'"
proof -
  have "AUTO_COMBAT_LEVEL_STEP * of_int (p - c) \<le> AUTO_COMBAT_LEVEL_STEP * of_int (p' - c')"
    using assms winChance_consts(5) by (intro mult_left_mono) simp_all
  then show ?thesis
    unfolding autoCombatWinChance_def Let_def jmul_def
    by (intro min.mono max.mono jadd_mono rnd_mono order_refl) simp_all
qed

lemma rnd_quarter: "\<bar>n\<bar> \<le> 2 ^ 53 \<Longrightarrow> \<lfloor>rnd (of_int n / 4)\<rfloor> = n div 4"
proof -
  assume "\<bar>n\<bar> \<le> 2 ^ 53"
  then have "rnd (of_int n / 4) = of_int n / of_int 4"
    using rnd_dyadic[of n "-2"] by (simp add: power_int_minus)
  then show ?thesis by (simp only: floor_divide_of_int_eq)
qed

lemma computeAutoCombatXp_loss:
  assumes "0 \<le> c_level c" and "c_level c \<le> 2 ^ 40"
  shows "computeAutoCombatXp c False = getExperienceReward c div 4"
proof -
  have q: "LOSS_XP_FRACTION = 1 / 4" by code_simp
  have "\<bar>getExperienceReward c\<bar> \<le> 2 ^ 53"
    using assms by (cases "c_rarity c") (auto simp: getExperienceReward_exact)
  then show ?thesis
    by (simp add: computeAutoCombatXp_def q jmul_def rnd_quarter)
qed

definition outcome_ok :: "int \<Rightarrow> creature \<Rightarrow> auto_combat_outcome \<Rightarrow> bool" where
  "outcome_ok pl c out \<longleftrightarrow> ac_xpGained out = computeAutoCombatXp c (ac_won out) \<and>
     (\<not> ac_won out \<longrightarrow> ac_item out = None) \<and> drop_ok pl 1 None (ac_item out)"

lemma resolveAutoCombat_spec: "rand_all (outcome_ok pl c) (resolveAutoCombat now pl c)"
  unfolding resolveAutoCombat_def Let_def
proof (rule rand_all_bind[OF rand_all_random])
  fix x
  let ?won = "x < autoCombatWinChance pl (c_level c)"
  have "rand_all (\<lambda>it. (\<not> ?won \<longrightarrow> it = None) \<and> drop_ok pl 1 None it)
      (if ?won then dropItem now False pl None else State_Monad.return None)"
    using dropItem_spec[of pl None now False] by (auto intro!: rand_all_return)
  then show "rand_all (outcome_ok pl c)
      (State_Monad.bind (if ?won then dropItem now False pl None else State_Monad.return None)
        (\<lambda>it. State_Monad.return \<lparr> ac_won = ?won, ac_xpGained = computeAutoCombatXp c ?won, ac_item = it \<rparr>))"
    by (rule rand_all_bind) (auto intro!: rand_all_return simp: outcome_ok_def)
qed

text \<open>
  Passive combat: the chance to win lies between the configured bounds, is three quarters at
  equal levels, and never falls with the player's level or rises with the creature's; a win pays
  the creature's full reward, a loss a quarter of it and no item.
\<close>

lemma passive_combat_spec:
  assumes "valid_rng r" and "0 \<le> c_level c" and "c_level c \<le> 2 ^ 40" and "pl \<le> pl'"
  shows "AUTO_COMBAT_MIN_WIN_RATE \<le> autoCombatWinChance pl (c_level c) \<and>
    autoCombatWinChance pl (c_level c) \<le> autoCombatWinChance pl' (c_level c) \<and>
    autoCombatWinChance pl' (c_level c) \<le> AUTO_COMBAT_MAX_WIN_RATE \<and>
    autoCombatWinChance pl pl = AUTO_COMBAT_BASE_WIN_RATE \<and>
    outcome_ok pl c (fst (run_state (resolveAutoCombat now pl c) r)) \<and>
    computeAutoCombatXp c True = getExperienceReward c \<and> computeAutoCombatXp c False = getExperienceReward c div 4"
  using autoCombatWinChance_range autoCombatWinChance_mono[OF assms(4), of "c_level c"] autoCombatWinChance_even
    rand_allD(1)[OF resolveAutoCombat_spec assms(1)] computeAutoCombatXp_loss[OF assms(2,3)]
  by (simp add: computeAutoCombatXp_def)

end
