(* ===== verification/Geo.thy ===== *)
theory Geo
  imports Prelude
begin

text \<open>
  Position and light: the haversine distance and the tracking machine of
  \<open>services/LocationService.ts\<close>, and the solar elevation of \<open>models/sun.ts\<close>. The trigonometric
  functions of the language are only specified up to an implementation-dependent approximation,
  so the geometry is stated over the exact real functions. The geolocation package is outside the
  repository: its fixes and errors are events, the calls to it are recorded as watches with the
  ordinal of the \<open>watchPosition\<close> call as identifier.
\<close>

section \<open>Geometry\<close>

definition math_atan2 :: "real \<Rightarrow> real \<Rightarrow> real" where
  "math_atan2 y x =
     (if x > 0 then arctan (y / x)
      else if x < 0 then (if y \<ge> 0 then arctan (y / x) + pi else arctan (y / x) - pi)
      else if y > 0 then pi / 2 else if y < 0 then - (pi / 2) else 0)"

definition earth_radius :: real where "earth_radius = 6371000"

definition haversine :: "real \<Rightarrow> real \<Rightarrow> real \<Rightarrow> real \<Rightarrow> real" where
  "haversine lat1 lon1 lat2 lon2 =
     (let phi1 = lat1 * pi / 180; phi2 = lat2 * pi / 180;
          dphi = (lat2 - lat1) * pi / 180; dlam = (lon2 - lon1) * pi / 180
      in sin (dphi / 2) * sin (dphi / 2) + cos phi1 * cos phi2 * sin (dlam / 2) * sin (dlam / 2))"

definition calculateDistance :: "real \<Rightarrow> real \<Rightarrow> real \<Rightarrow> real \<Rightarrow> real" where
  "calculateDistance lat1 lon1 lat2 lon2 =
     (let a = haversine lat1 lon1 lat2 lon2;
          c = 2 * math_atan2 (sqrt a) (sqrt (1 - a))
      in earth_radius * c)"

section \<open>Tracking\<close>

record location =
  l_latitude :: real
  l_longitude :: real

record location_data = location +
  l_accuracy :: real
  l_altitude :: "real option"
  l_heading :: "real option"
  l_speed :: real
  l_timestamp :: int

record geolocation_position =
  g_latitude :: real
  g_longitude :: real
  g_accuracy :: real
  g_altitude :: "real option"
  g_heading :: "real option"
  g_speed :: "real option"
  g_timestamp :: int

record distance_data =
  dd_incremental :: real
  dd_total :: real
  dd_location :: location_data

text \<open>The calls of the two callbacks passed to \<open>startTracking\<close>.\<close>

datatype loc_output = OnLocationUpdate location_data | OnDistanceUpdate distance_data

text \<open>
  \<open>ls_watches\<close> are the watches that the geolocation package currently serves, each with the
  accuracy of its configuration, and \<open>ls_watchCount\<close> the number of \<open>watchPosition\<close> calls so far.
  Both callbacks are set and cleared together, which \<open>ls_callbacks\<close> records.
\<close>

record loc_state =
  ls_watchId :: "nat option"
  ls_currentLocation :: "location_data option"
  ls_totalDistance :: real
  ls_callbacks :: bool
  ls_isTracking :: bool
  ls_isHighAccuracy :: bool
  ls_consecutiveLowSpeedReadings :: nat
  ls_watches :: "(nat \<times> bool) list"
  ls_watchCount :: nat

definition loc_init :: loc_state where
  "loc_init =
     \<lparr> ls_watchId = None, ls_currentLocation = None, ls_totalDistance = 0, ls_callbacks = False,
       ls_isTracking = False, ls_isHighAccuracy = True, ls_consecutiveLowSpeedReadings = 0,
       ls_watches = [], ls_watchCount = 0 \<rparr>"

definition LOW_SPEED_THRESHOLD_MS :: real where
  "LOW_SPEED_THRESHOLD_MS = jdiv 1 (rnd (36 / 10))"

definition LOW_SPEED_READINGS_TO_DOWNGRADE :: nat where
  "LOW_SPEED_READINGS_TO_DOWNGRADE = 3"

definition location_of_position :: "geolocation_position \<Rightarrow> location_data" where
  "location_of_position g =
     \<lparr> l_latitude = g_latitude g, l_longitude = g_longitude g, l_accuracy = g_accuracy g,
       l_altitude = g_altitude g, l_heading = g_heading g,
       l_speed = (case g_speed g of None \<Rightarrow> 0 | Some v \<Rightarrow> v), l_timestamp = g_timestamp g \<rparr>"

definition startWatch :: "loc_state \<Rightarrow> loc_state" where
  "startWatch s =
     s\<lparr> ls_watchId := Some (ls_watchCount s),
        ls_watches := (ls_watchCount s, ls_isHighAccuracy s) # ls_watches s,
        ls_watchCount := Suc (ls_watchCount s) \<rparr>"

definition clearWatch :: "loc_state \<Rightarrow> loc_state" where
  "clearWatch s =
     (case ls_watchId s of
        None \<Rightarrow> s
      | Some w \<Rightarrow> s\<lparr> ls_watches := filter (\<lambda>(v, _). v \<noteq> w) (ls_watches s), ls_watchId := None \<rparr>)"

definition startTracking :: "loc_state \<Rightarrow> loc_state" where
  "startTracking s =
     (if ls_isTracking s then s
      else startWatch (s\<lparr> ls_callbacks := True, ls_isTracking := True, ls_isHighAccuracy := True,
             ls_consecutiveLowSpeedReadings := 0 \<rparr>))"

definition switchAccuracyMode :: "loc_state \<Rightarrow> bool \<Rightarrow> loc_state" where
  "switchAccuracyMode s toHighAccuracy =
     startWatch (clearWatch (s\<lparr> ls_isHighAccuracy := toHighAccuracy,
       ls_consecutiveLowSpeedReadings := 0, ls_currentLocation := None \<rparr>))"

definition updateAccuracyMode :: "loc_state \<Rightarrow> real \<Rightarrow> loc_state" where
  "updateAccuracyMode s speedMs =
     (if speedMs < LOW_SPEED_THRESHOLD_MS then
        let s' = s\<lparr> ls_consecutiveLowSpeedReadings := Suc (ls_consecutiveLowSpeedReadings s) \<rparr>
        in if ls_isHighAccuracy s' \<and> ls_consecutiveLowSpeedReadings s' \<ge> LOW_SPEED_READINGS_TO_DOWNGRADE
           then switchAccuracyMode s' False else s'
      else
        let s' = s\<lparr> ls_consecutiveLowSpeedReadings := 0 \<rparr>
        in if \<not> ls_isHighAccuracy s' then switchAccuracyMode s' True else s')"

text \<open>The distance part of the watch callback: at least a metre, below a kilometre, high accuracy.\<close>

definition accumulate :: "loc_state \<Rightarrow> location_data \<Rightarrow> loc_state \<times> loc_output list" where
  "accumulate s loc =
     (case ls_currentLocation s of
        None \<Rightarrow> (s, [])
      | Some cur \<Rightarrow>
          let distance = calculateDistance (l_latitude cur) (l_longitude cur) (l_latitude loc) (l_longitude loc)
          in if distance \<ge> 1 \<and> distance < 1000 \<and> ls_isHighAccuracy s then
               let s' = s\<lparr> ls_totalDistance := jadd (ls_totalDistance s) distance \<rparr>
               in (s', if ls_callbacks s then
                         [OnDistanceUpdate \<lparr> dd_incremental = distance, dd_total = ls_totalDistance s',
                            dd_location = loc \<rparr>]
                       else [])
             else (s, []))"

definition onWatchPosition :: "loc_state \<Rightarrow> geolocation_position \<Rightarrow> loc_state \<times> loc_output list" where
  "onWatchPosition s g =
     (let loc = location_of_position g;
          isFirstCallbackAfterSwitch = (ls_currentLocation s = None \<and> \<not> ls_isHighAccuracy s);
          (s1, out1) = accumulate s loc;
          s2 = s1\<lparr> ls_currentLocation := Some loc \<rparr>;
          out2 = (if ls_callbacks s2 then [OnLocationUpdate loc] else []);
          s3 = (case g_speed g of
                  Some v \<Rightarrow> updateAccuracyMode s2 v
                | None \<Rightarrow>
                    if \<not> ls_isHighAccuracy s2 \<and> \<not> isFirstCallbackAfterSwitch
                    then switchAccuracyMode s2 True else s2)
      in (s3, out1 @ out2))"

definition stopTracking :: "loc_state \<Rightarrow> loc_state" where
  "stopTracking s = (clearWatch s)\<lparr> ls_isTracking := False, ls_callbacks := False \<rparr>"

definition resetDistance :: "loc_state \<Rightarrow> loc_state" where
  "resetDistance s = s\<lparr> ls_totalDistance := 0 \<rparr>"

text \<open>The one-time fix: it moves the anchor and, at the start of tracking, reports the location.\<close>

definition onCurrentPosition :: "loc_state \<Rightarrow> geolocation_position \<Rightarrow> loc_state \<times> loc_output list" where
  "onCurrentPosition s g =
     (let loc = location_of_position g
      in (s\<lparr> ls_currentLocation := Some loc \<rparr>,
          if ls_callbacks s then [OnLocationUpdate loc] else []))"

definition getCurrentSpeed :: "loc_state \<Rightarrow> real" where
  "getCurrentSpeed s =
     (case ls_currentLocation s of
        None \<Rightarrow> 0
      | Some loc \<Rightarrow> if l_speed loc = 0 then 0 else jmul (l_speed loc) (rnd (36 / 10)))"

definition isWalking :: "loc_state \<Rightarrow> bool" where
  "isWalking s \<longleftrightarrow> 3 \<le> getCurrentSpeed s \<and> getCurrentSpeed s \<le> 8"

text \<open>
  Events reach the service one at a time. A fix or an error of a watch is delivered only while
  the package serves that watch.
\<close>

datatype loc_event =
  StartTracking
| StopTracking
| ResetDistance
| CurrentPosition geolocation_position
| WatchPosition nat geolocation_position
| WatchError nat int

fun loc_step :: "loc_state \<Rightarrow> loc_event \<Rightarrow> loc_state \<times> loc_output list" where
  "loc_step s StartTracking = (startTracking s, [])"
| "loc_step s StopTracking = (stopTracking s, [])"
| "loc_step s ResetDistance = (resetDistance s, [])"
| "loc_step s (CurrentPosition g) = onCurrentPosition s g"
| "loc_step s (WatchPosition w g) =
     (if w \<in> fst ` set (ls_watches s) then onWatchPosition s g else (s, []))"
| "loc_step s (WatchError w code) = (s, [])"

section \<open>The sun\<close>

definition RAD :: real where "RAD = pi / 180"
definition J2000 :: real where "J2000 = 2451545"

definition daysSinceJ2000 :: "int \<Rightarrow> real" where
  "daysSinceJ2000 date = of_int date / 86400000 - 1 / 2 + 2440588 - J2000"

text \<open>The remainder of the language: the sign is that of the dividend.\<close>

definition js_rem :: "real \<Rightarrow> real \<Rightarrow> real" where
  "js_rem x m = (if x \<ge> 0 then x - m * of_int \<lfloor>x / m\<rfloor> else x - m * of_int \<lceil>x / m\<rceil>)"

definition solarElevationDeg :: "int \<Rightarrow> real \<Rightarrow> real \<Rightarrow> real" where
  "solarElevationDeg date latitude longitude =
     (let d = daysSinceJ2000 date;
          meanAnomaly = (357529 / 1000 + 98560028 / 100000000 * d) * RAD;
          meanLongitude = (280459 / 1000 + 98564736 / 100000000 * d) * RAD;
          eclipticLongitude = meanLongitude
            + (1915 / 1000 * sin meanAnomaly + 2 / 100 * sin (2 * meanAnomaly)) * RAD;
          obliquity = (23439 / 1000 - 36 / 100000000 * d) * RAD;
          declination = arcsin (sin obliquity * sin eclipticLongitude);
          rightAscension = math_atan2 (cos obliquity * sin eclipticLongitude) (cos eclipticLongitude);
          gmstHours = js_rem (18697374558 / 1000000000 + 2406570982441908 / 100000000000000 * d) 24;
          localSiderealTime = (gmstHours * 15 + longitude) * RAD;
          hourAngle = localSiderealTime - rightAscension;
          lat = latitude * RAD;
          sinElevation = sin lat * sin declination + cos lat * cos declination * cos hourAngle
      in arcsin (max (- 1) (min 1 sinElevation)) / RAD)"

definition HORIZON_ELEVATION_DEG :: real where "HORIZON_ELEVATION_DEG = - (833 / 1000)"

definition isDaylight :: "int \<Rightarrow> real \<Rightarrow> real \<Rightarrow> bool" where
  "isDaylight date latitude longitude \<longleftrightarrow>
     solarElevationDeg date latitude longitude > HORIZON_ELEVATION_DEG"

section \<open>Lemmas: distance\<close>

lemma sin_swap: "sin ((c - a) * pi / 180 / 2) = - sin ((a - c) * pi / 180 / 2)"
proof -
  have "(c - a) * pi / 180 / 2 = - ((a - c) * pi / 180 / 2)" by (simp add: field_simps)
  then show ?thesis by (simp only: sin_minus)
qed

lemma haversine_sym: "haversine a b c d = haversine c d a b"
  unfolding haversine_def Let_def sin_swap[of c a] sin_swap[of d b] by (simp add: mult.commute)

lemma haversine_range:
  assumes "\<bar>lat1\<bar> \<le> 90" and "\<bar>lat2\<bar> \<le> 90"
  shows "0 \<le> haversine lat1 lon1 lat2 lon2" and "haversine lat1 lon1 lat2 lon2 \<le> 1"
proof -
  define p q x y where "p = lat1 * pi / 180" and "q = lat2 * pi / 180"
    and "x = (lat2 - lat1) * pi / 180 / 2" and "y = (lon2 - lon1) * pi / 180 / 2"
  have h: "haversine lat1 lon1 lat2 lon2 = sin x ^ 2 + cos p * cos q * sin y ^ 2"
    by (simp add: haversine_def p_def q_def x_def y_def power2_eq_square Let_def)
  have range: "- (pi / 2) \<le> l * pi / 180 \<and> l * pi / 180 \<le> pi / 2" if "\<bar>l\<bar> \<le> 90" for l :: real
  proof -
    have "l * pi \<le> 90 * pi" "- 90 * pi \<le> l * pi" 
      using that by (simp_all add: mult_right_mono minus_mult_left abs_le_iff del: mult_minus_left)
    then show ?thesis by simp
  qed
  have cos: "0 \<le> cos p" "0 \<le> cos q"
    unfolding p_def q_def using range[OF assms(1)] range[OF assms(2)] by (blast intro: cos_ge_zero)+
  then show "0 \<le> haversine lat1 lon1 lat2 lon2" by (simp add: h)
  have "cos p * cos q * sin y ^ 2 \<le> cos p * cos q * 1"
    using cos by (intro mult_left_mono) (simp_all add: abs_square_le_1)
  also have "cos p * cos q \<le> cos x ^ 2"
  proof -
    have "2 * (cos p * cos q) = cos (p - q) + cos (p + q)" by (simp add: cos_diff cos_add)
    moreover have "cos (p - q) = 2 * cos x ^ 2 - 1"
    proof -
      have "p - q = - (2 * x)" by (simp add: p_def q_def x_def field_simps)
      then show ?thesis by (simp add: cos_double_cos)
    qed
    ultimately show ?thesis using cos_le_one[of "p + q"] by linarith
  qed
  finally show "haversine lat1 lon1 lat2 lon2 \<le> 1"
    unfolding h using sin_cos_squared_add[of x] by linarith
qed

lemma atan2_quarter:
  assumes "0 \<le> y" and "0 \<le> x"
  shows "0 \<le> math_atan2 y x" and "math_atan2 y x \<le> pi / 2"
  using assms arctan_ubound[of "y / x"] by (auto simp: math_atan2_def zero_le_arctan_iff)

lemma calculateDistance_sym: "calculateDistance a b c d = calculateDistance c d a b"
  by (simp add: calculateDistance_def haversine_sym[of a b c d])

lemma calculateDistance_self: "calculateDistance a b a b = 0"
  by (simp add: calculateDistance_def haversine_def math_atan2_def)

lemma calculateDistance_range:
  assumes "\<bar>lat1\<bar> \<le> 90" and "\<bar>lat2\<bar> \<le> 90"
  shows "0 \<le> calculateDistance lat1 lon1 lat2 lon2"
    and "calculateDistance lat1 lon1 lat2 lon2 \<le> pi * earth_radius"
  using haversine_range[OF assms, of lon1 lon2]
    atan2_quarter[of "sqrt (haversine lat1 lon1 lat2 lon2)" "sqrt (1 - haversine lat1 lon1 lat2 lon2)"]
  by (simp_all add: calculateDistance_def Let_def earth_radius_def)

lemma atan2_sin_cos:
  assumes "0 \<le> x" and "x \<le> pi / 2"
  shows "math_atan2 (sin x) (cos x) = x"
proof (cases "x = pi / 2")
  case True
  show ?thesis unfolding True by (simp add: math_atan2_def)
next
  case False
  then have "0 < cos x" using assms by (intro cos_gt_zero_pi) auto
  moreover have "arctan (tan x) = x" using assms False by (intro arctan_tan) auto
  ultimately show ?thesis by (simp add: math_atan2_def tan_def)
qed

text \<open>Along a meridian the formula is the arc length.\<close>

lemma calculateDistance_meridian:
  assumes "\<bar>lat2 - lat1\<bar> \<le> 180"
  shows "calculateDistance lat1 lon lat2 lon = earth_radius * (\<bar>lat2 - lat1\<bar> * pi / 180)"
proof -
  define x where "x = \<bar>lat2 - lat1\<bar> * pi / 180 / 2"
  have x: "0 \<le> x" "x \<le> pi / 2"
  proof -
    have "\<bar>lat2 - lat1\<bar> * pi \<le> 180 * pi" using assms by (intro mult_right_mono) simp_all
    then show "0 \<le> x" "x \<le> pi / 2" by (simp_all add: x_def)
  qed
  have "sin ((lat2 - lat1) * pi / 180 / 2) ^ 2 = sin x ^ 2"
    using sin_swap[of lat2 lat1] by (cases "lat1 \<le> lat2") (simp_all add: x_def)
  then have a: "haversine lat1 lon lat2 lon = sin x ^ 2"
    by (simp add: haversine_def power2_eq_square)
  have "sqrt (1 - sin x ^ 2) = cos x"
    using x cos_ge_zero[of x] by (simp add: cos_squared_eq[symmetric])
  moreover have "sqrt (sin x ^ 2) = sin x" using x sin_ge_zero[of x] by simp
  ultimately have "calculateDistance lat1 lon lat2 lon = earth_radius * (2 * math_atan2 (sin x) (cos x))"
    by (simp add: calculateDistance_def a)
  then show ?thesis by (simp add: atan2_sin_cos[OF x]) (simp add: x_def)
qed

section \<open>Lemmas: tracking\<close>

text \<open>
  The invariant of the service: exactly the recorded watch is served, with the accuracy the
  service believes in, callbacks are set exactly while tracking, and in high accuracy fewer than
  three slow readings are pending.
\<close>

definition loc_ok :: "loc_state \<Rightarrow> bool" where
  "loc_ok s \<longleftrightarrow>
     (ls_isTracking s \<longleftrightarrow> ls_watchId s \<noteq> None) \<and> ls_callbacks s = ls_isTracking s \<and>
     ls_watches s = (case ls_watchId s of None \<Rightarrow> [] | Some w \<Rightarrow> [(w, ls_isHighAccuracy s)]) \<and>
     (\<forall>w. ls_watchId s = Some w \<longrightarrow> w < ls_watchCount s) \<and>
     (ls_isHighAccuracy s \<longrightarrow> ls_consecutiveLowSpeedReadings s < LOW_SPEED_READINGS_TO_DOWNGRADE) \<and>
     0 \<le> ls_totalDistance s"

lemma loc_init_ok: "loc_ok loc_init"
  by (simp add: loc_ok_def loc_init_def LOW_SPEED_READINGS_TO_DOWNGRADE_def)

lemma startTracking_ok: "loc_ok s \<Longrightarrow> loc_ok (startTracking s)"
  by (auto simp: loc_ok_def startTracking_def startWatch_def LOW_SPEED_READINGS_TO_DOWNGRADE_def)

lemma stopTracking_ok: "loc_ok s \<Longrightarrow> loc_ok (stopTracking s)"
  by (auto simp: loc_ok_def stopTracking_def clearWatch_def split: option.splits)

text \<open>Switching replaces the watch; it needs the watch to be the served one, whatever its mode.\<close>

definition watch_ok :: "loc_state \<Rightarrow> bool" where
  "watch_ok s \<longleftrightarrow> ls_isTracking s \<and> ls_callbacks s \<and> 0 \<le> ls_totalDistance s \<and>
     (\<exists>w b. ls_watchId s = Some w \<and> ls_watches s = [(w, b)] \<and> w < ls_watchCount s)"

lemma switchAccuracyMode_ok: "watch_ok s \<Longrightarrow> loc_ok (switchAccuracyMode s b)"
  by (auto simp: watch_ok_def loc_ok_def switchAccuracyMode_def startWatch_def clearWatch_def
      LOW_SPEED_READINGS_TO_DOWNGRADE_def)

lemma loc_ok_watch: "loc_ok s \<Longrightarrow> ls_isTracking s \<Longrightarrow> watch_ok s"
  by (auto simp: loc_ok_def watch_ok_def)

lemma watch_ok_frame [simp]:
  "watch_ok (s\<lparr> ls_consecutiveLowSpeedReadings := n \<rparr>) = watch_ok s"
  "watch_ok (s\<lparr> ls_currentLocation := l \<rparr>) = watch_ok s"
  by (simp_all add: watch_ok_def)

lemma updateAccuracyMode_ok: "loc_ok s \<Longrightarrow> ls_isTracking s \<Longrightarrow> loc_ok (updateAccuracyMode s v)"
  using loc_ok_watch[of s]
  by (auto simp: updateAccuracyMode_def Let_def switchAccuracyMode_ok)
    (auto simp: loc_ok_def LOW_SPEED_READINGS_TO_DOWNGRADE_def)

lemma accumulate_ok: "loc_ok s \<Longrightarrow> loc_ok (fst (accumulate s loc)) \<and> ls_isTracking (fst (accumulate s loc)) = ls_isTracking s"
  by (auto simp: accumulate_def Let_def loc_ok_def jadd_nonneg split: option.splits)

lemma onWatchPosition_ok:
  assumes "loc_ok s" and "ls_isTracking s"
  shows "loc_ok (fst (onWatchPosition s g))"
proof -
  let ?s2 = "(fst (accumulate s (location_of_position g)))\<lparr> ls_currentLocation := Some (location_of_position g) \<rparr>"
  have ok: "loc_ok ?s2" "ls_isTracking ?s2"
    using accumulate_ok[OF assms(1), of "location_of_position g"] assms(2) by (auto simp: loc_ok_def)
  then have "loc_ok (switchAccuracyMode ?s2 True)" "loc_ok (updateAccuracyMode ?s2 v)" for v
    using switchAccuracyMode_ok[OF loc_ok_watch[OF ok]] updateAccuracyMode_ok[OF ok] by blast+
  with ok(1) show ?thesis
    by (auto simp: onWatchPosition_def Let_def split: prod.splits option.splits)
qed

lemma loc_ok_reset: "loc_ok s \<Longrightarrow> loc_ok (resetDistance s)"
  by (auto simp: loc_ok_def resetDistance_def split: option.splits)

lemma onCurrentPosition_ok: "loc_ok s \<Longrightarrow> loc_ok (fst (onCurrentPosition s g))"
  by (auto simp: loc_ok_def onCurrentPosition_def Let_def split: option.splits)

lemma loc_step_ok: "loc_ok s \<Longrightarrow> loc_ok (fst (loc_step s e))"
proof (cases e)
  case (WatchPosition w g)
  assume "loc_ok s"
  then have "ls_isTracking s" if "w \<in> fst ` set (ls_watches s)"
    using that by (auto simp: loc_ok_def split: option.splits)
  then show ?thesis using WatchPosition \<open>loc_ok s\<close> by (auto intro: onWatchPosition_ok)
qed (simp_all add: startTracking_ok stopTracking_ok loc_ok_reset onCurrentPosition_ok)

interpretation tracking: step_machine "\<lambda>s e. fst (loc_step s e)" loc_ok "\<lambda>_. True"
  by unfold_locales (simp add: loc_step_ok)

text \<open>Distance is reported only in high accuracy, from an anchor, and within the accepted band.\<close>

lemma updateAccuracyMode_total [simp]: "ls_totalDistance (updateAccuracyMode s v) = ls_totalDistance s"
  by (simp add: updateAccuracyMode_def Let_def switchAccuracyMode_def startWatch_def clearWatch_def
      split: option.splits)

lemma switchAccuracyMode_total [simp]: "ls_totalDistance (switchAccuracyMode s b) = ls_totalDistance s"
  by (simp add: switchAccuracyMode_def startWatch_def clearWatch_def split: option.splits)

lemma onWatchPosition_parts:
  "snd (onWatchPosition s g) =
     snd (accumulate s (location_of_position g)) @ (if ls_callbacks s then [OnLocationUpdate (location_of_position g)] else [])"
  "ls_totalDistance (fst (onWatchPosition s g)) = ls_totalDistance (fst (accumulate s (location_of_position g)))"
  by (auto simp: onWatchPosition_def accumulate_def Let_def split: prod.splits option.splits)

definition distance_reports :: "loc_output list \<Rightarrow> real list" where
  "distance_reports out = List.map_filter (\<lambda>o'. case o' of OnDistanceUpdate d \<Rightarrow> Some (dd_incremental d) | _ \<Rightarrow> None) out"

lemma accumulate_report:
  assumes "OnDistanceUpdate d \<in> set (snd (accumulate s loc))"
  shows "ls_isHighAccuracy s \<and> ls_callbacks s \<and> (\<exists>cur. ls_currentLocation s = Some cur \<and>
      dd_incremental d = calculateDistance (l_latitude cur) (l_longitude cur) (l_latitude loc) (l_longitude loc)) \<and>
    1 \<le> dd_incremental d \<and> dd_incremental d < 1000 \<and> dd_location d = loc \<and>
    dd_total d = ls_totalDistance (fst (accumulate s loc))"
  using assms by (auto simp: accumulate_def Let_def split: option.splits if_splits)

lemma accumulate_total:
  "ls_callbacks s \<Longrightarrow>
   ls_totalDistance (fst (accumulate s loc)) = foldl jadd (ls_totalDistance s) (distance_reports (snd (accumulate s loc)))"
  by (auto simp: accumulate_def Let_def distance_reports_def List.map_filter_simps split: option.splits)

lemma distance_reports_location [simp]:
  "distance_reports [OnLocationUpdate l] = []" "distance_reports [] = []"
  "distance_reports (xs @ ys) = distance_reports xs @ distance_reports ys"
  by (simp_all add: distance_reports_def List.map_filter_simps List.map_filter_def)

lemma loc_step_total:
  assumes "loc_ok s" and "e \<noteq> ResetDistance"
  shows "ls_totalDistance (fst (loc_step s e)) = foldl jadd (ls_totalDistance s) (distance_reports (snd (loc_step s e)))"
proof (cases e)
  case (WatchPosition w g)
  have "ls_callbacks s" if "w \<in> fst ` set (ls_watches s)"
    using that assms(1) by (auto simp: loc_ok_def split: option.splits)
  then show ?thesis using WatchPosition accumulate_total by (auto simp: onWatchPosition_parts)
qed (use assms(2) in \<open>auto simp: startTracking_def startWatch_def stopTracking_def clearWatch_def
      onCurrentPosition_def Let_def split: option.splits\<close>)

text \<open>A session of events, with everything it reports.\<close>

fun loc_run :: "loc_state \<Rightarrow> loc_event list \<Rightarrow> loc_state \<times> loc_output list" where
  "loc_run s [] = (s, [])"
| "loc_run s (e # es) =
     (let (s1, out1) = loc_step s e; (s2, out2) = loc_run s1 es in (s2, out1 @ out2))"

lemma loc_run_Cons:
  "fst (loc_run s (e # es)) = fst (loc_run (fst (loc_step s e)) es)"
  "snd (loc_run s (e # es)) = snd (loc_step s e) @ snd (loc_run (fst (loc_step s e)) es)"
  by (simp_all add: case_prod_beta Let_def)

lemma loc_run_total:
  assumes "loc_ok s" and "ResetDistance \<notin> set es"
  shows "loc_ok (fst (loc_run s es)) \<and>
    ls_totalDistance (fst (loc_run s es)) = foldl jadd (ls_totalDistance s) (distance_reports (snd (loc_run s es)))"
  using assms
proof (induction es arbitrary: s)
  case (Cons e es)
  then have "loc_ok (fst (loc_step s e))" "e \<noteq> ResetDistance" by (auto simp: loc_step_ok)
  then show ?case
    using Cons.IH[of "fst (loc_step s e)"] Cons.prems loc_step_total[OF Cons.prems(1), of e]
    by (simp add: loc_run_Cons del: loc_run.simps)
qed simp

lemma loc_step_reports: "x \<in> set (distance_reports (snd (loc_step s e))) \<Longrightarrow> 1 \<le> x \<and> x < 1000"
  using accumulate_report[of _ s]
  by (cases e) (auto simp: onWatchPosition_parts onCurrentPosition_def distance_reports_def List.map_filter_def Let_def
      split: if_splits loc_output.splits)

lemma loc_run_reports: "x \<in> set (distance_reports (snd (loc_run s es))) \<Longrightarrow> 1 \<le> x \<and> x < 1000"
  by (induction es arbitrary: s) (auto simp: loc_run_Cons dest: loc_step_reports simp del: loc_run.simps(2))

section \<open>Lemmas: the sun\<close>

lemma solarElevation_range: "- 90 \<le> solarElevationDeg t lat lon" "solarElevationDeg t lat lon \<le> 90"
proof -
  have *: "- 90 \<le> arcsin (max (- 1) (min 1 y)) / RAD \<and> arcsin (max (- 1) (min 1 y)) / RAD \<le> 90" for y
    using arcsin_bounded[of "max (- 1) (min 1 y)"] pi_gt_zero
    by (auto simp: RAD_def pos_le_divide_eq pos_divide_le_eq field_simps)
  show "- 90 \<le> solarElevationDeg t lat lon" "solarElevationDeg t lat lon \<le> 90"
    unfolding solarElevationDeg_def Let_def using * by blast+
qed

lemma solarElevation_periodic: "solarElevationDeg t lat (lon + 360) = solarElevationDeg t lat lon"
proof -
  have "cos ((g * 15 + (lon + 360)) * RAD - ra) = cos ((g * 15 + lon) * RAD - ra)" for g ra
  proof -
    have "(g * 15 + (lon + 360)) * RAD - ra = ((g * 15 + lon) * RAD - ra) + 2 * pi"
      by (simp add: RAD_def algebra_simps)
    then show ?thesis by (simp only: cos_periodic)
  qed
  then show ?thesis unfolding solarElevationDeg_def Let_def by (simp only:)
qed

lemma solarElevation_pole: "solarElevationDeg t 90 lon = solarElevationDeg t 90 lon'"
proof -
  have "cos (90 * RAD) = 0" by (simp add: RAD_def)
  then show ?thesis unfolding solarElevationDeg_def Let_def by simp
qed

text \<open>The distance as a whole: a symmetric measure, at most half the circumference, exact along a meridian.\<close>

lemma distance_spec:
  assumes "\<bar>lat1\<bar> \<le> 90" and "\<bar>lat2\<bar> \<le> 90"
  shows "calculateDistance lat1 lon1 lat2 lon2 = calculateDistance lat2 lon2 lat1 lon1 \<and>
    calculateDistance lat1 lon1 lat1 lon1 = 0 \<and> 0 \<le> calculateDistance lat1 lon1 lat2 lon2 \<and>
    calculateDistance lat1 lon1 lat2 lon2 \<le> pi * earth_radius \<and>
    calculateDistance lat1 lon1 lat2 lon1 = earth_radius * (\<bar>lat2 - lat1\<bar> * pi / 180)"
  using calculateDistance_sym calculateDistance_self calculateDistance_range[OF assms] calculateDistance_meridian[of lat2 lat1 lon1] assms
  by auto

end
