(* ===== verification/Encounters.thy ===== *)
theory Encounters
  imports Loot Geo
begin

text \<open>
  Encounters (\<open>models/Encounter.ts\<close>), the routing of a fresh encounter
  (\<open>models/encounterRouting.ts\<close>) and the service that turns walked distance into encounters
  (\<open>services/EncounterService.ts\<close>). A call reads the clock once; the reading is a parameter.
\<close>

section \<open>The encounter object\<close>

datatype encounter_status = Active | Defeated | Fled

record encounter =
  e_creature :: creature
  e_location :: location
  e_timestamp :: int
  e_playerLevel :: int
  e_status :: encounter_status
  e_daylight :: "bool option"

text \<open>\<open>||\<close> replaces an absent value and zero alike.\<close>

definition or_falsy :: "int option \<Rightarrow> int \<Rightarrow> int" where
  "or_falsy v d = (case v of None \<Rightarrow> d | Some n \<Rightarrow> if n = 0 then d else n)"

definition new_Encounter ::
  "int \<Rightarrow> creature \<Rightarrow> location \<Rightarrow> int option \<Rightarrow> int option \<Rightarrow> encounter_status option \<Rightarrow> bool option \<Rightarrow> encounter" where
  "new_Encounter now c loc timestamp playerLevel status daylight =
     \<lparr> e_creature = c, e_location = loc, e_timestamp = or_falsy timestamp now,
       e_playerLevel = or_falsy playerLevel 1,
       e_status = (case status of None \<Rightarrow> Active | Some st \<Rightarrow> st), e_daylight = daylight \<rparr>"

text \<open>The choice for a known state of the sun, and the choice at a place and time.\<close>

definition randomEncounterAt ::
  "int \<Rightarrow> location \<Rightarrow> int \<Rightarrow> rarity option \<Rightarrow> bool \<Rightarrow> encounter rand" where
  "randomEncounterAt now loc playerLevel rarityOverride daylight = do {
     template \<leftarrow> (case rarityOverride of
         Some r \<Rightarrow> do { x \<leftarrow> math_random; State_Monad.return (pickEncounterTemplateOfRarity r (Some daylight) x) }
       | None \<Rightarrow> State (pickEncounterTemplate playerLevel (Some daylight)));
     x \<leftarrow> math_random;
     State_Monad.return
       (new_Encounter now (createCreatureFromTemplate template playerLevel x) loc None (Some playerLevel)
          None (Some daylight))
   }"

definition createRandomEncounter :: "int \<Rightarrow> location \<Rightarrow> int \<Rightarrow> rarity option \<Rightarrow> encounter rand" where
  "createRandomEncounter now loc playerLevel rarityOverride =
     randomEncounterAt now loc playerLevel rarityOverride
       (isDaylight now (l_latitude loc) (l_longitude loc))"

definition e_defeat :: "encounter \<Rightarrow> encounter" where
  "e_defeat e = e\<lparr> e_status := Defeated \<rparr>"

definition e_flee :: "encounter \<Rightarrow> encounter" where
  "e_flee e = e\<lparr> e_status := Fled \<rparr>"

definition e_isActive :: "encounter \<Rightarrow> bool" where
  "e_isActive e \<longleftrightarrow> e_status e = Active"

section \<open>Routing\<close>

datatype encounter_route = Present | AutoResolve | Hold | Passive

definition resolveEncounterRoute :: "bool \<Rightarrow> bool \<Rightarrow> bool \<Rightarrow> encounter_route" where
  "resolveEncounterRoute isBackground isElite autoResolveBelowRare =
     (if \<not> isBackground then
        (if \<not> isElite \<and> autoResolveBelowRare then AutoResolve else Present)
      else if isElite then Hold else Passive)"

section \<open>The service\<close>

record encounter_service =
  es_distanceSinceLastEncounter :: real
  es_lastEncounterTime :: "int option"
  es_minEncounterDistance :: real
  es_encounterChancePerMeter :: real
  es_minTimeBetweenEncounters :: int
  es_bypassTimeConstraint :: bool

definition es_init :: encounter_service where
  "es_init =
     \<lparr> es_distanceSinceLastEncounter = 0, es_lastEncounterTime = None,
       es_minEncounterDistance = 50, es_encounterChancePerMeter = rnd (1 / 1000),
       es_minTimeBetweenEncounters = 30000, es_bypassTimeConstraint = False \<rparr>"

text \<open>\<open>None\<close> is \<open>Infinity\<close>; a stored time of zero counts as absent.\<close>

definition timeSinceLastEncounter :: "encounter_service \<Rightarrow> int \<Rightarrow> int option" where
  "timeSinceLastEncounter s now =
     (case es_lastEncounterTime s of None \<Rightarrow> None | Some t \<Rightarrow> if t = 0 then None else Some (now - t))"

definition timeConstraintMet :: "encounter_service \<Rightarrow> int \<Rightarrow> bool" where
  "timeConstraintMet s now \<longleftrightarrow> es_bypassTimeConstraint s \<or>
     (case timeSinceLastEncounter s now of None \<Rightarrow> True | Some d \<Rightarrow> d \<ge> es_minTimeBetweenEncounters s)"

definition processDistanceUpdate ::
  "int \<Rightarrow> encounter_service \<Rightarrow> distance_data option \<Rightarrow> location option \<Rightarrow> int \<Rightarrow>
   (encounter option \<times> encounter_service) rand" where
  "processDistanceUpdate now s distanceData playerLocation playerLevel =
     (case (distanceData, playerLocation) of
        (Some dd, Some loc) \<Rightarrow>
          let s1 = s\<lparr> es_distanceSinceLastEncounter :=
                        jadd (es_distanceSinceLastEncounter s) (dd_incremental dd) \<rparr>
          in if es_distanceSinceLastEncounter s1 \<ge> es_minEncounterDistance s1 \<and> timeConstraintMet s1 now then
               let extraDistance = jsub (es_distanceSinceLastEncounter s1) (es_minEncounterDistance s1);
                   encounterProbability = min 1 (jmul extraDistance (es_encounterChancePerMeter s1))
               in do {
                 x \<leftarrow> math_random;
                 if x < encounterProbability then do {
                   enc \<leftarrow> createRandomEncounter now loc playerLevel None;
                   State_Monad.return
                     (Some enc, s1\<lparr> es_distanceSinceLastEncounter := 0, es_lastEncounterTime := Some now \<rparr>)
                 } else State_Monad.return (None, s1)
               }
             else State_Monad.return (None, s1)
      | _ \<Rightarrow> State_Monad.return (None, s))"

definition distanceProbability :: "encounter_service \<Rightarrow> real \<Rightarrow> real" where
  "distanceProbability s distance =
     (if distance < es_minEncounterDistance s then 0
      else min 1 (jmul (jsub distance (es_minEncounterDistance s)) (es_encounterChancePerMeter s)))"

definition getDistanceBasedProbability :: "encounter_service \<Rightarrow> real" where
  "getDistanceBasedProbability s = distanceProbability s (es_distanceSinceLastEncounter s)"

definition timeBlocks :: "encounter_service \<Rightarrow> int \<Rightarrow> bool" where
  "timeBlocks s now \<longleftrightarrow> \<not> es_bypassTimeConstraint s \<and>
     (case timeSinceLastEncounter s now of None \<Rightarrow> False | Some d \<Rightarrow> d < es_minTimeBetweenEncounters s)"

definition getCurrentEncounterProbability :: "encounter_service \<Rightarrow> int \<Rightarrow> real" where
  "getCurrentEncounterProbability s now =
     (if timeBlocks s now then 0 else getDistanceBasedProbability s)"

definition getDistanceBasedProbabilityAfterIncremental :: "encounter_service \<Rightarrow> real \<Rightarrow> real" where
  "getDistanceBasedProbabilityAfterIncremental s incrementalDistance =
     distanceProbability s (jadd (es_distanceSinceLastEncounter s) incrementalDistance)"

definition getProbabilityAfterIncremental :: "encounter_service \<Rightarrow> int \<Rightarrow> real \<Rightarrow> real" where
  "getProbabilityAfterIncremental s now incrementalDistance =
     (if timeBlocks s now then 0 else getDistanceBasedProbabilityAfterIncremental s incrementalDistance)"

record encounter_readiness =
  rs_distanceSinceLastEncounter :: real
  rs_minEncounterDistance :: real
  rs_probability :: real
  rs_timeSinceLastEncounter :: "int option"

definition getEncounterStatus :: "encounter_service \<Rightarrow> int \<Rightarrow> encounter_readiness" where
  "getEncounterStatus s now =
     \<lparr> rs_distanceSinceLastEncounter = es_distanceSinceLastEncounter s, rs_minEncounterDistance = es_minEncounterDistance s,
       rs_probability = getCurrentEncounterProbability s now, rs_timeSinceLastEncounter = timeSinceLastEncounter s now \<rparr>"

definition forceEncounter ::
  "int \<Rightarrow> encounter_service \<Rightarrow> location \<Rightarrow> int \<Rightarrow> rarity option \<Rightarrow> (encounter \<times> encounter_service) rand" where
  "forceEncounter now s loc playerLevel rarityOverride = do {
     enc \<leftarrow> createRandomEncounter now loc playerLevel rarityOverride;
     State_Monad.return (enc, s\<lparr> es_distanceSinceLastEncounter := 0, es_lastEncounterTime := Some now \<rparr>)
   }"

definition es_reset :: "encounter_service \<Rightarrow> encounter_service" where
  "es_reset s = s\<lparr> es_distanceSinceLastEncounter := 0, es_lastEncounterTime := None \<rparr>"

definition es_configure :: "encounter_service \<Rightarrow> real option \<Rightarrow> real option \<Rightarrow> int option \<Rightarrow> encounter_service" where
  "es_configure s minDistance chance minTime =
     s\<lparr> es_minEncounterDistance := (case minDistance of None \<Rightarrow> es_minEncounterDistance s | Some v \<Rightarrow> v),
        es_encounterChancePerMeter := (case chance of None \<Rightarrow> es_encounterChancePerMeter s | Some v \<Rightarrow> v),
        es_minTimeBetweenEncounters := (case minTime of None \<Rightarrow> es_minTimeBetweenEncounters s | Some v \<Rightarrow> v) \<rparr>"

definition isTimeConstraintBlocking :: "encounter_service \<Rightarrow> int \<Rightarrow> bool" where
  "isTimeConstraintBlocking s now =
     (if es_bypassTimeConstraint s then False
      else case es_lastEncounterTime s of
        None \<Rightarrow> False
      | Some t \<Rightarrow> if t = 0 then False else now - t < es_minTimeBetweenEncounters s)"

definition getTimeRemainingUntilEncounter :: "encounter_service \<Rightarrow> int \<Rightarrow> int" where
  "getTimeRemainingUntilEncounter s now =
     (case es_lastEncounterTime s of
        None \<Rightarrow> 0
      | Some t \<Rightarrow>
          if t = 0 then 0
          else max 0 \<lceil>jdiv (of_int (es_minTimeBetweenEncounters s - (now - t))) 1000\<rceil>)"

definition setBypassTimeConstraint :: "encounter_service \<Rightarrow> bool \<Rightarrow> encounter_service" where
  "setBypassTimeConstraint s b = s\<lparr> es_bypassTimeConstraint := b \<rparr>"

section \<open>Lemmas: encounters\<close>

definition encounter_ok :: "encounter \<Rightarrow> bool" where
  "encounter_ok e \<longleftrightarrow> creature_ok (e_creature e)"

lemma template_mem_ok: "t \<in> set CREATURE_TEMPLATES \<Longrightarrow> template_ok t"
  using templates_ok by (simp add: list_all_iff)

definition fresh_encounter :: "int \<Rightarrow> encounter \<Rightarrow> bool" where
  "fresh_encounter pl e \<longleftrightarrow> encounter_ok e \<and> e_status e = Active \<and>
     c_hp (e_creature e) = c_maxHp (e_creature e) \<and>
     max 1 (pl - 2) \<le> c_level (e_creature e) \<and> c_level (e_creature e) \<le> max 1 (pl + 2)"

lemma created_fresh:
  assumes "t \<in> set CREATURE_TEMPLATES" and "valid_draw x"
  shows "fresh_encounter pl (new_Encounter now (createCreatureFromTemplate t pl x) loc None (Some pl) None dl)"
  using createCreature_ok[OF template_mem_ok[OF assms(1)], of pl x] levelVariation_range[OF assms(2)]
  by (auto simp: fresh_encounter_def encounter_ok_def new_Encounter_def createCreature_fields)

lemma randomEncounterAt_spec: "rand_all (fresh_encounter pl) (randomEncounterAt now loc pl override dl)"
proof -
  have "rand_all (\<lambda>t. t \<in> set CREATURE_TEMPLATES)
      (case override of
         Some r \<Rightarrow> State_Monad.bind math_random (\<lambda>x. State_Monad.return (pickEncounterTemplateOfRarity r (Some dl) x))
       | None \<Rightarrow> State (pickEncounterTemplate pl (Some dl)))"
  proof (cases override)
    case None
    have "valid_rng (snd (pickEncounterTemplate pl (Some dl) r))" if "valid_rng r" for r
      using that by (simp add: pickEncounterTemplate_def next_random_def valid_rng_stl)
    then show ?thesis using None by (simp add: rand_all_def pickEncounterTemplate_mem)
  next
    case (Some r)
    then show ?thesis
      by (auto intro!: rand_all_bind[OF rand_all_random] rand_all_return
          subsetD[OF rarityPool_subset pick_in_pool])
  qed
  then show ?thesis
    unfolding randomEncounterAt_def
    by (rule rand_all_bind)
      (auto intro!: rand_all_bind[OF rand_all_random] rand_all_return created_fresh)
qed

lemma createRandomEncounter_spec: "rand_all (fresh_encounter pl) (createRandomEncounter now loc pl override)"
  unfolding createRandomEncounter_def by (rule randomEncounterAt_spec)

text \<open>Without an override the rarity is decided by the level and the first draw alone.\<close>

lemma createRandomEncounter_rarity:
  assumes "valid_rng r"
  shows "c_rarity (e_creature (fst (run_state (createRandomEncounter now loc pl None) r))) = rollEncounterRarity pl (shd r)"
  using pickEncounterTemplate_rarity[OF assms, of pl]
  by (simp add: createRandomEncounter_def randomEncounterAt_def math_random_def next_random_def new_Encounter_def
      createCreature_fields split: prod.splits) (metis fst_conv)

section \<open>Lemmas: the service\<close>

lemma distanceProbability_range:
  assumes "0 \<le> es_encounterChancePerMeter s"
  shows "0 \<le> distanceProbability s d" and "distanceProbability s d \<le> 1"
  using assms jmul_nonneg[of "jsub d (es_minEncounterDistance s)" "es_encounterChancePerMeter s"]
  by (auto simp: distanceProbability_def jsub_def rnd_nonneg)

lemma timeBlocks_iff: "timeBlocks s now \<longleftrightarrow> \<not> timeConstraintMet s now"
  by (auto simp: timeBlocks_def timeConstraintMet_def split: option.splits)

lemma isTimeConstraintBlocking_iff: "isTimeConstraintBlocking s now \<longleftrightarrow> timeBlocks s now"
  by (auto simp: isTimeConstraintBlocking_def timeBlocks_def timeSinceLastEncounter_def split: option.splits)

lemma timeConstraintMet_distance [simp]:
  "timeConstraintMet (s\<lparr> es_distanceSinceLastEncounter := d \<rparr>) now = timeConstraintMet s now"
  by (auto simp: timeConstraintMet_def timeSinceLastEncounter_def split: option.splits)

text \<open>The roll succeeds exactly when the first draw is below the announced probability.\<close>

lemma process_iff:
  assumes "valid_rng r" and "0 \<le> es_encounterChancePerMeter s"
  shows "fst (fst (run_state (processDistanceUpdate now s (Some dd) (Some loc) pl) r)) \<noteq> None \<longleftrightarrow>
    shd r < getProbabilityAfterIncremental s now (dd_incremental dd)"
proof -
  have "0 \<le> shd r" using valid_rng_shd[OF assms(1)] by (simp add: valid_draw_def)
  then show ?thesis
    by (auto simp: processDistanceUpdate_def Let_def getProbabilityAfterIncremental_def timeBlocks_iff
        getDistanceBasedProbabilityAfterIncremental_def distanceProbability_def math_random_def
        next_random_def split: prod.splits)
qed

lemma process_reset:
  assumes "fst (run_state (processDistanceUpdate now s (Some dd) (Some loc) pl) r) = (Some enc, s')"
  shows "es_distanceSinceLastEncounter s' = 0" and "es_lastEncounterTime s' = Some now"
    and "es_minEncounterDistance s' = es_minEncounterDistance s"
    and "es_minEncounterDistance s \<le> jadd (es_distanceSinceLastEncounter s) (dd_incremental dd)"
    and "timeConstraintMet s now"
  using assms by (auto simp: processDistanceUpdate_def Let_def math_random_def next_random_def
      split: prod.splits if_splits)

lemma process_fresh:
  "rand_all (\<lambda>(enc, s'). case enc of None \<Rightarrow> True | Some e \<Rightarrow> fresh_encounter pl e)
     (processDistanceUpdate now s dd loc pl)"
  unfolding processDistanceUpdate_def Let_def
  by (auto intro!: rand_intros rand_all_bind[OF rand_all_random] rand_all_bind[OF createRandomEncounter_spec]
      split: option.splits prod.splits)

text \<open>Until the minimum time has passed nothing is rolled.\<close>

lemma process_blocked:
  assumes "\<not> timeConstraintMet s t"
  shows "fst (fst (run_state (processDistanceUpdate t s dd loc pl) r)) = None"
    and "es_lastEncounterTime (snd (fst (run_state (processDistanceUpdate t s dd loc pl) r))) = es_lastEncounterTime s"
  using assms by (auto simp: processDistanceUpdate_def Let_def split: option.splits)

lemma process_spacing:
  assumes "fst (run_state (processDistanceUpdate now s (Some dd) (Some loc) pl) r) = (Some enc, s')"
    and "\<not> es_bypassTimeConstraint s" and "now \<noteq> 0" and "t < now + es_minTimeBetweenEncounters s"
  shows "\<not> timeConstraintMet s' t"
  using assms by (auto simp: processDistanceUpdate_def Let_def math_random_def next_random_def timeConstraintMet_def
      timeSinceLastEncounter_def split: prod.splits if_splits)

text \<open>A kilometre past the minimum makes the encounter certain.\<close>

lemma probability_certain:
  assumes "es_encounterChancePerMeter s = rnd (1 / 1000)" and "es_minEncounterDistance s = 50" and "1050 \<le> d"
  shows "distanceProbability s d = 1"
proof -
  have "1000 \<le> jsub d 50" unfolding js_num using assms(3) rnd_ge_of_int[of 1000 "d - 50"] by simp
  moreover have "0 \<le> rnd (1 / 1000)" by (simp add: rnd_nonneg)
  ultimately have "jmul 1000 (rnd (1 / 1000)) \<le> jmul (jsub d 50) (rnd (1 / 1000))"
    by (intro jmul_mono) simp_all
  moreover have "jmul 1000 (rnd (1 / 1000)) = 1" by code_simp
  ultimately show ?thesis using assms by (simp add: distanceProbability_def)
qed

end
