(* ===== verification/Storage.thy ===== *)
theory Storage
  imports PlayerModel Encounters
begin

text \<open>
  Device storage (\<open>utils/storage.ts\<close>). The key-value package is outside the repository: its six
  calls are fields of a record that every function takes as a parameter, over an arbitrary state,
  and each call may be rejected. What the functions rely on is the locale \<open>device_storage\<close>, which
  speaks of the contents through a view of the state. JSON text is represented by the value it
  encodes; \<open>JInvalid\<close> is text that parses to a value of the wrong shape, \<open>JGarbage\<close> text that does
  not parse. Logging is left out.
\<close>

section \<open>Stored data\<close>

datatype storage_key =
  PLAYER_DATA | PLAYER_SAVED_AT | SETTINGS | PENDING_ENCOUNTER | WALK_SUMMARY | TRACKING_STATE
| CONFLICT_PENDING | BATTERY_PROMPT_SHOWN | AUTO_RESOLVE_BELOW_RARE

datatype theme_name = Night | Day
datatype theme_preference = ThemeAuto | ThemeNight | ThemeDay

record app_settings =
  st_themePreference :: "theme_preference option"
  st_themeName :: "theme_name option"

record encounter_data =
  ed_creature :: creature_params
  ed_location :: location
  ed_timestamp :: int
  ed_playerLevel :: int
  ed_status :: encounter_status
  ed_daylight :: "bool option"

record walk_entry =
  w_creatureName :: string
  w_rarity :: rarity
  w_won :: bool
  w_xpGained :: int
  w_item :: "item option"
  w_timestamp :: int

record pending_conflict =
  pc_localData :: "player_data option"
  pc_localSavedAt :: int
  pc_cloudData :: "player_data option"
  pc_cloudSavedAt :: int

datatype stored =
  JPlayer player_data
| JNumber int
| JBool bool
| JSettings app_settings
| JEncounter encounter_data
| JWalk "walk_entry list"
| JConflict pending_conflict
| JInvalid
| JGarbage

definition MAX_WALK_SUMMARY_ENTRIES :: nat where "MAX_WALK_SUMMARY_ENTRIES = 100"

section \<open>The package\<close>

text \<open>
  A read yields \<open>None\<close> when it is rejected and the content otherwise; a write yields whether it was
  accepted and the state after it.
\<close>

record 's async_storage =
  io_getItem :: "'s \<Rightarrow> storage_key \<Rightarrow> stored option option"
  io_multiGet :: "'s \<Rightarrow> storage_key list \<Rightarrow> stored option list option"
  io_setItem :: "'s \<Rightarrow> storage_key \<Rightarrow> stored \<Rightarrow> bool \<times> 's"
  io_removeItem :: "'s \<Rightarrow> storage_key \<Rightarrow> bool \<times> 's"
  io_multiSet :: "'s \<Rightarrow> (storage_key \<times> stored) list \<Rightarrow> bool \<times> 's"
  io_multiRemove :: "'s \<Rightarrow> storage_key list \<Rightarrow> bool \<times> 's"

section \<open>Player\<close>

text \<open>The write, and what is handed to the cloud service when it succeeded.\<close>

definition savePlayerData ::
  "'s async_storage \<Rightarrow> 's \<Rightarrow> player \<Rightarrow> int \<Rightarrow> (bool \<times> 's) \<times> (player_data \<times> int) option" where
  "savePlayerData io s p now =
     (let playerData = p_toJSON p;
          (ok, s') = io_multiSet io s [(PLAYER_DATA, JPlayer playerData), (PLAYER_SAVED_AT, JNumber now)]
      in ((ok, s'), if ok then Some (playerData, now) else None))"

text \<open>Of the shape checks, the one on the level depends on the value.\<close>

definition isValidPlayerData :: "stored \<Rightarrow> bool" where
  "isValidPlayerData v = (case v of JPlayer d \<Rightarrow> d_level d \<ge> 1 | _ \<Rightarrow> False)"

definition clearLocalPlayerData :: "'s async_storage \<Rightarrow> 's \<Rightarrow> 's" where
  "clearLocalPlayerData io s =
     snd (io_multiRemove io s [PLAYER_DATA, PLAYER_SAVED_AT, WALK_SUMMARY, PENDING_ENCOUNTER])"

definition writeLocalPlayerSnapshot :: "'s async_storage \<Rightarrow> 's \<Rightarrow> player_data \<Rightarrow> int \<Rightarrow> bool \<times> 's" where
  "writeLocalPlayerSnapshot io s d savedAt =
     io_multiSet io s [(PLAYER_DATA, JPlayer d), (PLAYER_SAVED_AT, JNumber savedAt)]"

text \<open>\<open>Number(x ?? 0)\<close> of the stored time, which the service itself wrote as a number.\<close>

definition stored_time :: "stored option \<Rightarrow> int" where
  "stored_time v = (case v of Some (JNumber n) \<Rightarrow> n | _ \<Rightarrow> 0)"

definition readLocalPlayerSnapshot :: "'s async_storage \<Rightarrow> 's \<Rightarrow> (player_data option \<times> int) \<times> 's" where
  "readLocalPlayerSnapshot io s =
     (case io_multiGet io s [PLAYER_DATA, PLAYER_SAVED_AT] of
        None \<Rightarrow> ((None, 0), clearLocalPlayerData io s)
      | Some vs \<Rightarrow>
          (case vs ! 0 of
             None \<Rightarrow> ((None, 0), s)
           | Some v \<Rightarrow>
               if isValidPlayerData v
               then ((case v of JPlayer d \<Rightarrow> Some d | _ \<Rightarrow> None, stored_time (vs ! 1)), s)
               else ((None, 0), clearLocalPlayerData io s)))"

section \<open>Reconciliation with the cloud\<close>

datatype cloud_load = CloudFound stored int | CloudEmpty | CloudUnavailable

datatype reconcile_result = Adopted player_data | NoNewerCloud | Unavailable

text \<open>The cloud read happens first; its result is the argument.\<close>

definition reconcileCloudPlayerData ::
  "'s async_storage \<Rightarrow> 's \<Rightarrow> cloud_load \<Rightarrow> reconcile_result \<times> 's" where
  "reconcileCloudPlayerData io s cloud =
     (case cloud of
        CloudUnavailable \<Rightarrow> (Unavailable, s)
      | CloudEmpty \<Rightarrow> (NoNewerCloud, s)
      | CloudFound v lastSavedAt \<Rightarrow>
          if \<not> isValidPlayerData v then (Unavailable, s)
          else
            let ((_, currentLocalSavedAt), s1) = readLocalPlayerSnapshot io s
            in if lastSavedAt > currentLocalSavedAt
               then (case v of
                       JPlayer d \<Rightarrow> (Adopted d, snd (writeLocalPlayerSnapshot io s1 d lastSavedAt))
                     | _ \<Rightarrow> (NoNewerCloud, s1))
               else (NoNewerCloud, s1))"

section \<open>Settings and flags\<close>

definition saveSettings :: "'s async_storage \<Rightarrow> 's \<Rightarrow> app_settings \<Rightarrow> bool \<times> 's" where
  "saveSettings io s v = io_setItem io s SETTINGS (JSettings v)"

definition loadSettings :: "'s async_storage \<Rightarrow> 's \<Rightarrow> app_settings option" where
  "loadSettings io s =
     (case io_getItem io s SETTINGS of Some (Some (JSettings v)) \<Rightarrow> Some v | _ \<Rightarrow> None)"

definition saveFlag :: "'s async_storage \<Rightarrow> 's \<Rightarrow> storage_key \<Rightarrow> bool \<Rightarrow> bool \<times> 's" where
  "saveFlag io s k b = io_setItem io s k (JBool b)"

definition loadFlag :: "'s async_storage \<Rightarrow> 's \<Rightarrow> storage_key \<Rightarrow> bool" where
  "loadFlag io s k = (case io_getItem io s k of Some (Some (JBool b)) \<Rightarrow> b | _ \<Rightarrow> False)"

definition saveTrackingState :: "'s async_storage \<Rightarrow> 's \<Rightarrow> bool \<Rightarrow> bool \<times> 's" where
  "saveTrackingState io s b = saveFlag io s TRACKING_STATE b"

definition loadTrackingState :: "'s async_storage \<Rightarrow> 's \<Rightarrow> bool" where
  "loadTrackingState io s = loadFlag io s TRACKING_STATE"

definition saveAutoResolveBelowRare :: "'s async_storage \<Rightarrow> 's \<Rightarrow> bool \<Rightarrow> bool \<times> 's" where
  "saveAutoResolveBelowRare io s b = saveFlag io s AUTO_RESOLVE_BELOW_RARE b"

definition loadAutoResolveBelowRare :: "'s async_storage \<Rightarrow> 's \<Rightarrow> bool" where
  "loadAutoResolveBelowRare io s = loadFlag io s AUTO_RESOLVE_BELOW_RARE"

definition setBatteryPromptShown :: "'s async_storage \<Rightarrow> 's \<Rightarrow> bool \<times> 's" where
  "setBatteryPromptShown io s = saveFlag io s BATTERY_PROMPT_SHOWN True"

definition hasBatteryPromptBeenShown :: "'s async_storage \<Rightarrow> 's \<Rightarrow> bool" where
  "hasBatteryPromptBeenShown io s = loadFlag io s BATTERY_PROMPT_SHOWN"

section \<open>The held encounter\<close>

definition savePendingEncounter :: "'s async_storage \<Rightarrow> 's \<Rightarrow> encounter_data \<Rightarrow> bool \<times> 's" where
  "savePendingEncounter io s e = io_setItem io s PENDING_ENCOUNTER (JEncounter e)"

definition isValidEncounterData :: "stored \<Rightarrow> bool" where
  "isValidEncounterData v = (case v of JEncounter _ \<Rightarrow> True | _ \<Rightarrow> False)"

definition loadPendingEncounter :: "'s async_storage \<Rightarrow> 's \<Rightarrow> encounter_data option \<times> 's" where
  "loadPendingEncounter io s =
     (case io_getItem io s PENDING_ENCOUNTER of
        Some (Some v) \<Rightarrow>
          if v = JGarbage then (None, s)
          else if \<not> isValidEncounterData v then (None, snd (io_removeItem io s PENDING_ENCOUNTER))
          else (case v of JEncounter e \<Rightarrow> Some e | _ \<Rightarrow> None, s)
      | _ \<Rightarrow> (None, s))"

definition clearPendingEncounter :: "'s async_storage \<Rightarrow> 's \<Rightarrow> bool \<times> 's" where
  "clearPendingEncounter io s = io_removeItem io s PENDING_ENCOUNTER"

section \<open>The walk summary\<close>

text \<open>Appends and drains run one after the other on the module's chain, so each is one step.\<close>

definition loadWalkSummary :: "'s async_storage \<Rightarrow> 's \<Rightarrow> walk_entry list \<times> 's" where
  "loadWalkSummary io s =
     (case io_getItem io s WALK_SUMMARY of
        Some (Some v) \<Rightarrow>
          (case v of
             JWalk es \<Rightarrow> (es, s)
           | JGarbage \<Rightarrow> ([], s)
           | _ \<Rightarrow> ([], snd (io_removeItem io s WALK_SUMMARY)))
      | _ \<Rightarrow> ([], s))"

definition appendWalkSummaryEntry :: "'s async_storage \<Rightarrow> 's \<Rightarrow> walk_entry \<Rightarrow> bool \<times> 's" where
  "appendWalkSummaryEntry io s e =
     (let (existing, s1) = loadWalkSummary io s;
          nxt = slice_last MAX_WALK_SUMMARY_ENTRIES (existing @ [e])
      in io_setItem io s1 WALK_SUMMARY (JWalk nxt))"

definition drainWalkSummary :: "'s async_storage \<Rightarrow> 's \<Rightarrow> walk_entry list \<times> 's" where
  "drainWalkSummary io s =
     (let (entries, s1) = loadWalkSummary io s
      in if entries = [] then ([], s1)
         else let (ok, s2) = io_removeItem io s1 WALK_SUMMARY in (if ok then entries else [], s2))"

section \<open>Conflicts and erasure\<close>

definition writePendingConflict :: "'s async_storage \<Rightarrow> 's \<Rightarrow> pending_conflict \<Rightarrow> 's" where
  "writePendingConflict io s c = snd (io_setItem io s CONFLICT_PENDING (JConflict c))"

definition readPendingConflict :: "'s async_storage \<Rightarrow> 's \<Rightarrow> pending_conflict option" where
  "readPendingConflict io s =
     (case io_getItem io s CONFLICT_PENDING of Some (Some (JConflict c)) \<Rightarrow> Some c | _ \<Rightarrow> None)"

definition clearPendingConflict :: "'s async_storage \<Rightarrow> 's \<Rightarrow> 's" where
  "clearPendingConflict io s = snd (io_removeItem io s CONFLICT_PENDING)"

definition clearAllUserData :: "'s async_storage \<Rightarrow> 's \<Rightarrow> bool \<times> 's" where
  "clearAllUserData io s =
     io_multiRemove io s
       [PLAYER_DATA, PLAYER_SAVED_AT, PENDING_ENCOUNTER, WALK_SUMMARY, TRACKING_STATE, CONFLICT_PENDING]"

definition clearAllData :: "'s async_storage \<Rightarrow> 's \<Rightarrow> bool \<times> 's" where
  "clearAllData io s =
     io_multiRemove io s
       [PLAYER_DATA, PLAYER_SAVED_AT, SETTINGS, PENDING_ENCOUNTER, TRACKING_STATE, CONFLICT_PENDING,
        AUTO_RESOLVE_BELOW_RARE]"

section \<open>What the package promises\<close>

text \<open>The contents of interest, through a view of the state.\<close>

definition walk_view :: "(storage_key \<Rightarrow> stored option) \<Rightarrow> walk_entry list" where
  "walk_view m = (case m WALK_SUMMARY of Some (JWalk es) \<Rightarrow> es | _ \<Rightarrow> [])"

definition local_save :: "(storage_key \<Rightarrow> stored option) \<Rightarrow> (player_data \<times> int) option" where
  "local_save m =
     (case m PLAYER_DATA of
        Some (JPlayer d) \<Rightarrow> if d_level d \<ge> 1 then Some (d, stored_time (m PLAYER_SAVED_AT)) else None
      | _ \<Rightarrow> None)"

definition local_time :: "(storage_key \<Rightarrow> stored option) \<Rightarrow> int" where
  "local_time m = (case local_save m of None \<Rightarrow> 0 | Some (_, t) \<Rightarrow> t)"

locale device_storage =
  fixes io :: "'s async_storage" and peek :: "'s \<Rightarrow> storage_key \<Rightarrow> stored option"
  assumes getItem: "io_getItem io s k = Some v \<Longrightarrow> peek s k = v"
    and multiGet: "io_multiGet io s ks = Some vs \<Longrightarrow> vs = map (peek s) ks"
    and setItem: "peek (snd (io_setItem io s k x)) = (if fst (io_setItem io s k x) then (peek s)(k := Some x) else peek s)"
    and removeItem: "peek (snd (io_removeItem io s k)) = (if fst (io_removeItem io s k) then (peek s)(k := None) else peek s)"
    and multiSet: "peek (snd (io_multiSet io s kvs)) =
      (if fst (io_multiSet io s kvs) then foldl (\<lambda>m (k, x). m(k := Some x)) (peek s) kvs else peek s)"
    and multiRemove: "peek (snd (io_multiRemove io s ks)) =
      (if fst (io_multiRemove io s ks) then (\<lambda>k. if k \<in> set ks then None else peek s k) else peek s)"
begin

lemmas view_simps = setItem removeItem multiSet multiRemove

lemma append_walk_bounded:
  assumes "length (walk_view (peek s)) \<le> MAX_WALK_SUMMARY_ENTRIES"
  shows "length (walk_view (peek (snd (appendWalkSummaryEntry io s e)))) \<le> MAX_WALK_SUMMARY_ENTRIES"
  using assms
  by (auto simp: appendWalkSummaryEntry_def loadWalkSummary_def walk_view_def Let_def split_beta
      view_simps split: option.splits stored.splits)

lemma append_walk_view:
  assumes "io_getItem io s WALK_SUMMARY = Some v" and "fst (appendWalkSummaryEntry io s e)"
  shows "walk_view (peek (snd (appendWalkSummaryEntry io s e))) =
    slice_last MAX_WALK_SUMMARY_ENTRIES (walk_view (peek s) @ [e])"
  using assms getItem[OF assms(1)]
  by (auto simp: appendWalkSummaryEntry_def loadWalkSummary_def walk_view_def Let_def split_beta
      view_simps split: option.splits stored.splits)

lemma drain_walk:
  assumes "drainWalkSummary io s = (es, s')" and "es \<noteq> []"
  shows "es = walk_view (peek s)" and "walk_view (peek s') = []"
    and "k \<noteq> WALK_SUMMARY \<Longrightarrow> peek s' k = peek s k"
  using assms
  by (auto simp: drainWalkSummary_def loadWalkSummary_def walk_view_def Let_def split_beta view_simps
      dest!: getItem split: option.splits stored.splits if_splits)

lemma save_then_read:
  assumes "1 \<le> p_level p" and "fst (fst (savePlayerData io s p now))"
    and "io_multiGet io (snd (fst (savePlayerData io s p now))) [PLAYER_DATA, PLAYER_SAVED_AT] = Some vs"
  shows "readLocalPlayerSnapshot io (snd (fst (savePlayerData io s p now))) =
    ((Some (p_toJSON p), now), snd (fst (savePlayerData io s p now)))"
  using assms multiGet[OF assms(3)]
  by (auto simp: savePlayerData_def readLocalPlayerSnapshot_def Let_def split_beta view_simps
      isValidPlayerData_def stored_time_def p_toJSON_def)

lemma read_snapshot:
  assumes "io_multiGet io s [PLAYER_DATA, PLAYER_SAVED_AT] = Some vs"
  shows "fst (readLocalPlayerSnapshot io s) =
      (case local_save (peek s) of None \<Rightarrow> (None, 0) | Some (d, t) \<Rightarrow> (Some d, t))"
    and "local_save (peek (snd (readLocalPlayerSnapshot io s))) = local_save (peek s)"
  using multiGet[OF assms]
  by (auto simp: readLocalPlayerSnapshot_def assms local_save_def isValidPlayerData_def
      clearLocalPlayerData_def multiRemove split: option.splits stored.splits)

lemma reconcile_adopts:
  assumes "reconcileCloudPlayerData io s cloud = (Adopted d, s')"
    and "io_multiGet io s [PLAYER_DATA, PLAYER_SAVED_AT] = Some vs"
  shows "\<exists>t. cloud = CloudFound (JPlayer d) t \<and> 1 \<le> d_level d \<and> local_time (peek s) < t"
  using assms read_snapshot(1)[OF assms(2)]
  by (auto simp: reconcileCloudPlayerData_def isValidPlayerData_def local_time_def split_beta
      split: cloud_load.splits stored.splits if_splits option.splits)

lemma reconcile_time_mono:
  assumes "io_multiGet io s [PLAYER_DATA, PLAYER_SAVED_AT] = Some vs"
  shows "local_time (peek s) \<le> local_time (peek (snd (reconcileCloudPlayerData io s cloud)))"
proof (cases cloud)
  case (CloudFound v t)
  let ?r = "readLocalPlayerSnapshot io s"
  have time: "snd (fst ?r) = local_time (peek s)" "local_time (peek (snd ?r)) = local_time (peek s)"
    using read_snapshot[OF assms] by (auto simp: local_time_def split: option.splits)
  show ?thesis
  proof (cases "isValidPlayerData v \<and> t > local_time (peek s)")
    case True
    then obtain d where v: "v = JPlayer d" "1 \<le> d_level d" by (auto simp: isValidPlayerData_def split: stored.splits)
    have "snd (reconcileCloudPlayerData io s cloud) = snd (writeLocalPlayerSnapshot io (snd ?r) d t)"
      using True v CloudFound time(1) by (simp add: reconcileCloudPlayerData_def split_beta)
    moreover have "local_time (peek s) \<le> local_time (peek (snd (writeLocalPlayerSnapshot io (snd ?r) d t)))"
      using True v time(2)
      by (auto simp: writeLocalPlayerSnapshot_def multiSet local_time_def local_save_def stored_time_def)
    ultimately show ?thesis by simp
  next
    case False
    then show ?thesis
      using CloudFound time by (auto simp: reconcileCloudPlayerData_def split_beta)
  qed
qed (simp_all add: reconcileCloudPlayerData_def)

lemma erase_user_data:
  assumes "fst (clearAllUserData io s)"
  shows "peek (snd (clearAllUserData io s)) k =
    (if k \<in> {SETTINGS, BATTERY_PROMPT_SHOWN, AUTO_RESOLVE_BELOW_RARE} then peek s k else None)"
  using assms by (cases k) (simp_all add: clearAllUserData_def multiRemove)

lemma clear_all_data:
  assumes "fst (clearAllData io s)"
  shows "peek (snd (clearAllData io s)) k =
    (if k \<in> {WALK_SUMMARY, BATTERY_PROMPT_SHOWN} then peek s k else None)"
  using assms by (cases k) (simp_all add: clearAllData_def multiRemove)

lemma failed_read_erases:
  assumes "io_multiGet io s [PLAYER_DATA, PLAYER_SAVED_AT] = None"
    and "fst (io_multiRemove io s [PLAYER_DATA, PLAYER_SAVED_AT, WALK_SUMMARY, PENDING_ENCOUNTER])"
  shows "local_save (peek (snd (readLocalPlayerSnapshot io s))) = None"
  using assms by (simp add: readLocalPlayerSnapshot_def clearLocalPlayerData_def multiRemove local_save_def)

lemma pending_round_trip:
  assumes "fst (savePendingEncounter io s e)"
    and "io_getItem io (snd (savePendingEncounter io s e)) PENDING_ENCOUNTER = Some v"
  shows "loadPendingEncounter io (snd (savePendingEncounter io s e)) =
    (Some e, snd (savePendingEncounter io s e))"
  using assms getItem[OF assms(2)]
  by (auto simp: savePendingEncounter_def loadPendingEncounter_def setItem isValidEncounterData_def)

lemma flag_round_trip:
  assumes "fst (saveFlag io s k b)" and "io_getItem io (snd (saveFlag io s k b)) k = Some v"
  shows "loadFlag io (snd (saveFlag io s k b)) k = b"
  using assms getItem[OF assms(2)] by (auto simp: saveFlag_def loadFlag_def setItem)

end

text \<open>The documented behaviour realised by a finite map whose calls all succeed.\<close>

definition mem_storage :: "(storage_key \<Rightarrow> stored option) async_storage" where
  "mem_storage =
     \<lparr> io_getItem = (\<lambda>m k. Some (m k)),
       io_multiGet = (\<lambda>m ks. Some (map m ks)),
       io_setItem = (\<lambda>m k x. (True, m(k := Some x))),
       io_removeItem = (\<lambda>m k. (True, m(k := None))),
       io_multiSet = (\<lambda>m kvs. (True, foldl (\<lambda>m (k, x). m(k := Some x)) m kvs)),
       io_multiRemove = (\<lambda>m ks. (True, \<lambda>k. if k \<in> set ks then None else m k)) \<rparr>"

interpretation mem: device_storage mem_storage id
  by unfold_locales (simp_all add: mem_storage_def id_def cong: if_cong)

text \<open>The same map with a failing read, as after a storage error.\<close>

definition failing_read_storage :: "(storage_key \<Rightarrow> stored option) async_storage" where
  "failing_read_storage = mem_storage\<lparr> io_getItem := (\<lambda>_ _. None), io_multiGet := (\<lambda>_ _. None) \<rparr>"

interpretation failing_read: device_storage failing_read_storage id
  by unfold_locales (simp_all add: failing_read_storage_def mem_storage_def id_def cong: if_cong)

text \<open>
  An accepted erasure of the user's data leaves nothing of the user behind and keeps exactly the
  three device-level settings; clearing all app data, in contrast, leaves the walk log and the
  battery-prompt flag in place.
\<close>

lemma user_data_erased:
  assumes "device_storage io peek"
  shows "(fst (clearAllUserData io s) \<longrightarrow> peek (snd (clearAllUserData io s)) k =
      (if k \<in> {SETTINGS, BATTERY_PROMPT_SHOWN, AUTO_RESOLVE_BELOW_RARE} then peek s k else None)) \<and>
    (fst (clearAllData io s) \<longrightarrow> peek (snd (clearAllData io s)) k =
      (if k \<in> {WALK_SUMMARY, BATTERY_PROMPT_SHOWN} then peek s k else None))"
  using device_storage.erase_user_data[OF assms, of s k] device_storage.clear_all_data[OF assms, of s k] by simp

text \<open>
  A rejected read is treated like corrupt data: if the package cannot read the snapshot but
  accepts the removal, the local save is erased.
\<close>

lemma failed_read_erases_save:
  assumes "device_storage io peek" and "io_multiGet io s [PLAYER_DATA, PLAYER_SAVED_AT] = None"
    and "fst (io_multiRemove io s [PLAYER_DATA, PLAYER_SAVED_AT, WALK_SUMMARY, PENDING_ENCOUNTER])"
  shows "fst (readLocalPlayerSnapshot io s) = (None, 0) \<and> local_save (peek (snd (readLocalPlayerSnapshot io s))) = None"
  using device_storage.failed_read_erases[OF assms] assms(2) by (simp add: readLocalPlayerSnapshot_def)

end
