(* ===== verification/EncounterHook.thy ===== *)
theory EncounterHook
  imports PlayerOps CombatText Storage
begin

text \<open>
  The encounter controller \<open>hooks/useEncounter.ts\<close>: one record holds what its refs, timers and
  React state hold, and each handler is a function on it. An encounter object has an identity (a
  number), because the counter-attack compares objects. A pending \<open>setTimeout\<close> is the data its
  callback captured; its firing is an event. Storage calls are effects with their outcome as an
  argument. The clock and the generator are part of the state. Analytics calls are left out.
\<close>

section \<open>State\<close>

record reward_reveal =
  rr_creatureName :: string
  rr_xpGained :: int
  rr_leveledUp :: bool
  rr_newLevel :: int
  rr_item :: "item option"
  rr_isUpgrade :: bool
  rr_inventoryFull :: bool

text \<open>
  The two stages of the counter beat: the brace, which captured the attack, the defense, the
  creature and the encounter it belongs to, and the hold after the strike.
\<close>

datatype counter_timer = Brace int int creature "nat option" | StrikeHold

datatype hook_effect =
  SavePending encounter_data
| ClearPending
| AppendWalk walk_entry
| ShowAlert string string
| NotifyEncounter encounter
| NotifyPassiveVictory string string

record hook =
  h_player :: "player option"
  h_encounter :: "(nat \<times> encounter) option"
  h_heldFoe :: "(nat \<times> encounter) option"
  h_nextRef :: nat
  h_showEncounterModal :: bool
  h_showCombatModal :: bool
  h_isMinimized :: bool
  h_playerCombatState :: "combatant_state option"
  h_creatureCombatState :: "combatant_state option"
  h_victoryProcessed :: bool
  h_fleeProcessed :: bool
  h_killBeatPending :: bool
  h_killBeatTimer :: "player option"
  h_counterPending :: bool
  h_counterTimer :: "counter_timer option"
  h_isEnemyTurn :: bool
  h_playerDodgeStreak :: int
  h_creatureDodgeStreak :: int
  h_combatHits :: "hit_event list"
  h_hitId :: nat
  h_combatLog :: "log_entry list"
  h_logId :: nat
  h_rewardReveal :: "reward_reveal option"
  h_rewardRevealTimer :: "reward_reveal option"
  h_walkSummary :: "walk_entry list option"
  h_drained :: "walk_entry list option"
  h_isCheckingWalkSummary :: bool
  h_forceItemDrop :: bool
  h_forcedRarity :: "rarity option"
  h_encounterChance :: real
  h_lastEncounterChance :: "real option"
  h_isTimeBlocking :: bool
  h_timeRemaining :: int
  h_isBackground :: bool
  h_autoResolveBelowRare :: bool
  h_currentLocation :: "location option"
  h_service :: encounter_service
  h_rng :: rng
  h_now :: int
  h_effects :: "hook_effect list"

definition hook_init :: "rng \<Rightarrow> int \<Rightarrow> hook" where
  "hook_init r now =
     \<lparr> h_player = None, h_encounter = None, h_heldFoe = None, h_nextRef = 0,
       h_showEncounterModal = False, h_showCombatModal = False, h_isMinimized = False,
       h_playerCombatState = None, h_creatureCombatState = None, h_victoryProcessed = False,
       h_fleeProcessed = False, h_killBeatPending = False, h_killBeatTimer = None,
       h_counterPending = False, h_counterTimer = None, h_isEnemyTurn = False,
       h_playerDodgeStreak = 0, h_creatureDodgeStreak = 0, h_combatHits = [], h_hitId = 0,
       h_combatLog = [], h_logId = 0, h_rewardReveal = None, h_rewardRevealTimer = None,
       h_walkSummary = None, h_drained = None, h_isCheckingWalkSummary = False,
       h_forceItemDrop = False, h_forcedRarity = None, h_encounterChance = 0,
       h_lastEncounterChance = None, h_isTimeBlocking = False, h_timeRemaining = 0,
       h_isBackground = False,
       h_autoResolveBelowRare = False, h_currentLocation = None, h_service = es_init, h_rng = r,
       h_now = now, h_effects = [] \<rparr>"

definition run_rand :: "hook \<Rightarrow> 'a rand \<Rightarrow> 'a \<times> hook" where
  "run_rand h m = (let (x, r) = run_state m (h_rng h) in (x, h\<lparr> h_rng := r \<rparr>))"

definition emit :: "hook \<Rightarrow> hook_effect \<Rightarrow> hook" where
  "emit h e = h\<lparr> h_effects := h_effects h @ [e] \<rparr>"

text \<open>\<open>setPlayerAndSave\<close> updates the player ref at once; the save is the business of \<open>usePlayer\<close>.\<close>

definition setPlayerAndSave :: "hook \<Rightarrow> player \<Rightarrow> hook" where
  "setPlayerAndSave h p = h\<lparr> h_player := Some p \<rparr>"

section \<open>Feeds\<close>

definition pushHit :: "hook \<Rightarrow> hit_event \<Rightarrow> hook" where
  "pushHit h ev =
     h\<lparr> h_combatHits := h_combatHits h @ [ev\<lparr> ev_id := h_hitId h \<rparr>], h_hitId := Suc (h_hitId h) \<rparr>"

definition pushLog :: "hook \<Rightarrow> log_entry \<Rightarrow> hook" where
  "pushLog h e =
     h\<lparr> h_combatLog := h_combatLog h @ [e\<lparr> lg_id := h_logId h \<rparr>], h_logId := Suc (h_logId h) \<rparr>"

definition mk_hit :: "combatant \<Rightarrow> int \<Rightarrow> damage_type option \<Rightarrow> resist_tier \<Rightarrow> hit_kind \<Rightarrow> int \<Rightarrow>
    string option \<Rightarrow> evade_outcome option \<Rightarrow> hit_event" where
  "mk_hit target amount dt resist kind maxHp label evade =
     \<lparr> ev_id = 0, ev_target = target, ev_amount = amount, ev_damageType = dt, ev_resist = resist,
       ev_kind = kind, ev_targetMaxHp = maxHp, ev_label = label, ev_evade = evade \<rparr>"

definition mk_log :: "log_kind \<Rightarrow> combatant \<Rightarrow> combatant \<Rightarrow> string option \<Rightarrow> int option \<Rightarrow>
    damage_type option \<Rightarrow> string option \<Rightarrow> log_tag list \<Rightarrow> log_entry" where
  "mk_log kind actor target source amount dt label tags =
     \<lparr> lg_id = 0, lg_kind = kind, lg_actor = actor, lg_target = Some target, lg_source = source,
       lg_amount = amount, lg_damageType = dt, lg_label = label, lg_tags = tags \<rparr>"

definition resistTags :: "resist_tier \<Rightarrow> log_tag list" where
  "resistTags r = (if r = Resisted then [LResisted] else if r = Vulnerable then [LWeak] else [])"

definition evadeTag :: "evade_outcome \<Rightarrow> evade_outcome option" where
  "evadeTag ev = (if ev = Normal then None else Some ev)"

definition evadeLogTags :: "evade_outcome \<Rightarrow> log_tag list" where
  "evadeLogTags ev = (case ev of Normal \<Rightarrow> [] | Glancing \<Rightarrow> [LGlancing] | Dodged \<Rightarrow> [LDodged])"

fun split_on :: "char \<Rightarrow> string \<Rightarrow> string list" where
  "split_on sep [] = [[]]"
| "split_on sep (c # s) =
     (if c = sep then [] # split_on sep s
      else case split_on sep s of [] \<Rightarrow> [[c]] | w # ws \<Rightarrow> (c # w) # ws)"

definition prettifyId :: "string \<Rightarrow> string" where
  "prettifyId i = join '' '' (map cap (split_on CHR ''_'' i))"

section \<open>Tearing down\<close>

definition cancelCounterBeat :: "hook \<Rightarrow> hook" where
  "cancelCounterBeat h = h\<lparr> h_counterTimer := None, h_counterPending := False, h_isEnemyTurn := False \<rparr>"

definition clearEncounter :: "hook \<Rightarrow> hook" where
  "clearEncounter h =
     (let h1 = h\<lparr> h_encounter := None, h_isMinimized := False, h_showCombatModal := False,
                  h_playerCombatState := None, h_creatureCombatState := None,
                  h_showEncounterModal := False, h_combatHits := [], h_combatLog := [],
                  h_killBeatTimer := None, h_killBeatPending := False \<rparr>
      in (cancelCounterBeat h1)\<lparr> h_rewardRevealTimer := None, h_rewardReveal := None,
            h_walkSummary := None, h_heldFoe := None \<rparr>)"

text \<open>The resets that victory, flight and defeat share.\<close>

definition endFight :: "hook \<Rightarrow> hook" where
  "endFight h =
     h\<lparr> h_encounter := None, h_isMinimized := False, h_showCombatModal := False,
        h_playerCombatState := None, h_creatureCombatState := None, h_showEncounterModal := False \<rparr>"

section \<open>Victory\<close>

definition storeDrop :: "player \<Rightarrow> item option \<Rightarrow> player \<times> bool \<times> bool" where
  "storeDrop p loot =
     (case loot of
        None \<Rightarrow> (p, False, False)
      | Some it \<Rightarrow>
          let (p', inventoryIndex) = addItemToInventory p it
          in (p', inventoryIndex = - 1, wouldUpgrade p' it))"

definition handleVictory :: "hook \<Rightarrow> player option \<Rightarrow> hook" where
  "handleVictory h playerToUse =
     (case (h_encounter h, if playerToUse \<noteq> None then playerToUse else h_player h) of
        (Some (ref, enc), Some basePlayer) \<Rightarrow>
          if h_victoryProcessed h then h
          else
            let h1 = pushLog (h\<lparr> h_victoryProcessed := True \<rparr>)
                       (mk_log LDefeat TPlayer TCreature None None None None []);
                h2 = cancelCounterBeat (h1\<lparr> h_killBeatTimer := None, h_killBeatPending := False \<rparr>);
                p1 = incrementEncounters (defeatCreature (clone_player basePlayer));
                expGain = activeCombatXp (getExperienceReward (e_creature enc));
                (p2, levelsGained) = addExperience p1 expGain;
                (loot, h3) = run_rand h2
                   (dropActiveCombatItem (h_now h2) (h_forceItemDrop h2) (p_level p2) (h_forcedRarity h2));
                (p3, inventoryFull, isUpgrade) = storeDrop p2 loot;
                p4 = fullHeal p3;
                h4 = (endFight (setPlayerAndSave h3 p4))\<lparr> h_fleeProcessed := False \<rparr>
            in h4\<lparr> h_rewardRevealTimer :=
                  Some \<lparr> rr_creatureName = c_name (e_creature enc), rr_xpGained = expGain,
                         rr_leveledUp = (levelsGained > 0), rr_newLevel = p_level p4, rr_item = loot,
                         rr_isUpgrade = isUpgrade, rr_inventoryFull = inventoryFull \<rparr> \<rparr>
      | _ \<Rightarrow> h)"

definition scheduleVictory :: "hook \<Rightarrow> player \<Rightarrow> hook" where
  "scheduleVictory h playerToUse =
     (if h_victoryProcessed h \<or> h_killBeatPending h then h
      else h\<lparr> h_killBeatPending := True, h_killBeatTimer := Some playerToUse \<rparr>)"

definition killBeatFires :: "hook \<Rightarrow> hook" where
  "killBeatFires h =
     (case h_killBeatTimer h of
        None \<Rightarrow> h
      | Some p \<Rightarrow> handleVictory (h\<lparr> h_killBeatTimer := None, h_showCombatModal := False \<rparr>) (Some p))"

definition rewardTimerFires :: "hook \<Rightarrow> hook" where
  "rewardTimerFires h =
     (case h_rewardRevealTimer h of
        None \<Rightarrow> h
      | Some r \<Rightarrow> h\<lparr> h_rewardRevealTimer := None, h_rewardReveal := Some r \<rparr>)"

definition dismissReward :: "hook \<Rightarrow> hook" where
  "dismissReward h = h\<lparr> h_rewardReveal := None \<rparr>"

section \<open>Held foes\<close>

text \<open>The twelve fields written for a held creature; its resistances are not among them.\<close>

definition heldCreatureData :: "creature \<Rightarrow> creature_params" where
  "heldCreatureData c =
     \<lparr> k_id = c_id c, k_name = c_name c, k_type = c_type c, k_level = Some (c_level c),
       k_hp = Some (c_hp c), k_maxHp = c_maxHp c, k_attack = c_attack c, k_defense = c_defense c,
       k_speed = c_speed c, k_rarity = Some (c_rarity c), k_description = Some (c_description c),
       k_encounterRate = Some (c_encounterRate c), k_resistances = [] \<rparr>"

definition heldEncounterData :: "encounter \<Rightarrow> encounter_data" where
  "heldEncounterData e =
     \<lparr> ed_creature = heldCreatureData (e_creature e), ed_location = e_location e,
       ed_timestamp = e_timestamp e, ed_playerLevel = e_playerLevel e, ed_status = e_status e,
       ed_daylight = e_daylight e \<rparr>"

text \<open>\<open>existing\<close> is what the store held, \<open>saveOk\<close> whether the save was accepted.\<close>

definition holdEliteEncounter ::
  "hook \<Rightarrow> nat \<times> encounter \<Rightarrow> bool \<Rightarrow> encounter_data option \<Rightarrow> bool \<Rightarrow> hook \<times> bool" where
  "holdEliteEncounter h re isBackground existing saveOk =
     (if existing \<noteq> None then (h, False)
      else
        let h1 = emit h (SavePending (heldEncounterData (snd re)))
        in if \<not> saveOk then (h1, False)
           else
             let h2 = h1\<lparr> h_heldFoe := Some re \<rparr>
             in (if isBackground then emit h2 (NotifyEncounter (snd re)) else h2, True))"

definition encounterOfData :: "int \<Rightarrow> encounter_data \<Rightarrow> encounter" where
  "encounterOfData now d =
     new_Encounter now (new_Creature (ed_creature d)) (ed_location d) (Some (ed_timestamp d))
       (Some (ed_playerLevel d)) (Some (ed_status d)) (ed_daylight d)"

text \<open>The object built from the stored data is a new one.\<close>

definition refreshHeldFoe :: "hook \<Rightarrow> encounter_data option \<Rightarrow> hook" where
  "refreshHeldFoe h pending =
     (if h_encounter h \<noteq> None then h
      else case pending of
        None \<Rightarrow> h\<lparr> h_heldFoe := None \<rparr>
      | Some d \<Rightarrow> h\<lparr> h_heldFoe := Some (h_nextRef h, encounterOfData (h_now h) d),
                     h_nextRef := Suc (h_nextRef h) \<rparr>)"

definition engageHeldFoe :: "hook \<Rightarrow> bool \<Rightarrow> hook" where
  "engageHeldFoe h cleared =
     (case h_heldFoe h of
        None \<Rightarrow> h
      | Some re \<Rightarrow>
          if h_encounter h \<noteq> None then h
          else if \<not> cleared then emit h ClearPending
          else (emit h ClearPending)\<lparr> h_encounter := Some re, h_isMinimized := False,
                 h_showCombatModal := False, h_victoryProcessed := False, h_fleeProcessed := False,
                 h_heldFoe := None, h_showEncounterModal := True \<rparr>)"

section \<open>Passive resolution\<close>

datatype reward_tier = IdleTier | ActiveTier

definition NOTABLE_DROP_RARITIES :: "rarity list" where
  "NOTABLE_DROP_RARITIES = [Rare, Epic, Legendary]"

definition keepDrop :: "player \<Rightarrow> item option \<Rightarrow> player \<times> item option" where
  "keepDrop p loot =
     (case loot of
        None \<Rightarrow> (p, None)
      | Some it \<Rightarrow>
          let (p', inventoryIndex) = addItemToInventory p it
          in (p', if inventoryIndex = - 1 then None else Some it))"

definition passiveOutcome :: "hook \<Rightarrow> int \<Rightarrow> creature \<Rightarrow> reward_tier \<Rightarrow> (bool \<times> int \<times> item option) \<times> hook" where
  "passiveOutcome h level c tier =
     (if tier = ActiveTier then ((True, activeCombatXp (getExperienceReward c), None), h)
      else let (out, h') = run_rand h (resolveAutoCombat (h_now h) level c)
           in ((ac_won out, ac_xpGained out, ac_item out), h'))"

definition passiveLoot :: "hook \<Rightarrow> int \<Rightarrow> reward_tier \<Rightarrow> item option \<Rightarrow> item option \<times> hook" where
  "passiveLoot h level tier idleItem =
     (if tier = ActiveTier then run_rand h (dropActiveCombatItem (h_now h) False level None)
      else (idleItem, h))"

definition resolvePassiveEncounter :: "hook \<Rightarrow> encounter \<Rightarrow> bool \<Rightarrow> reward_tier \<Rightarrow> hook" where
  "resolvePassiveEncounter h enc isBackground rewardTier =
     (case h_player h of
        None \<Rightarrow> h
      | Some basePlayer \<Rightarrow>
          let creature = e_creature enc;
              ((won, xpGained, idleItem), h1) = passiveOutcome h (p_level basePlayer) creature rewardTier;
              p1 = incrementEncounters (clone_player basePlayer);
              p2 = (if won then defeatCreature p1 else p1);
              (p3, levelsGained) = addExperience p2 xpGained;
              (loot, h2) = passiveLoot h1 (p_level p3) rewardTier idleItem;
              (p4, it) = keepDrop p3 loot;
              h3 = setPlayerAndSave h2 (fullHeal p4);
              h4 = emit h3 (AppendWalk \<lparr> w_creatureName = c_name creature, w_rarity = c_rarity creature,
                     w_won = won, w_xpGained = xpGained, w_item = it, w_timestamp = h_now h3 \<rparr>)
          in case it of
               Some i \<Rightarrow>
                 if isBackground \<and> i_rarity i \<in> set NOTABLE_DROP_RARITIES
                 then emit h4 (NotifyPassiveVictory (c_name creature) (i_name i)) else h4
             | None \<Rightarrow> h4)"

section \<open>The walk summary\<close>

text \<open>
  \<open>blocked\<close> reads the encounter and the reveal timer from refs, but the reveal and the summary
  from the render that called the check.
\<close>

definition walkBlocked :: "hook \<Rightarrow> reward_reveal option \<Rightarrow> walk_entry list option \<Rightarrow> bool" where
  "walkBlocked h rewardReveal walkSummary \<longleftrightarrow> h_encounter h \<noteq> None \<or> rewardReveal \<noteq> None \<or>
     h_rewardRevealTimer h \<noteq> None \<or> walkSummary \<noteq> None"

definition walkCheckStarts :: "hook \<Rightarrow> bool" where
  "walkCheckStarts h \<longleftrightarrow> \<not> h_isCheckingWalkSummary h \<and> \<not> walkBlocked h (h_rewardReveal h) (h_walkSummary h)"

text \<open>
  The check drains the store and decides again when the drain has finished; what happens in
  between are other events. \<open>entries\<close> is what the store yields. Starting requires both captured
  values to be absent, so they are absent at the end too.
\<close>

definition checkWalkSummaryBegin :: "hook \<Rightarrow> walk_entry list \<Rightarrow> hook" where
  "checkWalkSummaryBegin h entries =
     (if walkCheckStarts h then h\<lparr> h_isCheckingWalkSummary := True, h_drained := Some entries \<rparr> else h)"

definition checkWalkSummaryEnd :: "hook \<Rightarrow> hook" where
  "checkWalkSummaryEnd h =
     (case h_drained h of
        None \<Rightarrow> h
      | Some entries \<Rightarrow>
          let h1 = h\<lparr> h_isCheckingWalkSummary := False, h_drained := None \<rparr>
          in if entries = [] then h1
             else if walkBlocked h None None then foldl (\<lambda>k e. emit k (AppendWalk e)) h1 entries
             else h1\<lparr> h_walkSummary := Some entries \<rparr>)"

definition dismissWalkSummary :: "hook \<Rightarrow> hook" where
  "dismissWalkSummary h = h\<lparr> h_walkSummary := None \<rparr>"

section \<open>Fleeing and fighting\<close>

definition handleFlee :: "hook \<Rightarrow> hook" where
  "handleFlee h =
     (if h_fleeProcessed h \<or> h_counterPending h then h
      else
        let h1 = h\<lparr> h_fleeProcessed := True \<rparr>;
            h2 = (case (h_encounter h, h_player h) of
                    (Some _, Some p) \<Rightarrow>
                      setPlayerAndSave h1 (fullHeal (incrementEncounters (clone_player p)))
                  | _ \<Rightarrow> h1)
        in (endFight h2)\<lparr> h_combatHits := [], h_combatLog := [] \<rparr>)"

definition noEffects :: combatant_state where
  "noEffects = \<lparr> cs_statusEffects = [], cs_resource = 0 \<rparr>"

definition handleFight :: "hook \<Rightarrow> hook" where
  "handleFight h =
     (case (h_encounter h, h_player h) of
        (Some (ref, enc), Some p) \<Rightarrow>
          if p_isDefeated p then h
          else if c_isDefeated (e_creature enc) then handleVictory h None
          else
            let h1 = h\<lparr> h_showCombatModal := True \<rparr>;
                h2 = (if h_playerCombatState h1 = None
                      then h1\<lparr> h_playerCombatState := Some (initCombatState (p_archetype p)),
                               h_combatHits := [], h_combatLog := [], h_playerDodgeStreak := 0,
                               h_creatureDodgeStreak := 0 \<rparr>
                      else h1)
            in if h_creatureCombatState h2 = None
               then h2\<lparr> h_creatureCombatState := Some noEffects \<rparr>
               else h2
      | _ \<Rightarrow> h)"

definition handlePlayerDefeat :: "hook \<Rightarrow> player \<Rightarrow> hook" where
  "handlePlayerDefeat h defeated =
     (let h1 = pushLog h (mk_log LDefeat TCreature TPlayer None None None None []);
          healed = incrementEncounters (fullHeal (clone_player defeated))
      in emit (endFight (setPlayerAndSave h1 healed))
           (ShowAlert ''Defeated!'' ''You have been defeated! Your HP has been restored to full.''))"

section \<open>The counter-attack\<close>

definition scheduleCounterAttack :: "hook \<Rightarrow> int \<Rightarrow> int \<Rightarrow> creature \<Rightarrow> hook" where
  "scheduleCounterAttack h creatureAttack playerDefense c =
     (if h_counterPending h then h
      else h\<lparr> h_counterPending := True, h_isEnemyTurn := True,
              h_counterTimer := Some (Brace creatureAttack playerDefense c (map_option fst (h_encounter h))) \<rparr>)"

text \<open>The delays of the two stages, in milliseconds.\<close>

definition COUNTER_STRIKE_HOLD_MS :: int where "COUNTER_STRIKE_HOLD_MS = 450"

definition braceMs :: "hook \<Rightarrow> int" where
  "braceMs h =
     (let beatMs = counterBeatMs (case h_player h of None \<Rightarrow> 0 | Some p \<Rightarrow> p_combatTurnsTaken p)
      in max 0 (beatMs - COUNTER_STRIKE_HOLD_MS))"

definition endEnemyTurn :: "hook \<Rightarrow> hook" where
  "endEnemyTurn h = h\<lparr> h_counterPending := False, h_isEnemyTurn := False \<rparr>"

definition counterStrike :: "hook \<Rightarrow> int \<Rightarrow> int \<Rightarrow> creature \<Rightarrow> player \<Rightarrow> hook" where
  "counterStrike h creatureAttack playerDefense c current =
     (let p1 = incrementCombatTurns (clone_player current);
          baseDamage = mitigateDamage creatureAttack playerDefense 1;
          (draw, h1) = run_rand h math_random;
          (outcome, streak) = rollEvasion (c_speed c) (p_speed p1) DPlayer (h_playerDodgeStreak h1) draw;
          h2 = h1\<lparr> h_playerDodgeStreak := streak \<rparr>;
          damage = applyEvasionDamage baseDamage outcome;
          p2 = (if damage > 0 then p_takeDamage p1 damage else p1);
          h3 = pushHit h2 (mk_hit TPlayer damage (Some Physical) Neutral KHit (p_maxHp p2) None (evadeTag outcome));
          h4 = pushLog h3 (mk_log LAttack TCreature TPlayer None (Some damage) (Some Physical) None (evadeLogTags outcome));
          h5 = setPlayerAndSave h4 p2
      in if p_isDefeated p2 then handlePlayerDefeat (endEnemyTurn h5) p2
         else h5\<lparr> h_counterTimer := Some StrikeHold \<rparr>)"

definition counterTimerFires :: "hook \<Rightarrow> hook" where
  "counterTimerFires h =
     (case h_counterTimer h of
        None \<Rightarrow> h
      | Some StrikeHold \<Rightarrow> endEnemyTurn (h\<lparr> h_counterTimer := None \<rparr>)
      | Some (Brace atk def c scheduled) \<Rightarrow>
          let h1 = h\<lparr> h_counterTimer := None \<rparr>
          in case h_player h1 of
               None \<Rightarrow> endEnemyTurn h1
             | Some p \<Rightarrow>
                 if map_option fst (h_encounter h1) \<noteq> scheduled then endEnemyTurn h1
                 else counterStrike h1 atk def c p)"

section \<open>Abilities\<close>

definition setCreature :: "hook \<Rightarrow> creature \<Rightarrow> hook" where
  "setCreature h c =
     h\<lparr> h_encounter := map_option (\<lambda>(ref, e). (ref, e\<lparr> e_creature := c \<rparr>)) (h_encounter h) \<rparr>"

text \<open>The loop over the damage-over-time reports; the second component sums what is dealt.\<close>

fun dotLoop :: "hook \<Rightarrow> creature \<Rightarrow> dot_effect list \<Rightarrow> int \<Rightarrow> hook \<times> int" where
  "dotLoop h c [] resistedDot = (h, resistedDot)"
| "dotLoop h c (d # ds) resistedDot =
     (let resistVal = (case de_damageType d of None \<Rightarrow> 0 | Some t \<Rightarrow> c_resistances c t);
          dealt = applyResistance (de_damage d) resistVal;
          h' = (if dealt > 0 then
                  let resist = classifyResist resistVal
                  in pushLog (pushHit h (mk_hit TCreature dealt (de_damageType d) resist KDot (c_maxHp c) None None))
                       (mk_log LDot TPlayer TCreature
                          (if de_sourceId d = [] then None else Some (prettifyId (de_sourceId d)))
                          (Some dealt) (de_damageType d) None (resistTags resist))
                else h)
      in dotLoop h' c ds (resistedDot + dealt))"

definition tickCreatureDots :: "hook \<Rightarrow> creature \<Rightarrow> combatant_state option \<Rightarrow> hook \<times> creature \<times> combatant_state option" where
  "tickCreatureDots h c st =
     (case st of
        None \<Rightarrow> (h, c, None)
      | Some cs \<Rightarrow>
          if cs_statusEffects cs = [] then (h, c, Some cs)
          else
            let t = tickStatusEffects cs;
                (h', resistedDot) = dotLoop h c (tr_dotEffects t) 0;
                c' = (if resistedDot > 0 then c_takeDamage c resistedDot else c)
            in (h', c', Some (tr_updatedState t)))"

definition directSwing :: "hook \<Rightarrow> ability \<Rightarrow> player \<Rightarrow> creature \<Rightarrow> int \<Rightarrow> hook \<times> creature" where
  "directSwing h ab p c damage =
     (case a_kind ab of
        Direct _ dmgType \<Rightarrow>
          if damage > 0 then
            let (draw, h1) = run_rand h math_random;
                (outcome, streak) = rollEvasion (p_speed p) (c_speed c) DCreature (h_creatureDodgeStreak h1) draw;
                h2 = h1\<lparr> h_creatureDodgeStreak := streak \<rparr>;
                dealt = applyEvasionDamage damage outcome;
                c' = c_takeDamage c dealt;
                resist = classifyResist (c_resistances c dmgType);
                h3 = pushHit h2 (mk_hit TCreature dealt (Some dmgType) resist KHit (c_maxHp c) None (evadeTag outcome));
                h4 = pushLog h3 (mk_log LAttack TPlayer TCreature (Some (a_name ab)) (Some dealt) (Some dmgType)
                       None (resistTags resist @ evadeLogTags outcome))
            in (h4, c')
          else (h, c)
      | _ \<Rightarrow> (h, c))"

definition applyHeal :: "hook \<Rightarrow> ability \<Rightarrow> player \<Rightarrow> int \<Rightarrow> hook \<times> player" where
  "applyHeal h ab p heal =
     (if heal > 0 then
        (pushLog (pushHit h (mk_hit TPlayer heal None Neutral KHeal (p_maxHp p) None None))
           (mk_log LHeal TPlayer TPlayer (Some (a_name ab)) (Some heal) None None []),
         restoreHp p heal)
      else (h, p))"

definition announceStatus :: "hook \<Rightarrow> ability \<Rightarrow> player \<Rightarrow> creature \<Rightarrow> hook" where
  "announceStatus h ab p c =
     (case a_kind ab of
        BuffDebuff _ mods toSelf \<Rightarrow>
          let label = Some (formatStatModLabel mods);
              target = (if toSelf then TPlayer else TCreature)
          in pushLog (pushHit h (mk_hit target 0 None Neutral (if toSelf then KBuff else KDebuff)
                 (if toSelf then p_maxHp p else c_maxHp c) label None))
               (mk_log (if toSelf then LBuff else LDebuff) TPlayer target (Some (a_name ab)) None None label [])
      | _ \<Rightarrow> h)"

definition targetsSelf :: "ability \<Rightarrow> bool" where
  "targetsSelf ab = (case a_kind ab of BuffDebuff _ _ s \<Rightarrow> s | _ \<Rightarrow> False)"

definition tickedState :: "combatant_state \<Rightarrow> combatant_state" where
  "tickedState st = (if cs_statusEffects st = [] then st else tr_updatedState (tickStatusEffects st))"

definition spendAndRegen :: "combatant_state \<Rightarrow> ability \<Rightarrow> archetype \<Rightarrow> status_effect list \<Rightarrow> combatant_state" where
  "spendAndRegen st ab a selfEffects =
     (let ticked = tickedState st;
          afterCost = ticked\<lparr> cs_resource := max 0 (cs_resource ticked - a_resourceCost ab) \<rparr>;
          regened = regenResource afterCost a
      in regened\<lparr> cs_statusEffects := cs_statusEffects regened @ selfEffects \<rparr>)"

text \<open>The part of \<open>handleAbility\<close> after the damage over time left the creature alive.\<close>

definition performAbility :: "hook \<Rightarrow> ability \<Rightarrow> player \<Rightarrow> nat \<times> encounter \<Rightarrow> creature \<Rightarrow>
    combatant_state \<Rightarrow> combatant_state option \<Rightarrow> combatant_state option \<Rightarrow> hook" where
  "performAbility h ab p re c pst preTick newCreatureState =
     (let playerEffective = computeEffectiveStats (p_attack p) (p_defense p) (cs_statusEffects pst);
          preEffects = (case preTick of None \<Rightarrow> [] | Some st \<Rightarrow> cs_statusEffects st);
          creatureEffectiveDefense = snd (computeEffectiveStats 0 (c_defense c) preEffects);
          creatureEffectiveAttack = fst (computeEffectiveStats (c_attack c) 0 preEffects);
          res = resolveAbility ab (fst playerEffective) creatureEffectiveDefense (c_resistances c) (p_maxHp p);
          (h1, c1) = directSwing h ab p c (ar_damage res);
          (h2, p1) = applyHeal h1 ab p (ar_heal res);
          h3 = announceStatus h2 ab p1 c1;
          selfEffects = (if targetsSelf ab then ar_appliedEffects res else []);
          enemyEffects = (if targetsSelf ab then [] else ar_appliedEffects res);
          creatureBase = (case newCreatureState of None \<Rightarrow> noEffects | Some st \<Rightarrow> st);
          h4 = h3\<lparr> h_playerCombatState := Some (spendAndRegen pst ab (p_archetype p1) selfEffects),
                   h_creatureCombatState :=
                     Some (creatureBase\<lparr> cs_statusEffects := cs_statusEffects creatureBase @ enemyEffects \<rparr>) \<rparr>;
          h5 = setPlayerAndSave h4 p1;
          h6 = h5\<lparr> h_encounter := Some (h_nextRef h5,
                     new_Encounter (h_now h5) c1 (e_location (snd re)) (Some (e_timestamp (snd re)))
                       (Some (e_playerLevel (snd re))) (Some (e_status (snd re))) (e_daylight (snd re))),
                   h_nextRef := Suc (h_nextRef h5) \<rparr>
      in if c_isDefeated c1 then scheduleVictory h6 p1
         else scheduleCounterAttack h6 creatureEffectiveAttack (snd playerEffective) c1)"

definition handleAbility :: "hook \<Rightarrow> ability \<Rightarrow> hook \<times> bool" where
  "handleAbility h ab =
     (case (h_encounter h, h_player h, h_playerCombatState h) of
        (Some re, Some current, Some pst) \<Rightarrow>
          if h_victoryProcessed h \<or> h_killBeatPending h \<or> h_counterPending h then (h, False)
          else if c_isDefeated (e_creature (snd re)) then
            ((handleVictory h None)\<lparr> h_showCombatModal := False \<rparr>, False)
          else if a_resourceCost ab > cs_resource pst then (h, False)
          else
            let p = clone_player current;
                preTick = h_creatureCombatState h;
                (h1, c, newCreatureState) = tickCreatureDots h (e_creature (snd re)) preTick;
                h2 = setCreature h1 c
            in if c_isDefeated c then
                 (scheduleVictory (h2\<lparr> h_playerCombatState := Some (tickedState pst),
                    h_creatureCombatState := newCreatureState \<rparr>) p, False)
               else (performAbility h2 ab p re c pst preTick newCreatureState, True)
      | _ \<Rightarrow> (h, False))"

section \<open>Windows and presentation\<close>

definition handleDebugDefeat :: "hook \<Rightarrow> hook" where
  "handleDebugDefeat h =
     (case (h_encounter h, h_player h) of
        (Some (ref, enc), Some p) \<Rightarrow>
          if h_victoryProcessed h \<or> c_isDefeated (e_creature enc) then h
          else
            let c = c_takeDamage (e_creature enc) (c_hp (e_creature enc));
                h1 = h\<lparr> h_encounter := Some (h_nextRef h,
                          new_Encounter (h_now h) c (e_location enc) (Some (e_timestamp enc))
                            (Some (e_playerLevel enc)) (Some (e_status enc)) (e_daylight enc)),
                        h_nextRef := Suc (h_nextRef h), h_showCombatModal := False,
                        h_showEncounterModal := False \<rparr>
            in handleVictory h1 (Some p)
      | _ \<Rightarrow> h)"

definition handleMinimize :: "hook \<Rightarrow> hook" where
  "handleMinimize h = h\<lparr> h_isMinimized := True, h_showEncounterModal := False \<rparr>"

definition handleCloseCombatModal :: "hook \<Rightarrow> hook" where
  "handleCloseCombatModal h = (if h_counterPending h then h else h\<lparr> h_showCombatModal := False \<rparr>)"

definition handleExpandMinimized :: "hook \<Rightarrow> hook" where
  "handleExpandMinimized h = h\<lparr> h_isMinimized := False, h_showEncounterModal := True \<rparr>"

definition presentEncounter :: "hook \<Rightarrow> encounter \<Rightarrow> hook" where
  "presentEncounter h enc =
     (cancelCounterBeat (h\<lparr> h_encounter := Some (h_nextRef h, enc), h_nextRef := Suc (h_nextRef h),
        h_isMinimized := False, h_showCombatModal := False, h_victoryProcessed := False,
        h_fleeProcessed := False \<rparr>))
       \<lparr> h_playerCombatState := None, h_creatureCombatState := None, h_showEncounterModal := True \<rparr>"

definition handleAutoResolve :: "hook \<Rightarrow> hook" where
  "handleAutoResolve h =
     (case (h_player h, h_encounter h) of
        (Some p, Some (ref, enc)) \<Rightarrow>
          if isEliteCreature (c_rarity (e_creature enc)) then h
          else handleVictory (h\<lparr> h_showCombatModal := False, h_showEncounterModal := False,
                 h_isMinimized := False \<rparr>) (Some p)
      | _ \<Rightarrow> h)"

definition default_location :: location where
  "default_location = \<lparr> l_latitude = 377749 / 10000, l_longitude = - (1224194 / 10000) \<rparr>"

definition debugLocation :: "hook \<Rightarrow> location" where
  "debugLocation h = (case h_currentLocation h of Some l \<Rightarrow> l | None \<Rightarrow> default_location)"

definition debugLevel :: "hook \<Rightarrow> int" where
  "debugLevel h = (case h_player h of None \<Rightarrow> 1 | Some p \<Rightarrow> p_level p)"

definition refreshTimes :: "hook \<Rightarrow> hook" where
  "refreshTimes h =
     h\<lparr> h_isTimeBlocking := isTimeConstraintBlocking (h_service h) (h_now h),
        h_timeRemaining := getTimeRemainingUntilEncounter (h_service h) (h_now h) \<rparr>"

definition refreshChance :: "hook \<Rightarrow> hook" where
  "refreshChance h = refreshTimes (h\<lparr> h_encounterChance := getDistanceBasedProbability (h_service h) \<rparr>)"

definition hookSetBypass :: "hook \<Rightarrow> bool \<Rightarrow> hook" where
  "hookSetBypass h b = refreshTimes (h\<lparr> h_service := setBypassTimeConstraint (h_service h) b \<rparr>)"

definition tickCountdown :: "hook \<Rightarrow> hook" where
  "tickCountdown h = (if h_isTimeBlocking h then refreshTimes h else h)"

text \<open>The encounter service's forced roll, with the service inside the state.\<close>

definition rollForced :: "hook \<Rightarrow> int \<Rightarrow> rarity option \<Rightarrow> encounter \<times> hook" where
  "rollForced h level rarity =
     (let ((enc, sv), h1) = run_rand h (forceEncounter (h_now h) (h_service h) (debugLocation h) level rarity)
      in (enc, h1\<lparr> h_service := sv \<rparr>))"

definition hookForceEncounter :: "hook \<Rightarrow> hook" where
  "hookForceEncounter h =
     (let (enc, h1) = rollForced h (or_falsy (map_option p_level (h_player h)) 1) None
      in refreshTimes ((presentEncounter h1 enc)\<lparr> h_encounterChance := 0 \<rparr>))"

definition debugForceIdleEncounter :: "hook \<Rightarrow> rarity \<Rightarrow> hook" where
  "debugForceIdleEncounter h r =
     (let (enc, h1) = rollForced h (debugLevel h) (Some r) in resolvePassiveEncounter h1 enc False IdleTier)"

definition debugForceEliteEncounter :: "hook \<Rightarrow> rarity \<Rightarrow> encounter_data option \<Rightarrow> bool \<Rightarrow> hook" where
  "debugForceEliteEncounter h r existing saveOk =
     (let (enc, h1) = rollForced h (debugLevel h) (Some r);
          (h2, held) = holdEliteEncounter (h1\<lparr> h_nextRef := Suc (h_nextRef h1) \<rparr>) (h_nextRef h1, enc) False existing saveOk
      in if held then h2 else resolvePassiveEncounter h2 enc False IdleTier)"

definition debugSimulateWalk :: "hook \<Rightarrow> nat \<Rightarrow> hook" where
  "debugSimulateWalk h n = ((\<lambda>k. debugForceIdleEncounter k Common) ^^ n) h"

definition debugPreviewReveal :: "hook \<Rightarrow> rarity option \<Rightarrow> hook" where
  "debugPreviewReveal h r =
     (let level = debugLevel h;
          (it, h1) = run_rand (h\<lparr> h_rewardRevealTimer := None \<rparr>) (generateItem (h_now h) level r 1)
      in h1\<lparr> h_rewardReveal := Some
              \<lparr> rr_creatureName = ''Preview'', rr_xpGained = 0, rr_leveledUp = False, rr_newLevel = level,
                rr_item = Some it,
                rr_isUpgrade = (case h_player h of None \<Rightarrow> False | Some p \<Rightarrow> wouldUpgrade p it),
                rr_inventoryFull = False \<rparr> \<rparr>)"

section \<open>The distance gate\<close>

definition AUTO_FLEE_DISTANCE :: real where "AUTO_FLEE_DISTANCE = 100"

definition tooFar :: "encounter \<Rightarrow> location_data \<Rightarrow> bool" where
  "tooFar enc loc \<longleftrightarrow>
     calculateDistance (l_latitude (e_location enc)) (l_longitude (e_location enc)) (l_latitude loc) (l_longitude loc)
       > AUTO_FLEE_DISTANCE"

definition plain_location :: "location_data \<Rightarrow> location" where
  "plain_location l = \<lparr> l_latitude = l_latitude l, l_longitude = l_longitude l \<rparr>"

definition routeEncounter :: "hook \<Rightarrow> encounter \<Rightarrow> encounter_data option \<Rightarrow> bool \<Rightarrow> hook" where
  "routeEncounter h enc existing saveOk =
     (let isInBackground = h_isBackground h
      in case resolveEncounterRoute isInBackground (isEliteCreature (c_rarity (e_creature enc))) (h_autoResolveBelowRare h) of
           Present \<Rightarrow> presentEncounter h enc
         | AutoResolve \<Rightarrow> resolvePassiveEncounter h enc isInBackground ActiveTier
         | Hold \<Rightarrow>
             let (h1, held) = holdEliteEncounter (h\<lparr> h_nextRef := Suc (h_nextRef h) \<rparr>) (h_nextRef h, enc) isInBackground existing saveOk
             in if held then h1 else resolvePassiveEncounter h1 enc isInBackground IdleTier
         | Passive \<Rightarrow> resolvePassiveEncounter h enc isInBackground IdleTier)"

definition autoFlee :: "hook \<Rightarrow> encounter \<Rightarrow> hook" where
  "autoFlee h enc =
     handleFlee (emit h (ShowAlert ''Encounter Ended''
       (''You traveled too far from the encounter location. The '' @ c_name (e_creature enc) @ '' has fled.'')))"

text \<open>\<open>existing\<close> and \<open>saveOk\<close> are what the store answers if the encounter is to be held.\<close>

definition onDistanceEncounterUpdate ::
  "hook \<Rightarrow> distance_data \<Rightarrow> player option \<Rightarrow> encounter_data option \<Rightarrow> bool \<Rightarrow> hook" where
  "onDistanceEncounterUpdate h dd currentPlayer existing saveOk =
     (case h_encounter h of
        Some (ref, enc) \<Rightarrow>
          if h_isMinimized h \<and> \<not> h_showCombatModal h \<and> tooFar enc (dd_location dd) then autoFlee h enc else h
      | None \<Rightarrow>
          let probabilityThatWillBeUsed = getProbabilityAfterIncremental (h_service h) (h_now h) (dd_incremental dd);
              (encOpt, h1) =
                (case currentPlayer of
                   None \<Rightarrow> (None, h)
                 | Some p \<Rightarrow>
                     let ((eo, sv), h') = run_rand h
                           (processDistanceUpdate (h_now h) (h_service h) (Some dd)
                              (Some (plain_location (dd_location dd))) (p_level p))
                     in (eo, h'\<lparr> h_service := sv \<rparr>))
          in case encOpt of
               None \<Rightarrow> refreshChance h1
             | Some enc \<Rightarrow>
                 refreshTimes ((routeEncounter h1 enc existing saveOk)
                   \<lparr> h_encounterChance := 0, h_lastEncounterChance := Some probabilityThatWillBeUsed \<rparr>))"

end
