(* ===== verification/EncounterFlow.thy ===== *)
theory EncounterFlow
  imports EncounterHook
begin

text \<open>
  The encounter controller as a state machine: every tap, timer, distance report and outside change
  is an event. The invariant says that the player, the foes and the combat states are well formed,
  that the feeds are numbered in order, that the enemy's turn is shown exactly while a counter
  timer runs, and that a counter beat and a kill beat never overlap. It holds after every
  sequence of events.
\<close>

section \<open>Events\<close>

datatype hook_event =
  Fight | UseAbility ability | Flee | AutoResolveTap | DebugDefeat | Minimize | CloseCombat | Expand
| KillBeat | CounterTimer | RewardTimer | DismissReward
| WalkBegin "walk_entry list" | WalkEnd | DismissWalk
| Distance distance_data "player option" "encounter_data option" bool
| RefreshFoe "encounter_data option" | EngageFoe bool | Teardown
| ForceEncounter | ForceIdle rarity | ForceElite rarity "encounter_data option" bool
| SimulateWalk nat | PreviewReveal "rarity option"
| SetBypass bool | SetForceDrop bool | SetForcedRarity "rarity option" | Countdown
| PlayerChanged "player option" | SetBackground bool | SetAutoResolve bool
| SetLocation "location option" | Clock int

fun hook_step :: "hook \<Rightarrow> hook_event \<Rightarrow> hook" where
  "hook_step h Fight = handleFight h"
| "hook_step h (UseAbility ab) = fst (handleAbility h ab)"
| "hook_step h Flee = handleFlee h"
| "hook_step h AutoResolveTap = handleAutoResolve h"
| "hook_step h DebugDefeat = handleDebugDefeat h"
| "hook_step h Minimize = handleMinimize h"
| "hook_step h CloseCombat = handleCloseCombatModal h"
| "hook_step h Expand = handleExpandMinimized h"
| "hook_step h KillBeat = killBeatFires h"
| "hook_step h CounterTimer = counterTimerFires h"
| "hook_step h RewardTimer = rewardTimerFires h"
| "hook_step h DismissReward = dismissReward h"
| "hook_step h (WalkBegin es) = checkWalkSummaryBegin h es"
| "hook_step h WalkEnd = checkWalkSummaryEnd h"
| "hook_step h DismissWalk = dismissWalkSummary h"
| "hook_step h (Distance dd p existing saveOk) = onDistanceEncounterUpdate h dd p existing saveOk"
| "hook_step h (RefreshFoe d) = refreshHeldFoe h d"
| "hook_step h (EngageFoe cleared) = engageHeldFoe h cleared"
| "hook_step h Teardown = clearEncounter h"
| "hook_step h ForceEncounter = hookForceEncounter h"
| "hook_step h (ForceIdle r) = debugForceIdleEncounter h r"
| "hook_step h (ForceElite r existing saveOk) = debugForceEliteEncounter h r existing saveOk"
| "hook_step h (SimulateWalk n) = debugSimulateWalk h n"
| "hook_step h (PreviewReveal r) = debugPreviewReveal h r"
| "hook_step h (SetBypass b) = hookSetBypass h b"
| "hook_step h (SetForceDrop b) = h\<lparr> h_forceItemDrop := b \<rparr>"
| "hook_step h (SetForcedRarity r) = h\<lparr> h_forcedRarity := r \<rparr>"
| "hook_step h Countdown = tickCountdown h"
| "hook_step h (PlayerChanged p) = h\<lparr> h_player := p \<rparr>"
| "hook_step h (SetBackground b) = h\<lparr> h_isBackground := b \<rparr>"
| "hook_step h (SetAutoResolve b) = h\<lparr> h_autoResolveBelowRare := b \<rparr>"
| "hook_step h (SetLocation l) = h\<lparr> h_currentLocation := l \<rparr>"
| "hook_step h (Clock t) = h\<lparr> h_now := t \<rparr>"

text \<open>What the events bring in from outside is well formed.\<close>

fun event_ok :: "hook_event \<Rightarrow> bool" where
  "event_ok (UseAbility ab) \<longleftrightarrow> ability_ok ab"
| "event_ok (PlayerChanged p) \<longleftrightarrow> pred_option player_ok p"
| "event_ok (RefreshFoe d) \<longleftrightarrow> pred_option (\<lambda>x. creature_ok (new_Creature (ed_creature x))) d"
| "event_ok _ \<longleftrightarrow> True"

section \<open>Invariant\<close>

definition beat_ok :: "bool \<Rightarrow> counter_timer option \<Rightarrow> bool \<Rightarrow> bool \<Rightarrow> player option \<Rightarrow> bool" where
  "beat_ok counterPending counterTimer enemyTurn killPending killTimer \<longleftrightarrow>
     (counterPending \<longleftrightarrow> counterTimer \<noteq> None) \<and> (enemyTurn \<longleftrightarrow> counterPending) \<and>
     (killTimer \<noteq> None \<longrightarrow> killPending) \<and> \<not> (counterPending \<and> killPending)"

definition check_ok :: "bool \<Rightarrow> walk_entry list option \<Rightarrow> bool" where
  "check_ok checking drained \<longleftrightarrow> (checking \<longleftrightarrow> drained \<noteq> None)"

definition combat_state_ok :: "combatant_state \<Rightarrow> bool" where
  "combat_state_ok st \<longleftrightarrow> 0 \<le> cs_resource st \<and> cs_resource st \<le> 100 \<and> list_all effect_ok (cs_statusEffects st)"

definition foe_ok :: "nat \<Rightarrow> (nat \<times> encounter) option \<Rightarrow> bool" where
  "foe_ok nextRef foe = (case foe of None \<Rightarrow> True | Some (ref, e) \<Rightarrow> ref < nextRef \<and> encounter_ok e)"

definition ids_ok :: "nat list \<Rightarrow> nat \<Rightarrow> bool" where
  "ids_ok ids nextId \<longleftrightarrow> sorted_wrt (<) ids \<and> (\<forall>i \<in> set ids. i < nextId)"

definition hook_ok :: "hook \<Rightarrow> bool" where
  "hook_ok h \<longleftrightarrow>
     beat_ok (h_counterPending h) (h_counterTimer h) (h_isEnemyTurn h) (h_killBeatPending h) (h_killBeatTimer h) \<and>
     check_ok (h_isCheckingWalkSummary h) (h_drained h) \<and>
     pred_option player_ok (h_player h) \<and> pred_option player_ok (h_killBeatTimer h) \<and>
     foe_ok (h_nextRef h) (h_encounter h) \<and> foe_ok (h_nextRef h) (h_heldFoe h) \<and>
     pred_option combat_state_ok (h_playerCombatState h) \<and>
     pred_option combat_state_ok (h_creatureCombatState h) \<and>
     ids_ok (map ev_id (h_combatHits h)) (h_hitId h) \<and> ids_ok (map lg_id (h_combatLog h)) (h_logId h) \<and>
     0 \<le> h_playerDodgeStreak h \<and> 0 \<le> h_creatureDodgeStreak h \<and> valid_rng (h_rng h)"

lemma beat_ok_idle [simp]: "beat_ok False None False kp kt \<longleftrightarrow> (kt \<noteq> None \<longrightarrow> kp)"
  by (auto simp: beat_ok_def)

lemma beat_ok_kill: "beat_ok cp ct et kp kt \<Longrightarrow> beat_ok cp ct et False None"
  by (auto simp: beat_ok_def)

lemma beat_ok_timer: "beat_ok cp (Some t) et kp kt \<Longrightarrow> beat_ok cp (Some u) et kp kt"
  by (auto simp: beat_ok_def)

lemma beat_ok_end: "beat_ok cp (Some t) et kp kt \<Longrightarrow> kt \<noteq> None \<Longrightarrow> kp"
  by (auto simp: beat_ok_def)

lemma foe_ok_simps [simp]:
  "foe_ok n None" "foe_ok n (Some (ref, e)) \<longleftrightarrow> ref < n \<and> encounter_ok e"
  by (simp_all add: foe_ok_def)

lemma foe_ok_Suc [simp]: "foe_ok n f \<Longrightarrow> foe_ok (Suc n) f"
  by (auto simp: foe_ok_def split: option.splits)

lemma ids_ok_simps [simp]: "ids_ok [] n" "ids_ok ids n \<Longrightarrow> ids_ok (ids @ [n]) (Suc n)"
  by (auto simp: ids_ok_def sorted_wrt_append)

lemma hook_init_ok: "valid_rng r \<Longrightarrow> hook_ok (hook_init r now)"
  by (simp add: hook_ok_def hook_init_def check_ok_def)

section \<open>The shared steps keep the invariant\<close>

named_theorems hook_steps \<open>steps that keep the controller's invariant\<close>

lemma run_rand_cases:
  assumes "run_rand h m = (x, h')" and "rand_all P m" and "valid_rng (h_rng h)"
  obtains r where "P x" and "valid_rng r" and "h' = h\<lparr> h_rng := r \<rparr>"
proof -
  have x: "x = fst (run_state m (h_rng h))" and h': "h' = h\<lparr> h_rng := snd (run_state m (h_rng h)) \<rparr>"
    using assms(1) by (simp_all add: run_rand_def case_prod_beta Let_def)
  show ?thesis by (rule that[OF _ _ h']) (use assms(2,3) x in \<open>simp_all add: rand_all_def\<close>)
qed

lemma hook_ok_rng [hook_steps]: "hook_ok h \<Longrightarrow> valid_rng r \<Longrightarrow> hook_ok (h\<lparr> h_rng := r \<rparr>)"
  by (simp add: hook_ok_def)

lemma emit_ok [hook_steps]: "hook_ok h \<Longrightarrow> hook_ok (emit h e)"
  by (simp add: hook_ok_def emit_def)

lemma setPlayer_ok [hook_steps]: "hook_ok h \<Longrightarrow> player_ok p \<Longrightarrow> hook_ok (setPlayerAndSave h p)"
  by (simp add: hook_ok_def setPlayerAndSave_def)

lemma pushHit_ok [hook_steps]: "hook_ok h \<Longrightarrow> hook_ok (pushHit h ev)"
  by (simp add: hook_ok_def pushHit_def)

lemma pushLog_ok [hook_steps]: "hook_ok h \<Longrightarrow> hook_ok (pushLog h e)"
  by (simp add: hook_ok_def pushLog_def)

lemma cancelCounterBeat_ok [hook_steps]: "hook_ok h \<Longrightarrow> hook_ok (cancelCounterBeat h)"
  by (simp add: hook_ok_def cancelCounterBeat_def beat_ok_def)

lemma endFight_ok [hook_steps]: "hook_ok h \<Longrightarrow> hook_ok (endFight h)"
  by (simp add: hook_ok_def endFight_def)

lemma clearEncounter_ok [hook_steps]: "hook_ok h \<Longrightarrow> hook_ok (clearEncounter h)"
  by (simp add: hook_ok_def clearEncounter_def cancelCounterBeat_def Let_def)

lemma refreshTimes_ok [hook_steps]: "hook_ok h \<Longrightarrow> hook_ok (refreshTimes h)"
  by (simp add: hook_ok_def refreshTimes_def)

lemma views_ok [hook_steps]:
  assumes "hook_ok h"
  shows "hook_ok (h\<lparr> h_showCombatModal := b \<rparr>)" "hook_ok (h\<lparr> h_showEncounterModal := b \<rparr>)"
    "hook_ok (h\<lparr> h_isMinimized := b \<rparr>)" "hook_ok (h\<lparr> h_encounterChance := x \<rparr>)"
    "hook_ok (h\<lparr> h_lastEncounterChance := y \<rparr>)" "hook_ok (h\<lparr> h_service := sv \<rparr>)"
    "hook_ok (h\<lparr> h_fleeProcessed := b \<rparr>)" "hook_ok (h\<lparr> h_victoryProcessed := b \<rparr>)"
    "hook_ok (h\<lparr> h_rewardRevealTimer := rr \<rparr>)" "hook_ok (h\<lparr> h_rewardReveal := rr \<rparr>)"
    "hook_ok (h\<lparr> h_walkSummary := ws \<rparr>)"
  using assms by (simp_all add: hook_ok_def)

lemma emits_ok [hook_steps]: "hook_ok h \<Longrightarrow> hook_ok (foldl (\<lambda>k e. emit k (f e)) h es)"
  by (induction es arbitrary: h) (auto intro: emit_ok)

section \<open>Victory and passive resolution keep the invariant\<close>

lemma rewards_nonneg:
  assumes "creature_ok c"
  shows "0 \<le> getExperienceReward c" and "0 \<le> activeCombatXp (getExperienceReward c)"
    and "0 \<le> computeAutoCombatXp c won"
proof -
  have m: "0 \<le> rarityMultiplier r" "0 \<le> ACTIVE_COMBAT_XP_MULTIPLIER" "0 \<le> LOSS_XP_FRACTION" for r
    by (cases r; simp add: rnd_nonneg) (simp_all add: ACTIVE_COMBAT_XP_MULTIPLIER_def LOSS_XP_FRACTION_def rnd_nonneg)
  show g: "0 \<le> getExperienceReward c"
    using assms m(1)[of "c_rarity c"]
    by (simp add: getExperienceReward_def getRarityMultiplier_def creature_ok_def jmul_nonneg)
  then show "0 \<le> activeCombatXp (getExperienceReward c)" "0 \<le> computeAutoCombatXp c won"
    using m by (simp_all add: activeCombatXp_def computeAutoCombatXp_def jmul_nonneg Let_def)
qed

lemma drop_items_ok: "drop_ok pl m override d \<Longrightarrow> 0 \<le> m \<Longrightarrow> pred_option item_ok d"
  by (cases d) (auto simp: drop_ok_def intro: generated_item_ok(1))

lemma storeDrop_ok: "player_ok p \<Longrightarrow> pred_option item_ok d \<Longrightarrow> player_ok (fst (storeDrop p d))"
  using inventory_op_ok(1)[of p] by (cases d) (auto simp: storeDrop_def Let_def case_prod_beta)

lemma keepDrop_ok: "player_ok p \<Longrightarrow> pred_option item_ok d \<Longrightarrow> player_ok (fst (keepDrop p d))"
  using inventory_op_ok(1)[of p] by (cases d) (auto simp: keepDrop_def Let_def case_prod_beta)

lemma hook_okD:
  assumes "hook_ok h"
  shows "valid_rng (h_rng h)" and "h_player h = Some p \<Longrightarrow> player_ok p"
    and "h_encounter h = Some re \<Longrightarrow> encounter_ok (snd re)" and "h_heldFoe h = Some re \<Longrightarrow> encounter_ok (snd re)"
    and "h_playerCombatState h = Some st \<Longrightarrow> combat_state_ok st"
    and "h_creatureCombatState h = Some st \<Longrightarrow> combat_state_ok st"
    and "h_killBeatTimer h = Some p \<Longrightarrow> player_ok p"
  using assms by (cases re; simp add: hook_ok_def)+

lemma endBeats_ok [hook_steps]:
  "hook_ok h \<Longrightarrow> hook_ok (cancelCounterBeat (h\<lparr> h_killBeatTimer := None, h_killBeatPending := False \<rparr>))"
  by (simp add: hook_ok_def cancelCounterBeat_def)

definition victoryReveal :: "encounter \<Rightarrow> int \<Rightarrow> player \<Rightarrow> item option \<Rightarrow> bool \<Rightarrow> bool \<Rightarrow> reward_reveal" where
  "victoryReveal enc levels p loot full up =
     \<lparr> rr_creatureName = c_name (e_creature enc), rr_xpGained = activeCombatXp (getExperienceReward (e_creature enc)),
       rr_leveledUp = (levels > 0), rr_newLevel = p_level p, rr_item = loot, rr_isUpgrade = up, rr_inventoryFull = full \<rparr>"

lemma handleVictory_cases:
  assumes ok: "hook_ok h" and enc: "h_encounter h = Some (ref, enc)" and base_ok: "player_ok base"
    and base: "(if pu \<noteq> None then pu else h_player h) = Some base" and nv: "\<not> h_victoryProcessed h"
  obtains p2 lv loot p3 full up h3
  where "addExperience (incrementEncounters (defeatCreature base)) (activeCombatXp (getExperienceReward (e_creature enc))) = (p2, lv)"
    "player_ok p2" "drop_ok (p_level p2) 2 (h_forcedRarity h) loot" "storeDrop p2 loot = (p3, full, up)" "player_ok p3"
    "run_state (dropActiveCombatItem (h_now h) (h_forceItemDrop h) (p_level p2) (h_forcedRarity h)) (h_rng h) = (loot, h_rng h3)"
    "hook_ok h3" "h_victoryProcessed h3" "\<not> h_counterPending h3" "\<not> h_killBeatPending h3"
    "handleVictory h pu = (endFight (setPlayerAndSave h3 (fullHeal p3)))
       \<lparr> h_fleeProcessed := False, h_rewardRevealTimer := Some (victoryReveal enc lv (fullHeal p3) loot full up) \<rparr>"
proof -
  define h2 where "h2 = cancelCounterBeat ((pushLog (h\<lparr> h_victoryProcessed := True \<rparr>)
      (mk_log LDefeat TPlayer TCreature None None None None []))\<lparr> h_killBeatTimer := None, h_killBeatPending := False \<rparr>)"
  have h2: "hook_ok h2" unfolding h2_def by (intro hook_steps ok)
  have f: "h_now h2 = h_now h" "h_forceItemDrop h2 = h_forceItemDrop h" "h_forcedRarity h2 = h_forcedRarity h" "h_rng h2 = h_rng h"
    by (simp_all add: h2_def cancelCounterBeat_def pushLog_def)
  define g where "g = activeCombatXp (getExperienceReward (e_creature enc))"
  have g: "0 \<le> g" unfolding g_def
    using hook_okD(3)[OF ok enc] by (intro rewards_nonneg) (simp add: encounter_ok_def)
  obtain p2 lv where p2: "addExperience (incrementEncounters (defeatCreature base)) g = (p2, lv)" by force
  then have p2_ok: "player_ok p2"
    using addExperience_ok[of "incrementEncounters (defeatCreature base)" g] base_ok g by (auto intro: counters_ok)
  obtain loot h3 where l: "run_rand h2 (dropActiveCombatItem (h_now h) (h_forceItemDrop h) (p_level p2) (h_forcedRarity h)) = (loot, h3)"
    by force
  from l dropActive_spec hook_okD(1)[OF h2] obtain r where d: "drop_ok (p_level p2) 2 (h_forcedRarity h) loot"
    and r: "valid_rng r" "h3 = h2\<lparr> h_rng := r \<rparr>" by (rule run_rand_cases)
  have h3: "hook_ok h3" "h_victoryProcessed h3" "\<not> h_counterPending h3" "\<not> h_killBeatPending h3"
    using hook_ok_rng[OF h2 r(1)] r(2) by (simp_all add: h2_def cancelCounterBeat_def pushLog_def)
  have rng: "run_state (dropActiveCombatItem (h_now h) (h_forceItemDrop h) (p_level p2) (h_forcedRarity h)) (h_rng h) = (loot, h_rng h3)"
    using l f(4) by (auto simp: run_rand_def Let_def split: prod.splits)
  obtain p3 full up where p3: "storeDrop p2 loot = (p3, full, up)" by (cases "storeDrop p2 loot") auto
  then have p3_ok: "player_ok p3" using storeDrop_ok[OF p2_ok drop_items_ok[OF d]] by simp
  show ?thesis
    by (rule that[OF p2[unfolded g_def] p2_ok d p3 p3_ok rng h3])
      (use enc base nv p2 l p3 f base_ok in
        \<open>simp add: handleVictory_def Let_def h2_def[symmetric] g_def[symmetric] victoryReveal_def clone_ok\<close>)
qed

lemma handleVictory_ok [hook_steps]:
  assumes ok: "hook_ok h" and pu: "pred_option player_ok pu"
  shows "hook_ok (handleVictory h pu)"
proof (cases "h_encounter h = None \<or> (if pu \<noteq> None then pu else h_player h) = None \<or> h_victoryProcessed h")
  case True
  then show ?thesis using ok by (auto simp: handleVictory_def split: option.splits)
next
  case False
  then obtain ref enc base where e: "h_encounter h = Some (ref, enc)"
    and base: "(if pu \<noteq> None then pu else h_player h) = Some base" and nv: "\<not> h_victoryProcessed h"
    by (cases "h_encounter h") auto
  have "player_ok base" using base pu hook_okD(2)[OF ok] by (auto split: if_splits)
  then show ?thesis
  proof (rule handleVictory_cases[OF ok e _ base nv])
    fix p3 h3 lv loot full up
    assume "player_ok p3" "hook_ok h3" "handleVictory h pu = (endFight (setPlayerAndSave h3 (fullHeal p3)))
       \<lparr> h_fleeProcessed := False, h_rewardRevealTimer := Some (victoryReveal enc lv (fullHeal p3) loot full up) \<rparr>"
    then show ?thesis by (simp add: views_ok endFight_ok setPlayer_ok vitals_ok)
  qed
qed

lemma passiveOutcome_ok:
  assumes "passiveOutcome h level c tier = ((won, xp, it), h')" and ok: "hook_ok h" and c: "creature_ok c"
  shows "0 \<le> xp \<and> pred_option item_ok it \<and> hook_ok h'"
proof (cases "tier = ActiveTier")
  case True
  then show ?thesis using assms rewards_nonneg(2)[OF c] by (auto simp: passiveOutcome_def)
next
  case False
  obtain out h1 where o: "run_rand h (resolveAutoCombat (h_now h) level c) = (out, h1)" by force
  from o resolveAutoCombat_spec hook_okD(1)[OF ok] obtain r where "outcome_ok level c out"
    and "valid_rng r" "h1 = h\<lparr> h_rng := r \<rparr>" by (rule run_rand_cases)
  with False o assms rewards_nonneg(3)[OF c] show ?thesis
    by (auto simp: passiveOutcome_def outcome_ok_def intro: drop_items_ok hook_steps)
qed

lemma passiveLoot_ok:
  assumes "passiveLoot h level tier it = (loot, h')" and ok: "hook_ok h" and it: "pred_option item_ok it"
  shows "pred_option item_ok loot \<and> hook_ok h'"
proof (cases "tier = ActiveTier")
  case True
  with assms(1) have "run_rand h (dropActiveCombatItem (h_now h) False level None) = (loot, h')" by (simp add: passiveLoot_def)
  from this dropActive_spec hook_okD(1)[OF ok] obtain r where "drop_ok level 2 None loot"
    "valid_rng r" "h' = h\<lparr> h_rng := r \<rparr>" by (rule run_rand_cases)
  with ok show ?thesis by (auto intro: drop_items_ok hook_steps)
qed (use assms in \<open>simp add: passiveLoot_def\<close>)

lemma resolvePassive_ok [hook_steps]:
  assumes ok: "hook_ok h" and enc: "encounter_ok enc"
  shows "hook_ok (resolvePassiveEncounter h enc bg tier)"
proof (cases "h_player h")
  case None
  then show ?thesis using ok by (simp add: resolvePassiveEncounter_def)
next
  case (Some base)
  note base_ok = hook_okD(2)[OF ok Some]
  obtain won xp it0 h1 where o: "passiveOutcome h (p_level base) (e_creature enc) tier = ((won, xp, it0), h1)"
    by (metis prod.collapse)
  then have o_ok: "0 \<le> xp" "pred_option item_ok it0" "hook_ok h1"
    using passiveOutcome_ok[OF o ok] enc by (auto simp: encounter_ok_def)
  define p2 where "p2 = (if won then defeatCreature (incrementEncounters (clone_player base)) else incrementEncounters (clone_player base))"
  have "player_ok p2" using base_ok by (auto simp: p2_def clone_ok intro: counters_ok)
  then obtain p3 lv where p3: "addExperience p2 xp = (p3, lv)" and p3_ok: "player_ok p3"
    using addExperience_ok[of p2 xp] o_ok by (cases "addExperience p2 xp") auto
  obtain loot h2 where l: "passiveLoot h1 (p_level p3) tier it0 = (loot, h2)" by force
  then have l_ok: "pred_option item_ok loot" "hook_ok h2" using passiveLoot_ok[OF l] o_ok by auto
  obtain p4 it where p4: "keepDrop p3 loot = (p4, it)" by force
  have "player_ok p4" using keepDrop_ok[OF p3_ok, of loot] l_ok p4 by simp
  then have "hook_ok (setPlayerAndSave h2 (fullHeal p4))" using l_ok by (auto intro: hook_steps vitals_ok)
  then show ?thesis
    using Some p3 p4 o l
    by (simp add: resolvePassiveEncounter_def p2_def[symmetric] Let_def)
      (auto intro!: hook_steps split: option.splits)
qed

section \<open>The handlers keep the invariant\<close>

lemma combat_state_inits [simp]:
  "combat_state_ok (initCombatState a)" "combat_state_ok noEffects"
  by (cases a; simp add: combat_state_ok_def initCombatState_def) (simp add: combat_state_ok_def noEffects_def)

lemma handleFlee_ok [hook_steps]: "hook_ok h \<Longrightarrow> hook_ok (handleFlee h)"
  by (auto simp: handleFlee_def hook_ok_def endFight_def setPlayerAndSave_def Let_def clone_ok
      intro!: vitals_ok counters_ok split: option.splits)

lemma handleFight_ok [hook_steps]: "hook_ok h \<Longrightarrow> hook_ok (handleFight h)"
  using handleVictory_ok[of h None]
  by (auto simp: handleFight_def Let_def hook_ok_def split: option.splits)

lemma handlePlayerDefeat_ok [hook_steps]: "hook_ok h \<Longrightarrow> player_ok p \<Longrightarrow> hook_ok (handlePlayerDefeat h p)"
  unfolding handlePlayerDefeat_def Let_def
  by (intro hook_steps counters_ok vitals_ok) (simp_all add: clone_ok)

lemma applyEvasionDamage_nonneg: "0 \<le> applyEvasionDamage n ev"
  by (auto simp: applyEvasionDamage_def max_def)

lemma endEnemyTurn_ok: "hook_ok h \<Longrightarrow> hook_ok (endEnemyTurn (h\<lparr> h_counterTimer := None \<rparr>))"
  by (auto simp: hook_ok_def endEnemyTurn_def beat_ok_def)

lemma scheduleCounterAttack_ok:
  "hook_ok h \<Longrightarrow> \<not> h_killBeatPending h \<Longrightarrow> hook_ok (scheduleCounterAttack h atk def c)"
  by (auto simp: hook_ok_def scheduleCounterAttack_def beat_ok_def)

lemma scheduleVictory_ok:
  "hook_ok h \<Longrightarrow> player_ok p \<Longrightarrow> \<not> h_counterPending h \<Longrightarrow> hook_ok (scheduleVictory h p)"
  by (auto simp: hook_ok_def scheduleVictory_def beat_ok_def)

lemma presentEncounter_ok [hook_steps]: "hook_ok h \<Longrightarrow> encounter_ok e \<Longrightarrow> hook_ok (presentEncounter h e)"
  by (simp add: hook_ok_def presentEncounter_def cancelCounterBeat_def) (auto simp: beat_ok_def)

lemma heldFoe_ok [hook_steps]:
  "hook_ok h \<Longrightarrow> foe_ok (h_nextRef h) (Some re) \<Longrightarrow> hook_ok (h\<lparr> h_heldFoe := Some re \<rparr>)"
  by (simp add: hook_ok_def)

lemma nextRef_ok [hook_steps]: "hook_ok h \<Longrightarrow> hook_ok (h\<lparr> h_nextRef := Suc (h_nextRef h) \<rparr>)"
  by (simp add: hook_ok_def)

lemma holdElite_ok:
  assumes "hook_ok h" and "foe_ok (h_nextRef h) (Some re)"
  shows "hook_ok (fst (holdEliteEncounter h re bg existing saveOk))"
  using assms by (auto simp: holdEliteEncounter_def Let_def emit_def hook_ok_def)

lemma run_rand_random: "run_rand h math_random = (shd (h_rng h), h\<lparr> h_rng := stl (h_rng h) \<rparr>)"
  by (simp add: run_rand_def math_random_def next_random_def)

lemma strike_player_ok:
  assumes "player_ok p" and "0 \<le> d"
  shows "player_ok (if d > 0 then p_takeDamage (incrementCombatTurns (clone_player p)) d else incrementCombatTurns (clone_player p))"
  using assms by (auto simp: clone_ok intro: vitals_ok counters_ok)

definition afterStrike :: "hook \<Rightarrow> evade_outcome \<Rightarrow> int \<Rightarrow> int \<Rightarrow> player \<Rightarrow> hook" where
  "afterStrike h ev n d p =
     setPlayerAndSave (pushLog (pushHit (h\<lparr> h_rng := stl (h_rng h), h_playerDodgeStreak := n \<rparr>)
       (mk_hit TPlayer d (Some Physical) Neutral KHit (p_maxHp p) None (evadeTag ev)))
       (mk_log LAttack TCreature TPlayer None (Some d) (Some Physical) None (evadeLogTags ev))) p"

lemma counterStrike_cases:
  assumes "player_ok p"
  obtains ev n d p' where "d = applyEvasionDamage (mitigateDamage atk def 1) ev"
    "n = (if ev = Dodged then 0 else h_playerDodgeStreak h + 1)"
    "p' = p\<lparr> p_combatTurnsTaken := p_combatTurnsTaken p + 1, p_hp := max 0 (p_hp p - d) \<rparr>" "player_ok p'"
    "counterStrike h atk def c p =
      (if p_hp p \<le> d then handlePlayerDefeat (endEnemyTurn (afterStrike h ev n d p')) p'
       else (afterStrike h ev n d p')\<lparr> h_counterTimer := Some StrikeHold \<rparr>)"
proof -
  let ?p1 = "incrementCombatTurns (clone_player p)"
  obtain ev n where ev: "rollEvasion (c_speed c) (p_speed ?p1) DPlayer (h_playerDodgeStreak h) (shd (h_rng h)) = (ev, n)" by force
  have n: "n = (if ev = Dodged then 0 else h_playerDodgeStreak h + 1)"
    using rollEvasion_streak[of "c_speed c" "p_speed ?p1" DPlayer "h_playerDodgeStreak h" "shd (h_rng h)"] ev by simp
  define d where "d = applyEvasionDamage (mitigateDamage atk def 1) ev"
  have d0: "0 \<le> d" by (simp add: d_def applyEvasionDamage_nonneg)
  define p2 where "p2 = (if d > 0 then p_takeDamage ?p1 d else ?p1)"
  have p2: "p2 = p\<lparr> p_combatTurnsTaken := p_combatTurnsTaken p + 1, p_hp := max 0 (p_hp p - d) \<rparr>"
    using assms d0 by (auto simp: p2_def clone_ok p_takeDamage_def incrementCombatTurns_def player_ok_def)
  have ok: "player_ok p2" using strike_player_ok[OF assms d0] by (simp add: p2_def)
  have dead: "p_isDefeated p2 \<longleftrightarrow> p_hp p \<le> d" by (simp add: p2 p_isDefeated_def)
  have "counterStrike h atk def c p = (if p_isDefeated p2 then handlePlayerDefeat (endEnemyTurn (afterStrike h ev n d p2)) p2
      else (afterStrike h ev n d p2)\<lparr> h_counterTimer := Some StrikeHold \<rparr>)"
    using ev by (simp add: counterStrike_def run_rand_random afterStrike_def p2_def d_def Let_def)
  from that[OF d_def n p2 ok this[unfolded dead]] show ?thesis .
qed

lemma counterStrike_ok:
  assumes ok: "hook_ok (h\<lparr> h_counterTimer := Some StrikeHold \<rparr>)" and t: "h_counterTimer h = None" and p: "player_ok p"
  shows "hook_ok (counterStrike h atk def c p)"
proof (rule counterStrike_cases[OF p])
  fix ev n d p'
  assume n: "n = (if ev = Dodged then 0 else h_playerDodgeStreak h + 1)" and p': "player_ok p'"
    and eq: "counterStrike h atk def c p =
      (if p_hp p \<le> d then handlePlayerDefeat (endEnemyTurn (afterStrike h ev n d p')) p'
       else (afterStrike h ev n d p')\<lparr> h_counterTimer := Some StrikeHold \<rparr>)"
  have "0 \<le> n" using ok by (simp add: n hook_ok_def)
  then have a: "hook_ok ((afterStrike h ev n d p')\<lparr> h_counterTimer := Some StrikeHold \<rparr>)"
    using ok p' by (simp add: afterStrike_def hook_ok_def setPlayerAndSave_def pushLog_def pushHit_def valid_rng_stl)
  then have "hook_ok (endEnemyTurn (afterStrike h ev n d p'))"
    using t beat_ok_end[of "h_counterPending h" StrikeHold "h_isEnemyTurn h" "h_killBeatPending h" "h_killBeatTimer h"]
    by (simp add: afterStrike_def hook_ok_def endEnemyTurn_def setPlayerAndSave_def pushLog_def pushHit_def)
  with a p' show ?thesis by (simp add: eq handlePlayerDefeat_ok)
qed

lemma counterTimerFires_ok [hook_steps]:
  assumes ok: "hook_ok h" shows "hook_ok (counterTimerFires h)"
proof (cases "h_counterTimer h")
  case (Some t)
  have e: "hook_ok (endEnemyTurn (h\<lparr> h_counterTimer := None \<rparr>))" by (rule endEnemyTurn_ok[OF ok])
  have "hook_ok (h\<lparr> h_counterTimer := Some StrikeHold \<rparr>)" using ok Some beat_ok_timer[of _ t _ _ _ StrikeHold] by (simp add: hook_ok_def)
  then have "hook_ok (counterStrike (h\<lparr> h_counterTimer := None \<rparr>) atk def c p)" if "h_player h = Some p" for atk def c p
    using counterStrike_ok[of "h\<lparr> h_counterTimer := None \<rparr>" p] hook_okD(2)[OF ok that] by simp
  then show ?thesis using e Some
    by (auto simp: counterTimerFires_def Let_def split: counter_timer.splits option.splits)
qed (use ok in \<open>simp add: counterTimerFires_def\<close>)

section \<open>What a swing may touch\<close>

text \<open>The feeds, the generator and the creature's streak; everything else is kept.\<close>

definition swing_erase :: "hook \<Rightarrow> hook" where
  "swing_erase h = h\<lparr> h_combatHits := [], h_hitId := 0, h_combatLog := [], h_logId := 0, h_rng := sconst 0,
     h_creatureDodgeStreak := 0 \<rparr>"

definition swing_frame :: "hook \<Rightarrow> hook \<Rightarrow> bool" where
  "swing_frame h h' \<longleftrightarrow> swing_erase h' = swing_erase h"

lemma swing_erase_fields:
  "h_encounter (swing_erase h) = h_encounter h" "h_player (swing_erase h) = h_player h"
  "h_nextRef (swing_erase h) = h_nextRef h" "h_counterPending (swing_erase h) = h_counterPending h"
  "h_killBeatPending (swing_erase h) = h_killBeatPending h" "h_victoryProcessed (swing_erase h) = h_victoryProcessed h"
  "h_playerCombatState (swing_erase h) = h_playerCombatState h"
  "h_creatureCombatState (swing_erase h) = h_creatureCombatState h" "h_now (swing_erase h) = h_now h"
  "h_counterTimer (swing_erase h) = h_counterTimer h" "h_killBeatTimer (swing_erase h) = h_killBeatTimer h"
  "h_effects (swing_erase h) = h_effects h"
  by (simp_all add: swing_erase_def)

lemma swing_frame_fields:
  assumes "swing_frame h h'"
  shows "h_encounter h' = h_encounter h" "h_player h' = h_player h" "h_nextRef h' = h_nextRef h"
    "h_counterPending h' = h_counterPending h" "h_killBeatPending h' = h_killBeatPending h"
    "h_victoryProcessed h' = h_victoryProcessed h" "h_playerCombatState h' = h_playerCombatState h"
    "h_creatureCombatState h' = h_creatureCombatState h" "h_now h' = h_now h" "h_counterTimer h' = h_counterTimer h"
    "h_killBeatTimer h' = h_killBeatTimer h" "h_effects h' = h_effects h"
  using assms unfolding swing_frame_def by (metis swing_erase_fields)+

lemma swing_frame_trans: "swing_frame h k \<Longrightarrow> swing_frame k l \<Longrightarrow> swing_frame h l"
  by (simp add: swing_frame_def)

lemma swing_frame_push [simp]:
  "swing_frame h (pushHit k ev) = swing_frame h k" "swing_frame h (pushLog k e) = swing_frame h k"
  "swing_frame h (k\<lparr> h_rng := r \<rparr>) = swing_frame h k" "swing_frame h (k\<lparr> h_creatureDodgeStreak := n \<rparr>) = swing_frame h k"
  "swing_frame h h"
  by (simp_all add: swing_frame_def swing_erase_def pushHit_def pushLog_def)

lemma dotLoop_frame: "swing_frame h k \<Longrightarrow> swing_frame h (fst (dotLoop k c ds n))"
  by (induction ds arbitrary: k n) (simp_all add: Let_def)

lemma dotLoop_ok: "hook_ok k \<Longrightarrow> hook_ok (fst (dotLoop k c ds n)) \<and> n \<le> snd (dotLoop k c ds n)"
proof (induction ds arbitrary: k n)
  case (Cons d ds)
  define dealt where "dealt = applyResistance (de_damage d) (case de_damageType d of None \<Rightarrow> 0 | Some t \<Rightarrow> c_resistances c t)"
  obtain k' where k': "dotLoop k c (d # ds) n = dotLoop k' c ds (n + dealt)" and ok: "hook_ok k'"
  proof (cases "0 < dealt")
    case True
    then show ?thesis by (intro that, simp add: Let_def dealt_def) (intro pushHit_ok pushLog_ok Cons.prems)
  next
    case False
    then show ?thesis by (intro that[of k]) (simp_all add: Let_def dealt_def Cons.prems)
  qed
  have "0 \<le> dealt" unfolding dealt_def by (rule applyResistance_nonneg)
  then show ?case using Cons.IH[OF ok, of "n + dealt"] by (simp add: k' del: dotLoop.simps)
qed simp

lemma tickCreatureDots_ok:
  assumes "tickCreatureDots h c st = (h', c', st')" and "hook_ok h" and "creature_ok c" and "pred_option combat_state_ok st"
  shows "hook_ok h'" and "creature_ok c'" and "pred_option combat_state_ok st'" and "swing_frame h h'"
    and "c_hp c' \<le> c_hp c"
proof -
  have "hook_ok h' \<and> creature_ok c' \<and> pred_option combat_state_ok st' \<and> swing_frame h h' \<and> c_hp c' \<le> c_hp c"
  proof (cases "\<exists>cs. st = Some cs \<and> cs_statusEffects cs \<noteq> []")
    case False
    then show ?thesis using assms by (auto simp: tickCreatureDots_def split: option.splits if_splits)
  next
    case True
    then obtain cs where cs: "st = Some cs" "cs_statusEffects cs \<noteq> []" by blast
    obtain k n where d: "dotLoop h c (tr_dotEffects (tickStatusEffects cs)) 0 = (k, n)" by force
    then have "hook_ok k" "swing_frame h k" "0 \<le> n"
      using dotLoop_ok[OF assms(2), of c "tr_dotEffects (tickStatusEffects cs)" 0]
        dotLoop_frame[of h h c "tr_dotEffects (tickStatusEffects cs)" 0] by auto
    moreover have "combat_state_ok (tr_updatedState (tickStatusEffects cs))"
      using assms(4) cs by (auto simp: combat_state_ok_def tickStatusEffects_eq ageEffect_ok)
    moreover have "c_hp (c_takeDamage c n) \<le> c_hp c" using assms(3) \<open>0 \<le> n\<close> by (auto simp: c_takeDamage_def creature_ok_def)
    ultimately show ?thesis
      using assms(1,3) cs d creature_ok_takeDamage[of c n]
      by (auto simp: tickCreatureDots_def Let_def split: if_splits)
  qed
  then show "hook_ok h'" "creature_ok c'" "pred_option combat_state_ok st'" "swing_frame h h'" "c_hp c' \<le> c_hp c" by simp_all
qed

lemma creatureStreak_ok: "hook_ok h \<Longrightarrow> valid_rng r \<Longrightarrow> 0 \<le> n \<Longrightarrow> hook_ok (h\<lparr> h_rng := r, h_creatureDodgeStreak := n \<rparr>)"
  by (simp add: hook_ok_def)

lemma directSwing_ok:
  assumes "directSwing h ab p c d = (h', c')" and "hook_ok h" and "creature_ok c"
  shows "hook_ok h' \<and> creature_ok c' \<and> swing_frame h h'"
proof (cases "(\<exists>m ty. a_kind ab = Direct m ty) \<and> d > 0")
  case False
  then show ?thesis using assms by (auto simp: directSwing_def split: ability_kind.splits)
next
  case True
  then obtain m ty where k: "a_kind ab = Direct m ty" "d > 0" by blast
  obtain ev n where ev: "rollEvasion (p_speed p) (c_speed c) DCreature (h_creatureDodgeStreak h) (shd (h_rng h)) = (ev, n)" by force
  have "0 \<le> n"
    using rollEvasion_streak_nonneg[of "h_creatureDodgeStreak h" "p_speed p" "c_speed c" DCreature "shd (h_rng h)"] assms(2) ev
    by (simp add: hook_ok_def)
  then have "hook_ok (h\<lparr> h_rng := stl (h_rng h), h_creatureDodgeStreak := n \<rparr>)"
    using assms(2) hook_okD(1)[OF assms(2)] by (intro creatureStreak_ok valid_rng_stl)
  then show ?thesis
    using assms(1,3) k ev creature_ok_takeDamage[OF assms(3) applyEvasionDamage_nonneg, of d ev]
    by (auto simp: directSwing_def run_rand_random Let_def intro!: pushHit_ok pushLog_ok)
qed

lemma applyHeal_ok:
  assumes "applyHeal h ab p n = (h', p')" and "hook_ok h" and "player_ok p"
  shows "hook_ok h' \<and> player_ok p' \<and> swing_frame h h' \<and> p_archetype p' = p_archetype p"
  using assms by (auto simp: applyHeal_def restoreHp_def vitals_ok(2)[unfolded restoreHp_def]
      intro!: pushHit_ok pushLog_ok split: if_splits)

lemma announceStatus_ok: "hook_ok h \<Longrightarrow> hook_ok (announceStatus h ab p c) \<and> swing_frame h (announceStatus h ab p c)"
  by (auto simp: announceStatus_def Let_def intro!: pushHit_ok pushLog_ok split: ability_kind.splits)

lemma tickedState_ok: "combat_state_ok st \<Longrightarrow> combat_state_ok (tickedState st)"
  by (simp add: combat_state_ok_def tickedState_def tickStatusEffects_eq ageEffect_ok)

lemma tickedState_resource [simp]: "cs_resource (tickedState st) = cs_resource st"
  by (simp add: tickedState_def tickStatusEffects_eq)

lemma spendAndRegen_ok:
  assumes "combat_state_ok st" and "0 \<le> a_resourceCost ab" and "list_all effect_ok es"
  shows "combat_state_ok (spendAndRegen st ab a es)"
  using assms tickedState_ok[OF assms(1)]
  by (cases a) (auto simp: spendAndRegen_def combat_state_ok_def regenResource_def Let_def)

lemma spendAndRegen_resource:
  assumes "a_resourceCost ab \<le> cs_resource st"
  shows "cs_resource (spendAndRegen st ab a es) =
    min (rc_max (RESOURCE_CONFIGS a)) (cs_resource st - a_resourceCost ab + rc_regenPerTurn (RESOURCE_CONFIGS a))"
  using assms by (simp add: spendAndRegen_def regenResource_def Let_def)

text \<open>After the action: the states are written, the player saved and the encounter rebuilt.\<close>

definition afterAction :: "hook \<Rightarrow> player \<Rightarrow> encounter \<Rightarrow> combatant_state \<Rightarrow> combatant_state \<Rightarrow> hook" where
  "afterAction h p e pst cst =
     h\<lparr> h_playerCombatState := Some pst, h_creatureCombatState := Some cst, h_player := Some p,
        h_encounter := Some (h_nextRef h, e), h_nextRef := Suc (h_nextRef h) \<rparr>"

lemma afterAction_ok:
  "hook_ok h \<Longrightarrow> player_ok p \<Longrightarrow> encounter_ok e \<Longrightarrow> combat_state_ok pst \<Longrightarrow> combat_state_ok cst \<Longrightarrow>
   hook_ok (afterAction h p e pst cst)"
  by (simp add: hook_ok_def afterAction_def)

lemma performAbility_cases:
  assumes ok: "hook_ok h" and ab: "ability_ok ab" and p: "player_ok p" and c: "creature_ok c"
    and st: "combat_state_ok pst" "pred_option combat_state_ok pre" "pred_option combat_state_ok new"
  obtains k c1 p1 e es cst atk def
  where "swing_frame h k" "hook_ok k" "creature_ok c1" "player_ok p1" "combat_state_ok cst" "list_all effect_ok es"
    "encounter_ok e" "e_creature e = c1" "p_archetype p1 = p_archetype p"
    "performAbility h ab p re c pst pre new =
       (let h6 = afterAction k p1 e (spendAndRegen pst ab (p_archetype p) es) cst
        in if c_isDefeated c1 then scheduleVictory h6 p1 else scheduleCounterAttack h6 atk def c1)"
proof -
  define pe where "pe = computeEffectiveStats (p_attack p) (p_defense p) (cs_statusEffects pst)"
  define ce where "ce = (case pre of None \<Rightarrow> [] | Some st \<Rightarrow> cs_statusEffects st)"
  define res where "res = resolveAbility ab (fst pe) (snd (computeEffectiveStats 0 (c_defense c) ce)) (c_resistances c) (p_maxHp p)"
  have "0 \<le> p_maxHp p" using p by (simp add: player_ok_def)
  then have eff: "list_all effect_ok (ar_appliedEffects res)" unfolding res_def by (rule resolveAbility_nonneg(4)[OF ab])
  obtain h1 c1 where s: "directSwing h ab p c (ar_damage res) = (h1, c1)" by force
  note s_ok = directSwing_ok[OF s ok c]
  obtain h2 p1 where hl: "applyHeal h1 ab p (ar_heal res) = (h2, p1)" by force
  have h_ok: "hook_ok h2 \<and> player_ok p1 \<and> swing_frame h1 h2 \<and> p_archetype p1 = p_archetype p"
    using s_ok p by (intro applyHeal_ok[OF hl]) auto
  define k where "k = announceStatus h2 ab p1 c1"
  have k: "hook_ok k" "swing_frame h k"
    using announceStatus_ok[of h2 ab p1 c1] h_ok s_ok by (auto simp: k_def intro: swing_frame_trans)
  define e where "e = new_Encounter (h_now k) c1 (e_location (snd re)) (Some (e_timestamp (snd re)))
      (Some (e_playerLevel (snd re))) (Some (e_status (snd re))) (e_daylight (snd re))"
  define cb where "cb = (case new of None \<Rightarrow> noEffects | Some st \<Rightarrow> st)"
  have "combat_state_ok cb" using st(3) by (auto simp: cb_def split: option.splits)
  then have cs_ok: "combat_state_ok (cb\<lparr> cs_statusEffects := cs_statusEffects cb @ (if targetsSelf ab then [] else ar_appliedEffects res) \<rparr>)"
    using eff by (simp add: combat_state_ok_def)
  have eq: "performAbility h ab p re c pst pre new =
       (let h6 = afterAction k p1 e (spendAndRegen pst ab (p_archetype p) (if targetsSelf ab then ar_appliedEffects res else []))
          (cb\<lparr> cs_statusEffects := cs_statusEffects cb @ (if targetsSelf ab then [] else ar_appliedEffects res) \<rparr>)
        in if c_isDefeated c1 then scheduleVictory h6 p1
           else scheduleCounterAttack h6 (fst (computeEffectiveStats (c_attack c) 0 ce)) (snd pe) c1)"
    using s hl h_ok
    by (simp add: performAbility_def Let_def pe_def[symmetric] ce_def[symmetric] res_def[symmetric] k_def[symmetric]
        cb_def[symmetric] afterAction_def setPlayerAndSave_def e_def)
  show ?thesis
    by (rule that[OF k(2,1) _ _ cs_ok _ _ _ _ eq])
      (use s_ok h_ok eff in \<open>simp_all add: e_def encounter_ok_def new_Encounter_def\<close>)
qed

lemma performAbility_ok:
  assumes ok: "hook_ok h" and ab: "ability_ok ab" and p: "player_ok p" and c: "creature_ok c"
    and st: "combat_state_ok pst" "pred_option combat_state_ok pre" "pred_option combat_state_ok new"
    and free: "\<not> h_counterPending h" "\<not> h_killBeatPending h"
  shows "hook_ok (performAbility h ab p re c pst pre new)"
proof -
  from performAbility_cases[OF ok ab p c st, of re] obtain k c1 p1 e es cst atk def
    where k: "swing_frame h k" "hook_ok k" "player_ok p1" "combat_state_ok cst" "list_all effect_ok es" "encounter_ok e"
      and eq: "performAbility h ab p re c pst pre new =
       (let h6 = afterAction k p1 e (spendAndRegen pst ab (p_archetype p) es) cst
        in if c_isDefeated c1 then scheduleVictory h6 p1 else scheduleCounterAttack h6 atk def c1)"
    by metis
  have "hook_ok (afterAction k p1 e (spendAndRegen pst ab (p_archetype p) es) cst)"
    using k st(1) ab by (intro afterAction_ok spendAndRegen_ok) (auto simp: ability_ok_def)
  moreover have "\<not> h_counterPending k" "\<not> h_killBeatPending k"
    using free swing_frame_fields(4,5)[OF k(1)] by simp_all
  ultimately show ?thesis
    using k(3) by (auto simp: eq Let_def afterAction_def intro!: scheduleVictory_ok scheduleCounterAttack_ok)
qed

lemma setCreature_ok: "hook_ok h \<Longrightarrow> creature_ok c \<Longrightarrow> hook_ok (setCreature h c)"
  by (cases "h_encounter h") (auto simp: hook_ok_def setCreature_def encounter_ok_def)

lemma combatStates_ok:
  "hook_ok h \<Longrightarrow> combat_state_ok st \<Longrightarrow> pred_option combat_state_ok st' \<Longrightarrow>
   hook_ok (h\<lparr> h_playerCombatState := Some st, h_creatureCombatState := st' \<rparr>)"
  by (simp add: hook_ok_def)

lemma handleAbility_ok:
  assumes ok: "hook_ok h" and ab: "ability_ok ab"
  shows "hook_ok (fst (handleAbility h ab))"
proof (cases "\<exists>re p pst. h_encounter h = Some re \<and> h_player h = Some p \<and> h_playerCombatState h = Some pst \<and>
    \<not> (h_victoryProcessed h \<or> h_killBeatPending h \<or> h_counterPending h) \<and> \<not> c_isDefeated (e_creature (snd re)) \<and>
    a_resourceCost ab \<le> cs_resource pst")
  case False
  then show ?thesis using ok handleVictory_ok[OF ok, of None]
    by (auto simp: handleAbility_def split: option.splits intro!: views_ok)
next
  case True
  then obtain re p pst where e: "h_encounter h = Some re" "h_player h = Some p" "h_playerCombatState h = Some pst"
    and free: "\<not> h_victoryProcessed h" "\<not> h_killBeatPending h" "\<not> h_counterPending h"
    and alive: "\<not> c_isDefeated (e_creature (snd re))" and cost: "a_resourceCost ab \<le> cs_resource pst" by blast
  note oks = hook_okD(2,3,5)[OF ok] e
  obtain h1 c new where t: "tickCreatureDots h (e_creature (snd re)) (h_creatureCombatState h) = (h1, c, new)"
    by (metis prod.collapse)
  have "creature_ok (e_creature (snd re))" "pred_option combat_state_ok (h_creatureCombatState h)"
    using hook_okD(3)[OF ok e(1)] ok by (simp_all add: encounter_ok_def hook_ok_def)
  note t_ok = tickCreatureDots_ok[OF t ok this]
  have h2: "hook_ok (setCreature h1 c)" using t_ok by (intro setCreature_ok) auto
  have free2: "\<not> h_counterPending (setCreature h1 c)" "\<not> h_killBeatPending (setCreature h1 c)"
    using free swing_frame_fields(4,5)[OF t_ok(4)] by (simp_all add: setCreature_def)
  have perform: "hook_ok (performAbility (setCreature h1 c) ab p re c pst (h_creatureCombatState h) new)"
    using h2 ab oks t_ok free2 ok by (intro performAbility_ok) (auto simp: hook_ok_def)
  have kill: "hook_ok (scheduleVictory ((setCreature h1 c)\<lparr> h_playerCombatState := Some (tickedState pst), h_creatureCombatState := new \<rparr>) p)"
    using oks t_ok h2 free2 by (intro scheduleVictory_ok combatStates_ok tickedState_ok) auto
  show ?thesis
    using e free alive cost perform kill oks t
    by (auto simp: handleAbility_def clone_ok Let_def)
qed

lemma killBeatFires_ok: "hook_ok h \<Longrightarrow> hook_ok (killBeatFires h)"
proof (cases "h_killBeatTimer h")
  case (Some p)
  assume ok: "hook_ok h"
  have "hook_ok (h\<lparr> h_killBeatTimer := None, h_showCombatModal := False \<rparr>)"
    using ok by (auto simp: hook_ok_def beat_ok_def)
  then show ?thesis using Some hook_okD(7)[OF ok Some] by (simp add: killBeatFires_def handleVictory_ok)
qed (simp add: killBeatFires_def)

lemma handleDebugDefeat_ok: "hook_ok h \<Longrightarrow> hook_ok (handleDebugDefeat h)"
proof (cases "h_encounter h = None \<or> h_player h = None")
  case False
  assume ok: "hook_ok h"
  from False obtain ref e p where e: "h_encounter h = Some (ref, e)" "h_player h = Some p" by auto
  have "0 \<le> c_hp (e_creature e)" "creature_ok (e_creature e)"
    using hook_okD(3)[OF ok e(1)] by (simp_all add: encounter_ok_def creature_ok_def)
  then have "encounter_ok (new_Encounter now (c_takeDamage (e_creature e) (c_hp (e_creature e))) l t pl st dl)" for now l t pl st dl
    using creature_ok_takeDamage by (simp add: encounter_ok_def new_Encounter_def)
  then have "hook_ok (h\<lparr> h_encounter := Some (h_nextRef h, new_Encounter (h_now h) (c_takeDamage (e_creature e) (c_hp (e_creature e)))
      (e_location e) (Some (e_timestamp e)) (Some (e_playerLevel e)) (Some (e_status e)) (e_daylight e)),
      h_nextRef := Suc (h_nextRef h), h_showCombatModal := False, h_showEncounterModal := False \<rparr>)"
    using ok by (simp add: hook_ok_def)
  from handleVictory_ok[OF this, of "Some p"] show ?thesis
    using ok e hook_okD(2)[OF ok e(2)] by (simp add: handleDebugDefeat_def Let_def)
qed (auto simp: handleDebugDefeat_def split: option.splits)

lemma handleAutoResolve_ok: "hook_ok h \<Longrightarrow> hook_ok (handleAutoResolve h)"
  using hook_okD(2)[of h] by (auto simp: handleAutoResolve_def intro!: handleVictory_ok views_ok split: option.splits)

lemma rollForced_ok:
  assumes "rollForced h l r = (e, h')" and "hook_ok h"
  shows "encounter_ok e" and "hook_ok h'"
proof -
  have "rand_all (\<lambda>(e, sv). encounter_ok e) (forceEncounter (h_now h) (h_service h) (debugLocation h) l r)"
    unfolding forceEncounter_def
    by (rule rand_all_bind[OF createRandomEncounter_spec]) (simp add: rand_all_return fresh_encounter_def)
  moreover obtain e' sv k where k: "run_rand h (forceEncounter (h_now h) (h_service h) (debugLocation h) l r) = ((e', sv), k)"
    by (metis prod.collapse)
  ultimately obtain s where "encounter_ok e'" "valid_rng s" "k = h\<lparr> h_rng := s \<rparr>"
    using run_rand_cases[OF k _ hook_okD(1)[OF assms(2)]] by (metis case_prod_conv)
  then show "encounter_ok e" "hook_ok h'"
    using assms k by (auto simp: rollForced_def intro: hook_steps)
qed

lemma hold_or_resolve_ok:
  assumes "hook_ok h" and "encounter_ok e"
    and "holdEliteEncounter (h\<lparr> h_nextRef := Suc (h_nextRef h) \<rparr>) (h_nextRef h, e) bg existing saveOk = (h', held)"
  shows "hook_ok (if held then h' else resolvePassiveEncounter h' e bg' tier)"
proof -
  have "hook_ok h'"
    using holdElite_ok[of "h\<lparr> h_nextRef := Suc (h_nextRef h) \<rparr>" "(h_nextRef h, e)" bg existing saveOk] assms nextRef_ok
    by simp
  then show ?thesis using assms(2) by (simp add: resolvePassive_ok)
qed

lemma routeEncounter_ok: "hook_ok h \<Longrightarrow> encounter_ok e \<Longrightarrow> hook_ok (routeEncounter h e existing saveOk)"
proof -
  assume ok: "hook_ok h" "encounter_ok e"
  obtain h' held where hold: "holdEliteEncounter (h\<lparr> h_nextRef := Suc (h_nextRef h) \<rparr>) (h_nextRef h, e)
      (h_isBackground h) existing saveOk = (h', held)" by force
  have "hook_ok (if held then h' else resolvePassiveEncounter h' e (h_isBackground h) IdleTier)"
    by (rule hold_or_resolve_ok[OF ok hold])
  then show ?thesis
    using ok hold by (simp add: routeEncounter_def Let_def presentEncounter_ok resolvePassive_ok split: encounter_route.split)
qed

lemma onDistance_ok:
  assumes ok: "hook_ok h"
  shows "hook_ok (onDistanceEncounterUpdate h dd p existing saveOk)"
proof (cases "h_encounter h")
  case (Some re)
  then show ?thesis using ok by (cases re) (auto simp: onDistanceEncounterUpdate_def autoFlee_def intro: hook_steps)
next
  case None
  show ?thesis
  proof (cases p)
    case None
    then show ?thesis using ok \<open>h_encounter h = None\<close>
      by (simp add: onDistanceEncounterUpdate_def refreshChance_def refreshTimes_ok views_ok)
  next
    case (Some q)
    obtain eo sv k where k: "run_rand h (processDistanceUpdate (h_now h) (h_service h) (Some dd)
        (Some (plain_location (dd_location dd))) (p_level q)) = ((eo, sv), k)" by (metis prod.collapse)
    from k process_fresh hook_okD(1)[OF ok] obtain s where
      f: "case (eo, sv) of (enc, s') \<Rightarrow> case enc of None \<Rightarrow> True | Some e \<Rightarrow> fresh_encounter (p_level q) e"
      and s: "valid_rng s" "k = h\<lparr> h_rng := s \<rparr>" by (rule run_rand_cases)
    have "hook_ok (k\<lparr> h_service := sv \<rparr>)" using ok s by (auto intro: hook_steps)
    then show ?thesis
      using f k Some \<open>h_encounter h = None\<close>
      by (cases eo) (auto simp: onDistanceEncounterUpdate_def Let_def refreshChance_def fresh_encounter_def
          intro!: refreshTimes_ok views_ok routeEncounter_ok)
  qed
qed

lemma heldFoe_steps:
  assumes "hook_ok h"
  shows "pred_option (\<lambda>x. creature_ok (new_Creature (ed_creature x))) d \<Longrightarrow> hook_ok (refreshHeldFoe h d)"
    and "hook_ok (engageHeldFoe h cleared)"
proof -
  show "hook_ok (refreshHeldFoe h d)" if "pred_option (\<lambda>x. creature_ok (new_Creature (ed_creature x))) d"
    using assms that
    by (cases d) (simp_all add: refreshHeldFoe_def hook_ok_def encounterOfData_def encounter_ok_def new_Encounter_def)
  show "hook_ok (engageHeldFoe h cleared)"
    using assms by (cases "h_heldFoe h") (simp_all add: engageHeldFoe_def hook_ok_def emit_def)
qed

lemma walk_steps:
  assumes "hook_ok h"
  shows "hook_ok (checkWalkSummaryBegin h es)" and "hook_ok (checkWalkSummaryEnd h)"
proof -
  show "hook_ok (checkWalkSummaryBegin h es)"
    using assms by (simp add: checkWalkSummaryBegin_def hook_ok_def check_ok_def)
  have "hook_ok (h\<lparr> h_isCheckingWalkSummary := False, h_drained := None \<rparr>)"
    using assms by (simp add: hook_ok_def check_ok_def)
  then show "hook_ok (checkWalkSummaryEnd h)"
    using assms by (auto simp: checkWalkSummaryEnd_def Let_def intro: hook_steps split: option.splits)
qed

lemma debug_steps:
  assumes "hook_ok h"
  shows "hook_ok (hookForceEncounter h)" and "hook_ok (debugForceIdleEncounter h r)"
    and "hook_ok (debugForceEliteEncounter h r existing saveOk)" and "hook_ok (debugPreviewReveal h override)"
proof -
  show "hook_ok (hookForceEncounter h)"
    using rollForced_ok[OF surjective_pairing assms]
    by (simp add: hookForceEncounter_def case_prod_beta refreshTimes_ok views_ok presentEncounter_ok)
  show "hook_ok (debugForceIdleEncounter h r)"
    using rollForced_ok[OF surjective_pairing assms] by (simp add: debugForceIdleEncounter_def case_prod_beta resolvePassive_ok)
  obtain e k where k: "rollForced h (debugLevel h) (Some r) = (e, k)" by force
  obtain k' held where k': "holdEliteEncounter (k\<lparr> h_nextRef := Suc (h_nextRef k) \<rparr>) (h_nextRef k, e) False existing saveOk = (k', held)"
    by force
  show "hook_ok (debugForceEliteEncounter h r existing saveOk)"
    using hold_or_resolve_ok[OF rollForced_ok(2,1)[OF k assms] k'] k k'
    by (simp add: debugForceEliteEncounter_def)
  obtain it k where i: "run_rand (h\<lparr> h_rewardRevealTimer := None \<rparr>) (generateItem (h_now h) (debugLevel h) override 1) = (it, k)"
    by force
  have "hook_ok (h\<lparr> h_rewardRevealTimer := None \<rparr>)" using assms by (rule views_ok)
  from run_rand_cases[OF i generateItem_spec hook_okD(1)[OF this]] this have "hook_ok k" by (metis hook_ok_rng)
  then show "hook_ok (debugPreviewReveal h override)"
    using i by (simp add: debugPreviewReveal_def Let_def views_ok)
qed

lemma debugSimulateWalk_ok: "hook_ok h \<Longrightarrow> hook_ok (debugSimulateWalk h n)"
  unfolding debugSimulateWalk_def by (induction n) (simp_all add: debug_steps)

lemma settings_ok:
  assumes "hook_ok h"
  shows "hook_ok (hookSetBypass h b)" "hook_ok (tickCountdown h)" "hook_ok (rewardTimerFires h)" "hook_ok (dismissReward h)"
    "hook_ok (dismissWalkSummary h)" "hook_ok (handleMinimize h)" 
    "hook_ok (handleExpandMinimized h)" "hook_ok (h\<lparr> h_forceItemDrop := b \<rparr>)" "hook_ok (h\<lparr> h_forcedRarity := r \<rparr>)"
    "pred_option player_ok p \<Longrightarrow> hook_ok (h\<lparr> h_player := p \<rparr>)" "hook_ok (h\<lparr> h_isBackground := b \<rparr>)"
    "hook_ok (h\<lparr> h_autoResolveBelowRare := b \<rparr>)" "hook_ok (h\<lparr> h_currentLocation := l \<rparr>)" "hook_ok (h\<lparr> h_now := t \<rparr>)"
  using assms
  by (simp_all add: hook_ok_def hookSetBypass_def tickCountdown_def rewardTimerFires_def dismissReward_def
      dismissWalkSummary_def handleMinimize_def handleExpandMinimized_def refreshTimes_def
      split: option.split)

lemma handleClose_ok: "hook_ok h \<Longrightarrow> hook_ok (handleCloseCombatModal h)"
  by (simp add: handleCloseCombatModal_def views_ok)

lemma hook_step_ok: "hook_ok h \<Longrightarrow> event_ok e \<Longrightarrow> hook_ok (hook_step h e)"
  by (cases e) (simp_all add: hook_steps handleAbility_ok killBeatFires_ok handleDebugDefeat_ok handleAutoResolve_ok
      onDistance_ok heldFoe_steps walk_steps debug_steps debugSimulateWalk_ok handleClose_ok settings_ok)

interpretation encounter_machine: step_machine hook_step hook_ok event_ok
  by unfold_locales (rule hook_step_ok)

end
