(* ===== verification/FightLemmas.thy ===== *)
theory FightLemmas
  imports EncounterFlow
begin

text \<open>
  What a fight does: the effect of a victory, of a counter strike and of an ability, the agreement
  of the two ways to win a weak encounter, the fate of a rolled encounter and of a drained walk
  summary.
\<close>

section \<open>Victory\<close>

lemma addExperience_counters:
  assumes "addExperience p n = (p', g)"
  shows "p_totalEncounters p' = p_totalEncounters p" and "p_creaturesDefeated p' = p_creaturesDefeated p"
    and "p_totalDistance p' = p_totalDistance p" and "p_combatTurnsTaken p' = p_combatTurnsTaken p"
proof -
  obtain q k where q: "levelUpLoop (p\<lparr> p_experience := p_experience p + n \<rparr>) 0 = (q, k)" by force
  obtain x l s a i where f: "q = p\<lparr> p_experience := x, p_level := l, p_str := s, p_agi := a, p_int := i \<rparr>"
    using levelUpLoop_frame[OF q] by auto
  have "p' = q \<or> p' = recalculateStats q"
    using assms q by (auto simp: addExperience_def checkLevelUp_def Let_def split: if_splits)
  then show "p_totalEncounters p' = p_totalEncounters p" "p_creaturesDefeated p' = p_creaturesDefeated p"
    "p_totalDistance p' = p_totalDistance p" "p_combatTurnsTaken p' = p_combatTurnsTaken p"
    by (auto simp: f)
qed

lemma owned_counters [simp]:
  "owned (incrementEncounters p) = owned p" "owned (defeatCreature p) = owned p" "owned (fullHeal p) = owned p"
  "owned (incrementCombatTurns p) = owned p"
  by (simp_all add: owned_def incrementEncounters_def defeatCreature_def fullHeal_def incrementCombatTurns_def)

lemma lifetime_counters [simp]:
  "lifetime_xp (incrementEncounters p) = lifetime_xp p" "lifetime_xp (defeatCreature p) = lifetime_xp p"
  "lifetime_xp (fullHeal p) = lifetime_xp p"
  by (simp_all add: lifetime_xp_def incrementEncounters_def defeatCreature_def fullHeal_def)

lemma addItem_counters:
  assumes "addItemToInventory p it = (p', i)"
  shows "p_totalEncounters p' = p_totalEncounters p" "p_creaturesDefeated p' = p_creaturesDefeated p"
    "p_totalDistance p' = p_totalDistance p" "lifetime_xp p' = lifetime_xp p" "p_combatTurnsTaken p' = p_combatTurnsTaken p"
  using assms by (auto simp: addItemToInventory_def lifetime_xp_def split: option.splits)

lemma addItem_index: "addItemToInventory p it = (p', i) \<Longrightarrow> i = - 1 \<longleftrightarrow> isInventoryFull p"
  using addItem_full[of p it] addItem_free[of p it] by (cases "isInventoryFull p") auto

text \<open>The reward of a won fight, as a relation between the player before and after.\<close>

definition rewarded :: "player \<Rightarrow> player \<Rightarrow> int \<Rightarrow> item option \<Rightarrow> bool" where
  "rewarded p p' xp kept \<longleftrightarrow> player_ok p' \<and> p_hp p' = p_maxHp p' \<and> lifetime_xp p' = lifetime_xp p + xp \<and>
     p_experience p' < experienceForNextLevel (p_level p') \<and>
     p_totalEncounters p' = p_totalEncounters p + 1 \<and> p_creaturesDefeated p' = p_creaturesDefeated p + 1 \<and>
     p_totalDistance p' = p_totalDistance p \<and>
     owned p' = (case kept of None \<Rightarrow> owned p | Some it \<Rightarrow> add_mset it (owned p))"

lemma storeDrop_spec:
  assumes "storeDrop p loot = (p', full, up)"
  shows "p_totalEncounters p' = p_totalEncounters p" "p_creaturesDefeated p' = p_creaturesDefeated p"
    "p_totalDistance p' = p_totalDistance p" "lifetime_xp p' = lifetime_xp p"
    "p_level p' = p_level p" "p_experience p' = p_experience p"
    "owned p' = (case (if full then None else loot) of None \<Rightarrow> owned p | Some it \<Rightarrow> add_mset it (owned p))"
    "full \<longleftrightarrow> loot \<noteq> None \<and> isInventoryFull p"
proof -
  show "p_totalEncounters p' = p_totalEncounters p" "p_creaturesDefeated p' = p_creaturesDefeated p"
    "p_totalDistance p' = p_totalDistance p" "lifetime_xp p' = lifetime_xp p"
    "p_level p' = p_level p" "p_experience p' = p_experience p"
    using assms by (auto simp: storeDrop_def Let_def addItemToInventory_def lifetime_xp_def split: option.splits)
  show "full \<longleftrightarrow> loot \<noteq> None \<and> isInventoryFull p"
    using assms addItem_index[of p] by (auto simp: storeDrop_def Let_def split: option.splits prod.splits)
  with assms addItem_owned[of p "the loot"]
  show "owned p' = (case (if full then None else loot) of None \<Rightarrow> owned p | Some it \<Rightarrow> add_mset it (owned p))"
    by (auto simp: storeDrop_def Let_def split: option.splits prod.splits)
qed

lemma handleVictory_effect:
  assumes ok: "hook_ok h" and enc: "h_encounter h = Some (ref, enc)" and p: "h_player h = Some p" and nv: "\<not> h_victoryProcessed h"
  obtains p' r where "h_player (handleVictory h None) = Some p'" "h_rewardRevealTimer (handleVictory h None) = Some r"
    "rewarded p p' (activeCombatXp (getExperienceReward (e_creature enc))) (if rr_inventoryFull r then None else rr_item r)"
    "rr_xpGained r = activeCombatXp (getExperienceReward (e_creature enc))" "rr_newLevel r = p_level p'"
    "h_encounter (handleVictory h None) = None" "h_victoryProcessed (handleVictory h None)"
    "\<not> h_killBeatPending (handleVictory h None)" "\<not> h_counterPending (handleVictory h None)"
proof -
  note p_ok = hook_okD(2)[OF ok p]
  obtain p2 lv loot p3 full up h3
    where x: "addExperience (incrementEncounters (defeatCreature p)) (activeCombatXp (getExperienceReward (e_creature enc))) = (p2, lv)"
      and d: "storeDrop p2 loot = (p3, full, up)" "player_ok p3"
      and h3: "h_victoryProcessed h3" "\<not> h_counterPending h3" "\<not> h_killBeatPending h3"
      and eq: "handleVictory h None = (endFight (setPlayerAndSave h3 (fullHeal p3)))
       \<lparr> h_fleeProcessed := False, h_rewardRevealTimer := Some (victoryReveal enc lv (fullHeal p3) loot full up) \<rparr>"
    by (rule handleVictory_cases[OF ok enc p_ok _ nv, of None]) (use p in simp_all)
  have "player_ok (incrementEncounters (defeatCreature p))" using p_ok by (intro counters_ok)
  note xp = addExperience_result[OF this _ x] addExperience_counters[OF x]
  have g: "0 \<le> activeCombatXp (getExperienceReward (e_creature enc))"
    using hook_okD(3)[OF ok enc] by (intro rewards_nonneg) (simp add: encounter_ok_def)
  have "rewarded p (fullHeal p3) (activeCombatXp (getExperienceReward (e_creature enc))) (if full then None else loot)"
    using xp(4-6)[OF g] xp(8-) storeDrop_spec(1-7)[OF d(1)] vitals_ok(3)[OF d(2)]
    by (simp add: rewarded_def) (simp add: fullHeal_def incrementEncounters_def defeatCreature_def split: option.split)
  then show ?thesis
    by (intro that[of "fullHeal p3" "victoryReveal enc lv (fullHeal p3) loot full up"]) (use h3 in \<open>simp_all add: eq endFight_def setPlayerAndSave_def victoryReveal_def split: if_splits\<close>)
qed

section \<open>The two ways to win a weak encounter\<close>

lemma counters_commute: "incrementEncounters (defeatCreature p) = defeatCreature (incrementEncounters p)"
  by (simp add: incrementEncounters_def defeatCreature_def)

lemma keepDrop_storeDrop: "fst (keepDrop p d) = fst (storeDrop p d)"
  by (cases d) (simp_all add: keepDrop_def storeDrop_def Let_def case_prod_beta)

lemma run_rand_fst: "run_rand h m = (fst (run_state m (h_rng h)), h\<lparr> h_rng := snd (run_state m (h_rng h)) \<rparr>)"
  by (simp add: run_rand_def case_prod_beta Let_def)

lemma emit_player [simp]: "h_player (emit h e) = h_player h" and emit_rng [simp]: "h_rng (emit h e) = h_rng h"
  by (simp_all add: emit_def)

lemma active_tier_player:
  assumes p: "h_player h = Some p" "player_ok p" and x: "addExperience (incrementEncounters (defeatCreature p))
      (activeCombatXp (getExperienceReward (e_creature enc))) = (p2, lv)"
    and l: "run_state (dropActiveCombatItem (h_now h) False (p_level p2) None) (h_rng h) = (loot, r)"
  shows "h_player (resolvePassiveEncounter h enc bg ActiveTier) = Some (fullHeal (fst (storeDrop p2 loot)))"
    and "h_rng (resolvePassiveEncounter h enc bg ActiveTier) = r"
proof -
  obtain p4 it where k: "keepDrop p2 loot = (p4, it)" by force
  have "p4 = fst (storeDrop p2 loot)" using keepDrop_storeDrop[of p2 loot] k by simp
  then show "h_player (resolvePassiveEncounter h enc bg ActiveTier) = Some (fullHeal (fst (storeDrop p2 loot)))"
    and "h_rng (resolvePassiveEncounter h enc bg ActiveTier) = r"
    using p x l k
    by (simp_all add: resolvePassiveEncounter_def passiveOutcome_def passiveLoot_def clone_ok counters_commute[symmetric]
        run_rand_fst setPlayerAndSave_def Let_def split: option.split)
qed

lemma victory_as_auto_resolve:
  assumes ok: "hook_ok h" and enc: "h_encounter h = Some (ref, enc)" and p: "h_player h = Some p"
    and nv: "\<not> h_victoryProcessed h" and nf: "\<not> h_forceItemDrop h" "h_forcedRarity h = None"
  shows "h_player (handleVictory h None) = h_player (resolvePassiveEncounter h enc bg ActiveTier)"
    and "h_rng (handleVictory h None) = h_rng (resolvePassiveEncounter h enc bg ActiveTier)"
proof -
  note p_ok = hook_okD(2)[OF ok p]
  obtain p2 lv loot p3 full up h3
    where x: "addExperience (incrementEncounters (defeatCreature p)) (activeCombatXp (getExperienceReward (e_creature enc))) = (p2, lv)"
      and d: "storeDrop p2 loot = (p3, full, up)"
      and l: "run_state (dropActiveCombatItem (h_now h) (h_forceItemDrop h) (p_level p2) (h_forcedRarity h)) (h_rng h) = (loot, h_rng h3)"
      and eq: "handleVictory h None = (endFight (setPlayerAndSave h3 (fullHeal p3)))
       \<lparr> h_fleeProcessed := False, h_rewardRevealTimer := Some (victoryReveal enc lv (fullHeal p3) loot full up) \<rparr>"
    by (rule handleVictory_cases[OF ok enc p_ok _ nv, of None]) (use p in simp_all)
  from l nf have "run_state (dropActiveCombatItem (h_now h) False (p_level p2) None) (h_rng h) = (loot, h_rng h3)" by simp
  from active_tier_player[OF p p_ok x this, of bg] show
    "h_player (handleVictory h None) = h_player (resolvePassiveEncounter h enc bg ActiveTier)"
    "h_rng (handleVictory h None) = h_rng (resolvePassiveEncounter h enc bg ActiveTier)"
    by (simp_all add: eq d endFight_def setPlayerAndSave_def)
qed

section \<open>The enemy's turn\<close>

lemma frozen_turn:
  assumes "h_counterPending h"
  shows "handleAbility h ab = (h, False)" and "handleFlee h = h" and "handleCloseCombatModal h = h"
  using assms by (auto simp: handleAbility_def handleFlee_def handleCloseCombatModal_def split: option.splits)

lemma counterStrike_timer:
  "\<not> h_counterPending (counterStrike h atk def c p) \<or> h_counterTimer (counterStrike h atk def c p) = Some StrikeHold"
  by (auto simp: counterStrike_def Let_def handlePlayerDefeat_def endEnemyTurn_def emit_def endFight_def
      setPlayerAndSave_def pushLog_def case_prod_beta)

lemma enemy_turn_ends: "\<exists>n \<le> 2. \<not> h_counterPending ((counterTimerFires ^^ n) h)" if "hook_ok h"
proof (cases "h_counterPending h")
  case False
  then show ?thesis by (intro exI[of _ 0]) simp
next
  case True
  have hold: "\<not> h_counterPending (counterTimerFires k)" if "h_counterTimer k = Some StrikeHold" for k
    using that by (simp add: counterTimerFires_def endEnemyTurn_def)
  from True \<open>hook_ok h\<close> obtain t where t: "h_counterTimer h = Some t" by (auto simp: hook_ok_def beat_ok_def)
  have "\<not> h_counterPending (counterTimerFires h) \<or> h_counterTimer (counterTimerFires h) = Some StrikeHold"
    using t counterStrike_timer
    by (auto simp: counterTimerFires_def endEnemyTurn_def Let_def split: counter_timer.splits option.splits)
  then show ?thesis
  proof
    assume "\<not> h_counterPending (counterTimerFires h)"
    then show ?thesis by (intro exI[of _ 1]) simp
  next
    assume "h_counterTimer (counterTimerFires h) = Some StrikeHold"
    from hold[OF this] show ?thesis by (intro exI[of _ 2]) (simp add: numeral_2_eq_2)
  qed
qed

text \<open>The player after a strike of \<open>d\<close> points: alive with fewer hit points, or defeated, healed and out of the fight.\<close>

definition struck :: "player \<Rightarrow> int \<Rightarrow> player" where
  "struck p d =
     (if p_hp p \<le> d then p\<lparr> p_hp := p_maxHp p, p_totalEncounters := p_totalEncounters p + 1, p_combatTurnsTaken := p_combatTurnsTaken p + 1 \<rparr>
      else p\<lparr> p_hp := p_hp p - d, p_combatTurnsTaken := p_combatTurnsTaken p + 1 \<rparr>)"

lemma counterStrike_effect:
  assumes p: "player_ok p"
  obtains ev where "h_player (counterStrike h atk def c p) = Some (struck p (applyEvasionDamage (mitigateDamage atk def 1) ev))"
    "h_encounter (counterStrike h atk def c p) =
       (if p_hp p \<le> applyEvasionDamage (mitigateDamage atk def 1) ev then None else h_encounter h)"
proof (rule counterStrike_cases[OF p])
  fix ev n d p'
  assume d: "d = applyEvasionDamage (mitigateDamage atk def 1) ev"
    and p': "p' = p\<lparr> p_combatTurnsTaken := p_combatTurnsTaken p + 1, p_hp := max 0 (p_hp p - d) \<rparr>" "player_ok p'"
    and eq: "counterStrike h atk def c p =
      (if p_hp p \<le> d then handlePlayerDefeat (endEnemyTurn (afterStrike h ev n d p')) p'
       else (afterStrike h ev n d p')\<lparr> h_counterTimer := Some StrikeHold \<rparr>)"
  have "h_player (counterStrike h atk def c p) = Some (struck p d)"
    using clone_ok[OF p'(2)]
    by (simp add: eq handlePlayerDefeat_def struck_def emit_def endFight_def setPlayerAndSave_def afterStrike_def
        fullHeal_def incrementEncounters_def Let_def) (simp add: p'(1))
  moreover have "h_encounter (counterStrike h atk def c p) = (if p_hp p \<le> d then None else h_encounter h)"
    by (simp add: eq handlePlayerDefeat_def emit_def endFight_def setPlayerAndSave_def afterStrike_def pushHit_def pushLog_def Let_def)
  ultimately show ?thesis using that d by simp
qed

section \<open>The player's turn\<close>

text \<open>
  The state after an ability was used: the cost is paid and the turn's regeneration added, and
  either the kill beat runs with the foe at zero or the counter is scheduled against this very
  encounter.
\<close>

definition turn_passed :: "hook \<Rightarrow> ability \<Rightarrow> archetype \<Rightarrow> combatant_state \<Rightarrow> bool" where
  "turn_passed h' ab a pst \<longleftrightarrow>
     (\<exists>st. h_playerCombatState h' = Some st \<and>
        cs_resource st = min (rc_max (RESOURCE_CONFIGS a)) (cs_resource pst - a_resourceCost ab + rc_regenPerTurn (RESOURCE_CONFIGS a))) \<and>
     (\<exists>ref e p. h_encounter h' = Some (ref, e) \<and> h_player h' = Some p \<and>
        (if c_isDefeated (e_creature e) then h_killBeatPending h' \<and> h_killBeatTimer h' = Some p \<and> \<not> h_counterPending h'
         else h_counterPending h' \<and> \<not> h_killBeatPending h' \<and>
              (\<exists>atk def. h_counterTimer h' = Some (Brace atk def (e_creature e) (Some ref)))))"

lemma turn_passed_afterAction:
  assumes "a_resourceCost ab \<le> cs_resource pst" and "\<not> h_counterPending k" "\<not> h_killBeatPending k" "\<not> h_victoryProcessed k"
  shows "turn_passed (let h6 = afterAction k p e (spendAndRegen pst ab a es) cst
      in if c_isDefeated (e_creature e) then scheduleVictory h6 p else scheduleCounterAttack h6 atk def (e_creature e)) ab a pst"
  using assms spendAndRegen_resource[OF assms(1)]
  by (auto simp: turn_passed_def Let_def afterAction_def scheduleVictory_def scheduleCounterAttack_def)

lemma handleAbility_used:
  assumes ok: "hook_ok h" and ab: "ability_ok ab" and used: "handleAbility h ab = (h', True)"
  obtains p pst where "h_player h = Some p" "h_playerCombatState h = Some pst" "h_encounter h \<noteq> None"
    "a_resourceCost ab \<le> cs_resource pst" "\<not> h_counterPending h" "\<not> h_killBeatPending h"
    "turn_passed h' ab (p_archetype p) pst"
proof -
  from used obtain ref e p pst where e: "h_encounter h = Some (ref, e)" "h_player h = Some p" "h_playerCombatState h = Some pst"
    and free: "\<not> h_victoryProcessed h" "\<not> h_killBeatPending h" "\<not> h_counterPending h"
    and cost: "a_resourceCost ab \<le> cs_resource pst" and alive: "\<not> c_isDefeated (e_creature e)"
    by (auto simp: handleAbility_def split: option.splits if_splits)
  note p_ok = hook_okD(2)[OF ok e(2)] and st_ok = hook_okD(5)[OF ok e(3)]
  obtain h1 c new where t: "tickCreatureDots h (e_creature e) (h_creatureCombatState h) = (h1, c, new)" by (metis prod.collapse)
  have cok: "creature_ok (e_creature e)" "pred_option combat_state_ok (h_creatureCombatState h)"
    using hook_okD(3)[OF ok e(1)] ok by (simp_all add: encounter_ok_def hook_ok_def)
  note t_ok = tickCreatureDots_ok[OF t ok cok]
  have eq: "h' = performAbility (setCreature h1 c) ab p (ref, e) c pst (h_creatureCombatState h) new"
    using used e free cost alive t p_ok by (auto simp: handleAbility_def clone_ok Let_def split: if_splits)
  have "turn_passed h' ab (p_archetype p) pst" unfolding eq
  proof (rule performAbility_cases[OF setCreature_ok[OF t_ok(1,2)] ab p_ok t_ok(2) st_ok cok(2) t_ok(3), of "(ref, e)"])
    fix k c1 p1 e' es cst atk def
    assume k: "swing_frame (setCreature h1 c) k" and c1: "e_creature e' = c1"
      and pe: "performAbility (setCreature h1 c) ab p (ref, e) c pst (h_creatureCombatState h) new =
       (let h6 = afterAction k p1 e' (spendAndRegen pst ab (p_archetype p) es) cst
        in if c_isDefeated c1 then scheduleVictory h6 p1 else scheduleCounterAttack h6 atk def c1)"
    have "\<not> h_counterPending k" "\<not> h_killBeatPending k" "\<not> h_victoryProcessed k"
      using free swing_frame_fields(4-6)[OF k] swing_frame_fields(4-6)[OF t_ok(4)] by (simp_all add: setCreature_def)
    then show "turn_passed (performAbility (setCreature h1 c) ab p (ref, e) c pst (h_creatureCombatState h) new) ab (p_archetype p) pst"
      unfolding pe c1[symmetric] by (rule turn_passed_afterAction[OF cost])
  qed
  with e free cost that show ?thesis by simp
qed

text \<open>Whatever was used, an ability of the roster can be paid for on the next turn.\<close>

lemma next_turn_affordable:
  assumes "hook_ok h" and "ability_ok ab" and "handleAbility h ab = (h', True)" and "h_player h = Some p"
  obtains st ab2 where "h_playerCombatState h' = Some st" "ab2 \<in> set (ARCHETYPE_ABILITIES (p_archetype p))"
    "a_resourceCost ab2 \<le> cs_resource st"
proof (rule handleAbility_used[OF assms(1-3)])
  fix q pst
  assume q: "h_player h = Some q" "a_resourceCost ab \<le> cs_resource pst" "turn_passed h' ab (p_archetype q) pst"
  with assms(4) obtain st where st: "h_playerCombatState h' = Some st"
    "cs_resource st = min (rc_max (RESOURCE_CONFIGS (p_archetype p)))
       (cs_resource pst - a_resourceCost ab + rc_regenPerTurn (RESOURCE_CONFIGS (p_archetype p)))"
    by (auto simp: turn_passed_def)
  obtain n where "n \<in> set (ARCHETYPE_ABILITIES (p_archetype p))" "a_resourceCost n \<le> rc_regenPerTurn (RESOURCE_CONFIGS (p_archetype p))"
    using cheapest_ability by blast
  moreover have "a_resourceCost n \<le> rc_max (RESOURCE_CONFIGS (p_archetype p))"
    using calculation(1) costs_in_range[of "p_archetype p"] by (auto simp: list_all_iff)
  ultimately show ?thesis using that[OF st(1)] st(2) q(2) by auto
qed

section \<open>Where an encounter goes\<close>

text \<open>A rolled encounter is presented, held, or resolved into the walk log.\<close>

definition settled :: "hook \<Rightarrow> encounter \<Rightarrow> hook \<Rightarrow> bool" where
  "settled h e h' \<longleftrightarrow> h_encounter h' = Some (h_nextRef h, e) \<or> h_heldFoe h' = Some (h_nextRef h, e) \<or>
     (\<exists>w. AppendWalk w \<in> set (h_effects h') \<and> w_creatureName w = c_name (e_creature e) \<and>
        w_rarity w = c_rarity (e_creature e) \<and> w_timestamp w = h_now h)"

lemma emit_effects [simp]: "h_effects (emit h e) = h_effects h @ [e]"
  by (simp add: emit_def)

lemma passive_logged:
  assumes "h_player h = Some p"
  shows "\<exists>w. AppendWalk w \<in> set (h_effects (resolvePassiveEncounter h e bg tier)) \<and>
    w_creatureName w = c_name (e_creature e) \<and> w_rarity w = c_rarity (e_creature e) \<and> w_timestamp w = h_now h"
proof -
  obtain won xp it0 h1 where o: "passiveOutcome h (p_level p) (e_creature e) tier = ((won, xp, it0), h1)" by (metis prod.collapse)
  define p2 where "p2 = (if won then defeatCreature (incrementEncounters (clone_player p)) else incrementEncounters (clone_player p))"
  obtain p3 lv where x: "addExperience p2 xp = (p3, lv)" by force
  obtain loot h2 where l: "passiveLoot h1 (p_level p3) tier it0 = (loot, h2)" by force
  obtain p4 it where k: "keepDrop p3 loot = (p4, it)" by force
  have "h_now h1 = h_now h" using o by (auto simp: passiveOutcome_def run_rand_fst Let_def split: if_splits)
  moreover have "h_now h2 = h_now h1" using l by (auto simp: passiveLoot_def run_rand_fst split: if_splits)
  ultimately have "AppendWalk \<lparr> w_creatureName = c_name (e_creature e), w_rarity = c_rarity (e_creature e), w_won = won,
      w_xpGained = xp, w_item = it, w_timestamp = h_now h \<rparr> \<in> set (h_effects (resolvePassiveEncounter h e bg tier))"
    using assms o x l k
    by (simp add: resolvePassiveEncounter_def p2_def[symmetric] setPlayerAndSave_def Let_def split: option.split)
  then show ?thesis by force
qed

lemma routeEncounter_settled:
  assumes "h_player h = Some p"
  shows "settled h e (routeEncounter h e existing saveOk)"
proof -
  obtain h' held where hold: "holdEliteEncounter (h\<lparr> h_nextRef := Suc (h_nextRef h) \<rparr>) (h_nextRef h, e)
      (h_isBackground h) existing saveOk = (h', held)" by force
  then have "h_player h' = Some p" "h_now h' = h_now h" "held \<Longrightarrow> h_heldFoe h' = Some (h_nextRef h, e)"
    using assms by (auto simp: holdEliteEncounter_def Let_def emit_def split: if_splits)
  then show ?thesis
    using hold passive_logged[OF assms, of e] passive_logged[of h' p e]
    by (auto simp: routeEncounter_def settled_def presentEncounter_def cancelCounterBeat_def Let_def split: encounter_route.split)
qed

lemma onDistance_route:
  assumes "h_encounter h = None"
    and "run_state (processDistanceUpdate (h_now h) (h_service h) (Some dd) (Some (plain_location (dd_location dd))) (p_level p)) (h_rng h)
      = ((Some e, sv), r)"
  shows "onDistanceEncounterUpdate h dd (Some p) existing saveOk =
    refreshTimes ((routeEncounter (h\<lparr> h_rng := r, h_service := sv \<rparr>) e existing saveOk)
      \<lparr> h_encounterChance := 0,
        h_lastEncounterChance := Some (getProbabilityAfterIncremental (h_service h) (h_now h) (dd_incremental dd)) \<rparr>)"
  using assms by (simp add: onDistanceEncounterUpdate_def run_rand_def)

lemma onDistance_settled:
  assumes "h_encounter h = None" and "h_player h = Some p"
    and "run_state (processDistanceUpdate (h_now h) (h_service h) (Some dd) (Some (plain_location (dd_location dd))) (p_level p)) (h_rng h)
      = ((Some e, sv), r)"
  shows "settled h e (onDistanceEncounterUpdate h dd (Some p) existing saveOk)"
  using routeEncounter_settled[of "h\<lparr> h_rng := r, h_service := sv \<rparr>" p e existing saveOk] assms(2)
  unfolding onDistance_route[OF assms(1,3)] by (simp add: settled_def refreshTimes_def)

lemma elite_presented:
  assumes "\<not> h_isBackground h" and "isEliteCreature (c_rarity (e_creature e))"
  shows "h_encounter (routeEncounter h e existing saveOk) = Some (h_nextRef h, e)"
  using assms by (simp add: routeEncounter_def resolveEncounterRoute_def presentEncounter_def cancelCounterBeat_def)

section \<open>The walk summary\<close>

lemma emits_effects:
  "h_effects (foldl (\<lambda>k e. emit k (AppendWalk e)) h es) = h_effects h @ map AppendWalk es"
  "h_walkSummary (foldl (\<lambda>k e. emit k (AppendWalk e)) h es) = h_walkSummary h"
  by (induction es arbitrary: h) (simp_all add: emit_def)

section \<open>Flight in the kill beat\<close>

lemma killBeat_after_flee:
  assumes "h_killBeatPending h" and "\<not> h_fleeProcessed h" and "\<not> h_counterPending h"
  shows "h_killBeatPending (killBeatFires (handleFlee h))"
  using assms
  by (auto simp: killBeatFires_def handleFlee_def handleVictory_def endFight_def setPlayerAndSave_def Let_def split: option.splits)

lemma frozen_by_kill_beat:
  assumes "h_killBeatPending h"
  shows "snd (handleAbility (handleFight (presentEncounter h e)) ab) = False"
proof (cases "c_isDefeated (e_creature e)")
  case True
  then show ?thesis
    by (auto simp: handleFight_def handleAbility_def presentEncounter_def cancelCounterBeat_def handleVictory_def
        endFight_def Let_def case_prod_beta split: option.splits)
next
  case False
  have "h_killBeatPending (presentEncounter h e)" "h_encounter (presentEncounter h e) = Some (h_nextRef h, e)"
    using assms by (simp_all add: presentEncounter_def cancelCounterBeat_def)
  with False have "h_killBeatPending (handleFight (presentEncounter h e))"
    by (auto simp: handleFight_def Let_def split: option.splits)
  then show ?thesis by (auto simp: handleAbility_def split: option.splits)
qed

section \<open>Held foes\<close>

lemma held_foe_round_trip:
  assumes "e_timestamp e \<noteq> 0" and "e_playerLevel e \<noteq> 0" and "c_description (e_creature e) \<noteq> []"
  shows "encounterOfData now (heldEncounterData e) = e\<lparr> e_creature := (e_creature e)\<lparr> c_resistances := DEFAULT_RESISTANCES \<rparr> \<rparr>"
  using assms
  by (simp add: encounterOfData_def heldEncounterData_def heldCreatureData_def new_Encounter_def new_Creature_def
      or_falsy_def spreadResistances_def)

end
