(* ===== verification/FightPhases.thy ===== *)
theory FightPhases
  imports FightLemmas
begin

text \<open>
  A fight seen from outside: five phases and the steps between them. The controller of
  \<open>useEncounter.ts\<close>, with its flags, timers and windows, refines this small machine; what the
  small machine can do is then a matter of a few rules.
\<close>

section \<open>The abstract machine\<close>

text \<open>\<open>Stranded\<close> is a kill beat whose foe is gone.\<close>

datatype phase = NoFoe | YourTurn | EnemyTurn | KillTurn | Stranded

fun meets :: "hook_event \<Rightarrow> bool" where
  "meets (Distance _ _ _ _) \<longleftrightarrow> True"
| "meets (EngageFoe _) \<longleftrightarrow> True"
| "meets ForceEncounter \<longleftrightarrow> True"
| "meets _ \<longleftrightarrow> False"

fun leaves :: "hook_event \<Rightarrow> bool" where
  "leaves Flee \<longleftrightarrow> True"
| "leaves (Distance _ _ _ _) \<longleftrightarrow> True"
| "leaves _ \<longleftrightarrow> False"

inductive phase_step :: "phase \<Rightarrow> hook_event \<Rightarrow> phase \<Rightarrow> bool" where
  stay: "phase_step p e p"
| meet: "meets e \<Longrightarrow> phase_step NoFoe e YourTurn"
| haunt: "meets e \<Longrightarrow> phase_step Stranded e KillTurn"
| act: "phase_step YourTurn (UseAbility ab) EnemyTurn"
| slay: "phase_step YourTurn (UseAbility ab) KillTurn"
| struck: "phase_step EnemyTurn CounterTimer YourTurn"
| fallen: "phase_step EnemyTurn CounterTimer NoFoe"
| beaten: "phase_step YourTurn (UseAbility ab) NoFoe"
| won: "phase_step KillTurn KillBeat NoFoe"
| skipped: "e \<in> {Fight, AutoResolveTap, DebugDefeat} \<Longrightarrow> p \<in> {YourTurn, EnemyTurn, KillTurn} \<Longrightarrow> phase_step p e NoFoe"
| fled: "leaves e \<Longrightarrow> phase_step YourTurn e NoFoe"
| strand: "leaves e \<Longrightarrow> phase_step KillTurn e Stranded"
| replaced: "phase_step EnemyTurn ForceEncounter YourTurn"
| cleared: "phase_step p Teardown NoFoe"

inductive_cases phase_to_enemy: "phase_step p e EnemyTurn"
inductive_cases phase_to_stranded: "phase_step p e Stranded"
inductive_cases phase_from_enemy: "phase_step EnemyTurn e p"

inductive phase_run :: "phase \<Rightarrow> hook_event list \<Rightarrow> phase \<Rightarrow> bool" where
  start: "phase_run p [] p"
| more_steps: "phase_run p es q \<Longrightarrow> phase_step q e r \<Longrightarrow> phase_run p (es @ [e]) r"

text \<open>An enemy turn was opened by an ability of the player and is still the answer to it.\<close>

lemma enemy_turn_provoked:
  assumes "phase_run NoFoe es p" and "p = EnemyTurn"
  shows "\<exists>xs ab ys. es = xs @ UseAbility ab # ys \<and> phase_run NoFoe xs YourTurn"
  using assms
proof (induction NoFoe es p rule: phase_run.induct)
  case (more_steps es q e r)
  have "q = EnemyTurn \<or> q = YourTurn \<and> (\<exists>ab. e = UseAbility ab)"
    using more_steps.hyps(3) unfolding more_steps.prems by (auto elim: phase_to_enemy)
  then show ?case using more_steps.hyps(1,2) by fastforce
qed simp

text \<open>The stranded phase needs a foe left during the kill beat.\<close>

lemma stranded_by_leaving:
  assumes "phase_run NoFoe es p" and "p = Stranded"
  shows "\<exists>xs e ys. es = xs @ e # ys \<and> leaves e \<and> phase_run NoFoe xs KillTurn"
  using assms
proof (induction NoFoe es p rule: phase_run.induct)
  case (more_steps es q e r)
  have "q = Stranded \<or> q = KillTurn \<and> leaves e"
    using more_steps.hyps(3) unfolding more_steps.prems by (auto elim: phase_to_stranded)
  then show ?case using more_steps.hyps(1,2) by fastforce
qed simp

section \<open>The abstraction\<close>

definition phase_view :: "bool \<Rightarrow> bool \<Rightarrow> bool \<Rightarrow> phase" where
  "phase_view foe counter kill =
     (if \<not> foe then (if kill then Stranded else NoFoe)
      else if counter then EnemyTurn else if kill then KillTurn else YourTurn)"

definition phase_of :: "hook \<Rightarrow> phase" where
  "phase_of h = phase_view (h_encounter h \<noteq> None) (h_counterPending h) (h_killBeatPending h)"

text \<open>The enemy's turn needs a foe.\<close>

definition foe_turn :: "hook \<Rightarrow> bool" where
  "foe_turn h \<longleftrightarrow> (h_counterPending h \<longrightarrow> h_encounter h \<noteq> None)"

definition same_phase :: "hook \<Rightarrow> hook \<Rightarrow> bool" where
  "same_phase h h' \<longleftrightarrow> (h_encounter h' = None \<longleftrightarrow> h_encounter h = None) \<and> h_counterPending h' = h_counterPending h \<and>
     h_killBeatPending h' = h_killBeatPending h"

definition simulates :: "hook \<Rightarrow> hook_event \<Rightarrow> hook \<Rightarrow> bool" where
  "simulates h e h' \<longleftrightarrow> phase_step (phase_of h) e (phase_of h') \<and> foe_turn h'"

lemma same_phase_refl [simp]: "same_phase h h"
  by (simp add: same_phase_def)

lemma same_phase_trans: "same_phase h k \<Longrightarrow> same_phase k l \<Longrightarrow> same_phase h l"
  by (simp add: same_phase_def)

lemma same_phase_simulates: "same_phase h h' \<Longrightarrow> foe_turn h \<Longrightarrow> simulates h e h'"
  by (simp add: simulates_def same_phase_def phase_of_def foe_turn_def phase_step.stay)

lemma same_phase_emit [simp]: "same_phase h (emit k x) = same_phase h k"
  by (simp add: same_phase_def emit_def)

lemma same_phase_emits [simp]: "same_phase h (foldl (\<lambda>k e. emit k (f e)) k es) = same_phase h k"
  by (induction es arbitrary: k) simp_all

section \<open>Steps that keep the phase\<close>

lemma passive_same_phase: "same_phase h (resolvePassiveEncounter h enc bg tier)"
  by (auto simp: resolvePassiveEncounter_def passiveOutcome_def passiveLoot_def run_rand_def setPlayerAndSave_def Let_def
      same_phase_def emit_def split: option.splits prod.splits if_splits)

lemma hold_same_phase: "same_phase h (fst (holdEliteEncounter h re bg existing saveOk))"
  by (simp add: holdEliteEncounter_def Let_def same_phase_def emit_def)

lemma rollForced_same_phase: "same_phase h (snd (rollForced h l r))"
  by (simp add: rollForced_def run_rand_def Let_def same_phase_def case_prod_beta)

lemma idle_same_phase: "same_phase h (debugForceIdleEncounter h r)"
  using rollForced_same_phase[of h "debugLevel h" "Some r"]
  by (auto simp: debugForceIdleEncounter_def case_prod_beta intro: same_phase_trans passive_same_phase)

lemma simulate_same_phase: "same_phase h (debugSimulateWalk h n)"
  unfolding debugSimulateWalk_def by (induction n) (auto intro: same_phase_trans idle_same_phase)

lemma elite_same_phase: "same_phase h (debugForceEliteEncounter h r existing saveOk)"
proof -
  obtain enc k where k: "rollForced h (debugLevel h) (Some r) = (enc, k)" by force
  obtain k' held where k': "holdEliteEncounter (k\<lparr> h_nextRef := Suc (h_nextRef k) \<rparr>) (h_nextRef k, enc) False existing saveOk = (k', held)"
    by force
  have "same_phase h k" using rollForced_same_phase[of h "debugLevel h" "Some r"] k by simp
  moreover have "same_phase k k'"
    using hold_same_phase[of "k\<lparr> h_nextRef := Suc (h_nextRef k) \<rparr>" "(h_nextRef k, enc)" False existing saveOk] k'
    by (simp add: same_phase_def)
  ultimately have "same_phase h k'" by (rule same_phase_trans)
  then show ?thesis using k k' passive_same_phase[of k' enc False IdleTier]
    by (auto simp: debugForceEliteEncounter_def intro: same_phase_trans)
qed

lemma preview_same_phase: "same_phase h (debugPreviewReveal h r)"
  by (simp add: debugPreviewReveal_def run_rand_def Let_def same_phase_def case_prod_beta)

lemma walk_same_phase: "same_phase h (checkWalkSummaryBegin h es)" "same_phase h (checkWalkSummaryEnd h)"
proof -
  show "same_phase h (checkWalkSummaryBegin h es)" by (simp add: checkWalkSummaryBegin_def same_phase_def)
  have "same_phase h (h\<lparr> h_isCheckingWalkSummary := False, h_drained := None \<rparr>)" by (simp add: same_phase_def)
  then show "same_phase h (checkWalkSummaryEnd h)"
    by (cases "h_drained h") (simp_all add: checkWalkSummaryEnd_def Let_def same_phase_def[of h "_\<lparr> h_walkSummary := _ \<rparr>"])
qed

lemma settings_same_phase:
  "same_phase h (hookSetBypass h b)" "same_phase h (tickCountdown h)" "same_phase h (rewardTimerFires h)"
  "same_phase h (dismissReward h)" "same_phase h (dismissWalkSummary h)" "same_phase h (handleMinimize h)"
  "same_phase h (handleExpandMinimized h)" "same_phase h (handleCloseCombatModal h)" "same_phase h (refreshHeldFoe h d)"
  "same_phase h (h\<lparr> h_forceItemDrop := b \<rparr>)" "same_phase h (h\<lparr> h_forcedRarity := r \<rparr>)" "same_phase h (h\<lparr> h_player := p \<rparr>)"
  "same_phase h (h\<lparr> h_isBackground := b \<rparr>)" "same_phase h (h\<lparr> h_autoResolveBelowRare := b \<rparr>)"
  "same_phase h (h\<lparr> h_currentLocation := l \<rparr>)" "same_phase h (h\<lparr> h_now := t \<rparr>)"
  by (simp_all add: same_phase_def hookSetBypass_def tickCountdown_def rewardTimerFires_def dismissReward_def
      dismissWalkSummary_def handleMinimize_def handleExpandMinimized_def handleCloseCombatModal_def refreshHeldFoe_def
      refreshTimes_def split: option.split)

section \<open>Steps that change the phase\<close>

lemma simulates_by:
  assumes "phase_step (phase_of h) e (phase_view foe counter kill)" and "counter \<longrightarrow> foe"
    and "(h_encounter h' \<noteq> None) = foe" and "h_counterPending h' = counter" and "h_killBeatPending h' = kill"
  shows "simulates h e h'"
  using assms by (auto simp: simulates_def phase_of_def foe_turn_def)

lemma handleVictory_phase:
  "handleVictory h pu = h \<or>
   h_encounter h \<noteq> None \<and> h_encounter (handleVictory h pu) = None \<and> \<not> h_counterPending (handleVictory h pu) \<and>
     \<not> h_killBeatPending (handleVictory h pu)"
  by (auto simp: handleVictory_def run_rand_def cancelCounterBeat_def endFight_def setPlayerAndSave_def pushLog_def Let_def
      split: option.splits prod.splits)

lemma victory_simulates:
  assumes "foe_turn h" and "same_phase h k" and "h_encounter h \<noteq> None \<Longrightarrow> phase_step (phase_of h) e NoFoe"
  shows "simulates h e (handleVictory k pu)"
  using handleVictory_phase[of k pu]
proof
  assume "handleVictory k pu = k"
  then show ?thesis using same_phase_simulates[OF assms(2,1)] by simp
next
  assume *: "h_encounter k \<noteq> None \<and> h_encounter (handleVictory k pu) = None \<and> \<not> h_counterPending (handleVictory k pu) \<and>
     \<not> h_killBeatPending (handleVictory k pu)"
  then have "phase_step (phase_of h) e NoFoe" using assms(2,3) by (auto simp: same_phase_def)
  then show ?thesis using * by (intro simulates_by[of h e False False False]) (simp_all add: phase_view_def)
qed

lemma in_fight: "h_encounter h \<noteq> None \<Longrightarrow> phase_of h \<in> {YourTurn, EnemyTurn, KillTurn}"
  by (simp add: phase_of_def phase_view_def)

lemma flee_simulates:
  assumes "foe_turn h" and "same_phase h k" and "leaves e"
  shows "simulates h e (handleFlee k)"
proof (cases "h_fleeProcessed k \<or> h_counterPending k")
  case True
  then show ?thesis using same_phase_simulates[OF assms(2,1)] by (simp add: handleFlee_def)
next
  case False
  have f: "h_encounter (handleFlee k) = None" "\<not> h_counterPending (handleFlee k)"
    "h_killBeatPending (handleFlee k) = h_killBeatPending h"
    using False assms(2)
    by (auto simp: handleFlee_def same_phase_def endFight_def setPlayerAndSave_def Let_def split: option.splits)
  have "\<not> h_counterPending h" using False assms(2) by (simp add: same_phase_def)
  then have "phase_step (phase_of h) e (phase_view False False (h_killBeatPending h))"
    using assms(3) by (auto simp: phase_of_def phase_view_def intro: phase_step.intros)
  then show ?thesis using f by (intro simulates_by[of h e False False "h_killBeatPending h"]) simp_all
qed

lemma present_simulates:
  assumes "hook_ok h" and "same_phase h k" and "meets e" and "h_encounter h = None \<and> foe_turn h \<or> e = ForceEncounter"
  shows "simulates h e (presentEncounter k enc)"
proof -
  have "phase_step (phase_of h) e (phase_view True False (h_killBeatPending h))"
    using assms(1,3,4) by (auto simp: phase_of_def phase_view_def foe_turn_def hook_ok_def beat_ok_def intro: phase_step.intros)
  then show ?thesis
    using assms(2) by (intro simulates_by[of h e True False "h_killBeatPending h"])
      (auto simp: presentEncounter_def cancelCounterBeat_def same_phase_def)
qed

lemma simulates_same_phase: "simulates h e k \<Longrightarrow> same_phase k l \<Longrightarrow> simulates h e l"
  by (simp add: simulates_def same_phase_def phase_of_def foe_turn_def)

lemma route_simulates:
  assumes "hook_ok h" and "foe_turn h" and "same_phase h k" and "h_encounter h = None" and "meets e"
  shows "simulates h e (routeEncounter k enc existing saveOk)"
proof -
  obtain k' held where k': "holdEliteEncounter (k\<lparr> h_nextRef := Suc (h_nextRef k) \<rparr>) (h_nextRef k, enc) (h_isBackground k) existing saveOk = (k', held)"
    by force
  have "same_phase k k'"
    using hold_same_phase[of "k\<lparr> h_nextRef := Suc (h_nextRef k) \<rparr>" "(h_nextRef k, enc)" "h_isBackground k" existing saveOk] k'
    by (simp add: same_phase_def)
  then have s: "same_phase h k'" "same_phase h (resolvePassiveEncounter k' enc bg t)" "same_phase h (resolvePassiveEncounter k enc bg t)" for bg t
    using assms(3) by (blast intro: same_phase_trans passive_same_phase)+
  show ?thesis
    using present_simulates[OF assms(1,3,5), of enc] assms(2,4) k' same_phase_simulates[OF s(1) assms(2)]
      same_phase_simulates[OF s(2) assms(2)] same_phase_simulates[OF s(3) assms(2)]
    by (simp add: routeEncounter_def Let_def split: encounter_route.split)
qed

lemma distance_simulates:
  assumes "hook_ok h" and "foe_turn h"
  shows "simulates h (Distance dd p existing saveOk) (onDistanceEncounterUpdate h dd p existing saveOk)"
proof (cases "h_encounter h")
  case (Some re)
  then show ?thesis
    using flee_simulates[OF assms(2)] same_phase_simulates[OF same_phase_refl assms(2)]
    by (cases re) (simp add: onDistanceEncounterUpdate_def autoFlee_def)
next
  case None
  note route = route_simulates[OF assms _ None, of _ "Distance dd p existing saveOk"]
  have frames: "same_phase h (refreshChance k) = same_phase h k"
    "same_phase k (refreshTimes (k\<lparr> h_encounterChance := x, h_lastEncounterChance := y \<rparr>))" for k x y
    by (simp_all add: refreshChance_def refreshTimes_def same_phase_def)
  have rolled: "same_phase h (h\<lparr> h_rng := r, h_service := sv \<rparr>)" for r sv by (simp add: same_phase_def)
  show ?thesis
    using same_phase_simulates[OF _ assms(2)] simulates_same_phase[OF route[OF rolled] frames(2)] frames(1) rolled None
    by (auto simp: onDistanceEncounterUpdate_def run_rand_def Let_def split: option.splits prod.splits)
qed

lemma counter_simulates:
  assumes ok: "hook_ok h" and foe: "foe_turn h"
  shows "simulates h CounterTimer (counterTimerFires h)"
proof (cases "h_counterTimer h")
  case (Some t)
  then have h: "h_counterPending h" "\<not> h_killBeatPending h" "h_encounter h \<noteq> None"
    using ok foe by (auto simp: hook_ok_def beat_ok_def foe_turn_def)
  then have enemy: "phase_of h = EnemyTurn" by (simp add: phase_of_def phase_view_def)
  have ends: "simulates h CounterTimer (endEnemyTurn (h\<lparr> h_counterTimer := None \<rparr>))"
    using h by (intro simulates_by[of h CounterTimer True False False])
      (simp_all add: enemy phase_view_def phase_step.struck endEnemyTurn_def)
  have strike: "simulates h CounterTimer (counterStrike (h\<lparr> h_counterTimer := None \<rparr>) atk def c p)" if p: "h_player h = Some p" for atk def c p
  proof (rule counterStrike_cases[OF hook_okD(2)[OF ok p], of atk "def" "h\<lparr> h_counterTimer := None \<rparr>" c])
    fix ev n d p'
    let ?k = "afterStrike (h\<lparr> h_counterTimer := None \<rparr>) ev n d p'"
    assume eq: "counterStrike (h\<lparr> h_counterTimer := None \<rparr>) atk def c p =
      (if p_hp p \<le> d then handlePlayerDefeat (endEnemyTurn ?k) p' else ?k\<lparr> h_counterTimer := Some StrikeHold \<rparr>)"
    have "same_phase h (?k\<lparr> h_counterTimer := Some StrikeHold \<rparr>)"
      by (simp add: same_phase_def afterStrike_def setPlayerAndSave_def pushLog_def pushHit_def)
    moreover have "simulates h CounterTimer (handlePlayerDefeat (endEnemyTurn ?k) p')"
      using h by (intro simulates_by[of h CounterTimer False False False])
        (simp_all add: enemy phase_view_def phase_step.fallen handlePlayerDefeat_def endEnemyTurn_def endFight_def emit_def
          afterStrike_def setPlayerAndSave_def pushLog_def pushHit_def Let_def)
    ultimately show ?thesis using same_phase_simulates[OF _ foe] by (simp add: eq)
  qed
  show ?thesis using Some ends strike by (auto simp: counterTimerFires_def Let_def split: counter_timer.splits option.splits)
qed (use same_phase_simulates[OF same_phase_refl foe] in \<open>simp add: counterTimerFires_def\<close>)

lemma dot_kill_fields:
  assumes ok: "hook_ok h" and "h_encounter h = Some re" and "\<not> h_victoryProcessed h" "\<not> h_killBeatPending h" "\<not> h_counterPending h"
    and t: "tickCreatureDots h (e_creature (snd re)) (h_creatureCombatState h) = (h1, c, new)"
  shows "h_encounter (scheduleVictory ((setCreature h1 c)\<lparr> h_playerCombatState := pst, h_creatureCombatState := new \<rparr>) p) \<noteq> None"
    and "\<not> h_counterPending (scheduleVictory ((setCreature h1 c)\<lparr> h_playerCombatState := pst, h_creatureCombatState := new \<rparr>) p)"
    and "h_killBeatPending (scheduleVictory ((setCreature h1 c)\<lparr> h_playerCombatState := pst, h_creatureCombatState := new \<rparr>) p)"
proof -
  have "creature_ok (e_creature (snd re))" "pred_option combat_state_ok (h_creatureCombatState h)"
    using hook_okD(3)[OF ok assms(2)] ok by (simp_all add: encounter_ok_def hook_ok_def)
  note f = swing_frame_fields[OF tickCreatureDots_ok(4)[OF t ok this]]
  show "h_encounter (scheduleVictory ((setCreature h1 c)\<lparr> h_playerCombatState := pst, h_creatureCombatState := new \<rparr>) p) \<noteq> None"
    "\<not> h_counterPending (scheduleVictory ((setCreature h1 c)\<lparr> h_playerCombatState := pst, h_creatureCombatState := new \<rparr>) p)"
    "h_killBeatPending (scheduleVictory ((setCreature h1 c)\<lparr> h_playerCombatState := pst, h_creatureCombatState := new \<rparr>) p)"
    using assms(2-5) f(1,4-6) by (simp_all add: scheduleVictory_def setCreature_def)
qed

lemma ability_simulates:
  assumes ok: "hook_ok h" and foe: "foe_turn h" and ab: "ability_ok ab"
  shows "simulates h (UseAbility ab) (fst (handleAbility h ab))"
proof (cases "snd (handleAbility h ab)")
  case True
  then have "handleAbility h ab = (fst (handleAbility h ab), True)" by (metis prod.collapse)
  then show ?thesis
  proof (rule handleAbility_used[OF ok ab])
    fix p :: player and pst
    assume h: "h_encounter h \<noteq> None" "\<not> h_counterPending h" "\<not> h_killBeatPending h"
      and "turn_passed (fst (handleAbility h ab)) ab (p_archetype p) pst"
    then obtain counter where "h_encounter (fst (handleAbility h ab)) \<noteq> None" "h_counterPending (fst (handleAbility h ab)) = counter"
      "h_killBeatPending (fst (handleAbility h ab)) = (\<not> counter)"
      by (auto simp: turn_passed_def split: if_splits)
    then show ?thesis using h
      by (intro simulates_by[of h "UseAbility ab" True counter "\<not> counter"])
        (auto simp: phase_of_def phase_view_def intro: phase_step.intros)
  qed
next
  case False
  show ?thesis
  proof (cases "\<exists>re p pst. h_encounter h = Some re \<and> h_player h = Some p \<and> h_playerCombatState h = Some pst \<and>
      \<not> (h_victoryProcessed h \<or> h_killBeatPending h \<or> h_counterPending h)")
    case True
    then obtain re p pst where e: "h_encounter h = Some re" "h_player h = Some p" "h_playerCombatState h = Some pst"
      and free: "\<not> h_victoryProcessed h" "\<not> h_killBeatPending h" "\<not> h_counterPending h" by blast
    have yours: "phase_of h = YourTurn" using e free by (simp add: phase_of_def phase_view_def)
    obtain h1 c new where t: "tickCreatureDots h (e_creature (snd re)) (h_creatureCombatState h) = (h1, c, new)" by (metis prod.collapse)
    have kill: "simulates h (UseAbility ab)
        (scheduleVictory ((setCreature h1 c)\<lparr> h_playerCombatState := Some (tickedState pst), h_creatureCombatState := new \<rparr>) (clone_player p))"
      using dot_kill_fields[OF ok e(1) free t] by (intro simulates_by[of h "UseAbility ab" True False True])
        (simp_all add: yours phase_view_def phase_step.slay)
    have "simulates h (UseAbility ab) (handleVictory h None)"
      by (rule victory_simulates[OF foe same_phase_refl]) (simp add: yours phase_step.beaten)
    then have vic: "simulates h (UseAbility ab) ((handleVictory h None)\<lparr> h_showCombatModal := False \<rparr>)"
      by (rule simulates_same_phase) (simp add: same_phase_def)
    show ?thesis using False e free t kill vic same_phase_simulates[OF same_phase_refl foe]
      by (auto simp: handleAbility_def Let_def split: if_splits)
  next
    case False
    then have "fst (handleAbility h ab) = h" by (auto simp: handleAbility_def split: option.splits)
    then show ?thesis using same_phase_simulates[OF same_phase_refl foe] by simp
  qed
qed

lemma engage_simulates:
  assumes "foe_turn h" shows "simulates h (EngageFoe cleared) (engageHeldFoe h cleared)"
proof (cases "h_heldFoe h = None \<or> h_encounter h \<noteq> None \<or> \<not> cleared")
  case True
  then have "same_phase h (engageHeldFoe h cleared)"
    by (auto simp: engageHeldFoe_def same_phase_def emit_def split: option.split)
  then show ?thesis using assms by (rule same_phase_simulates)
next
  case False
  then have "phase_step (phase_of h) (EngageFoe cleared) (phase_view True False (h_killBeatPending h))"
    by (auto simp: phase_of_def phase_view_def intro: phase_step.intros)
  then show ?thesis
    using False assms by (intro simulates_by[of h _ True False "h_killBeatPending h"])
      (auto simp: engageHeldFoe_def foe_turn_def emit_def)
qed

lemma clear_simulates: "simulates h Teardown (clearEncounter h)"
  by (intro simulates_by[of h Teardown False False False])
    (simp_all add: phase_view_def phase_step.cleared clearEncounter_def cancelCounterBeat_def Let_def)

lemma force_simulates:
  assumes "hook_ok h" shows "simulates h ForceEncounter (hookForceEncounter h)"
proof -
  obtain enc k where k: "rollForced h (or_falsy (map_option p_level (h_player h)) 1) None = (enc, k)" by force
  have "same_phase h k" using rollForced_same_phase[of h "or_falsy (map_option p_level (h_player h)) 1" None] k by simp
  then have "simulates h ForceEncounter (presentEncounter k enc)" using assms by (intro present_simulates) simp_all
  moreover have "same_phase l (refreshTimes (l\<lparr> h_encounterChance := 0 \<rparr>))" for l
    by (simp add: refreshTimes_def same_phase_def)
  ultimately show ?thesis using k by (simp add: hookForceEncounter_def simulates_same_phase)
qed

lemma finish_simulates:
  assumes "hook_ok h" and "foe_turn h"
  shows "simulates h Fight (handleFight h)" and "simulates h AutoResolveTap (handleAutoResolve h)"
    and "simulates h DebugDefeat (handleDebugDefeat h)" and "simulates h KillBeat (killBeatFires h)"
proof -
  note stays = same_phase_simulates[OF _ assms(2)]
  have vic: "simulates h e (handleVictory k pu)" if "e \<in> {Fight, AutoResolveTap, DebugDefeat}" "same_phase h k" for e k pu
    by (rule victory_simulates[OF assms(2) that(2)]) (use that(1) in_fight in \<open>auto intro: phase_step.skipped\<close>)
  show "simulates h Fight (handleFight h)"
    using vic[of Fight h None] by (auto simp: handleFight_def Let_def same_phase_def split: option.split intro!: stays)
  show "simulates h AutoResolveTap (handleAutoResolve h)"
    by (auto simp: handleAutoResolve_def same_phase_def split: option.split intro!: stays[OF same_phase_refl] vic)
  show "simulates h DebugDefeat (handleDebugDefeat h)"
    by (auto simp: handleDebugDefeat_def Let_def same_phase_def split: option.split intro!: stays[OF same_phase_refl] vic)
  show "simulates h KillBeat (killBeatFires h)"
  proof (cases "h_killBeatTimer h")
    case (Some p)
    then have "h_killBeatPending h" "\<not> h_counterPending h" using assms(1) by (auto simp: hook_ok_def beat_ok_def)
    then have "simulates h KillBeat (handleVictory (h\<lparr> h_killBeatTimer := None, h_showCombatModal := False \<rparr>) (Some p))"
      by (intro victory_simulates[OF assms(2)]) (simp_all add: same_phase_def phase_of_def phase_view_def phase_step.won)
    then show ?thesis using Some by (simp add: killBeatFires_def)
  qed (simp add: killBeatFires_def stays)
qed

section \<open>The refinement\<close>

lemma hook_step_simulates:
  assumes "hook_ok h" and "foe_turn h" and "event_ok e"
  shows "simulates h e (hook_step h e)"
  using assms(3)
  by (cases e) (simp_all add: finish_simulates[OF assms(1,2)] ability_simulates[OF assms(1,2)] counter_simulates[OF assms(1,2)]
      distance_simulates[OF assms(1,2)] force_simulates[OF assms(1)] flee_simulates[OF assms(2)] engage_simulates[OF assms(2)]
      clear_simulates same_phase_simulates[OF _ assms(2)] settings_same_phase walk_same_phase idle_same_phase
      simulate_same_phase elite_same_phase preview_same_phase)

interpretation fight_machine: step_machine hook_step "\<lambda>h. hook_ok h \<and> foe_turn h" event_ok
  by unfold_locales (auto simp: hook_step_ok dest: hook_step_simulates simp: simulates_def)

lemma run_simulates:
  assumes "hook_ok h" and "foe_turn h" and "list_all event_ok es"
  shows "phase_run (phase_of h) es (phase_of (foldl hook_step h es))"
  using assms(3)
proof (induction es rule: rev_induct)
  case (snoc e es)
  then have "hook_ok (foldl hook_step h es) \<and> foe_turn (foldl hook_step h es)"
    by (intro fight_machine.run_inv) (use assms in simp_all)
  then have "simulates (foldl hook_step h es) e (hook_step (foldl hook_step h es) e)"
    using snoc.prems by (intro hook_step_simulates) simp_all
  then show ?case using snoc by (auto simp: simulates_def intro: phase_run.more_steps)
qed (simp add: phase_run.start)

lemma init_phase [simp]: "phase_of (hook_init r now) = NoFoe" "foe_turn (hook_init r now)"
  by (simp_all add: phase_of_def phase_view_def foe_turn_def hook_init_def)

end
