(* ===== verification/CloudSync.thy ===== *)
theory CloudSync
  imports Storage
begin

text \<open>
  The cloud service (\<open>services/CloudSyncService.ts\<close>) and the rules of the document store
  (\<open>firestore.rules\<close>). A save is issued at once and reaches the store later, so the service's
  \<open>pendingWrite\<close> chain is the list of the writes that have not settled; which of them settles next,
  and under which user, is an event. The store itself is a map from user identifiers to documents
  that changes only as the rules allow. Timers are outside: whether an answer came in time is an
  argument.
\<close>

section \<open>The service\<close>

record cloud_write =
  cw_uid :: string
  cw_data :: player_data
  cw_stamp :: int

record cloud =
  cl_lastSyncTimestamp :: int
  cl_writesSuspended :: bool
  cl_pendingWrite :: "cloud_write list"
  cl_lastSuccessfulSyncAt :: "int option"
  cl_pendingWriteCount :: int

definition cloud_init :: cloud where
  "cloud_init =
     \<lparr> cl_lastSyncTimestamp = 0, cl_writesSuspended = False, cl_pendingWrite = [],
       cl_lastSuccessfulSyncAt = None, cl_pendingWriteCount = 0 \<rparr>"

definition suspendWrites :: "cloud \<Rightarrow> cloud" where
  "suspendWrites c = c\<lparr> cl_writesSuspended := True \<rparr>"

definition resumeWrites :: "cloud \<Rightarrow> cloud" where
  "resumeWrites c = c\<lparr> cl_writesSuspended := False \<rparr>"

definition cloudSavePlayerData :: "cloud \<Rightarrow> string option \<Rightarrow> player_data \<Rightarrow> int \<Rightarrow> cloud" where
  "cloudSavePlayerData c user playerData lastSavedAt =
     (if cl_writesSuspended c then c
      else case user of
        None \<Rightarrow> c
      | Some uid \<Rightarrow>
          let syncTimestamp = max lastSavedAt (cl_lastSyncTimestamp c + 1)
          in c\<lparr> cl_lastSyncTimestamp := syncTimestamp,
                cl_pendingWriteCount := cl_pendingWriteCount c + 1,
                cl_pendingWrite := cl_pendingWrite c @
                  [\<lparr> cw_uid = uid, cw_data = playerData, cw_stamp = syncTimestamp \<rparr>] \<rparr>)"

text \<open>The \<open>then\<close>, \<open>catch\<close> and \<open>finally\<close> parts of the \<open>i\<close>-th unsettled write.\<close>

definition writeSettles :: "cloud \<Rightarrow> nat \<Rightarrow> bool \<Rightarrow> int \<Rightarrow> cloud" where
  "writeSettles c i accepted now =
     c\<lparr> cl_lastSuccessfulSyncAt := (if accepted then Some now else cl_lastSuccessfulSyncAt c),
        cl_pendingWriteCount := max 0 (cl_pendingWriteCount c - 1),
        cl_pendingWrite := take i (cl_pendingWrite c) @ drop (Suc i) (cl_pendingWrite c) \<rparr>"

record sync_status =
  sy_lastSuccessfulSyncAt :: "int option"
  sy_pendingWrites :: int
  sy_writesSuspended :: bool

definition getSyncStatus :: "cloud \<Rightarrow> sync_status" where
  "getSyncStatus c =
     \<lparr> sy_lastSuccessfulSyncAt = cl_lastSuccessfulSyncAt c, sy_pendingWrites = cl_pendingWriteCount c,
       sy_writesSuspended = cl_writesSuspended c \<rparr>"

text \<open>
  What the read of the document can come to: a snapshot, whose document may be missing or may lack
  the player, a rejection, or silence until the timeout.
\<close>

datatype fetch_outcome = Snapshot "(stored option \<times> int) option" | FetchRejected | FetchTimedOut

definition loadPlayerData :: "string option \<Rightarrow> fetch_outcome \<Rightarrow> cloud_load" where
  "loadPlayerData user outcome =
     (case user of
        None \<Rightarrow> CloudUnavailable
      | Some _ \<Rightarrow>
          (case outcome of
             Snapshot None \<Rightarrow> CloudEmpty
           | Snapshot (Some (None, _)) \<Rightarrow> CloudEmpty
           | Snapshot (Some (Some d, t)) \<Rightarrow> CloudFound d t
           | FetchRejected \<Rightarrow> CloudUnavailable
           | FetchTimedOut \<Rightarrow> CloudUnavailable))"

section \<open>The rules of the store\<close>

type_synonym cloud_docs = "string \<Rightarrow> (player_data \<times> int) option"

definition isOwner :: "string option \<Rightarrow> string \<Rightarrow> bool" where
  "isOwner auth uid \<longleftrightarrow> auth = Some uid"

text \<open>The types of the fields are those of the record; what is left are the ranges.\<close>

definition rulesValidPlayerData :: "player_data \<Rightarrow> bool" where
  "rulesValidPlayerData d \<longleftrightarrow>
     1 \<le> length (d_name d) \<and> length (d_name d) \<le> 50 \<and> 1 \<le> d_level d \<and> d_level d \<le> 1000 \<and>
     0 \<le> d_experience d \<and> 0 \<le> d_attack d \<and> 0 \<le> d_defense d \<and> 0 \<le> d_totalDistance d \<and>
     0 \<le> d_totalEncounters d \<and> 0 \<le> d_creaturesDefeated d"

definition allowWrite :: "cloud_docs \<Rightarrow> string option \<Rightarrow> cloud_write \<Rightarrow> bool" where
  "allowWrite docs auth w \<longleftrightarrow>
     isOwner auth (cw_uid w) \<and> rulesValidPlayerData (cw_data w) \<and>
     (case docs (cw_uid w) of None \<Rightarrow> True | Some (_, lastSavedAt) \<Rightarrow> lastSavedAt < cw_stamp w)"

definition setDoc :: "cloud_docs \<Rightarrow> string option \<Rightarrow> cloud_write \<Rightarrow> cloud_docs" where
  "setDoc docs auth w =
     (if allowWrite docs auth w then docs(cw_uid w := Some (cw_data w, cw_stamp w)) else docs)"

text \<open>
  The deletion of the current user's document: whether it succeeded for the caller, and the
  documents afterwards. It may reach the store although the answer comes too late.
\<close>

definition deletePlayerData :: "cloud_docs \<Rightarrow> string option \<Rightarrow> bool \<Rightarrow> bool \<Rightarrow> bool \<times> cloud_docs" where
  "deletePlayerData docs user reached inTime =
     (case user of
        None \<Rightarrow> (True, docs)
      | Some uid \<Rightarrow> (reached \<and> inTime, if reached then docs(uid := None) else docs))"

text \<open>The server-side function that runs when an account has been deleted.\<close>

definition onUserDeleted :: "cloud_docs \<Rightarrow> string \<Rightarrow> cloud_docs" where
  "onUserDeleted docs uid = docs(uid := None)"

section \<open>The service and the store together\<close>

record cloud_world =
  cn_service :: cloud
  cn_docs :: cloud_docs
  cn_user :: "string option"
  cn_now :: int

datatype cloud_event =
  CSave player_data int
| CDeliver nat
| CLose nat
| CSuspend
| CResume
| CDelete bool bool
| CUserDeleted string
| CUser "string option"
| CTime int

definition deliver :: "cloud_world \<Rightarrow> nat \<Rightarrow> cloud_world" where
  "deliver w i =
     (if i < length (cl_pendingWrite (cn_service w)) then
        let wr = cl_pendingWrite (cn_service w) ! i
        in w\<lparr> cn_docs := setDoc (cn_docs w) (cn_user w) wr,
              cn_service := writeSettles (cn_service w) i (allowWrite (cn_docs w) (cn_user w) wr) (cn_now w) \<rparr>
      else w)"

definition lose :: "cloud_world \<Rightarrow> nat \<Rightarrow> cloud_world" where
  "lose w i =
     (if i < length (cl_pendingWrite (cn_service w))
      then w\<lparr> cn_service := writeSettles (cn_service w) i False (cn_now w) \<rparr> else w)"

fun cloud_step :: "cloud_world \<Rightarrow> cloud_event \<Rightarrow> cloud_world" where
  "cloud_step w (CSave d t) = w\<lparr> cn_service := cloudSavePlayerData (cn_service w) (cn_user w) d t \<rparr>"
| "cloud_step w (CDeliver i) = deliver w i"
| "cloud_step w (CLose i) = lose w i"
| "cloud_step w CSuspend = w\<lparr> cn_service := suspendWrites (cn_service w) \<rparr>"
| "cloud_step w CResume = w\<lparr> cn_service := resumeWrites (cn_service w) \<rparr>"
| "cloud_step w (CDelete reached inTime) =
     w\<lparr> cn_docs := snd (deletePlayerData (cn_docs w) (cn_user w) reached inTime) \<rparr>"
| "cloud_step w (CUserDeleted uid) = w\<lparr> cn_docs := onUserDeleted (cn_docs w) uid \<rparr>"
| "cloud_step w (CUser u) = w\<lparr> cn_user := u \<rparr>"
| "cloud_step w (CTime t) = w\<lparr> cn_now := t \<rparr>"

definition cloud_start :: "cloud_docs \<Rightarrow> string option \<Rightarrow> cloud_world" where
  "cloud_start docs user = \<lparr> cn_service = cloud_init, cn_docs = docs, cn_user = user, cn_now = 0 \<rparr>"

text \<open>A drain waits while writes settle; the ones that do so in time are given by their positions.\<close>

definition drainPendingWrites :: "cloud_world \<Rightarrow> nat list \<Rightarrow> cloud_world" where
  "drainPendingWrites w settled = foldl deliver w settled"

section \<open>Lemmas: issued writes\<close>

definition service_ok :: "cloud \<Rightarrow> bool" where
  "service_ok c \<longleftrightarrow>
     sorted_wrt (\<lambda>a b. cw_stamp a < cw_stamp b) (cl_pendingWrite c) \<and>
     (\<forall>w \<in> set (cl_pendingWrite c). cw_stamp w \<le> cl_lastSyncTimestamp c) \<and>
     cl_pendingWriteCount c = int (length (cl_pendingWrite c))"

lemma service_ok_init [simp]: "service_ok cloud_init"
  by (simp add: service_ok_def cloud_init_def)

lemma service_ok_flags [simp]:
  "service_ok (suspendWrites c) \<longleftrightarrow> service_ok c" "service_ok (resumeWrites c) \<longleftrightarrow> service_ok c"
  by (simp_all add: service_ok_def suspendWrites_def resumeWrites_def)

lemma service_ok_save:
  assumes "service_ok c" shows "service_ok (cloudSavePlayerData c user d t)"
  using assms
  by (force simp: service_ok_def cloudSavePlayerData_def Let_def sorted_wrt_append split: option.splits)

lemma sorted_wrt_delete:
  assumes "sorted_wrt P xs" shows "sorted_wrt P (take i xs @ drop (Suc i) xs)"
proof (cases "i < length xs")
  case True
  then have "sorted_wrt P (take i xs @ xs ! i # drop (Suc i) xs)" using assms by (simp add: id_take_nth_drop[symmetric])
  then show ?thesis by (simp add: sorted_wrt_append)
qed (simp add: assms)

lemma service_ok_settles:
  assumes "service_ok c" and "i < length (cl_pendingWrite c)" shows "service_ok (writeSettles c i b now)"
  using assms
  by (auto simp: service_ok_def writeSettles_def sorted_wrt_delete dest: in_set_takeD in_set_dropD)

lemma cloud_step_ok:
  assumes "service_ok (cn_service w)" shows "service_ok (cn_service (cloud_step w e))"
  using assms by (cases e) (simp_all add: service_ok_save service_ok_settles deliver_def lose_def Let_def)

interpretation cloud_machine: step_machine cloud_step "\<lambda>w. service_ok (cn_service w)" "\<lambda>_. True"
  by unfold_locales (rule cloud_step_ok)

lemma pending_stamps:
  "service_ok (cn_service (foldl cloud_step (cloud_start docs user) es))"
  by (rule cloud_machine.run_inv) (simp_all add: cloud_start_def list_all_iff)

section \<open>Lemmas: documents\<close>

definition doc_time :: "cloud_docs \<Rightarrow> string \<Rightarrow> int option" where
  "doc_time docs uid = map_option snd (docs uid)"

definition deliver_all :: "cloud_docs \<Rightarrow> string option \<Rightarrow> cloud_write list \<Rightarrow> cloud_docs" where
  "deliver_all docs auth ws = fold (\<lambda>w d. setDoc d auth w) ws docs"

lemma setDoc_other [simp]: "uid \<noteq> cw_uid w \<Longrightarrow> setDoc docs auth w uid = docs uid"
  by (simp add: setDoc_def)

lemma setDoc_time: "(case docs uid of None \<Rightarrow> True | Some (_, t) \<Rightarrow> \<exists>d t'. setDoc docs auth w uid = Some (d, t') \<and> t \<le> t')"
  by (auto simp: setDoc_def allowWrite_def split: option.splits)

lemma setDoc_commute:
  assumes "cw_stamp v \<noteq> cw_stamp w"
  shows "setDoc (setDoc docs auth v) auth w = setDoc (setDoc docs auth w) auth v"
proof (cases "cw_uid v = cw_uid w")
  case True
  then show ?thesis
    using assms by (cases "docs (cw_uid w)") (auto simp: setDoc_def allowWrite_def)
next
  case False
  then have "allowWrite (setDoc docs auth v) auth w = allowWrite docs auth w"
    and "allowWrite (setDoc docs auth w) auth v = allowWrite docs auth v"
    by (simp_all add: allowWrite_def)
  then show ?thesis using False unfolding setDoc_def by (auto simp: fun_upd_twist)
qed

text \<open>The order in which issued writes reach the store does not matter.\<close>

lemma deliver_all_perm:
  assumes "sorted_wrt (\<lambda>a b. cw_stamp a < cw_stamp b) ws" and "mset ws' = mset ws"
  shows "deliver_all docs auth ws' = deliver_all docs auth ws"
proof -
  have "distinct (map cw_stamp ws)"
    using assms(1) strict_sorted_iff[of "map cw_stamp ws"] by (simp add: sorted_wrt_map)
  then have inj: "inj_on cw_stamp (set ws)" by (simp add: distinct_map)
  have "fold (\<lambda>w d. setDoc d auth w) ws' = fold (\<lambda>w d. setDoc d auth w) ws"
  proof (rule fold_multiset_equiv)
    fix x y assume "x \<in> set ws'" "y \<in> set ws'"
    then have eq: "cw_stamp x = cw_stamp y \<Longrightarrow> x = y"
      using inj mset_eq_setD[OF assms(2)] by (blast dest: inj_onD)
    then show "(\<lambda>d. setDoc d auth x) \<circ> (\<lambda>d. setDoc d auth y) = (\<lambda>d. setDoc d auth y) \<circ> (\<lambda>d. setDoc d auth x)"
    proof (cases "x = y")
      case False
      then have "setDoc (setDoc d auth y) auth x = setDoc (setDoc d auth x) auth y" for d
        using eq by (intro setDoc_commute) auto
      then show ?thesis by (simp add: comp_def)
    qed simp
  qed (rule assms(2))
  then show ?thesis by (simp add: deliver_all_def)
qed

lemma deliver_all_Cons [simp]:
  "deliver_all docs auth [] = docs" "deliver_all docs auth (w # ws) = deliver_all (setDoc docs auth w) auth ws"
  by (simp_all add: deliver_all_def)

lemma deliver_all_time:
  "docs uid = Some (d, t) \<Longrightarrow> \<exists>d' t'. deliver_all docs auth ws uid = Some (d', t') \<and> t \<le> t'"
proof (induction ws arbitrary: docs d t)
  case (Cons w ws)
  obtain d1 t1 where "setDoc docs auth w uid = Some (d1, t1)" "t \<le> t1"
    using setDoc_time[where docs = docs and uid = uid and auth = auth and w = w] Cons.prems by auto
  with Cons.IH[of "setDoc docs auth w" d1 t1] show ?case by fastforce
qed simp

text \<open>No accepted kind of write is lost: the document is at least as new as every one of them.\<close>

lemma deliver_all_newest:
  assumes "w \<in> set ws" and "isOwner auth (cw_uid w)" and "rulesValidPlayerData (cw_data w)"
  shows "\<exists>d t. deliver_all docs auth ws (cw_uid w) = Some (d, t) \<and> cw_stamp w \<le> t"
  using assms(1)
proof (induction ws arbitrary: docs)
  case (Cons v vs)
  show ?case
  proof (cases "w \<in> set vs")
    case True then show ?thesis using Cons.IH by simp
  next
    case False
    then have "v = w" using Cons.prems by simp
    then have "\<exists>d t. setDoc docs auth v (cw_uid w) = Some (d, t) \<and> cw_stamp w \<le> t"
      using assms by (auto simp: setDoc_def allowWrite_def not_less split: option.splits)
    then obtain d t where dt: "setDoc docs auth v (cw_uid w) = Some (d, t)" "cw_stamp w \<le> t" by blast
    then show ?thesis using deliver_all_time[of "setDoc docs auth v" "cw_uid w" d t auth vs] by fastforce
  qed
qed simp

section \<open>Lemmas: erasure\<close>

lemma cloud_step_other_user:
  assumes "cn_user w \<noteq> Some uid" and "e \<noteq> CUser (Some uid)" and "cn_docs w uid = None"
  shows "cn_docs (cloud_step w e) uid = None" and "cn_user (cloud_step w e) \<noteq> Some uid"
  using assms
  by (cases e; auto simp: deliver_def lose_def Let_def setDoc_def allowWrite_def isOwner_def
      deletePlayerData_def onUserDeleted_def split: option.splits)+

lemma erased_stays_erased:
  assumes "cn_user w \<noteq> Some uid" and "cn_docs w uid = None" and "CUser (Some uid) \<notin> set es"
  shows "cn_docs (foldl cloud_step w es) uid = None"
  using assms
proof (induction es arbitrary: w)
  case (Cons e es)
  then have "e \<noteq> CUser (Some uid)" by auto
  with Cons show ?case using cloud_step_other_user[of w uid e] by simp
qed simp

lemma suspended_issues_nothing:
  assumes "cl_writesSuspended (cn_service w)" and "CResume \<notin> set es"
  shows "length (cl_pendingWrite (cn_service (foldl cloud_step w es))) \<le> length (cl_pendingWrite (cn_service w))"
  using assms
proof (induction es arbitrary: w)
  case (Cons e es)
  have "cl_writesSuspended (cn_service (cloud_step w e))"
    "length (cl_pendingWrite (cn_service (cloud_step w e))) \<le> length (cl_pendingWrite (cn_service w))"
    using Cons.prems
    by (cases e; simp add: deliver_def lose_def Let_def writeSettles_def cloudSavePlayerData_def suspendWrites_def)+
  with Cons.IH[of "cloud_step w e"] Cons.prems(2) show ?case by simp
qed simp

end
