(* ===== verification/PlayerSession.thy ===== *)
theory PlayerSession
  imports CloudSync
begin

text \<open>
  The player session (\<open>hooks/usePlayer.ts\<close>): loading the local save, reconciling it with the cloud
  after the first paint, choosing a class, and switching accounts. Everything the hook awaits is a
  frame of the state that an event resumes, so the events of several loads, cloud checks and class
  selections interleave freely. A cloud check is a promise: its index stays, its outcome is filled
  in once. A class can be chosen only while the selection screen is up. React state is set at once, \<open>needsArchetypeRef\<close> therefore equals the state it mirrors.
  Writes to the device and the cloud are listed in the order they are issued.
\<close>

section \<open>State\<close>

datatype check_outcome = Fulfilled reconcile_result | Rejected

datatype commit = ShowArchetypeSelection nat | ShowLoadedPlayer nat | ShowCreatedPlayer

datatype selection_wait = AwaitCheck nat | AwaitDelay nat | AwaitRetry nat nat | AwaitWrite

record selection =
  sl_gen :: nat
  sl_archetype :: archetype
  sl_wait :: selection_wait

datatype session_write = SavePlayer player | WriteLocal player_data int

record session =
  ss_player :: "player option"
  ss_needsArchetypeSelection :: bool
  ss_repaintToken :: nat
  ss_playerRef :: "player option"
  ss_pendingCommit :: "(commit \<times> bool) option"
  ss_initGeneration :: nat
  ss_cloudCheck :: "nat option"
  ss_provisional :: bool
  ss_reconciledGeneration :: "nat option"
  ss_appActive :: bool
  ss_checks :: "check_outcome option list"
  ss_loads :: "nat list"
  ss_effectWaits :: "(nat \<times> nat) list"
  ss_selections :: "selection list"
  ss_writes :: "session_write list"

definition session_init :: session where
  "session_init =
     \<lparr> ss_player = None, ss_needsArchetypeSelection = False, ss_repaintToken = 0, ss_playerRef = None,
       ss_pendingCommit = None, ss_initGeneration = 0, ss_cloudCheck = None, ss_provisional = False,
       ss_reconciledGeneration = None, ss_appActive = True, ss_checks = [], ss_loads = [],
       ss_effectWaits = [], ss_selections = [], ss_writes = [] \<rparr>"

definition ARCHETYPE_CLOUD_RETRIES :: nat where "ARCHETYPE_CLOUD_RETRIES = 2"

definition without :: "nat \<Rightarrow> 'a list \<Rightarrow> 'a list" where
  "without k xs = take k xs @ drop (Suc k) xs"

section \<open>Deferred paint\<close>

text \<open>
  At most one commit is armed, since arming one cancels the other; the flag says whether its
  zero-delay timer is still to come.
\<close>

definition commitWhenActive :: "session \<Rightarrow> commit \<Rightarrow> session" where
  "commitWhenActive s c = s\<lparr> ss_pendingCommit := Some (c, True) \<rparr>"

definition paintPlayer :: "session \<Rightarrow> session" where
  "paintPlayer s =
     (case ss_playerRef s of
        None \<Rightarrow> s
      | Some p \<Rightarrow> s\<lparr> ss_player := Some p, ss_needsArchetypeSelection := False \<rparr>)"

definition runCommit :: "session \<Rightarrow> commit \<Rightarrow> session" where
  "runCommit s c =
     (let s1 = s\<lparr> ss_pendingCommit := None \<rparr>
      in case c of
           ShowArchetypeSelection g \<Rightarrow>
             if g \<noteq> ss_initGeneration s1 then s1 else s1\<lparr> ss_needsArchetypeSelection := True \<rparr>
         | ShowLoadedPlayer g \<Rightarrow> if g \<noteq> ss_initGeneration s1 then s1 else paintPlayer s1
         | ShowCreatedPlayer \<Rightarrow> paintPlayer s1)"

definition zeroTimeout :: "session \<Rightarrow> session" where
  "zeroTimeout s =
     (case ss_pendingCommit s of
        Some (c, True) \<Rightarrow> if ss_appActive s then runCommit s c else s\<lparr> ss_pendingCommit := Some (c, False) \<rparr>
      | _ \<Rightarrow> s)"

text \<open>The hook's own listener was registered first.\<close>

definition appStateChange :: "session \<Rightarrow> bool \<Rightarrow> session" where
  "appStateChange s active =
     (let s1 = s\<lparr> ss_appActive := active \<rparr>
      in if \<not> active then s1
         else
           let s2 = (paintPlayer s1)\<lparr> ss_repaintToken := Suc (ss_repaintToken s1) \<rparr>
           in case ss_pendingCommit s2 of None \<Rightarrow> s2 | Some (c, _) \<Rightarrow> runCommit s2 c)"

section \<open>Saving and clearing\<close>

definition issue :: "session \<Rightarrow> session_write \<Rightarrow> session" where
  "issue s w = s\<lparr> ss_writes := ss_writes s @ [w] \<rparr>"

definition sessionSave :: "session \<Rightarrow> player \<Rightarrow> session" where
  "sessionSave s updated =
     (let s1 = s\<lparr> ss_playerRef := Some updated, ss_player := Some updated \<rparr>
      in if ss_provisional s1 then issue s1 (WriteLocal (p_toJSON updated) 0)
         else issue s1 (SavePlayer updated))"

definition clearPlayer :: "session \<Rightarrow> session" where
  "clearPlayer s =
     s\<lparr> ss_initGeneration := Suc (ss_initGeneration s), ss_pendingCommit := None, ss_playerRef := None,
        ss_cloudCheck := None, ss_provisional := False, ss_player := None,
        ss_needsArchetypeSelection := False \<rparr>"

section \<open>Loading\<close>

definition initializePlayer :: "session \<Rightarrow> session" where
  "initializePlayer s =
     s\<lparr> ss_initGeneration := Suc (ss_initGeneration s), ss_loads := ss_loads s @ [Suc (ss_initGeneration s)] \<rparr>"

text \<open>The \<open>k\<close>-th waiting load receives the local snapshot; \<open>None\<close> is an exception.\<close>

definition loadResumes :: "session \<Rightarrow> nat \<Rightarrow> (player_data option \<times> int) option \<Rightarrow> session" where
  "loadResumes s k snapshot =
     (if k \<ge> length (ss_loads s) then s
      else
        let gen = ss_loads s ! k;
            s1 = s\<lparr> ss_loads := without k (ss_loads s) \<rparr>
        in if gen \<noteq> ss_initGeneration s1 then s1
           else case snapshot of
             None \<Rightarrow> commitWhenActive s1 (ShowArchetypeSelection gen)
           | Some (None, _) \<Rightarrow>
               commitWhenActive (s1\<lparr> ss_provisional := False \<rparr>) (ShowArchetypeSelection gen)
           | Some (Some d, savedAt) \<Rightarrow>
               commitWhenActive (s1\<lparr> ss_provisional := (savedAt = 0), ss_playerRef := Some (p_fromJSON d) \<rparr>)
                 (ShowLoadedPlayer gen))"

section \<open>Reconciliation\<close>

definition adoptCloud :: "session \<Rightarrow> player_data \<Rightarrow> session" where
  "adoptCloud s d =
     s\<lparr> ss_playerRef := Some (p_fromJSON d), ss_provisional := False, ss_player := Some (p_fromJSON d),
        ss_needsArchetypeSelection := False \<rparr>"

definition reconcileEffect :: "session \<Rightarrow> session" where
  "reconcileEffect s =
     (if ss_player s = None \<and> \<not> ss_needsArchetypeSelection s then s
      else if ss_reconciledGeneration s = Some (ss_initGeneration s) then s
      else s\<lparr> ss_reconciledGeneration := Some (ss_initGeneration s), ss_checks := ss_checks s @ [None],
              ss_cloudCheck := Some (length (ss_checks s)),
              ss_effectWaits := ss_effectWaits s @ [(length (ss_checks s), ss_initGeneration s)] \<rparr>)"

definition settled_check :: "session \<Rightarrow> nat \<Rightarrow> check_outcome option" where
  "settled_check s i = (if i < length (ss_checks s) then ss_checks s ! i else None)"

definition checkSettles :: "session \<Rightarrow> nat \<Rightarrow> check_outcome \<Rightarrow> session" where
  "checkSettles s i outcome =
     (if i < length (ss_checks s) \<and> ss_checks s ! i = None
      then s\<lparr> ss_checks := (ss_checks s)[i := Some outcome] \<rparr> else s)"

definition effectResumes :: "session \<Rightarrow> nat \<Rightarrow> session" where
  "effectResumes s k =
     (if k \<ge> length (ss_effectWaits s) then s
      else
        let (check, gen) = ss_effectWaits s ! k;
            s1 = s\<lparr> ss_effectWaits := without k (ss_effectWaits s) \<rparr>
        in case settled_check s check of
             None \<Rightarrow> s
           | Some Rejected \<Rightarrow> s1
           | Some (Fulfilled result) \<Rightarrow>
               if gen \<noteq> ss_initGeneration s1 then s1
               else case result of
                 Adopted d \<Rightarrow> adoptCloud s1 d
               | NoNewerCloud \<Rightarrow>
                   (case ss_playerRef s1 of
                      Some p \<Rightarrow> if ss_provisional s1 then issue (s1\<lparr> ss_provisional := False \<rparr>) (SavePlayer p) else s1
                    | None \<Rightarrow> s1)
               | Unavailable \<Rightarrow> s1)"

section \<open>Choosing a class\<close>

definition handleArchetypeSelected :: "session \<Rightarrow> archetype \<Rightarrow> session" where
  "handleArchetypeSelected s a =
     (let gen = ss_initGeneration s;
          s1 = (if ss_cloudCheck s = None
                then s\<lparr> ss_reconciledGeneration := Some gen, ss_checks := ss_checks s @ [None],
                        ss_cloudCheck := Some (length (ss_checks s)) \<rparr>
                else s)
      in s1\<lparr> ss_selections := ss_selections s1 @
               [\<lparr> sl_gen = gen, sl_archetype = a, sl_wait = AwaitCheck (the (ss_cloudCheck s1)) \<rparr>] \<rparr>)"

definition check_result :: "check_outcome \<Rightarrow> reconcile_result" where
  "check_result c = (case c of Fulfilled r \<Rightarrow> r | Rejected \<Rightarrow> Unavailable)"

definition suspendSelection :: "session \<Rightarrow> selection \<Rightarrow> selection_wait \<Rightarrow> session" where
  "suspendSelection s f w = s\<lparr> ss_selections := ss_selections s @ [f\<lparr> sl_wait := w \<rparr>] \<rparr>"

definition createCharacter :: "session \<Rightarrow> selection \<Rightarrow> reconcile_result \<Rightarrow> session" where
  "createCharacter s f result =
     (let newPlayer = new_Player (no_params\<lparr> q_archetype := Some (sl_archetype f) \<rparr>);
          s1 = s\<lparr> ss_playerRef := Some newPlayer, ss_provisional := (result = Unavailable) \<rparr>;
          s2 = (if result = Unavailable then issue s1 (WriteLocal (p_toJSON newPlayer) 0)
                else issue s1 (SavePlayer newPlayer))
      in suspendSelection s2 f AwaitWrite)"

definition decideSelection :: "session \<Rightarrow> selection \<Rightarrow> reconcile_result \<Rightarrow> session" where
  "decideSelection s f result =
     (case (result, ss_playerRef s) of
        (Adopted d, None) \<Rightarrow> adoptCloud s d
      | (Adopted d, Some _) \<Rightarrow> s
      | (_, Some _) \<Rightarrow> s
      | (_, None) \<Rightarrow> createCharacter s f result)"

text \<open>The head of the retry loop with counter \<open>i\<close>.\<close>

definition retryOrDecide :: "session \<Rightarrow> selection \<Rightarrow> nat \<Rightarrow> reconcile_result \<Rightarrow> session" where
  "retryOrDecide s f i result =
     (if i < ARCHETYPE_CLOUD_RETRIES \<and> result = Unavailable then suspendSelection s f (AwaitDelay i)
      else decideSelection s f result)"

definition selectionResumes :: "session \<Rightarrow> nat \<Rightarrow> session" where
  "selectionResumes s k =
     (if k \<ge> length (ss_selections s) then s
      else
        let f = ss_selections s ! k;
            s1 = s\<lparr> ss_selections := without k (ss_selections s) \<rparr>;
            stale = (sl_gen f \<noteq> ss_initGeneration s)
        in case sl_wait f of
             AwaitCheck c \<Rightarrow>
               (case settled_check s c of
                  None \<Rightarrow> s
                | Some out \<Rightarrow> if stale then s1 else retryOrDecide s1 f 0 (check_result out))
           | AwaitDelay i \<Rightarrow>
               if stale then s1
               else suspendSelection (s1\<lparr> ss_checks := ss_checks s1 @ [None] \<rparr>) f
                      (AwaitRetry i (length (ss_checks s1)))
           | AwaitRetry i c \<Rightarrow>
               (case settled_check s c of
                  None \<Rightarrow> s
                | Some out \<Rightarrow> if stale then s1 else retryOrDecide s1 f (Suc i) (check_result out))
           | AwaitWrite \<Rightarrow> commitWhenActive s1 ShowCreatedPlayer)"

section \<open>The machine\<close>

text \<open>\<open>GameSave\<close> is a save by a handler of the game; each of them starts from the live player.\<close>

datatype session_event =
  Initialize
| LoadResumes nat "(player_data option \<times> int) option"
| ClearPlayer
| ReconcileEffect
| CheckSettles nat check_outcome
| EffectResumes nat
| SelectArchetype archetype
| SelectionResumes nat
| ZeroTimeout
| AppStateChange bool
| GameSave player

fun session_step :: "session \<Rightarrow> session_event \<Rightarrow> session" where
  "session_step s Initialize = initializePlayer s"
| "session_step s (LoadResumes k r) = loadResumes s k r"
| "session_step s ClearPlayer = clearPlayer s"
| "session_step s ReconcileEffect = reconcileEffect s"
| "session_step s (CheckSettles i c) = checkSettles s i c"
| "session_step s (EffectResumes k) = effectResumes s k"
| "session_step s (SelectArchetype a) = (if ss_needsArchetypeSelection s then handleArchetypeSelected s a else s)"
| "session_step s (SelectionResumes k) = selectionResumes s k"
| "session_step s ZeroTimeout = zeroTimeout s"
| "session_step s (AppStateChange b) = appStateChange s b"
| "session_step s (GameSave p) = (if ss_playerRef s = None then s else sessionSave s p)"

section \<open>Lemmas: an unreachable cloud\<close>

lemmas session_defs = initializePlayer_def clearPlayer_def commitWhenActive_def issue_def
  sessionSave_def adoptCloud_def suspendSelection_def createCharacter_def Let_def

lemma set_without: "set (without k xs) \<subseteq> set xs"
  by (auto simp: without_def dest: in_set_takeD in_set_dropD)

lemma settled_check_in: "settled_check s i = Some c \<Longrightarrow> Some c \<in> set (ss_checks s)"
  by (auto simp: settled_check_def in_set_conv_nth split: if_splits)

text \<open>
  The live character exists on the device only: nothing was handed to the cloud, every local write
  carries the time zero, and no check reached the cloud.
\<close>

definition unconfirmed :: "session \<Rightarrow> bool" where
  "unconfirmed s \<longleftrightarrow> (ss_playerRef s \<noteq> None \<longrightarrow> ss_provisional s) \<and>
     (\<forall>w \<in> set (ss_writes s). \<exists>d. w = WriteLocal d 0) \<and>
     (\<forall>c. Some c \<in> set (ss_checks s) \<longrightarrow> check_result c = Unavailable)"

text \<open>
  The cloud is not reached, no load finds a save that had been confirmed, and a load does not find
  the store empty while a character is live.
\<close>

definition offline :: "session \<Rightarrow> session_event \<Rightarrow> bool" where
  "offline s e \<longleftrightarrow>
     (case e of
        CheckSettles _ c \<Rightarrow> check_result c = Unavailable
      | LoadResumes _ (Some (Some _, t)) \<Rightarrow> t = 0
      | LoadResumes _ (Some (None, _)) \<Rightarrow> ss_playerRef s = None
      | _ \<Rightarrow> True)"

lemma unconfirmed_paint: "unconfirmed s \<Longrightarrow> unconfirmed (paintPlayer s)"
  by (auto simp: unconfirmed_def paintPlayer_def split: option.splits)

lemma unconfirmed_commit:
  assumes "unconfirmed s" shows "unconfirmed (runCommit s c)"
proof -
  have "unconfirmed (s\<lparr> ss_pendingCommit := None \<rparr>)" using assms by (simp add: unconfirmed_def)
  then show ?thesis
    by (auto simp: runCommit_def Let_def unconfirmed_paint split: commit.splits) (simp add: unconfirmed_def)
qed

lemma unconfirmed_app_state:
  assumes "unconfirmed s" shows "unconfirmed (appStateChange s b)"
proof -
  have "unconfirmed (s\<lparr> ss_appActive := b \<rparr>)" using assms by (simp add: unconfirmed_def)
  moreover from unconfirmed_paint[OF this]
  have "unconfirmed ((paintPlayer (s\<lparr> ss_appActive := b \<rparr>))\<lparr> ss_repaintToken := n \<rparr>)" for n
    by (simp add: unconfirmed_def)
  ultimately show ?thesis
    by (auto simp: appStateChange_def Let_def unconfirmed_commit split: option.splits)
qed

lemma unconfirmed_timeout: "unconfirmed s \<Longrightarrow> unconfirmed (zeroTimeout s)"
  by (auto simp: zeroTimeout_def unconfirmed_commit split: option.splits bool.splits)
    (simp add: unconfirmed_def)

lemma unconfirmed_load:
  assumes "unconfirmed s" and "offline s (LoadResumes k r)" shows "unconfirmed (loadResumes s k r)"
  using assms
  by (auto simp: unconfirmed_def offline_def loadResumes_def commitWhenActive_def Let_def
      split: option.splits prod.splits)

lemma unconfirmed_effect:
  assumes "unconfirmed s" shows "unconfirmed (effectResumes s k)"
proof (cases "k < length (ss_effectWaits s)")
  case True
  obtain check gen where w: "ss_effectWaits s ! k = (check, gen)" by force
  have drop_wait: "unconfirmed (s\<lparr> ss_effectWaits := ws \<rparr>)" for ws using assms by (simp add: unconfirmed_def)
  show ?thesis
  proof (cases "settled_check s check")
    case (Some c)
    then have "check_result c = Unavailable" using assms settled_check_in by (auto simp: unconfirmed_def)
    then show ?thesis using True w Some drop_wait
      by (cases c) (simp_all add: effectResumes_def check_result_def Let_def)
  qed (use True w assms in \<open>simp add: effectResumes_def\<close>)
qed (simp add: effectResumes_def assms)

lemma unconfirmed_selection_frame: "unconfirmed s \<Longrightarrow> unconfirmed (suspendSelection s f w)"
  by (simp add: unconfirmed_def suspendSelection_def)

lemma unconfirmed_decide:
  assumes "unconfirmed s" shows "unconfirmed (retryOrDecide s f i Unavailable)"
  using assms
  by (auto simp: retryOrDecide_def unconfirmed_selection_frame decideSelection_def split: option.splits)
    (auto simp: unconfirmed_def session_defs)

lemma unconfirmed_selection:
  assumes "unconfirmed s" shows "unconfirmed (selectionResumes s k)"
proof (cases "k < length (ss_selections s)")
  case True
  let ?f = "ss_selections s ! k"
  have drop_frame: "unconfirmed (s\<lparr> ss_selections := fs \<rparr>)" for fs using assms by (simp add: unconfirmed_def)
  have out: "check_result c = Unavailable" if "settled_check s i = Some c" for i c
    using assms that settled_check_in by (auto simp: unconfirmed_def)
  have more: "unconfirmed (s\<lparr> ss_selections := fs, ss_checks := ss_checks s @ [None] \<rparr>)" for fs
    using assms by (simp add: unconfirmed_def)
  show ?thesis
  proof (cases "sl_wait ?f")
    case (AwaitCheck c)
    then show ?thesis using True assms drop_frame out[of c]
      by (auto simp: selectionResumes_def Let_def unconfirmed_decide split: option.splits)
  next
    case (AwaitRetry i c)
    then show ?thesis using True assms drop_frame out[of c]
      by (auto simp: selectionResumes_def Let_def unconfirmed_decide split: option.splits)
  next
    case (AwaitDelay i)
    then show ?thesis using True drop_frame more
      by (simp add: selectionResumes_def Let_def unconfirmed_selection_frame)
  next
    case AwaitWrite
    then show ?thesis using True assms by (simp add: selectionResumes_def Let_def commitWhenActive_def unconfirmed_def)
  qed
qed (simp add: selectionResumes_def assms)

lemma unconfirmed_step:
  assumes "unconfirmed s" and "offline s e" shows "unconfirmed (session_step s e)"
proof (cases e)
  case (CheckSettles i c)
  then show ?thesis using assms set_update_subset_insert[of "ss_checks s" i "Some c"]
    by (auto simp: checkSettles_def unconfirmed_def offline_def)
qed (use assms in \<open>simp_all add: unconfirmed_load unconfirmed_effect unconfirmed_selection
  unconfirmed_timeout unconfirmed_app_state\<close>,
  auto simp: unconfirmed_def session_defs reconcileEffect_def handleArchetypeSelected_def)

interpretation offline_session: guarded_machine session_step unconfirmed offline
  by unfold_locales (rule unconfirmed_step)

text \<open>
  The writes reach the device and the cloud service in order, each at its own time; a shorter list
  of times performs the first ones only.
\<close>

definition performWrite :: "'s async_storage \<Rightarrow> string option \<Rightarrow> 's \<times> cloud \<Rightarrow> session_write \<times> int \<Rightarrow> 's \<times> cloud" where
  "performWrite io user sc wt =
     (case fst wt of
        SavePlayer p \<Rightarrow>
          let ((ok, s'), up) = savePlayerData io (fst sc) p (snd wt)
          in (s', case up of None \<Rightarrow> snd sc | Some (d, t) \<Rightarrow> cloudSavePlayerData (snd sc) user d t)
      | WriteLocal d t \<Rightarrow> (snd (writeLocalPlayerSnapshot io (fst sc) d t), snd sc))"

definition performWrites ::
  "'s async_storage \<Rightarrow> string option \<Rightarrow> 's \<times> cloud \<Rightarrow> session_write list \<Rightarrow> int list \<Rightarrow> 's \<times> cloud" where
  "performWrites io user sc ws ts = foldl (performWrite io user) sc (zip ws ts)"

context device_storage
begin

lemma provisional_writes:
  assumes "\<forall>w \<in> set ws. \<exists>d. w = WriteLocal d 0" and "local_time (peek (fst sc)) = 0"
  shows "local_time (peek (fst (performWrites io user sc ws ts))) = 0"
    and "snd (performWrites io user sc ws ts) = snd sc"
proof -
  have "local_time (peek (fst (performWrites io user sc ws ts))) = 0 \<and> snd (performWrites io user sc ws ts) = snd sc"
    using assms
  proof (induction ws arbitrary: sc ts)
    case (Cons w ws)
    then obtain d where w: "w = WriteLocal d 0" by auto
    have "local_time (peek (snd (writeLocalPlayerSnapshot io (fst sc) d 0))) = 0"
      using Cons.prems(2) by (auto simp: writeLocalPlayerSnapshot_def multiSet local_time_def local_save_def stored_time_def)
    then show ?case using Cons.IH[of "performWrite io user sc (w, hd ts)" "tl ts"] Cons.prems
      by (cases ts) (simp_all add: performWrites_def performWrite_def w)
  qed (simp add: performWrites_def)
  then show "local_time (peek (fst (performWrites io user sc ws ts))) = 0"
    and "snd (performWrites io user sc ws ts) = snd sc" by simp_all
qed

lemma newer_cloud_adopted:
  assumes "io_multiGet io s [PLAYER_DATA, PLAYER_SAVED_AT] = Some vs" and "local_time (peek s) < t" and "1 \<le> d_level d"
  shows "fst (reconcileCloudPlayerData io s (CloudFound (JPlayer d) t)) = Adopted d"
proof -
  have "snd (fst (readLocalPlayerSnapshot io s)) = local_time (peek s)"
    using read_snapshot(1)[OF assms(1)] by (auto simp: local_time_def split: option.splits)
  then show ?thesis using assms(2,3) by (simp add: reconcileCloudPlayerData_def isValidPlayerData_def split_beta)
qed

end

section \<open>Lemmas: switching accounts\<close>

text \<open>
  No frame is newer than the current generation; after a switch every frame is older, no screen is
  painted, and the only commit that can be armed shows a player there is none of.
\<close>

definition generations_ok :: "session \<Rightarrow> bool" where
  "generations_ok s \<longleftrightarrow> (\<forall>g \<in> set (ss_loads s). g \<le> ss_initGeneration s) \<and>
     (\<forall>(c, g) \<in> set (ss_effectWaits s). g \<le> ss_initGeneration s) \<and>
     (\<forall>f \<in> set (ss_selections s). sl_gen f \<le> ss_initGeneration s)"

definition departed :: "session \<Rightarrow> bool" where
  "departed s \<longleftrightarrow> ss_playerRef s = None \<and> ss_player s = None \<and> \<not> ss_needsArchetypeSelection s \<and>
     ss_pendingCommit s \<in> {None, Some (ShowCreatedPlayer, True), Some (ShowCreatedPlayer, False)} \<and>
     (\<forall>g \<in> set (ss_loads s). g < ss_initGeneration s) \<and>
     (\<forall>(c, g) \<in> set (ss_effectWaits s). g < ss_initGeneration s) \<and>
     (\<forall>f \<in> set (ss_selections s). sl_gen f < ss_initGeneration s)"

lemma departed_clear: "generations_ok s \<Longrightarrow> departed (clearPlayer s)"
  by (auto simp: generations_ok_def departed_def clearPlayer_def less_Suc_eq_le)

lemma in_without: "x \<in> set (without k xs) \<Longrightarrow> x \<in> set xs"
  using set_without by fast

lemma no_player_paint:
  assumes "ss_playerRef s = None"
  shows "paintPlayer s = s" and "runCommit s ShowCreatedPlayer = s\<lparr> ss_pendingCommit := None \<rparr>"
  using assms by (simp_all add: paintPlayer_def runCommit_def Let_def)

lemma departed_step:
  assumes "departed s" and "e \<noteq> Initialize"
  shows "departed (session_step s e)" and "ss_writes (session_step s e) = ss_writes s"
proof -
  have "departed (session_step s e) \<and> ss_writes (session_step s e) = ss_writes s"
  proof (cases e)
    case (LoadResumes k r)
    have "ss_loads s ! k \<noteq> ss_initGeneration s" if "k < length (ss_loads s)"
      using assms(1) nth_mem[OF that] by (auto simp: departed_def)
    then show ?thesis using assms(1) LoadResumes
      by (auto simp: loadResumes_def Let_def departed_def dest: in_without)
  next
    case (EffectResumes k)
    have "snd (ss_effectWaits s ! k) \<noteq> ss_initGeneration s" if "k < length (ss_effectWaits s)"
      using assms(1) nth_mem[OF that] by (auto simp: departed_def)
    then show ?thesis using assms(1) EffectResumes
      by (auto simp: effectResumes_def Let_def departed_def split_beta dest: in_without
          split: option.splits check_outcome.splits)
  next
    case (SelectionResumes k)
    have "sl_gen (ss_selections s ! k) \<noteq> ss_initGeneration s" if "k < length (ss_selections s)"
      using assms(1) nth_mem[OF that] by (auto simp: departed_def)
    then show ?thesis using assms(1) SelectionResumes
      by (auto simp: selectionResumes_def Let_def departed_def commitWhenActive_def dest: in_without
          split: option.splits selection_wait.splits)
  next
    case ZeroTimeout
    consider "ss_pendingCommit s = None" | "ss_pendingCommit s = Some (ShowCreatedPlayer, True)"
      | "ss_pendingCommit s = Some (ShowCreatedPlayer, False)" using assms(1) by (auto simp: departed_def)
    then show ?thesis using assms(1) ZeroTimeout
      by cases (simp_all add: zeroTimeout_def no_player_paint departed_def)
  next
    case (AppStateChange b)
    consider "ss_pendingCommit s = None" | x where "ss_pendingCommit s = Some (ShowCreatedPlayer, x)"
      using assms(1) by (auto simp: departed_def)
    then show ?thesis using assms(1) AppStateChange
      by cases (simp_all add: appStateChange_def no_player_paint departed_def Let_def)
  next
    case ClearPlayer
    then show ?thesis using assms(1)
      by (fastforce simp: departed_def clearPlayer_def)
  qed (use assms in \<open>auto simp: departed_def reconcileEffect_def checkSettles_def\<close>)
  then show "departed (session_step s e)" and "ss_writes (session_step s e) = ss_writes s" by auto
qed

lemma departed_run:
  assumes "departed s" and "Initialize \<notin> set es"
  shows "departed (foldl session_step s es) \<and> ss_writes (foldl session_step s es) = ss_writes s"
  using assms
proof (induction es arbitrary: s)
  case (Cons e es)
  then have "e \<noteq> Initialize" by auto
  with Cons departed_step[of s e] show ?case by simp
qed simp

lemma generations_frame:
  assumes "ss_loads s' = ss_loads s" and "ss_effectWaits s' = ss_effectWaits s"
    and "ss_selections s' = ss_selections s" and "ss_initGeneration s' = ss_initGeneration s"
  shows "generations_ok s' = generations_ok s"
  using assms by (simp add: generations_ok_def)

lemma generations_paint [simp]: "generations_ok (paintPlayer s) = generations_ok s"
  by (rule generations_frame) (simp_all add: paintPlayer_def split: option.splits)

lemma generations_commit [simp]: "generations_ok (runCommit s c) = generations_ok s"
  by (rule generations_frame) (simp_all add: runCommit_def paintPlayer_def Let_def split: commit.splits option.splits)

lemma generations_adopt [simp]: "generations_ok (adoptCloud s d) = generations_ok s"
  by (rule generations_frame) (simp_all add: adoptCloud_def)

lemma generations_decide:
  assumes "generations_ok s" and "sl_gen f \<le> ss_initGeneration s"
  shows "generations_ok (retryOrDecide s f i r)"
  using assms
  by (cases r; cases "ss_playerRef s")
    (auto simp: retryOrDecide_def decideSelection_def session_defs generations_ok_def)

lemma generations_selection:
  assumes "generations_ok s" shows "generations_ok (selectionResumes s k)"
proof (cases "k < length (ss_selections s)")
  case True
  let ?f = "ss_selections s ! k"
  have f: "sl_gen ?f \<le> ss_initGeneration s" using assms nth_mem[OF True] by (auto simp: generations_ok_def)
  have drop_frame: "generations_ok (s\<lparr> ss_selections := without k (ss_selections s) \<rparr>)"
    using assms by (auto simp: generations_ok_def dest: in_without)
  show ?thesis
  proof (cases "sl_wait ?f")
    case (AwaitDelay i)
    then show ?thesis using True drop_frame f
      by (auto simp: selectionResumes_def Let_def suspendSelection_def generations_ok_def)
  next
    case AwaitWrite
    then show ?thesis using True drop_frame
      by (simp add: selectionResumes_def Let_def commitWhenActive_def generations_ok_def)
  qed (use True assms drop_frame f in
    \<open>auto simp: selectionResumes_def Let_def generations_decide split: option.splits\<close>)
qed (simp add: selectionResumes_def assms)

lemma generations_step:
  assumes "generations_ok s" shows "generations_ok (session_step s e)"
proof (cases e)
  case (EffectResumes k)
  have "generations_ok (s\<lparr> ss_effectWaits := without k (ss_effectWaits s) \<rparr>)"
    using assms by (auto simp: generations_ok_def dest: in_without)
  then show ?thesis using assms EffectResumes
    by (auto simp: effectResumes_def Let_def split_beta split: option.splits check_outcome.splits reconcile_result.splits)
      (simp add: issue_def generations_ok_def)
next
  case (LoadResumes k r)
  then show ?thesis using assms
    by (auto simp: loadResumes_def commitWhenActive_def Let_def generations_ok_def dest: in_without
        split: option.splits)
next
  case ZeroTimeout
  then show ?thesis using assms
    by (auto simp: zeroTimeout_def split: option.splits bool.splits) (simp add: generations_ok_def)
next
  case (AppStateChange b)
  have "generations_ok (s\<lparr> ss_appActive := b \<rparr>)" using assms by (simp add: generations_ok_def)
  moreover have "generations_ok ((paintPlayer (s\<lparr> ss_appActive := b \<rparr>))\<lparr> ss_repaintToken := n \<rparr>) =
    generations_ok (paintPlayer (s\<lparr> ss_appActive := b \<rparr>))" for n by (rule generations_frame) simp_all
  ultimately show ?thesis using AppStateChange by (auto simp: appStateChange_def Let_def split: option.splits)
qed (use assms in \<open>auto simp: generations_selection\<close>,
  auto simp: generations_ok_def session_defs reconcileEffect_def checkSettles_def handleArchetypeSelected_def)

interpretation session_machine: step_machine session_step generations_ok "\<lambda>_. True"
  by unfold_locales (rule generations_step)

lemma reachable_generations: "generations_ok (foldl session_step session_init es)"
  by (rule session_machine.run_inv) (simp_all add: generations_ok_def session_init_def list_all_iff)

section \<open>Lemmas: the first paint\<close>

text \<open>
  The current load has answered: the player is live or not, and what is to be shown is armed or
  already painted.
\<close>

definition shown :: "session \<Rightarrow> player option \<Rightarrow> bool" where
  "shown s p \<longleftrightarrow> (case p of None \<Rightarrow> ss_needsArchetypeSelection s | Some q \<Rightarrow> ss_player s = Some q \<and> \<not> ss_needsArchetypeSelection s)"

definition answered :: "session \<Rightarrow> player option \<Rightarrow> bool" where
  "answered s p \<longleftrightarrow> ss_playerRef s = p \<and>
     (case p of
        None \<Rightarrow> (case ss_pendingCommit s of
                   None \<Rightarrow> ss_needsArchetypeSelection s
                 | Some (c, _) \<Rightarrow> c = ShowArchetypeSelection (ss_initGeneration s))
      | Some q \<Rightarrow> (case ss_pendingCommit s of
                     None \<Rightarrow> True
                   | Some (c, _) \<Rightarrow> c = ShowLoadedPlayer (ss_initGeneration s)))"

definition loaded_player :: "(player_data option \<times> int) option \<Rightarrow> player option" where
  "loaded_player r = (case r of Some (Some d, _) \<Rightarrow> Some (p_fromJSON d) | _ \<Rightarrow> None)"

text \<open>Events that neither start nor end a session.\<close>

definition waiting_event :: "session_event \<Rightarrow> bool" where
  "waiting_event e \<longleftrightarrow> (case e of ZeroTimeout \<Rightarrow> True | CheckSettles _ _ \<Rightarrow> True | ReconcileEffect \<Rightarrow> True
     | AppStateChange _ \<Rightarrow> True | _ \<Rightarrow> False)"

lemma load_answers:
  assumes "k < length (ss_loads s)" and "ss_loads s ! k = ss_initGeneration s" and "ss_playerRef s = None"
  shows "answered (loadResumes s k r) (loaded_player r)"
  using assms
  by (auto simp: loadResumes_def commitWhenActive_def Let_def answered_def loaded_player_def
      split: option.splits)

lemma answered_waits:
  assumes "answered s p" and "waiting_event e" shows "answered (session_step s e) p"
  using assms
  by (cases e; cases p; cases "ss_pendingCommit s")
    (auto simp: waiting_event_def answered_def zeroTimeout_def appStateChange_def runCommit_def
      paintPlayer_def checkSettles_def reconcileEffect_def Let_def split: bool.splits)

lemma answered_active:
  assumes "answered s p" shows "shown (session_step s (AppStateChange True)) p"
  using assms
  by (cases p; cases "ss_pendingCommit s")
    (auto simp: answered_def shown_def appStateChange_def runCommit_def paintPlayer_def Let_def)

lemma first_paint_run:
  assumes "answered s p" and "list_all waiting_event es"
  shows "shown (foldl session_step s (es @ [AppStateChange True])) p"
proof -
  have "answered (foldl session_step s es) p"
    using assms by (induction es arbitrary: s) (auto simp: answered_waits)
  then show ?thesis using answered_active by simp
qed

section \<open>Two races\<close>

lemmas session_run_simps = session_init_def initializePlayer_def loadResumes_def commitWhenActive_def
  zeroTimeout_def runCommit_def handleArchetypeSelected_def checkSettles_def selectionResumes_def
  settled_check_def retryOrDecide_def decideSelection_def check_result_def createCharacter_def
  suspendSelection_def issue_def clearPlayer_def without_def paintPlayer_def sessionSave_def
  ARCHETYPE_CLOUD_RETRIES_def Let_def

text \<open>
  A selection that waits for its write while the account is switched arms its commit without
  looking at the generation, and cancels the one that was to show the new account's first screen:
  the session is then as if no load had been started.
\<close>

lemma stale_selection_strands:
  "departed (foldl session_step session_init
     [Initialize, LoadResumes 0 (Some (None, 0)), ZeroTimeout, SelectArchetype a,
      CheckSettles 0 (Fulfilled NoNewerCloud), SelectionResumes 0, ClearPlayer, Initialize,
      LoadResumes 0 (Some (None, 0)), SelectionResumes 0, ZeroTimeout])"
  by (simp add: session_run_simps departed_def)

text \<open>
  A second load that finds no local save while a provisional character is live drops the
  provisional mark but keeps the character, so its next save goes to the cloud although no check
  ever reached it.
\<close>

lemma provisional_mark_lost:
  "SavePlayer p \<in> set (ss_writes (foldl session_step session_init
     [Initialize, LoadResumes 0 (Some (None, 0)), ZeroTimeout, SelectArchetype a,
      CheckSettles 0 (Fulfilled Unavailable), SelectionResumes 0,
      SelectionResumes 0, CheckSettles 1 (Fulfilled Unavailable), SelectionResumes 0,
      SelectionResumes 0, CheckSettles 2 (Fulfilled Unavailable), SelectionResumes 0,
      SelectionResumes 0, Initialize, LoadResumes 0 (Some (None, 0)), GameSave p]))"
  by (simp add: session_run_simps)

end
