(* ===== verification/AuthFlow.thy ===== *)
theory AuthFlow
  imports PlayerSession EncounterHook
begin

text \<open>
  Accounts (\<open>hooks/useAuth.ts\<close>, \<open>services/AuthService.ts\<close>). The authentication packages are outside
  the repository: what they answer to each call is an argument of the function that calls them. The
  world below joins the hook's own state with the parts it drives: the store of the device, the
  cloud, the player session and the encounter controller, with the two callbacks that the home
  screen passes. A handler is one step; the callback of the auth package is a step of its own.
  Alerts are listed by their titles.
\<close>

section \<open>State\<close>

record auth_user =
  au_uid :: string
  au_displayName :: "string option"
  au_email :: "string option"
  au_isAnonymous :: bool
  au_photoURL :: "string option"

record 's auth_world =
  aw_authUser :: "auth_user option"
  aw_authLoading :: bool
  aw_conflictState :: "pending_conflict option"
  aw_prevUid :: "string option"
  aw_lastNonAnonUid :: "string option"
  aw_conflictResolutionPending :: bool
  aw_conflictResolving :: bool
  aw_pendingBelatedSignIn :: bool
  aw_currentUser :: "auth_user option"
  aw_store :: 's
  aw_cloud :: cloud_world
  aw_session :: session
  aw_hook :: hook
  aw_alerts :: "string list"

definition onAccountSwitch :: "'s auth_world \<Rightarrow> 's auth_world" where
  "onAccountSwitch w =
     w\<lparr> aw_session := clearPlayer (aw_session w),
        aw_hook := (clearEncounter (aw_hook w))\<lparr> h_player := None \<rparr> \<rparr>"

definition onAccountChange :: "'s auth_world \<Rightarrow> 's auth_world" where
  "onAccountChange w = w\<lparr> aw_session := initializePlayer (aw_session w) \<rparr>"

definition alert :: "'s auth_world \<Rightarrow> string \<Rightarrow> 's auth_world" where
  "alert w title = w\<lparr> aw_alerts := aw_alerts w @ [title] \<rparr>"

text \<open>The auth package changes the current user; the cloud sees its identifier.\<close>

definition become :: "'s auth_world \<Rightarrow> auth_user option \<Rightarrow> 's auth_world" where
  "become w u =
     w\<lparr> aw_currentUser := u, aw_cloud := (aw_cloud w)\<lparr> cn_user := map_option au_uid u \<rparr> \<rparr>"

section \<open>The service\<close>

datatype auth_error = AccountConflictError string | AuthError string

text \<open>\<open>signInAnonymously\<close>: the user it yields, or nothing if it fails or is too slow.\<close>

definition auth_initialize :: "'s auth_world \<Rightarrow> auth_user option \<Rightarrow> 's auth_world" where
  "auth_initialize w anonymous =
     (case aw_currentUser w of
        Some _ \<Rightarrow> w
      | None \<Rightarrow> (case anonymous of None \<Rightarrow> w | Some u \<Rightarrow> become w (Some u)))"

datatype link_answer = Linked | AlreadyInUse | LinkFailed string

text \<open>
  Linking keeps the user's identifier and ends the anonymous state. \<open>signIn\<close> is the account the
  credential belongs to, or nothing if the sign-in is rejected.
\<close>

definition linkOrSignIn ::
  "'s auth_world \<Rightarrow> string \<Rightarrow> link_answer \<Rightarrow> auth_user option \<Rightarrow> auth_error option \<times> 's auth_world" where
  "linkOrSignIn w credential link signIn =
     (case aw_currentUser w of
        Some u \<Rightarrow>
          if au_isAnonymous u then
            (case link of
               Linked \<Rightarrow> (None, become w (Some (u\<lparr> au_isAnonymous := False \<rparr>)))
             | AlreadyInUse \<Rightarrow> (Some (AccountConflictError credential), w)
             | LinkFailed m \<Rightarrow> (Some (AuthError m), w))
          else (case signIn of None \<Rightarrow> (Some (AuthError ''sign-in failed''), w) | Some v \<Rightarrow> (None, become w (Some v)))
      | None \<Rightarrow>
          (case signIn of None \<Rightarrow> (Some (AuthError ''sign-in failed''), w) | Some v \<Rightarrow> (None, become w (Some v))))"

text \<open>What the provider's dialog comes to.\<close>

datatype provider_answer = Cancelled | ProviderFailed string | Token "string option"

definition signInWithGoogle ::
  "'s auth_world \<Rightarrow> provider_answer \<Rightarrow> link_answer \<Rightarrow> auth_user option \<Rightarrow> auth_error option \<times> 's auth_world" where
  "signInWithGoogle w answer link signIn =
     (case answer of
        Cancelled \<Rightarrow> (None, w)
      | ProviderFailed m \<Rightarrow> (Some (AuthError m), w)
      | Token None \<Rightarrow> (Some (AuthError ''Google Sign-In failed: no ID token returned''), w)
      | Token (Some t) \<Rightarrow> linkOrSignIn w t link signIn)"

text \<open>Cancelling the dialog of the other provider is an exception.\<close>

definition signInWithApple ::
  "bool \<Rightarrow> 's auth_world \<Rightarrow> provider_answer \<Rightarrow> link_answer \<Rightarrow> auth_user option \<Rightarrow> auth_error option \<times> 's auth_world" where
  "signInWithApple isIos w answer link signIn =
     (if \<not> isIos then (None, w)
      else case answer of
        Cancelled \<Rightarrow> (Some (AuthError ''cancelled''), w)
      | ProviderFailed m \<Rightarrow> (Some (AuthError m), w)
      | Token None \<Rightarrow> (Some (AuthError ''Apple Sign-In failed: no identity token returned''), w)
      | Token (Some t) \<Rightarrow> linkOrSignIn w t link signIn)"

text \<open>\<open>signedOut\<close>: whether the package accepts; \<open>anonymous\<close>: the new anonymous user, if any.\<close>

definition auth_signOut :: "'s auth_world \<Rightarrow> bool \<Rightarrow> auth_user option \<Rightarrow> auth_error option \<times> 's auth_world" where
  "auth_signOut w signedOut anonymous =
     (if \<not> signedOut then (Some (AuthError ''sign-out failed''), w)
      else (None, become (become w None) anonymous))"

datatype delete_answer = Deleted | RequiresRecentLogin | DeleteFailed string

text \<open>The provider of the account, the platform, the answer of the dialog, and whether it was accepted.\<close>

record reauth_answers =
  ra_providerId :: "string option"
  ra_isIos :: bool
  ra_dialog :: provider_answer
  ra_accepted :: bool

definition reauthenticate :: "'s auth_world \<Rightarrow> reauth_answers \<Rightarrow> auth_error option" where
  "reauthenticate w a =
     (if aw_currentUser w = None then Some (AuthError ''No user to re-authenticate'')
      else if ra_providerId a = Some ''google.com'' then
        (case ra_dialog a of
           Cancelled \<Rightarrow> Some (AuthError ''Re-authentication cancelled'')
         | ProviderFailed m \<Rightarrow> Some (AuthError m)
         | Token None \<Rightarrow> Some (AuthError ''Re-authentication failed: no ID token returned'')
         | Token (Some _) \<Rightarrow> if ra_accepted a then None else Some (AuthError ''rejected''))
      else if ra_providerId a = Some ''apple.com'' then
        if \<not> ra_isIos a then Some (AuthError ''Apple re-authentication is only available on iOS'')
        else (case ra_dialog a of
           Cancelled \<Rightarrow> Some (AuthError ''cancelled'')
         | ProviderFailed m \<Rightarrow> Some (AuthError m)
         | Token None \<Rightarrow> Some (AuthError ''Re-authentication failed: no identity token returned'')
         | Token (Some _) \<Rightarrow> if ra_accepted a then None else Some (AuthError ''rejected''))
      else Some (AuthError (''Cannot re-authenticate unsupported provider: '' @
             (case ra_providerId a of None \<Rightarrow> ''unknown'' | Some i \<Rightarrow> i))))"

text \<open>\<open>first\<close> and \<open>second\<close> are the answers to the two attempts.\<close>

definition deleteAccount ::
  "'s auth_world \<Rightarrow> delete_answer \<Rightarrow> reauth_answers \<Rightarrow> delete_answer \<Rightarrow> auth_error option \<times> 's auth_world" where
  "deleteAccount w first reauth second =
     (case aw_currentUser w of
        None \<Rightarrow> (Some (AuthError ''No account is signed in to delete.''), w)
      | Some u \<Rightarrow>
          (case first of
             Deleted \<Rightarrow> (None, become w None)
           | RequiresRecentLogin \<Rightarrow>
               if au_isAnonymous u then (Some (AuthError ''auth/requires-recent-login''), w)
               else (case reauthenticate w reauth of
                       Some err \<Rightarrow> (Some err, w)
                     | None \<Rightarrow>
                         (case second of
                            Deleted \<Rightarrow> (None, become w None)
                          | RequiresRecentLogin \<Rightarrow> (Some (AuthError ''auth/requires-recent-login''), w)
                          | DeleteFailed m \<Rightarrow> (Some (AuthError m), w)))
           | DeleteFailed m \<Rightarrow> (Some (AuthError m), w)))"

section \<open>The auth-state callback\<close>

definition noteNonAnonymous :: "'s auth_world \<Rightarrow> auth_user option \<Rightarrow> 's auth_world" where
  "noteNonAnonymous w user =
     (case user of
        Some u \<Rightarrow> if au_isAnonymous u then w else w\<lparr> aw_lastNonAnonUid := Some (au_uid u) \<rparr>
      | None \<Rightarrow> w)"

definition authStateChanged :: "'s async_storage \<Rightarrow> 's auth_world \<Rightarrow> auth_user option \<Rightarrow> 's auth_world" where
  "authStateChanged io w user =
     (let prevUid = aw_prevUid w;
          newUid = map_option au_uid user;
          w1 = w\<lparr> aw_authUser := user, aw_prevUid := newUid \<rparr>
      in if prevUid \<noteq> None \<and> newUid \<noteq> None \<and> prevUid \<noteq> newUid then
           if aw_conflictResolutionPending w1 then noteNonAnonymous w1 user
           else
             let isReSignIn = (newUid = aw_lastNonAnonUid w1);
                 w2 = onAccountSwitch w1;
                 w3 = (if isReSignIn then w2 else w2\<lparr> aw_store := clearLocalPlayerData io (aw_store w2) \<rparr>)
             in noteNonAnonymous (onAccountChange w3) user
         else if aw_pendingBelatedSignIn w1 \<and> prevUid = None \<and> newUid \<noteq> None \<and>
                 \<not> aw_conflictResolutionPending w1 then
           noteNonAnonymous (onAccountChange (w1\<lparr> aw_pendingBelatedSignIn := False \<rparr>)) user
         else noteNonAnonymous w1 user)"

section \<open>Start and conflicts\<close>

definition authInitialize :: "'s async_storage \<Rightarrow> 's auth_world \<Rightarrow> auth_user option \<Rightarrow> 's auth_world" where
  "authInitialize io w anonymous =
     (let w0 = auth_initialize w anonymous;
          user = aw_currentUser w0;
          w1 = w0\<lparr> aw_authUser := user \<rparr>
      in case readPendingConflict io (aw_store w1) of
           Some pending \<Rightarrow>
             if (case user of Some u \<Rightarrow> \<not> au_isAnonymous u | None \<Rightarrow> False) then
               (onAccountSwitch (w1\<lparr> aw_conflictResolutionPending := True \<rparr>))\<lparr> aw_conflictState := Some pending \<rparr>
             else
               onAccountChange (w1\<lparr> aw_store := clearPendingConflict io (aw_store w1),
                 aw_pendingBelatedSignIn := (aw_currentUser w1 = None) \<rparr>)
         | None \<Rightarrow> onAccountChange (w1\<lparr> aw_pendingBelatedSignIn := (aw_currentUser w1 = None) \<rparr>))"

text \<open>
  \<open>signIn\<close> is the account of the credential, or nothing if that sign-in is rejected, which the
  handler passes on to its caller. The cloud document enters the record unchecked; one of another
  shape than a player's is not represented.
\<close>

definition handleAccountConflict ::
  "'s async_storage \<Rightarrow> 's auth_world \<Rightarrow> auth_user option \<Rightarrow> fetch_outcome \<Rightarrow> bool \<times> 's auth_world" where
  "handleAccountConflict io w signIn outcome =
     (let ((localData, localSavedAt), s1) = readLocalPlayerSnapshot io (aw_store w);
          w1 = w\<lparr> aw_store := s1 \<rparr>
      in case localData of
           None \<Rightarrow>
             let w2 = w1\<lparr> aw_store := clearLocalPlayerData io (aw_store w1) \<rparr>
             in (case signIn of None \<Rightarrow> (False, w2) | Some u \<Rightarrow> (True, become w2 (Some u)))
         | Some d \<Rightarrow>
             (case signIn of
                None \<Rightarrow> (False, w1\<lparr> aw_conflictResolutionPending := False \<rparr>)
              | Some u \<Rightarrow>
                  let w2 = onAccountSwitch (become (w1\<lparr> aw_conflictResolutionPending := True \<rparr>) (Some u));
                      (cloudData, cloudSavedAt) =
                        (case loadPlayerData (Some (au_uid u)) outcome of
                           CloudFound (JPlayer c) t \<Rightarrow> (Some c, t)
                         | _ \<Rightarrow> (None, 0));
                      pendingRecord = \<lparr> pc_localData = Some d, pc_localSavedAt = localSavedAt,
                        pc_cloudData = cloudData, pc_cloudSavedAt = cloudSavedAt \<rparr>
                  in (True, w2\<lparr> aw_store := writePendingConflict io (aw_store w2) pendingRecord,
                               aw_conflictState := Some pendingRecord \<rparr>)))"

datatype conflict_choice = ChooseLocal | ChooseCloud

definition keepLocal :: "'s async_storage \<Rightarrow> 's auth_world \<Rightarrow> pending_conflict \<Rightarrow> int \<Rightarrow> 's auth_world" where
  "keepLocal io w c now =
     (let ((freshData, freshSavedAt), s1) = readLocalPlayerSnapshot io (aw_store w);
          w1 = w\<lparr> aw_store := s1 \<rparr>
      in case (if freshData \<noteq> None then freshData else pc_localData c) of
           None \<Rightarrow> w1
         | Some dataToSave \<Rightarrow>
             let baseTimestamp = (if freshData \<noteq> None then freshSavedAt else pc_localSavedAt c);
                 freshTimestamp = max baseTimestamp now;
                 w2 = w1\<lparr> aw_cloud := cloud_step (aw_cloud w1) (CSave dataToSave freshTimestamp) \<rparr>;
                 (ok, s2) = writeLocalPlayerSnapshot io (aw_store w2) dataToSave freshTimestamp;
                 w3 = w2\<lparr> aw_store := s2 \<rparr>
             in if ok then w3 else alert w3 ''Storage error'')"

definition keepCloud :: "'s async_storage \<Rightarrow> 's auth_world \<Rightarrow> pending_conflict \<Rightarrow> 's auth_world" where
  "keepCloud io w c =
     (case pc_cloudData c of
        Some d \<Rightarrow> w\<lparr> aw_store := snd (writeLocalPlayerSnapshot io (aw_store w) d (pc_cloudSavedAt c)) \<rparr>
      | None \<Rightarrow> w\<lparr> aw_store := clearLocalPlayerData io (aw_store w) \<rparr>)"

definition resolveConflict ::
  "'s async_storage \<Rightarrow> 's auth_world \<Rightarrow> conflict_choice \<Rightarrow> int \<Rightarrow> 's auth_world" where
  "resolveConflict io w choice now =
     (case aw_conflictState w of
        None \<Rightarrow> w
      | Some c \<Rightarrow>
          if aw_conflictResolving w then w
          else
            let w1 = w\<lparr> aw_conflictResolving := True, aw_conflictState := None \<rparr>;
                w2 = (case choice of ChooseLocal \<Rightarrow> keepLocal io w1 c now | ChooseCloud \<Rightarrow> keepCloud io w1 c);
                w3 = onAccountChange w2
            in w3\<lparr> aw_store := clearPendingConflict io (aw_store w3), aw_conflictResolutionPending := False,
                   aw_conflictResolving := False \<rparr>)"

section \<open>Sign-in, sign-out, deletion\<close>

text \<open>The two sign-in handlers differ only in the service call, whose result is \<open>result\<close>.\<close>

definition finishSignIn ::
  "'s async_storage \<Rightarrow> auth_error option \<times> 's auth_world \<Rightarrow> auth_user option \<Rightarrow> fetch_outcome \<Rightarrow> 's auth_world" where
  "finishSignIn io result conflictSignIn outcome =
     (case result of
        (None, w) \<Rightarrow> w
      | (Some (AuthError _), w) \<Rightarrow> alert w ''Sign-in failed''
      | (Some (AccountConflictError _), w) \<Rightarrow>
          let (ok, w') = handleAccountConflict io w conflictSignIn outcome
          in if ok then w' else alert w' ''Sign-in failed'')\<lparr> aw_authLoading := False \<rparr>"

definition handleGoogleSignIn ::
  "'s async_storage \<Rightarrow> 's auth_world \<Rightarrow> provider_answer \<Rightarrow> link_answer \<Rightarrow> auth_user option \<Rightarrow> fetch_outcome \<Rightarrow> 's auth_world" where
  "handleGoogleSignIn io w answer link account outcome =
     finishSignIn io (signInWithGoogle (w\<lparr> aw_authLoading := True \<rparr>) answer link account) account outcome"

definition handleAppleSignIn ::
  "'s async_storage \<Rightarrow> bool \<Rightarrow> 's auth_world \<Rightarrow> provider_answer \<Rightarrow> link_answer \<Rightarrow> auth_user option \<Rightarrow> fetch_outcome \<Rightarrow> 's auth_world" where
  "handleAppleSignIn io isIos w answer link account outcome =
     finishSignIn io (signInWithApple isIos (w\<lparr> aw_authLoading := True \<rparr>) answer link account) account outcome"

definition handleSignOut :: "'s auth_world \<Rightarrow> bool \<Rightarrow> auth_user option \<Rightarrow> 's auth_world" where
  "handleSignOut w signedOut anonymous =
     (let (err, w1) = auth_signOut (w\<lparr> aw_authLoading := True \<rparr>) signedOut anonymous
      in (if err = None then w1 else alert w1 ''Sign-out failed'')\<lparr> aw_authLoading := False \<rparr>)"

definition right_quote :: string where
  "right_quote = [CHR 0xE2, CHR 0x80, CHR 0x99]"

definition abortDeletion :: "'s auth_world \<Rightarrow> 's auth_world" where
  "abortDeletion w =
     (let w1 = alert (w\<lparr> aw_cloud := cloud_step (aw_cloud w) CResume \<rparr>) (''Couldn'' @ right_quote @ ''t delete account'')
      in (onAccountChange (w1\<lparr> aw_authUser := aw_currentUser w1 \<rparr>))\<lparr> aw_authLoading := False \<rparr>)"

definition wipeLocal :: "'s async_storage \<Rightarrow> 's \<Rightarrow> 's" where
  "wipeLocal io s =
     (let (ok, s1) = clearAllUserData io s in if ok then s1 else snd (clearAllUserData io s1))"

text \<open>
  The answers the handler meets on its way: the writes that settle while it drains, what becomes of
  the deletion of the document, the answers of the auth package, and the new anonymous user.
\<close>

record deletion_answers =
  da_drained :: "nat list"
  da_docReached :: bool
  da_docInTime :: bool
  da_first :: delete_answer
  da_reauth :: reauth_answers
  da_second :: delete_answer
  da_anonymous :: "auth_user option"

definition handleDeleteAccount :: "'s async_storage \<Rightarrow> 's auth_world \<Rightarrow> deletion_answers \<Rightarrow> 's auth_world" where
  "handleDeleteAccount io w a =
     (let w1 = onAccountSwitch (w\<lparr> aw_authLoading := True \<rparr>);
          w2 = w1\<lparr> aw_cloud := drainPendingWrites (cloud_step (aw_cloud w1) CSuspend) (da_drained a) \<rparr>;
          (docOk, docs) = deletePlayerData (cn_docs (aw_cloud w2)) (cn_user (aw_cloud w2)) (da_docReached a) (da_docInTime a);
          w3 = w2\<lparr> aw_cloud := (aw_cloud w2)\<lparr> cn_docs := docs \<rparr> \<rparr>
      in if \<not> docOk then abortDeletion w3
         else
           let (err, w4) = deleteAccount w3 (da_first a) (da_reauth a) (da_second a)
           in if err \<noteq> None then abortDeletion w4
              else
                let w5 = w4\<lparr> aw_store := wipeLocal io (aw_store w4), aw_conflictState := None,
                             aw_conflictResolutionPending := False, aw_conflictResolving := False \<rparr>;
                    w6 = auth_initialize w5 (da_anonymous a);
                    w7 = w6\<lparr> aw_cloud := cloud_step (aw_cloud w6) CResume, aw_authUser := aw_currentUser w6 \<rparr>
                in (onAccountChange w7)\<lparr> aw_authLoading := False \<rparr>)"

section \<open>Lemmas: deletion\<close>

lemma become_simps [simp]:
  "aw_currentUser (become w u) = u" "cn_user (aw_cloud (become w u)) = map_option au_uid u"
  "aw_store (become w u) = aw_store w" "cn_docs (aw_cloud (become w u)) = cn_docs (aw_cloud w)"
  "cn_service (aw_cloud (become w u)) = cn_service (aw_cloud w)" "aw_session (become w u) = aw_session w"
  "aw_hook (become w u) = aw_hook w" "aw_authUser (become w u) = aw_authUser w"
  "aw_conflictResolutionPending (become w u) = aw_conflictResolutionPending w"
  "aw_conflictState (become w u) = aw_conflictState w" "aw_conflictResolving (become w u) = aw_conflictResolving w"
  "aw_prevUid (become w u) = aw_prevUid w"
  by (simp_all add: become_def)

lemma switch_simps [simp]:
  "aw_currentUser (onAccountSwitch w) = aw_currentUser w" "aw_store (onAccountSwitch w) = aw_store w"
  "aw_cloud (onAccountSwitch w) = aw_cloud w"
  "aw_conflictResolutionPending (onAccountSwitch w) = aw_conflictResolutionPending w"
  "aw_conflictState (onAccountSwitch w) = aw_conflictState w" "aw_conflictResolving (onAccountSwitch w) = aw_conflictResolving w"
  "aw_currentUser (onAccountChange w) = aw_currentUser w" "aw_store (onAccountChange w) = aw_store w"
  "aw_cloud (onAccountChange w) = aw_cloud w" "aw_hook (onAccountChange w) = aw_hook w"
  "aw_conflictResolutionPending (onAccountChange w) = aw_conflictResolutionPending w"
  "aw_currentUser (alert w t) = aw_currentUser w" "aw_store (alert w t) = aw_store w"
  "aw_cloud (alert w t) = aw_cloud w" "aw_session (alert w t) = aw_session w"
  by (simp_all add: onAccountSwitch_def onAccountChange_def alert_def)

lemma drain_user [simp]: "cn_user (drainPendingWrites c ws) = cn_user c"
  unfolding drainPendingWrites_def by (induction ws arbitrary: c) (simp_all add: deliver_def Let_def)

text \<open>What it takes for the deletion to go through.\<close>

definition deletion_succeeds :: "'s auth_world \<Rightarrow> auth_user \<Rightarrow> deletion_answers \<Rightarrow> bool" where
  "deletion_succeeds w u a \<longleftrightarrow> da_docReached a \<and> da_docInTime a \<and>
     (da_first a = Deleted \<or> da_first a = RequiresRecentLogin \<and> \<not> au_isAnonymous u \<and>
        reauthenticate w (da_reauth a) = None \<and> da_second a = Deleted)"

lemma reauthenticate_cong: "aw_currentUser v = aw_currentUser w \<Longrightarrow> reauthenticate v a = reauthenticate w a"
  by (simp add: reauthenticate_def)

lemma abort_simps [simp]:
  "aw_store (abortDeletion w) = aw_store w" "aw_currentUser (abortDeletion w) = aw_currentUser w"
  "\<not> cl_writesSuspended (cn_service (aw_cloud (abortDeletion w)))" "\<not> aw_authLoading (abortDeletion w)"
  by (simp_all add: abortDeletion_def Let_def resumeWrites_def)

lemma delete_account_cases:
  assumes "aw_currentUser w = Some u"
  obtains err where "deleteAccount w x r y = (Some err, w)"
    "\<not> (x = Deleted \<or> x = RequiresRecentLogin \<and> \<not> au_isAnonymous u \<and> reauthenticate w r = None \<and> y = Deleted)"
  | "deleteAccount w x r y = (None, become w None)"
    "x = Deleted \<or> x = RequiresRecentLogin \<and> \<not> au_isAnonymous u \<and> reauthenticate w r = None \<and> y = Deleted"
  using assms that by (cases x; cases y; cases "reauthenticate w r"; cases "au_isAnonymous u") (auto simp: deleteAccount_def)

text \<open>The state when the account itself is to be deleted.\<close>

definition before_account_deletion :: "'s auth_world \<Rightarrow> deletion_answers \<Rightarrow> 's auth_world" where
  "before_account_deletion w a =
     (let w1 = onAccountSwitch (w\<lparr> aw_authLoading := True \<rparr>);
          c = drainPendingWrites (cloud_step (aw_cloud w1) CSuspend) (da_drained a)
      in w1\<lparr> aw_cloud := c\<lparr> cn_docs := snd (deletePlayerData (cn_docs c) (cn_user c) (da_docReached a) (da_docInTime a)) \<rparr> \<rparr>)"

lemma before_deletion_simps:
  "aw_store (before_account_deletion w a) = aw_store w"
  "aw_currentUser (before_account_deletion w a) = aw_currentUser w"
  "cn_user (aw_cloud (before_account_deletion w a)) = cn_user (aw_cloud w)"
  "cn_user (aw_cloud w) = Some uid \<Longrightarrow> da_docReached a \<Longrightarrow> cn_docs (aw_cloud (before_account_deletion w a)) uid = None"
  by (simp_all add: before_account_deletion_def Let_def deletePlayerData_def)

lemma handleDeleteAccount_cases:
  assumes "aw_currentUser w = Some u" and "cn_user (aw_cloud w) = Some (au_uid u)"
  obtains "\<not> deletion_succeeds w u a" "handleDeleteAccount io w a = abortDeletion (before_account_deletion w a)"
  | w6 where "deletion_succeeds w u a" "w6 = auth_initialize ((become (before_account_deletion w a) None)
        \<lparr> aw_store := wipeLocal io (aw_store w), aw_conflictState := None,
          aw_conflictResolutionPending := False, aw_conflictResolving := False \<rparr>) (da_anonymous a)"
      "handleDeleteAccount io w a = (onAccountChange (w6\<lparr> aw_cloud := cloud_step (aw_cloud w6) CResume,
          aw_authUser := aw_currentUser w6 \<rparr>))\<lparr> aw_authLoading := False \<rparr>"
proof -
  let ?v = "before_account_deletion w a"
  have cu: "aw_currentUser ?v = Some u" using assms by (simp add: before_deletion_simps)
  have re: "reauthenticate ?v r = reauthenticate w r" for r by (rule reauthenticate_cong) (simp add: before_deletion_simps)
  have del: "fst (deletePlayerData docs (cn_user (aw_cloud w)) r i) = (r \<and> i)" for docs r i
    using assms(2) by (simp add: deletePlayerData_def)
  have body: "handleDeleteAccount io w a =
      (if \<not> (da_docReached a \<and> da_docInTime a) then abortDeletion ?v
       else let (err, w4) = deleteAccount ?v (da_first a) (da_reauth a) (da_second a)
         in if err \<noteq> None then abortDeletion w4
            else let w5 = w4\<lparr> aw_store := wipeLocal io (aw_store w4), aw_conflictState := None,
                     aw_conflictResolutionPending := False, aw_conflictResolving := False \<rparr>;
                   w6 = auth_initialize w5 (da_anonymous a);
                   w7 = w6\<lparr> aw_cloud := cloud_step (aw_cloud w6) CResume, aw_authUser := aw_currentUser w6 \<rparr>
               in (onAccountChange w7)\<lparr> aw_authLoading := False \<rparr>)"
    unfolding handleDeleteAccount_def before_account_deletion_def Let_def
    by (simp add: split_beta del)
  show ?thesis
  proof (rule delete_account_cases[OF cu, of "da_first a" "da_reauth a" "da_second a"])
    fix err assume d: "deleteAccount ?v (da_first a) (da_reauth a) (da_second a) = (Some err, ?v)"
      "\<not> (da_first a = Deleted \<or> da_first a = RequiresRecentLogin \<and> \<not> au_isAnonymous u \<and>
          reauthenticate ?v (da_reauth a) = None \<and> da_second a = Deleted)"
    then show ?thesis using that(1) body by (simp add: deletion_succeeds_def re Let_def)
  next
    assume d: "deleteAccount ?v (da_first a) (da_reauth a) (da_second a) = (None, become ?v None)"
      "da_first a = Deleted \<or> da_first a = RequiresRecentLogin \<and> \<not> au_isAnonymous u \<and>
          reauthenticate ?v (da_reauth a) = None \<and> da_second a = Deleted"
    show ?thesis
    proof (cases "da_docReached a \<and> da_docInTime a")
      case True
      then show ?thesis using that(2) body d by (simp add: deletion_succeeds_def re before_deletion_simps Let_def)
    next
      case False
      then show ?thesis using that(1) body by (auto simp: deletion_succeeds_def)
    qed
  qed
qed

lemma auth_initialize_simps:
  assumes "aw_currentUser w = None"
  shows "aw_currentUser (auth_initialize w anon) = anon" "aw_store (auth_initialize w anon) = aw_store w"
    "cn_user (aw_cloud w) = None \<Longrightarrow> cn_user (aw_cloud (auth_initialize w anon)) = map_option au_uid anon"
    "cn_docs (aw_cloud (auth_initialize w anon)) = cn_docs (aw_cloud w)"
  using assms by (simp_all add: auth_initialize_def split: option.splits)

lemma deletion_effect:
  assumes "aw_currentUser w = Some u" and "cn_user (aw_cloud w) = Some (au_uid u)" and "deletion_succeeds w u a"
  shows "aw_currentUser (handleDeleteAccount io w a) = da_anonymous a"
    and "cn_user (aw_cloud (handleDeleteAccount io w a)) = map_option au_uid (da_anonymous a)"
    and "aw_store (handleDeleteAccount io w a) = wipeLocal io (aw_store w)"
    and "cn_docs (aw_cloud (handleDeleteAccount io w a)) (au_uid u) = None"
    and "\<not> cl_writesSuspended (cn_service (aw_cloud (handleDeleteAccount io w a)))"
    and "\<not> aw_authLoading (handleDeleteAccount io w a)"
proof -
  let ?w5 = "(become (before_account_deletion w a) None)\<lparr> aw_store := wipeLocal io (aw_store w),
    aw_conflictState := None, aw_conflictResolutionPending := False, aw_conflictResolving := False \<rparr>"
  let ?w6 = "auth_initialize ?w5 (da_anonymous a)"
  have h: "handleDeleteAccount io w a = (onAccountChange (?w6\<lparr> aw_cloud := cloud_step (aw_cloud ?w6) CResume,
      aw_authUser := aw_currentUser ?w6 \<rparr>))\<lparr> aw_authLoading := False \<rparr>"
    by (rule handleDeleteAccount_cases[OF assms(1,2), of a io]) (use assms(3) in simp_all)
  have none: "aw_currentUser ?w5 = None" and user: "cn_user (aw_cloud ?w5) = None" by simp_all
  have docs: "cn_docs (aw_cloud ?w5) (au_uid u) = None"
    using assms(2,3) by (simp add: before_deletion_simps deletion_succeeds_def)
  note ini = auth_initialize_simps[OF none, of "da_anonymous a"]
  show "aw_currentUser (handleDeleteAccount io w a) = da_anonymous a" using ini(1) by (simp add: h)
  show "cn_user (aw_cloud (handleDeleteAccount io w a)) = map_option au_uid (da_anonymous a)"
    using ini(3)[OF user] by (simp add: h)
  show "aw_store (handleDeleteAccount io w a) = wipeLocal io (aw_store w)" using ini(2) by (simp add: h)
  show "cn_docs (aw_cloud (handleDeleteAccount io w a)) (au_uid u) = None" using ini(4) docs by (simp add: h)
  show "\<not> cl_writesSuspended (cn_service (aw_cloud (handleDeleteAccount io w a)))" by (simp add: h resumeWrites_def)
  show "\<not> aw_authLoading (handleDeleteAccount io w a)" by (simp add: h)
qed

lemma deletion_failure:
  assumes "aw_currentUser w = Some u" and "cn_user (aw_cloud w) = Some (au_uid u)" and "\<not> deletion_succeeds w u a"
  shows "aw_currentUser (handleDeleteAccount io w a) = Some u"
    and "aw_store (handleDeleteAccount io w a) = aw_store w"
    and "\<not> cl_writesSuspended (cn_service (aw_cloud (handleDeleteAccount io w a)))"
    and "\<not> aw_authLoading (handleDeleteAccount io w a)"
proof -
  have h: "handleDeleteAccount io w a = abortDeletion (before_account_deletion w a)"
    by (rule handleDeleteAccount_cases[OF assms(1,2), of a io]) (use assms(3) in auto)
  show "aw_currentUser (handleDeleteAccount io w a) = Some u"
    and "aw_store (handleDeleteAccount io w a) = aw_store w"
    and "\<not> cl_writesSuspended (cn_service (aw_cloud (handleDeleteAccount io w a)))"
    and "\<not> aw_authLoading (handleDeleteAccount io w a)"
    using assms(1) by (simp_all add: h before_deletion_simps)
qed

section \<open>Lemmas: conflicts\<close>

text \<open>A storage package that accepts every call.\<close>

definition reliable :: "'s async_storage \<Rightarrow> bool" where
  "reliable io \<longleftrightarrow> (\<forall>s k. io_getItem io s k \<noteq> None) \<and> (\<forall>s ks. io_multiGet io s ks \<noteq> None) \<and>
     (\<forall>s k v. fst (io_setItem io s k v)) \<and> (\<forall>s k. fst (io_removeItem io s k)) \<and>
     (\<forall>s kvs. fst (io_multiSet io s kvs)) \<and> (\<forall>s ks. fst (io_multiRemove io s ks))"

lemma reliable_mem [simp]: "reliable mem_storage"
  by (simp add: reliable_def mem_storage_def)

lemma local_save_level: "local_save m = Some (d, t) \<Longrightarrow> 1 \<le> d_level d"
  by (auto simp: local_save_def split: option.splits stored.splits if_splits)

lemma local_save_cong:
  "m PLAYER_DATA = m' PLAYER_DATA \<Longrightarrow> m PLAYER_SAVED_AT = m' PLAYER_SAVED_AT \<Longrightarrow> local_save m = local_save m'"
  unfolding local_save_def by (simp cong: option.case_cong stored.case_cong if_cong)

context device_storage
begin

lemma clear_reliable:
  assumes "reliable io" shows "local_save (peek (clearLocalPlayerData io s)) = None"
  using assms by (simp add: clearLocalPlayerData_def multiRemove reliable_def local_save_def)

lemma read_reliable:
  assumes "reliable io" and "local_save (peek s) = Some (d, t)"
  shows "fst (readLocalPlayerSnapshot io s) = (Some d, t)"
    and "local_save (peek (snd (readLocalPlayerSnapshot io s))) = Some (d, t)"
proof -
  obtain vs where "io_multiGet io s [PLAYER_DATA, PLAYER_SAVED_AT] = Some vs"
    using assms(1) unfolding reliable_def by blast
  from read_snapshot[OF this] assms(2)
  show "fst (readLocalPlayerSnapshot io s) = (Some d, t)"
    and "local_save (peek (snd (readLocalPlayerSnapshot io s))) = Some (d, t)" by simp_all
qed

lemma write_reliable:
  assumes "reliable io"
  shows "fst (writeLocalPlayerSnapshot io s d t)"
    and "local_save (peek (snd (writeLocalPlayerSnapshot io s d t))) = (if 1 \<le> d_level d then Some (d, t) else None)"
  using assms by (simp_all add: reliable_def writeLocalPlayerSnapshot_def multiSet local_save_def stored_time_def)

lemma keepLocal_save:
  assumes "reliable io" and "local_save (peek (aw_store w)) = Some (d, t)"
  shows "local_save (peek (aw_store (keepLocal io w c now))) = Some (d, max t now)"
proof -
  obtain s1 where r: "readLocalPlayerSnapshot io (aw_store w) = ((Some d, t), s1)"
    using read_reliable(1)[OF assms] by (metis prod.collapse)
  show ?thesis
    using write_reliable[OF assms(1), of s1 d "max t now"] local_save_level[OF assms(2)]
    by (simp add: keepLocal_def r Let_def split_beta)
qed

lemma keepCloud_save:
  assumes "reliable io"
  shows "local_save (peek (aw_store (keepCloud io w c))) =
    (case pc_cloudData c of Some d \<Rightarrow> if 1 \<le> d_level d then Some (d, pc_cloudSavedAt c) else None | None \<Rightarrow> None)"
  using assms by (cases "pc_cloudData c") (simp_all add: keepCloud_def write_reliable clear_reliable)

lemma conflict_record_cleared:
  assumes "reliable io"
  shows "local_save (peek (clearPendingConflict io s)) = local_save (peek s)"
    and "readPendingConflict io (clearPendingConflict io s) = None"
proof -
  have "fst (io_removeItem io s CONFLICT_PENDING)" using assms by (simp add: reliable_def)
  then have p: "peek (clearPendingConflict io s) = (peek s)(CONFLICT_PENDING := None)"
    by (simp add: clearPendingConflict_def removeItem)
  then show "local_save (peek (clearPendingConflict io s)) = local_save (peek s)"
    by (intro local_save_cong) simp_all
  obtain v where v: "io_getItem io (clearPendingConflict io s) CONFLICT_PENDING = Some v"
    using assms unfolding reliable_def by blast
  with getItem[OF v] p show "readPendingConflict io (clearPendingConflict io s) = None"
    by (simp add: readPendingConflict_def)
qed

lemma wipe_erases:
  assumes "fst (clearAllUserData io s) \<or> fst (clearAllUserData io (snd (clearAllUserData io s)))"
  shows "peek (wipeLocal io s) k =
    (if k \<in> {SETTINGS, BATTERY_PROMPT_SHOWN, AUTO_RESOLVE_BELOW_RARE} then peek s k else None)"
proof (cases "fst (clearAllUserData io s)")
  case True
  then show ?thesis using erase_user_data[of s k] by (simp add: wipeLocal_def split_beta)
next
  case False
  then have "peek (snd (clearAllUserData io s)) = peek s" by (simp add: clearAllUserData_def multiRemove)
  then show ?thesis using erase_user_data[of "snd (clearAllUserData io s)" k] assms False
    by (simp add: wipeLocal_def split_beta)
qed

lemma conflict_written:
  "local_save (peek (writePendingConflict io s c)) = local_save (peek s)"
  by (rule local_save_cong) (simp_all add: writePendingConflict_def setItem)

end

text \<open>The cloud's side of the conflict.\<close>

definition cloud_side :: "string \<Rightarrow> fetch_outcome \<Rightarrow> (player_data \<times> int) option" where
  "cloud_side uid outcome =
     (case loadPlayerData (Some uid) outcome of CloudFound (JPlayer c) t \<Rightarrow> Some (c, t) | _ \<Rightarrow> None)"

text \<open>A conflict is open: the choice is the user's, and the guest's save is still in place.\<close>

definition conflict_open :: "('s \<Rightarrow> storage_key \<Rightarrow> stored option) \<Rightarrow> 's auth_world \<Rightarrow> player_data \<times> int \<Rightarrow> (player_data \<times> int) option \<Rightarrow> bool" where
  "conflict_open peek w guest cloud \<longleftrightarrow> local_save (peek (aw_store w)) = Some guest \<and>
     aw_conflictResolutionPending w \<and> \<not> aw_conflictResolving w \<and>
     (\<exists>c. aw_conflictState w = Some c \<and> pc_cloudData c = map_option fst cloud \<and>
        pc_cloudSavedAt c = (case cloud of None \<Rightarrow> 0 | Some (_, t) \<Rightarrow> t))"

lemma authStateChanged_guarded:
  assumes "aw_conflictResolutionPending w"
  shows "aw_store (authStateChanged io w u) = aw_store w" "aw_session (authStateChanged io w u) = aw_session w"
    "aw_hook (authStateChanged io w u) = aw_hook w" "aw_cloud (authStateChanged io w u) = aw_cloud w"
    "aw_conflictState (authStateChanged io w u) = aw_conflictState w"
    "aw_conflictResolving (authStateChanged io w u) = aw_conflictResolving w"
    "aw_conflictResolutionPending (authStateChanged io w u)"
  using assms by (simp_all add: authStateChanged_def noteNonAnonymous_def Let_def split: option.splits)

lemma conflict_open_stays:
  "conflict_open peek w g c \<Longrightarrow> conflict_open peek (foldl (authStateChanged io) w us) g c"
proof (induction us arbitrary: w)
  case (Cons u us)
  then have "conflict_open peek (authStateChanged io w u) g c"
    by (simp add: conflict_open_def authStateChanged_guarded)
  with Cons.IH show ?case by simp
qed simp

context device_storage
begin

lemma conflict_opens:
  assumes "reliable io" and "local_save (peek (aw_store w)) = Some (d, t)" and "\<not> aw_conflictResolving w"
  shows "fst (handleAccountConflict io w (Some u) outcome) \<and>
    conflict_open peek (snd (handleAccountConflict io w (Some u) outcome)) (d, t) (cloud_side (au_uid u) outcome)"
proof -
  obtain s1 where r: "readLocalPlayerSnapshot io (aw_store w) = ((Some d, t), s1)"
    using read_reliable(1)[OF assms(1,2)] by (metis prod.collapse)
  then have "local_save (peek s1) = Some (d, t)" using read_reliable(2)[OF assms(1,2)] by simp
  then show ?thesis
    using assms(3)
    by (cases "loadPlayerData (Some (au_uid u)) outcome")
      (auto simp: handleAccountConflict_def r Let_def conflict_open_def conflict_written cloud_side_def
        split: stored.splits)
qed

lemma conflict_resolved:
  assumes "reliable io" and "conflict_open peek w (d, t) cloud"
  shows "local_save (peek (aw_store (resolveConflict io w ChooseLocal now))) = Some (d, max t now)"
    and "local_save (peek (aw_store (resolveConflict io w ChooseCloud now))) =
      (case cloud of Some (c, ct) \<Rightarrow> if 1 \<le> d_level c then Some (c, ct) else None | None \<Rightarrow> None)"
    and "\<not> aw_conflictResolutionPending (resolveConflict io w choice now)"
    and "\<not> aw_conflictResolving (resolveConflict io w choice now)"
    and "aw_conflictState (resolveConflict io w choice now) = None"
    and "readPendingConflict io (aw_store (resolveConflict io w choice now)) = None"
proof -
  obtain c where c: "aw_conflictState w = Some c" "pc_cloudData c = map_option fst cloud"
      "pc_cloudSavedAt c = (case cloud of None \<Rightarrow> 0 | Some (_, t) \<Rightarrow> t)" "\<not> aw_conflictResolving w"
      "local_save (peek (aw_store w)) = Some (d, t)"
    using assms(2) by (auto simp: conflict_open_def)
  let ?w1 = "w\<lparr> aw_conflictResolving := True, aw_conflictState := None \<rparr>"
  have kl: "local_save (peek (aw_store (keepLocal io ?w1 c now))) = Some (d, max t now)"
    by (rule keepLocal_save) (simp_all add: assms(1) c(5))
  note defs = resolveConflict_def c(1,4) Let_def conflict_record_cleared[OF assms(1)]
  show "local_save (peek (aw_store (resolveConflict io w ChooseLocal now))) = Some (d, max t now)"
    by (simp add: defs kl)
  show "local_save (peek (aw_store (resolveConflict io w ChooseCloud now))) =
      (case cloud of Some (c, ct) \<Rightarrow> if 1 \<le> d_level c then Some (c, ct) else None | None \<Rightarrow> None)"
    by (simp add: defs keepCloud_save[OF assms(1)] c(2,3) split: option.splits)
  show "\<not> aw_conflictResolutionPending (resolveConflict io w choice now)"
    and "\<not> aw_conflictResolving (resolveConflict io w choice now)"
    and "readPendingConflict io (aw_store (resolveConflict io w choice now)) = None"
    by (simp_all add: defs)
  show "aw_conflictState (resolveConflict io w choice now) = None"
    by (auto simp: defs onAccountChange_def keepLocal_def keepCloud_def alert_def split_beta
        split: conflict_choice.splits option.splits)
qed

end

context device_storage
begin

lemma google_conflict_opens:
  assumes "reliable io" and "local_save (peek (aw_store w)) = Some (d, t)" and "\<not> aw_conflictResolving w"
    and "aw_currentUser w = Some g" and "au_isAnonymous g"
  shows "conflict_open peek (handleGoogleSignIn io w (Token (Some tok)) AlreadyInUse (Some u) outcome)
    (d, t) (cloud_side (au_uid u) outcome)"
proof -
  let ?w = "w\<lparr> aw_authLoading := True \<rparr>"
  have link: "signInWithGoogle ?w (Token (Some tok)) AlreadyInUse (Some u) = (Some (AccountConflictError tok), ?w)"
    using assms(4,5) by (simp add: signInWithGoogle_def linkOrSignIn_def)
  have "fst (handleAccountConflict io ?w (Some u) outcome) \<and>
      conflict_open peek (snd (handleAccountConflict io ?w (Some u) outcome)) (d, t) (cloud_side (au_uid u) outcome)"
    using conflict_opens[of ?w d t u outcome] assms(1-3) by simp
  then show ?thesis
    by (simp add: handleGoogleSignIn_def link finishSignIn_def split_beta conflict_open_def)
qed

end

section \<open>Lemmas: switching accounts\<close>

lemma account_switch:
  assumes "aw_prevUid w = Some a" and "au_uid u \<noteq> a" and "\<not> aw_conflictResolutionPending w"
  shows "aw_session (authStateChanged io w (Some u)) = initializePlayer (clearPlayer (aw_session w))"
    and "h_encounter (aw_hook (authStateChanged io w (Some u))) = None"
    and "h_player (aw_hook (authStateChanged io w (Some u))) = None"
    and "aw_store (authStateChanged io w (Some u)) =
      (if aw_lastNonAnonUid w = Some (au_uid u) then aw_store w else clearLocalPlayerData io (aw_store w))"
  using assms
  by (auto simp: authStateChanged_def noteNonAnonymous_def onAccountSwitch_def onAccountChange_def
      clearEncounter_def cancelCounterBeat_def Let_def)

text \<open>
  Tearing the controller down does not cancel a drain of the walk log that is under way: its
  entries are shown to whoever is signed in when it ends.
\<close>

lemma drained_entries_cross_accounts:
  assumes "h_drained (aw_hook w) = Some es" and "es \<noteq> []"
  shows "h_walkSummary (checkWalkSummaryEnd (aw_hook (onAccountSwitch w))) = Some es"
  using assms
  by (simp add: onAccountSwitch_def checkWalkSummaryEnd_def walkBlocked_def clearEncounter_def
      cancelCounterBeat_def Let_def)

end
