(* ===== verification/AppShell.thy ===== *)
theory AppShell
  imports Geo AuthFlow
begin

text \<open>
  The small services around the game: the battery prompt
  (\<open>services/BatteryOptimizationService.ts\<close>), tracking and its resumption after a restart
  (\<open>hooks/useLocation.ts\<close>, the start of \<open>HomeScreen.tsx\<close>), the auto-resolve setting
  (\<open>hooks/useAutoResolveSetting.ts\<close>), the theme clock (\<open>hooks/useTheme.tsx\<close>,
  \<open>constants/theme.ts\<close>), the build environment (\<open>constants/environment.ts\<close>) and the geometry of the
  combat stage (\<open>models/stageLayout.ts\<close>). The notification and analytics calls these
  services make are not part of the models here.
\<close>

section \<open>The battery prompt\<close>

definition shouldPromptForExemption :: "bool \<Rightarrow> bool \<Rightarrow> bool \<Rightarrow> bool" where
  "shouldPromptForExemption isAndroid isIgnoring alreadyAsked \<longleftrightarrow> isAndroid \<and> \<not> isIgnoring \<and> \<not> alreadyAsked"

text \<open>\<open>None\<close> is an exception of the native module.\<close>

definition isIgnoring :: "bool \<Rightarrow> bool \<Rightarrow> bool option \<Rightarrow> bool" where
  "isIgnoring isAndroid hasNative answer =
     (if \<not> isAndroid \<or> \<not> hasNative then True else case answer of None \<Rightarrow> True | Some b \<Rightarrow> b)"

record 's battery =
  bt_promptInFlight :: bool
  bt_asked :: "bool option"
  bt_store :: 's
  bt_dialogs :: nat

text \<open>
  The call reads the flag and waits for the module, then asks for the dialog and records it. The
  two parts are separate events; \<open>bt_asked\<close> is what the first one read.
\<close>

definition maybeRequestExemption :: "'s async_storage \<Rightarrow> 's battery \<Rightarrow> bool \<Rightarrow> bool \<Rightarrow> 's battery" where
  "maybeRequestExemption io b isAndroid hasNative =
     (if \<not> isAndroid \<or> \<not> hasNative \<or> bt_promptInFlight b then b
      else b\<lparr> bt_promptInFlight := True, bt_asked := Some (hasBatteryPromptBeenShown io (bt_store b)) \<rparr>)"

definition exemptionResumes :: "'s async_storage \<Rightarrow> 's battery \<Rightarrow> bool option \<Rightarrow> bool option \<Rightarrow> 's battery" where
  "exemptionResumes io b ignoring launched =
     (case bt_asked b of
        None \<Rightarrow> b
      | Some alreadyAsked \<Rightarrow>
          let b1 = b\<lparr> bt_promptInFlight := False, bt_asked := None \<rparr>
          in if \<not> shouldPromptForExemption True (isIgnoring True True ignoring) alreadyAsked then b1
             else if launched = Some True
             then b1\<lparr> bt_store := snd (setBatteryPromptShown io (bt_store b1)), bt_dialogs := Suc (bt_dialogs b1) \<rparr>
             else b1)"

datatype battery_event = RequestExemption bool bool | ExemptionResumes "bool option" "bool option"

fun battery_step :: "'s async_storage \<Rightarrow> 's battery \<Rightarrow> battery_event \<Rightarrow> 's battery" where
  "battery_step io b (RequestExemption isAndroid hasNative) = maybeRequestExemption io b isAndroid hasNative"
| "battery_step io b (ExemptionResumes ignoring launched) = exemptionResumes io b ignoring launched"

section \<open>Tracking\<close>

text \<open>
  \<open>granted\<close> is the answer to the request for the location permission, \<open>isAndroid\<close> and \<open>hasNative\<close>
  describe the platform. The device's store is the one of the battery prompt.
\<close>

record 's tracker =
  tk_isTracking :: bool
  tk_service :: loc_state
  tk_battery :: "'s battery"

definition useStartTracking :: "'s async_storage \<Rightarrow> bool \<Rightarrow> bool \<Rightarrow> 's tracker \<Rightarrow> bool \<Rightarrow> 's tracker" where
  "useStartTracking io isAndroid hasNative t granted =
     (if \<not> granted then t
      else
        let b = maybeRequestExemption io (tk_battery t) isAndroid hasNative
        in t\<lparr> tk_service := startTracking (tk_service t), tk_isTracking := True,
              tk_battery := b\<lparr> bt_store := snd (saveTrackingState io (bt_store b) True) \<rparr> \<rparr>)"

definition useStopTracking :: "'s async_storage \<Rightarrow> 's tracker \<Rightarrow> 's tracker" where
  "useStopTracking io t =
     t\<lparr> tk_service := stopTracking (tk_service t), tk_isTracking := False,
        tk_battery := (tk_battery t)\<lparr> bt_store := snd (saveTrackingState io (bt_store (tk_battery t)) False) \<rparr> \<rparr>"

definition initializeTracking :: "'s async_storage \<Rightarrow> bool \<Rightarrow> bool \<Rightarrow> 's tracker \<Rightarrow> bool \<Rightarrow> 's tracker" where
  "initializeTracking io isAndroid hasNative t granted =
     (if loadTrackingState io (bt_store (tk_battery t)) then useStartTracking io isAndroid hasNative t granted else t)"

text \<open>The process was killed and starts again: only the store survives.\<close>

definition relaunch :: "'s async_storage \<Rightarrow> bool \<Rightarrow> bool \<Rightarrow> 's tracker \<Rightarrow> bool \<Rightarrow> 's tracker" where
  "relaunch io isAndroid hasNative t granted =
     initializeTracking io isAndroid hasNative
       \<lparr> tk_isTracking = False, tk_service = loc_init,
         tk_battery = (tk_battery t)\<lparr> bt_promptInFlight := False, bt_asked := None \<rparr> \<rparr> granted"

section \<open>The auto-resolve setting\<close>

record 's auto_resolve =
  ar_value :: bool
  ar_loading :: bool
  ar_store :: 's

definition autoResolveLoaded :: "'s async_storage \<Rightarrow> 's auto_resolve \<Rightarrow> bool \<Rightarrow> 's auto_resolve" where
  "autoResolveLoaded io a loaded = (if ar_loading a then a\<lparr> ar_value := loaded, ar_loading := False \<rparr> else a)"

definition setAutoResolveBelowRare :: "'s async_storage \<Rightarrow> 's auto_resolve \<Rightarrow> bool \<Rightarrow> 's auto_resolve" where
  "setAutoResolveBelowRare io a enabled =
     a\<lparr> ar_value := enabled, ar_store := snd (saveAutoResolveBelowRare io (ar_store a) enabled) \<rparr>"

section \<open>The theme clock\<close>

text \<open>\<open>daylight\<close> is the sun at the given moment and place.\<close>

definition resolveThemeName ::
  "theme_preference \<Rightarrow> int \<Rightarrow> (real \<times> real) option \<Rightarrow> (int \<Rightarrow> real \<Rightarrow> real \<Rightarrow> bool) \<Rightarrow> theme_name" where
  "resolveThemeName preference now coords daylight =
     (case preference of
        ThemeNight \<Rightarrow> Night
      | ThemeDay \<Rightarrow> Day
      | ThemeAuto \<Rightarrow>
          (case coords of None \<Rightarrow> Night | Some (lat, lon) \<Rightarrow> if daylight now lat lon then Day else Night))"

definition SUN_TICK_MS :: int where "SUN_TICK_MS = 60000"
definition AWAITING_FIX_MS :: int where "AWAITING_FIX_MS = 3000"
definition MAX_FAST_POLLS :: nat where "MAX_FAST_POLLS = 10"

record theme_clock =
  tc_preference :: theme_preference
  tc_themeName :: theme_name
  tc_userChose :: bool
  tc_hydrated :: bool
  tc_lastCoords :: "(real \<times> real) option"
  tc_fastPolls :: nat
  tc_timer :: "int option"

definition theme_init :: theme_clock where
  "theme_init =
     \<lparr> tc_preference = ThemeAuto, tc_themeName = Night, tc_userChose = False, tc_hydrated = False,
       tc_lastCoords = None, tc_fastPolls = 0, tc_timer = None \<rparr>"

definition applyAndSchedule :: "theme_clock \<Rightarrow> int \<Rightarrow> (real \<times> real) option \<Rightarrow> (int \<Rightarrow> real \<Rightarrow> real \<Rightarrow> bool) \<Rightarrow> theme_clock" where
  "applyAndSchedule t now cached daylight =
     (let t1 = t\<lparr> tc_timer := None, tc_lastCoords := (if cached \<noteq> None then cached else tc_lastCoords t) \<rparr>;
          coords = tc_lastCoords t1;
          t2 = t1\<lparr> tc_themeName := resolveThemeName (tc_preference t1) now coords daylight \<rparr>
      in if tc_preference t2 \<noteq> ThemeAuto then t2
         else
           let polls = (if coords = None then Suc (tc_fastPolls t2) else tc_fastPolls t2);
               stillWaitingFast = (coords = None \<and> polls \<le> MAX_FAST_POLLS)
           in t2\<lparr> tc_fastPolls := polls,
                  tc_timer := Some (if stillWaitingFast then AWAITING_FIX_MS else SUN_TICK_MS) \<rparr>)"

text \<open>The effect that runs when the preference or the hydration changes.\<close>

definition themeEffect :: "theme_clock \<Rightarrow> int \<Rightarrow> (real \<times> real) option \<Rightarrow> (int \<Rightarrow> real \<Rightarrow> real \<Rightarrow> bool) \<Rightarrow> theme_clock" where
  "themeEffect t now cached daylight =
     (let t0 = t\<lparr> tc_timer := None \<rparr>
      in if \<not> tc_hydrated t0 \<and> \<not> tc_userChose t0 then t0
         else applyAndSchedule (t0\<lparr> tc_fastPolls := 0 \<rparr>) now cached daylight)"

definition saved_preference :: "app_settings option \<Rightarrow> theme_preference option" where
  "saved_preference settings =
     (case settings of
        None \<Rightarrow> None
      | Some st \<Rightarrow>
          (case st_themePreference st of
             Some p \<Rightarrow> Some p
           | None \<Rightarrow> map_option (\<lambda>n. case n of Night \<Rightarrow> ThemeNight | Day \<Rightarrow> ThemeDay) (st_themeName st)))"

definition themeRestored :: "theme_clock \<Rightarrow> app_settings option \<Rightarrow> theme_clock" where
  "themeRestored t settings =
     (let t1 = (case saved_preference settings of
                  Some p \<Rightarrow> if tc_userChose t then t else t\<lparr> tc_preference := p \<rparr>
                | None \<Rightarrow> t)
      in t1\<lparr> tc_hydrated := True \<rparr>)"

definition setPreference :: "'s async_storage \<Rightarrow> theme_clock \<times> 's \<Rightarrow> theme_preference \<Rightarrow> theme_clock \<times> 's" where
  "setPreference io ts p =
     (let (t, s) = ts;
          settings = (case loadSettings io s of
                        None \<Rightarrow> \<lparr> st_themePreference = None, st_themeName = None \<rparr>
                      | Some st \<Rightarrow> st)
      in (t\<lparr> tc_userChose := True, tc_preference := p \<rparr>,
          snd (saveSettings io s (settings\<lparr> st_themePreference := Some p \<rparr>))))"

section \<open>The build environment\<close>

datatype app_environment = Development | Testing | Production

definition getAppEnvironment :: "bool \<Rightarrow> string option \<Rightarrow> app_environment" where
  "getAppEnvironment dev appEnv =
     (if dev then Development else if appEnv = Some ''testing'' then Testing else Production)"

record env_config =
  ec_enableDebugMode :: bool
  ec_showEnvironmentBanner :: bool
  ec_enableCrashTest :: bool
  ec_enableVerboseLogging :: bool
  ec_environmentName :: app_environment

definition ENV_CONFIG :: "app_environment \<Rightarrow> env_config" where
  "ENV_CONFIG e =
     \<lparr> ec_enableDebugMode = (e = Development \<or> e = Testing),
       ec_showEnvironmentBanner = (e = Development \<or> e = Testing),
       ec_enableCrashTest = (e = Development \<or> e = Testing),
       ec_enableVerboseLogging = (e = Development), ec_environmentName = e \<rparr>"

section \<open>The combat stage\<close>

record sprite_framing =
  sf_aspect :: real
  sf_footLeft :: real
  sf_footRight :: real
  sf_stanceDepth :: real

record rect =
  rc_left :: real
  rc_top :: real
  rc_width :: real
  rc_height :: real

definition POOL_SPREAD :: real where "POOL_SPREAD = 125 / 100"
definition POOL_DEPTH :: real where "POOL_DEPTH = rnd (16 / 10)"
definition POOL_SINK :: real where "POOL_SINK = rnd (34 / 100)"

definition containFit :: "real \<Rightarrow> real \<Rightarrow> real \<Rightarrow> real \<times> real" where
  "containFit stageWidth stageHeight aspect =
     (if jdiv stageWidth stageHeight > aspect then (jmul stageHeight aspect, stageHeight)
      else (stageWidth, jdiv stageWidth aspect))"

definition computeStageLayout ::
  "real \<Rightarrow> real \<Rightarrow> sprite_framing \<Rightarrow> real \<Rightarrow> real option \<Rightarrow> real option \<Rightarrow> rect \<times> rect" where
  "computeStageLayout stageWidth stageHeight framing scale spreadOpt depthOpt =
     (let spread = (case spreadOpt of None \<Rightarrow> POOL_SPREAD | Some x \<Rightarrow> x);
          depth = (case depthOpt of None \<Rightarrow> POOL_DEPTH | Some x \<Rightarrow> x);
          (fitW, fitH) = containFit stageWidth stageHeight (sf_aspect framing);
          renderW = jmul fitW scale; renderH = jmul fitH scale;
          spriteLeft = jdiv (jsub stageWidth renderW) 2;
          spriteTop = jsub stageHeight renderH;
          contactL = jadd spriteLeft (jmul renderW (sf_footLeft framing));
          contactR = jadd spriteLeft (jmul renderW (sf_footRight framing));
          pad = jdiv (jmul (jsub contactR contactL) (jsub spread 1)) 2;
          poolLeft = jsub contactL pad; poolRight = jadd contactR pad;
          poolW = jsub poolRight poolLeft;
          poolH = jmul (jmul renderH (sf_stanceDepth framing)) depth
      in (\<lparr> rc_left = spriteLeft, rc_top = spriteTop, rc_width = renderW, rc_height = renderH \<rparr>,
          \<lparr> rc_left = poolLeft, rc_top = jsub stageHeight (jmul poolH (jsub 1 POOL_SINK)),
            rc_width = poolW, rc_height = poolH \<rparr>))"

section \<open>Lemmas: tracking and the battery prompt\<close>

definition battery_ok :: "('s \<Rightarrow> storage_key \<Rightarrow> stored option) \<Rightarrow> 's battery \<Rightarrow> bool" where
  "battery_ok peek b \<longleftrightarrow> bt_dialogs b \<le> 1 \<and>
     (bt_dialogs b = 1 \<longrightarrow> peek (bt_store b) BATTERY_PROMPT_SHOWN = Some (JBool True)) \<and>
     (bt_asked b = Some False \<longrightarrow> bt_dialogs b = 0) \<and> (bt_promptInFlight b \<longleftrightarrow> bt_asked b \<noteq> None)"

context device_storage
begin

lemma flag_read:
  assumes "reliable io" shows "loadFlag io s k = (case peek s k of Some (JBool b) \<Rightarrow> b | _ \<Rightarrow> False)"
proof -
  obtain v where v: "io_getItem io s k = Some v" using assms unfolding reliable_def by blast
  with getItem[OF v] show ?thesis by (simp add: loadFlag_def)
qed

lemma flag_written:
  assumes "reliable io" shows "peek (snd (saveFlag io s k b)) = (peek s)(k := Some (JBool b))"
  using assms by (simp add: saveFlag_def setItem reliable_def)

lemma tracking_resumes:
  assumes "reliable io"
  shows "tk_isTracking (relaunch io android native (useStartTracking io android native t True) True)"
    and "ls_isTracking (tk_service (relaunch io android native (useStartTracking io android native t True) True))"
    and "\<not> tk_isTracking (relaunch io android native (useStopTracking io t) granted)"
proof -
  have store: "bt_store (maybeRequestExemption io b android native) = bt_store b" for b
    by (simp add: maybeRequestExemption_def)
  show "tk_isTracking (relaunch io android native (useStartTracking io android native t True) True)"
    and "ls_isTracking (tk_service (relaunch io android native (useStartTracking io android native t True) True))"
    and "\<not> tk_isTracking (relaunch io android native (useStopTracking io t) granted)"
    using assms store
    by (simp_all add: relaunch_def initializeTracking_def useStartTracking_def useStopTracking_def Let_def
        loadTrackingState_def saveTrackingState_def flag_read flag_written startTracking_def startWatch_def loc_init_def)
qed

lemma battery_step_ok:
  assumes "reliable io" and "battery_ok peek b" shows "battery_ok peek (battery_step io b e)"
proof (cases e)
  case (RequestExemption isAndroid hasNative)
  then show ?thesis using assms
    by (auto simp: maybeRequestExemption_def battery_ok_def hasBatteryPromptBeenShown_def flag_read)
next
  case (ExemptionResumes ignoring launched)
  then show ?thesis using assms
    by (cases "bt_asked b")
      (auto simp: exemptionResumes_def battery_ok_def shouldPromptForExemption_def setBatteryPromptShown_def flag_written Let_def)
qed

lemma prompted_at_most_once:
  assumes "reliable io" and "battery_ok peek b" shows "bt_dialogs (foldl (battery_step io) b es) \<le> 1"
proof -
  have "battery_ok peek (foldl (battery_step io) b es)"
    using assms(2) by (induction es arbitrary: b) (simp_all add: battery_step_ok[OF assms(1)])
  then show ?thesis by (simp add: battery_ok_def)
qed

end

interpretation battery_machine: step_machine "battery_step mem_storage" "battery_ok id" "\<lambda>_. True"
  by unfold_locales (rule mem.battery_step_ok[OF reliable_mem])

section \<open>Lemmas: settings\<close>

text \<open>A choice wins over the restored preference; the auto-resolve setting has no such guard.\<close>

lemma theme_choice_wins:
  "tc_preference (themeRestored (fst (setPreference io (t, s) p)) settings) = p"
  by (simp add: themeRestored_def setPreference_def Let_def split: option.splits)

lemma late_load_overrides_choice:
  assumes "ar_loading a"
  shows "ar_value (autoResolveLoaded io (setAutoResolveBelowRare io a b) loaded) = loaded"
  using assms by (simp add: autoResolveLoaded_def setAutoResolveBelowRare_def)

lemma auto_follows_sun:
  assumes "tc_preference t = ThemeAuto"
  shows "tc_themeName (applyAndSchedule t now cached daylight) = Day \<longleftrightarrow>
    (\<exists>lat lon. tc_lastCoords (applyAndSchedule t now cached daylight) = Some (lat, lon) \<and> daylight now lat lon)"
  using assms by (auto simp: applyAndSchedule_def resolveThemeName_def Let_def split: option.splits)

text \<open>The last position is kept when the location service drops its own.\<close>

lemma position_kept:
  "tc_lastCoords t \<noteq> None \<Longrightarrow> tc_lastCoords (applyAndSchedule t now None daylight) = tc_lastCoords t"
  by (simp add: applyAndSchedule_def Let_def)

lemma unfixed_polls:
  assumes "tc_preference t = ThemeAuto" and "tc_lastCoords t = None"
  shows "tc_fastPolls (foldl (\<lambda>t now. applyAndSchedule t now None daylight) t nows) = tc_fastPolls t + length nows \<and>
    tc_preference (foldl (\<lambda>t now. applyAndSchedule t now None daylight) t nows) = ThemeAuto \<and>
    tc_lastCoords (foldl (\<lambda>t now. applyAndSchedule t now None daylight) t nows) = None"
  using assms by (induction nows rule: rev_induct) (simp_all add: applyAndSchedule_def Let_def)

text \<open>Without a fix the clock polls fast exactly ten times and then slowly.\<close>

lemma polling_settles:
  assumes "tc_preference t = ThemeAuto" and "tc_lastCoords t = None" and "nows \<noteq> []"
  shows "tc_timer (foldl (\<lambda>t now. applyAndSchedule t now None daylight) (t\<lparr> tc_fastPolls := 0 \<rparr>) nows) =
    Some (if length nows \<le> MAX_FAST_POLLS then AWAITING_FIX_MS else SUN_TICK_MS)"
proof -
  obtain ns n where nows: "nows = ns @ [n]" using assms(3) by (metis rev_exhaust)
  show ?thesis
    using unfixed_polls[of "t\<lparr> tc_fastPolls := 0 \<rparr>" daylight ns] assms(1,2)
    by (simp add: nows applyAndSchedule_def Let_def)
qed

lemma release_builds_are_locked:
  "getAppEnvironment False appEnv \<noteq> Testing \<longleftrightarrow> appEnv \<noteq> Some ''testing''"
  "\<not> ec_enableDebugMode (ENV_CONFIG Production) \<and> \<not> ec_enableCrashTest (ENV_CONFIG Production) \<and>
   \<not> ec_showEnvironmentBanner (ENV_CONFIG Production) \<and> \<not> ec_enableVerboseLogging (ENV_CONFIG Production)"
  by (simp_all add: getAppEnvironment_def ENV_CONFIG_def)

section \<open>Lemmas: the stage\<close>

text \<open>The sprite is never wider than the stage, in rounded arithmetic too.\<close>

lemma contain_fits_width:
  assumes "rnd w = w" and "rnd a = a" and "0 < h" and "0 \<le> w"
  shows "fst (containFit w h a) \<le> w"
proof (cases "jdiv w h > a")
  case True
  have "w / h > a"
  proof (rule ccontr)
    assume "\<not> w / h > a"
    then have "rnd (w / h) \<le> rnd a" by (intro rnd_mono) simp
    then show False using True assms(2) by (simp add: jdiv_def)
  qed
  then have "h * a \<le> w" using assms(3) by (simp add: field_simps)
  then have "rnd (h * a) \<le> rnd w" by (rule rnd_mono)
  then show ?thesis using True assms(1) by (simp add: containFit_def jmul_def)
qed (simp add: containFit_def)

lemma stage_fits_width:
  assumes "rnd w = w" and "rnd (sf_aspect f) = sf_aspect f" and "0 < h" and "0 \<le> w" and "0 \<le> s" and "s \<le> 1"
  shows "rc_width (fst (computeStageLayout w h f s sp dp)) \<le> w"
proof -
  have "fst (containFit w h (sf_aspect f)) * s \<le> w"
  proof -
    have "fst (containFit w h (sf_aspect f)) * s \<le> w * s"
      using contain_fits_width[OF assms(1-4)] assms(5) by (rule mult_right_mono)
    also have "\<dots> \<le> w * 1" using assms(4,6) by (intro mult_left_mono)
    finally show ?thesis by simp
  qed
  then have "rnd (fst (containFit w h (sf_aspect f)) * s) \<le> rnd w" by (rule rnd_mono)
  then show ?thesis using assms(1) by (simp add: computeStageLayout_def Let_def split_beta jmul_def)
qed

text \<open>
  In automatic mode the day theme is shown exactly when the sun is up at a known position; without
  one the clock polls ten times quickly and then slowly; a choice is not undone by the restored one.
\<close>

lemma theme_follows_sun:
  assumes "tc_preference t = ThemeAuto" and "tc_lastCoords t = None" and "nows \<noteq> []"
  shows "(tc_themeName (applyAndSchedule t now cached daylight) = Day \<longleftrightarrow>
      (\<exists>lat lon. tc_lastCoords (applyAndSchedule t now cached daylight) = Some (lat, lon) \<and> daylight now lat lon)) \<and>
    tc_timer (foldl (\<lambda>t now. applyAndSchedule t now None daylight) (t\<lparr> tc_fastPolls := 0 \<rparr>) nows) =
      Some (if length nows \<le> 10 then 3000 else 60000) \<and>
    tc_preference (themeRestored (fst (setPreference io (t, s) p)) settings) = p"
  using auto_follows_sun[OF assms(1), of now cached daylight] polling_settles[OF assms, of daylight] theme_choice_wins[of io t s p settings]
  by (simp add: MAX_FAST_POLLS_def AWAITING_FIX_MS_def SUN_TICK_MS_def)

end
