(* ===== verification/CombatView.thy ===== *)
theory CombatView
  imports FightPhases AppShell
begin

text \<open>
  The combat window on top of the controller: the ability buttons and bars of \<open>CombatModal.tsx\<close>,
  the impact effects of \<open>useCombatImpact.ts\<close> that turn the feed of hits into floating numbers and
  bursts, and the poses and painted art of a creature. The lemmas show that the feed only grows or
  is emptied, that every hit is turned into exactly one floating number, and that a tap on an
  enabled button passes the turn.
\<close>

section \<open>Bars\<close>

definition clampPct :: "real \<Rightarrow> real" where
  "clampPct n = max 0 (min 100 n)"

definition toPct :: "int \<Rightarrow> int \<Rightarrow> real" where
  "toPct value mx = (if mx > 0 then clampPct (jmul (jdiv (of_int value) (of_int mx)) 100) else 0)"

datatype hp_tone = HpSuccess | HpWarning | HpDanger

definition hpColor :: "int \<Rightarrow> int \<Rightarrow> hp_tone" where
  "hpColor hp maxHp =
     (let ratio = (if maxHp > 0 then jdiv (of_int hp) (of_int maxHp) else 0)
      in if ratio > 1 / 2 then HpSuccess else if ratio > 1 / 4 then HpWarning else HpDanger)"

text \<open>What a render of the window is given.\<close>

record combat_props =
  cm_encounter :: "encounter option"
  cm_player :: "player option"
  cm_playerCombatState :: "combatant_state option"
  cm_isEnemyTurn :: bool

definition shownResource :: "combatant_state option \<Rightarrow> archetype \<Rightarrow> int" where
  "shownResource st a = (case st of Some s \<Rightarrow> cs_resource s | None \<Rightarrow> rc_startValue (RESOURCE_CONFIGS a))"

record bar_targets =
  bt_creatureHp :: real
  bt_playerHp :: real
  bt_resource :: real

definition barTargets :: "combat_props \<Rightarrow> bar_targets" where
  "barTargets cm =
     \<lparr> bt_creatureHp = (case cm_encounter cm of None \<Rightarrow> 100
          | Some e \<Rightarrow> toPct (c_hp (e_creature e)) (c_maxHp (e_creature e))),
       bt_playerHp = (case cm_player cm of None \<Rightarrow> 100 | Some p \<Rightarrow> toPct (p_hp p) (p_maxHp p)),
       bt_resource = (case cm_player cm of None \<Rightarrow> 0
          | Some p \<Rightarrow> toPct (shownResource (cm_playerCombatState cm) (p_archetype p))
                       (rc_max (RESOURCE_CONFIGS (p_archetype p)))) \<rparr>"

text \<open>The fight the bars were last drawn for, and whether this render eases or snaps.\<close>

definition barEffect :: "int option \<Rightarrow> combat_props \<Rightarrow> int option \<times> bool \<times> bar_targets" where
  "barEffect barsEncounter cm =
     (let encId = map_option e_timestamp (cm_encounter cm)
      in (encId, barsEncounter = encId, barTargets cm))"

section \<open>Ability buttons\<close>

definition buttonDisabled :: "combat_props \<Rightarrow> creature \<Rightarrow> player \<Rightarrow> ability \<Rightarrow> bool" where
  "buttonDisabled cm c p ab \<longleftrightarrow> c_isDefeated c \<or> p_isDefeated p \<or>
     a_resourceCost ab > shownResource (cm_playerCombatState cm) (p_archetype p) \<or> cm_isEnemyTurn cm"

text \<open>Whether a press reaches \<open>onAbility\<close>; the resource is read from the ref, not from the render.\<close>

definition handleAbilityPress :: "creature \<Rightarrow> player \<Rightarrow> combatant_state option \<Rightarrow> ability \<Rightarrow> bool" where
  "handleAbilityPress c p ref ab \<longleftrightarrow>
     \<not> (c_isDefeated c \<or> p_isDefeated p \<or> a_resourceCost ab > shownResource ref (p_archetype p))"

text \<open>A tap on the button of \<open>ab\<close>, drawn by the render \<open>cm\<close>, while the controller is in \<open>h\<close>.\<close>

definition tapAbility :: "combat_props \<Rightarrow> hook \<Rightarrow> ability \<Rightarrow> hook" where
  "tapAbility cm h ab =
     (case (cm_encounter cm, cm_player cm) of
        (Some e, Some p) \<Rightarrow>
          if buttonDisabled cm (e_creature e) p ab then h
          else if handleAbilityPress (e_creature e) p (h_playerCombatState h) ab
               then fst (handleAbility h ab) else h
      | _ \<Rightarrow> h)"

definition combatRender :: "hook \<Rightarrow> combat_props" where
  "combatRender h =
     \<lparr> cm_encounter = map_option snd (h_encounter h), cm_player = h_player h,
       cm_playerCombatState = h_playerCombatState h, cm_isEnemyTurn = h_isEnemyTurn h \<rparr>"

definition signed :: "int \<Rightarrow> string" where
  "signed n = (if n > 0 then ''+'' else []) @ show_int n"

definition getDamagePreview :: "combat_props \<Rightarrow> creature \<Rightarrow> player \<Rightarrow> ability \<Rightarrow> string" where
  "getDamagePreview cm c p ab =
     (case a_kind ab of
        Direct _ _ \<Rightarrow>
          let effectiveAttack = fst (computeEffectiveStats (p_attack p) (p_defense p)
                (case cm_playerCombatState cm of None \<Rightarrow> [] | Some st \<Rightarrow> cs_statusEffects st));
              dmg = ar_damage (resolveAbility ab effectiveAttack (c_defense c) (c_resistances c) (p_maxHp p))
          in ''~'' @ show_int dmg @ '' dmg''
      | Dot d n _ \<Rightarrow> show_int d @ [CHR 0xC3, CHR 0x97] @ show_int n @ '' DoT''
      | BuffDebuff n mods _ \<Rightarrow>
          join '', ''
            ((case sm_attack mods of None \<Rightarrow> [] | Some x \<Rightarrow> [signed x @ '' ATK'']) @
             (case sm_defense mods of None \<Rightarrow> [] | Some x \<Rightarrow> [signed x @ '' DEF''])) @
          '' ('' @ show_int n @ ''t)''
      | Defensive _ _ _ \<Rightarrow>
          let result = resolveAbility ab 0 0 (c_resistances c) (p_maxHp p)
          in if ar_heal result > 0 then ''+'' @ show_int (ar_heal result) @ '' HP''
             else if ar_shield result > 0 then show_int (ar_shield result) @ '' shield'' else [])"

section \<open>The encounter window\<close>

text \<open>The skip button is drawn for foes below rare only; \<open>playerHp\<close> is absent without a player.\<close>

definition canAutoResolve :: "encounter \<Rightarrow> bool" where
  "canAutoResolve e \<longleftrightarrow> \<not> isEliteCreature (c_rarity (e_creature e))"

definition encounterButtonsDisabled :: "encounter \<Rightarrow> int option \<Rightarrow> bool" where
  "encounterButtonsDisabled e playerHp \<longleftrightarrow> c_isDefeated (e_creature e) \<or>
     (case playerHp of None \<Rightarrow> False | Some hp \<Rightarrow> hp \<le> 0)"

section \<open>Poses and art\<close>

datatype anim_state = AnimIdle | AnimAttack | AnimDeath

definition deriveCreatureAnimState :: "bool \<Rightarrow> bool \<Rightarrow> anim_state" where
  "deriveCreatureAnimState isDefeated isEnemyTurn =
     (if isDefeated then AnimDeath else if isEnemyTurn then AnimAttack else AnimIdle)"

record painted_key =
  pk_source :: string
  pk_framing :: sprite_framing

record painted_creature =
  pc_night :: painted_key
  pc_day :: "painted_key option"
  pc_scale :: real

definition PAINTED_CREATURES :: "(string \<times> painted_creature) list" where
  "PAINTED_CREATURES =
     [(''ash_wretch'',
       \<lparr> pc_night = \<lparr> pk_source = ''../../../assets/creatures/ash_wretch_night.png'',
           pk_framing = \<lparr> sf_aspect = rnd (87 / 100), sf_footLeft = rnd (17 / 1000),
             sf_footRight = rnd (884 / 1000), sf_stanceDepth = rnd (223 / 1000) \<rparr> \<rparr>,
         pc_day = Some \<lparr> pk_source = ''../../../assets/creatures/ash_wretch_day.png'',
           pk_framing = \<lparr> sf_aspect = rnd (784 / 1000), sf_footLeft = rnd (178 / 1000),
             sf_footRight = rnd (911 / 1000), sf_stanceDepth = rnd (223 / 1000) \<rparr> \<rparr>,
         pc_scale = 1 \<rparr>)]"

text \<open>The chosen art, its scale and whether the grounding gloom is drawn.\<close>

definition resolvePainted :: "(string \<times> painted_creature) list \<Rightarrow> string option \<Rightarrow> bool option \<Rightarrow>
    (painted_key \<times> real \<times> bool) option" where
  "resolvePainted registry creatureId daylight =
     (case (case creatureId of None \<Rightarrow> None | Some i \<Rightarrow> if i = [] then None else map_of registry i) of
        None \<Rightarrow> None
      | Some painted \<Rightarrow>
          (case (daylight, pc_day painted) of
             (Some True, Some day) \<Rightarrow> Some (day, pc_scale painted, False)
           | _ \<Rightarrow> Some (pc_night painted, pc_scale painted, daylight = Some True)))"

definition resolvePaintedCreature :: "string option \<Rightarrow> bool option \<Rightarrow> (painted_key \<times> real \<times> bool) option" where
  "resolvePaintedCreature = resolvePainted PAINTED_CREATURES"

section \<open>Impact effects\<close>

record floater =
  fl_id :: nat
  fl_target :: combatant
  fl_label :: string
  fl_color :: string
  fl_fontSize :: int
  fl_dx :: real

datatype burst_kind = BDamage | BBuff | BDebuff

record burst =
  bu_id :: nat
  bu_target :: combatant
  bu_damageType :: "damage_type option"
  bu_resist :: resist_tier
  bu_kind :: burst_kind

text \<open>The animations that the effect starts on the panels, in order.\<close>

datatype panel_fx = Shake real | Flash combatant | Recoil combatant | Empower combatant

record impact =
  im_floaters :: "floater list"
  im_bursts :: "burst list"
  im_nextFloaterId :: nat
  im_nextBurstId :: nat
  im_lastSeenHitId :: int
  im_fxEncounter :: "int option"
  im_panelFx :: "panel_fx list"

definition impact_init :: impact where
  "impact_init = \<lparr> im_floaters = [], im_bursts = [], im_nextFloaterId = 0, im_nextBurstId = 0,
     im_lastSeenHitId = - 1, im_fxEncounter = None, im_panelFx = [] \<rparr>"

definition shakeMagnitude :: "int \<Rightarrow> int \<Rightarrow> real" where
  "shakeMagnitude amount maxHp =
     (let intensity = (if maxHp > 0 then min 1 (jdiv (of_int amount) (jmul (of_int maxHp) (1 / 4))) else 1 / 2)
      in jadd 3 (jmul (jsub 9 3) intensity))"

definition FLOATER_DX_SPREAD :: real where "FLOATER_DX_SPREAD = 18"

definition spawnFloater :: "nat \<Rightarrow> hit_event \<Rightarrow> real \<Rightarrow> floater" where
  "spawnFloater i ev draw =
     \<lparr> fl_id = i, fl_target = ev_target ev, fl_label = ts_label (hitFloaterStyle ev),
       fl_color = ts_color (hitFloaterStyle ev), fl_fontSize = ts_fontSize (hitFloaterStyle ev),
       fl_dx = jmul (jsub (jmul draw 2) 1) FLOATER_DX_SPREAD \<rparr>"

fun spawnFloaters :: "nat \<Rightarrow> hit_event list \<Rightarrow> floater list rand" where
  "spawnFloaters i [] = State_Monad.return []"
| "spawnFloaters i (ev # evs) = do {
     draw \<leftarrow> math_random;
     fs \<leftarrow> spawnFloaters (Suc i) evs;
     State_Monad.return (spawnFloater i ev draw # fs) }"

text \<open>The loop over the fresh hits: the next burst id, the bursts and the animations so far.\<close>

fun spawnBursts :: "nat \<Rightarrow> hit_event list \<Rightarrow> burst list \<Rightarrow> panel_fx list \<Rightarrow> nat \<times> burst list \<times> panel_fx list" where
  "spawnBursts n [] bs fx = (n, bs, fx)"
| "spawnBursts n (ev # evs) bs fx =
     (if ev_kind ev = KHeal then spawnBursts n evs bs fx
      else if ev_kind ev = KBuff \<or> ev_kind ev = KDebuff then
        spawnBursts (Suc n) evs
          (bs @ [\<lparr> bu_id = n, bu_target = ev_target ev, bu_damageType = None, bu_resist = ev_resist ev,
                   bu_kind = (if ev_kind ev = KBuff then BBuff else BDebuff) \<rparr>])
          (fx @ [Empower (ev_target ev)])
      else if ev_evade ev = Some Dodged then spawnBursts n evs bs fx
      else
        spawnBursts (Suc n) evs
          (bs @ [\<lparr> bu_id = n, bu_target = ev_target ev, bu_damageType = ev_damageType ev,
                   bu_resist = ev_resist ev, bu_kind = BDamage \<rparr>])
          (fx @ Shake (shakeMagnitude (ev_amount ev) (ev_targetMaxHp ev)) #
             (if ev_target ev = TCreature then [Flash TCreature, Recoil TCreature] else [Flash TPlayer])))"

definition enterEncounter :: "impact \<Rightarrow> int option \<Rightarrow> impact" where
  "enterEncounter im encounterId =
     (if im_fxEncounter im \<noteq> encounterId
      then im\<lparr> im_fxEncounter := encounterId, im_floaters := [], im_bursts := [] \<rparr> else im)"

definition freshHits :: "int \<Rightarrow> hit_event list \<Rightarrow> hit_event list" where
  "freshHits lastSeen hits = filter (\<lambda>ev. int (ev_id ev) > lastSeen) hits"

definition impactEffect :: "impact \<Rightarrow> int option \<Rightarrow> hit_event list \<Rightarrow> impact rand" where
  "impactEffect im encounterId hits =
     (let im1 = enterEncounter im encounterId;
          fresh = freshHits (im_lastSeenHitId im1) hits
      in if fresh = [] then State_Monad.return im1
         else do {
           spawned \<leftarrow> spawnFloaters (im_nextFloaterId im1) fresh;
           let (nextBurst, bs, fx) = spawnBursts (im_nextBurstId im1) fresh [] [];
           State_Monad.return (im1\<lparr> im_lastSeenHitId := int (ev_id (last fresh)),
             im_floaters := im_floaters im1 @ spawned,
             im_nextFloaterId := im_nextFloaterId im1 + length fresh,
             im_nextBurstId := nextBurst, im_bursts := im_bursts im1 @ bs,
             im_panelFx := im_panelFx im1 @ fx \<rparr>) })"

definition removeFloater :: "impact \<Rightarrow> nat \<Rightarrow> impact" where
  "removeFloater im i = im\<lparr> im_floaters := filter (\<lambda>f. fl_id f \<noteq> i) (im_floaters im) \<rparr>"

definition removeBurst :: "impact \<Rightarrow> nat \<Rightarrow> impact" where
  "removeBurst im i = im\<lparr> im_bursts := filter (\<lambda>b. bu_id b \<noteq> i) (im_bursts im) \<rparr>"

section \<open>The window beside the controller\<close>

text \<open>
  The window stays mounted across fights; its effect runs after every change of the controller,
  and animations that finish remove their number or burst at any time.
\<close>

record combat_view =
  v_hook :: hook
  v_impact :: impact
  v_draws :: rng

datatype view_event = HookEvent hook_event | FloaterDone nat | BurstDone nat

fun view_step :: "combat_view \<Rightarrow> view_event \<Rightarrow> combat_view" where
  "view_step v (HookEvent e) =
     (let h = hook_step (v_hook v) e;
          (im, r) = run_state (impactEffect (v_impact v) (map_option (e_timestamp \<circ> snd) (h_encounter h))
                      (h_combatHits h)) (v_draws v)
      in v\<lparr> v_hook := h, v_impact := im, v_draws := r \<rparr>)"
| "view_step v (FloaterDone i) = v\<lparr> v_impact := removeFloater (v_impact v) i \<rparr>"
| "view_step v (BurstDone i) = v\<lparr> v_impact := removeBurst (v_impact v) i \<rparr>"

fun view_event_ok :: "view_event \<Rightarrow> bool" where
  "view_event_ok (HookEvent e) \<longleftrightarrow> event_ok e"
| "view_event_ok _ \<longleftrightarrow> True"

definition view_init :: "rng \<Rightarrow> int \<Rightarrow> rng \<Rightarrow> combat_view" where
  "view_init r now draws = \<lparr> v_hook = hook_init r now, v_impact = impact_init, v_draws = draws \<rparr>"

section \<open>What a step does to the feed and the window\<close>

definition feed :: "hook \<Rightarrow> hit_event list \<times> nat" where
  "feed h = (h_combatHits h, h_hitId h)"

text \<open>New hits are appended and numbered from the counter on.\<close>

definition fed :: "hook \<Rightarrow> hook \<Rightarrow> hit_event list \<Rightarrow> bool" where
  "fed h h' evs \<longleftrightarrow> feed h' = (h_combatHits h @ evs, h_hitId h + length evs) \<and>
     map ev_id evs = [h_hitId h ..< h_hitId h + length evs]"

definition feed_moves :: "hook \<Rightarrow> hook \<Rightarrow> hit_event list \<Rightarrow> bool" where
  "feed_moves h h' evs \<longleftrightarrow> fed h h' evs \<or> evs = [] \<and> feed h' = ([], h_hitId h)"

text \<open>An open combat window has a foe and a combat state, and a foe on stage was not paid for yet.\<close>

definition window_ok :: "hook \<Rightarrow> bool" where
  "window_ok h \<longleftrightarrow> (h_encounter h \<noteq> None \<longrightarrow> \<not> h_victoryProcessed h) \<and>
     (h_showCombatModal h \<longrightarrow> h_encounter h \<noteq> None \<and> h_playerCombatState h \<noteq> None)"

definition same_view :: "hook \<Rightarrow> hook \<Rightarrow> bool" where
  "same_view h h' \<longleftrightarrow> feed h' = feed h \<and> (h_encounter h' = None \<longleftrightarrow> h_encounter h = None) \<and>
     h_victoryProcessed h' = h_victoryProcessed h \<and> h_showCombatModal h' = h_showCombatModal h \<and>
     (h_playerCombatState h' = None \<longleftrightarrow> h_playerCombatState h = None)"

definition view_moves :: "hook \<Rightarrow> hook \<Rightarrow> bool" where
  "view_moves h h' \<longleftrightarrow> (\<exists>evs. feed_moves h h' evs) \<and> window_ok h'"

lemma fed_refl: "feed h' = feed h \<Longrightarrow> fed h h' []"
  by (simp add: fed_def feed_def)

lemma fed_trans: "fed h k xs \<Longrightarrow> fed k l ys \<Longrightarrow> fed h l (xs @ ys)"
  using upt_add_eq_append[of "h_hitId h" "h_hitId h + length xs" "length ys"] by (simp add: fed_def feed_def add.assoc)

lemma fed_cong: "feed h' = feed k \<Longrightarrow> feed h = feed l \<Longrightarrow> fed h h' evs = fed l k evs"
  by (simp add: fed_def feed_def)

lemma fed_pushHit: "fed h (pushHit h ev) [ev\<lparr> ev_id := h_hitId h \<rparr>]"
  by (simp add: fed_def feed_def pushHit_def)

lemma feed_frames [simp]:
  "feed (pushLog h e) = feed h" "feed (emit h x) = feed h" "feed (setPlayerAndSave h p) = feed h"
  "feed (cancelCounterBeat h) = feed h" "feed (endFight h) = feed h" "feed (endEnemyTurn h) = feed h"
  "feed (setCreature h c) = feed h" "feed (scheduleVictory h p) = feed h"
  "feed (scheduleCounterAttack h a d c) = feed h" "feed (h\<lparr> h_rng := r \<rparr>) = feed h"
  "feed (handlePlayerDefeat h p) = feed h" "feed (presentEncounter h enc) = feed h" "feed (refreshTimes h) = feed h"
  by (simp_all add: feed_def pushLog_def emit_def setPlayerAndSave_def cancelCounterBeat_def endFight_def endEnemyTurn_def
      setCreature_def scheduleVictory_def scheduleCounterAttack_def handlePlayerDefeat_def presentEncounter_def
      refreshTimes_def Let_def)

lemma same_view_refl [simp]: "same_view h h"
  by (simp add: same_view_def)

lemma same_view_trans: "same_view h k \<Longrightarrow> same_view k l \<Longrightarrow> same_view h l"
  by (simp add: same_view_def)

lemma same_view_moves: "same_view h h' \<Longrightarrow> window_ok h \<Longrightarrow> view_moves h h'"
  using fed_refl[of h' h] by (auto simp: same_view_def view_moves_def feed_moves_def window_ok_def)

lemma view_moves_same: "view_moves h k \<Longrightarrow> same_view k l \<Longrightarrow> view_moves h l"
  by (simp add: view_moves_def feed_moves_def same_view_def window_ok_def fed_def feed_def)

lemma same_view_then: "same_view h k \<Longrightarrow> view_moves k l \<Longrightarrow> view_moves h l"
  by (simp add: view_moves_def feed_moves_def same_view_def fed_def feed_def)

lemma same_view_window: "same_view h k \<Longrightarrow> window_ok h \<Longrightarrow> window_ok k"
  by (simp add: same_view_def window_ok_def)

lemma same_view_emit [simp]: "same_view h (emit k x) = same_view h k"
  by (simp add: same_view_def emit_def feed_def)

lemma same_view_emits [simp]: "same_view h (foldl (\<lambda>k e. emit k (f e)) k es) = same_view h k"
  by (induction es arbitrary: k) simp_all

section \<open>Steps the window does not notice\<close>

lemma passive_same_view: "same_view h (resolvePassiveEncounter h enc bg tier)"
  by (auto simp: resolvePassiveEncounter_def passiveOutcome_def passiveLoot_def run_rand_def setPlayerAndSave_def Let_def
      same_view_def emit_def feed_def split: option.splits prod.splits if_splits)

lemma hold_same_view: "same_view h (fst (holdEliteEncounter h re bg existing saveOk))"
  by (simp add: holdEliteEncounter_def Let_def same_view_def emit_def feed_def)

lemma rollForced_same_view: "same_view h (snd (rollForced h l r))"
  by (simp add: rollForced_def run_rand_def Let_def same_view_def feed_def case_prod_beta)

lemma idle_same_view: "same_view h (debugForceIdleEncounter h r)"
  using rollForced_same_view[of h "debugLevel h" "Some r"]
  by (auto simp: debugForceIdleEncounter_def case_prod_beta intro: same_view_trans passive_same_view)

lemma simulate_same_view: "same_view h (debugSimulateWalk h n)"
  unfolding debugSimulateWalk_def by (induction n) (auto intro: same_view_trans idle_same_view)

lemma nextRef_same_view: "same_view h (h\<lparr> h_nextRef := n \<rparr>)"
  by (simp add: same_view_def feed_def)

lemma held_same_view:
  "same_view h (fst (holdEliteEncounter (h\<lparr> h_nextRef := n \<rparr>) re bg existing saveOk))"
  by (rule same_view_trans[OF nextRef_same_view hold_same_view])

lemma elite_same_view: "same_view h (debugForceEliteEncounter h r existing saveOk)"
proof -
  obtain enc k where k: "rollForced h (debugLevel h) (Some r) = (enc, k)" by force
  have "same_view h k" using rollForced_same_view[of h "debugLevel h" "Some r"] k by simp
  then have "same_view h (fst (holdEliteEncounter (k\<lparr> h_nextRef := Suc (h_nextRef k) \<rparr>) (h_nextRef k, enc) False existing saveOk))"
    by (rule same_view_trans[OF _ held_same_view])
  then show ?thesis using k
    by (auto simp: debugForceEliteEncounter_def case_prod_beta intro: same_view_trans passive_same_view)
qed

lemma preview_same_view: "same_view h (debugPreviewReveal h r)"
  by (simp add: debugPreviewReveal_def run_rand_def Let_def same_view_def feed_def case_prod_beta)

lemma walk_same_view: "same_view h (checkWalkSummaryBegin h es)" "same_view h (checkWalkSummaryEnd h)"
proof -
  show "same_view h (checkWalkSummaryBegin h es)" by (simp add: checkWalkSummaryBegin_def same_view_def feed_def)
  have "same_view h (h\<lparr> h_isCheckingWalkSummary := False, h_drained := None \<rparr>)" by (simp add: same_view_def feed_def)
  then show "same_view h (checkWalkSummaryEnd h)"
    by (cases "h_drained h")
      (simp_all add: checkWalkSummaryEnd_def Let_def same_view_def[of h "_\<lparr> h_walkSummary := _ \<rparr>"] feed_def)
qed

lemma settings_same_view:
  "same_view h (hookSetBypass h b)" "same_view h (tickCountdown h)" "same_view h (rewardTimerFires h)"
  "same_view h (dismissReward h)" "same_view h (dismissWalkSummary h)" "same_view h (handleMinimize h)"
  "same_view h (handleExpandMinimized h)" "same_view h (refreshHeldFoe h d)"
  "same_view h (h\<lparr> h_forceItemDrop := b \<rparr>)" "same_view h (h\<lparr> h_forcedRarity := r \<rparr>)" "same_view h (h\<lparr> h_player := p \<rparr>)"
  "same_view h (h\<lparr> h_isBackground := b \<rparr>)" "same_view h (h\<lparr> h_autoResolveBelowRare := b \<rparr>)"
  "same_view h (h\<lparr> h_currentLocation := l \<rparr>)" "same_view h (h\<lparr> h_now := t \<rparr>)"
  by (simp_all add: same_view_def feed_def hookSetBypass_def tickCountdown_def rewardTimerFires_def dismissReward_def
      dismissWalkSummary_def handleMinimize_def handleExpandMinimized_def refreshHeldFoe_def
      refreshTimes_def split: option.split)

section \<open>Steps that add hits\<close>

definition feeds :: "hook \<Rightarrow> hook \<Rightarrow> bool" where
  "feeds h h' \<longleftrightarrow> (\<exists>evs. fed h h' evs)"

lemma feeds_refl: "feed h' = feed h \<Longrightarrow> feeds h h'"
  unfolding feeds_def using fed_refl by blast

lemma feeds_trans: "feeds h k \<Longrightarrow> feeds k l \<Longrightarrow> feeds h l"
  unfolding feeds_def using fed_trans by blast

lemma feeds_then: "feeds h k \<Longrightarrow> feed l = feed k \<Longrightarrow> feeds h l"
  by (rule feeds_trans[OF _ feeds_refl])

lemma feeds_pushHit: "feeds h k \<Longrightarrow> feeds h (pushHit k ev)"
  unfolding feeds_def using fed_trans fed_pushHit by blast

lemma feeds_frames [simp]:
  "feeds h (pushLog k e) = feeds h k" "feeds h (setPlayerAndSave k p) = feeds h k" "feeds h (endEnemyTurn k) = feeds h k"
  "feeds h (handlePlayerDefeat k p) = feeds h k" "feeds h (scheduleVictory k p) = feeds h k"
  "feeds h (scheduleCounterAttack k a d c) = feeds h k" "feeds h (setCreature k c) = feeds h k" "feeds h h"
  "feeds h (k\<lparr> h_counterTimer := t \<rparr>) = feeds h k" "feeds h (k\<lparr> h_rng := r \<rparr>) = feeds h k"
  "feeds h (k\<lparr> h_playerDodgeStreak := i \<rparr>) = feeds h k" "feeds h (k\<lparr> h_creatureDodgeStreak := i \<rparr>) = feeds h k"
  "feeds h (k\<lparr> h_encounter := enc \<rparr>) = feeds h k" "feeds h (k\<lparr> h_nextRef := n \<rparr>) = feeds h k"
  "feeds h (k\<lparr> h_playerCombatState := st \<rparr>) = feeds h k" "feeds h (k\<lparr> h_creatureCombatState := st \<rparr>) = feeds h k"
  by (simp_all add: feeds_def fed_def) (simp_all add: feed_def)

lemma feeds_rand: "feeds h (snd (run_rand k m)) = feeds h k"
  by (simp add: run_rand_def case_prod_beta Let_def)

lemma counterStrike_feeds: "feeds h (counterStrike h atk def c p)"
  by (simp add: counterStrike_def case_prod_beta Let_def feeds_pushHit feeds_rand)

lemma dotLoop_feeds: "feeds h k \<Longrightarrow> feeds h (fst (dotLoop k c ds n))"
  by (induction ds arbitrary: k n) (simp_all add: Let_def feeds_pushHit)

lemma tickCreatureDots_feeds: "feeds h (fst (tickCreatureDots h c st))"
  using dotLoop_feeds[of h h] by (auto simp: tickCreatureDots_def Let_def case_prod_beta split: option.split)

lemma directSwing_feeds: "feeds h (fst (directSwing h ab p c d))"
  by (simp add: directSwing_def Let_def case_prod_beta feeds_pushHit feeds_rand split: ability_kind.split)

lemma applyHeal_feeds: "feeds h (fst (applyHeal h ab p n))"
  by (auto simp: applyHeal_def intro!: feeds_pushHit)

lemma announceStatus_feeds: "feeds h (announceStatus h ab p c)"
  by (auto simp: announceStatus_def Let_def split: ability_kind.split intro!: feeds_pushHit)

lemma performAbility_feeds: "feeds h (performAbility h ab p re c pst pre new)"
proof -
  have "feeds h (announceStatus (fst (applyHeal (fst (directSwing h ab p c d)) ab p n)) ab q c')" for d n q c'
    by (rule feeds_trans[OF feeds_trans[OF directSwing_feeds applyHeal_feeds] announceStatus_feeds])
  then show ?thesis by (auto simp: performAbility_def Let_def case_prod_beta)
qed

section \<open>Steps the window follows\<close>

lemma moves_quiet: "feed h' = feed h \<Longrightarrow> window_ok h' \<Longrightarrow> view_moves h h'"
  unfolding view_moves_def feed_moves_def using fed_refl by blast

lemma moves_cleared: "feed h' = ([], h_hitId h) \<Longrightarrow> window_ok h' \<Longrightarrow> view_moves h h'"
  unfolding view_moves_def feed_moves_def by blast

lemma moves_fed: "feeds h h' \<Longrightarrow> window_ok h' \<Longrightarrow> view_moves h h'"
  unfolding view_moves_def feed_moves_def feeds_def by blast

lemma window_closed: "h_encounter h = None \<Longrightarrow> \<not> h_showCombatModal h \<Longrightarrow> window_ok h"
  by (simp add: window_ok_def)

lemma handleVictory_cleans:
  "handleVictory h pu = h \<or> feed (handleVictory h pu) = feed h \<and> h_encounter (handleVictory h pu) = None \<and>
     \<not> h_showCombatModal (handleVictory h pu)"
  by (auto simp: handleVictory_def run_rand_def cancelCounterBeat_def endFight_def setPlayerAndSave_def pushLog_def feed_def
      Let_def split: option.splits prod.splits)

lemma victory_view:
  assumes "feed k = feed h" and "window_ok k"
  shows "view_moves h (handleVictory k pu)"
  using handleVictory_cleans[of k pu] assms by (auto intro: moves_quiet window_closed)

lemma flee_view:
  assumes "feed k = feed h" and "window_ok k"
  shows "view_moves h (handleFlee k)"
proof (cases "h_fleeProcessed k \<or> h_counterPending k")
  case True
  then show ?thesis using assms by (auto simp: handleFlee_def intro: moves_quiet)
next
  case False
  then show ?thesis using assms(1)
    by (intro moves_cleared window_closed)
      (auto simp: handleFlee_def feed_def endFight_def setPlayerAndSave_def Let_def split: option.split)
qed

lemma fight_view:
  assumes "window_ok h" shows "view_moves h (handleFight h)"
proof -
  note stay = same_view_moves[OF same_view_refl assms] and win = victory_view[OF refl assms, of None]
  have open_new: "view_moves h (h\<lparr> h_showCombatModal := True, h_playerCombatState := Some st, h_combatHits := [], h_combatLog := [],
      h_playerDodgeStreak := 0, h_creatureDodgeStreak := 0 \<rparr>)"
    "view_moves h (h\<lparr> h_showCombatModal := True, h_playerCombatState := Some st, h_combatHits := [], h_combatLog := [],
      h_playerDodgeStreak := 0, h_creatureDodgeStreak := 0, h_creatureCombatState := cst \<rparr>)"
    if "h_encounter h \<noteq> None" for st cst
    by (rule moves_cleared; use assms that in \<open>simp add: feed_def window_ok_def\<close>)+
  have reopen: "view_moves h (h\<lparr> h_showCombatModal := True \<rparr>)"
    "view_moves h (h\<lparr> h_showCombatModal := True, h_creatureCombatState := cst \<rparr>)"
    if "h_encounter h \<noteq> None" "h_playerCombatState h \<noteq> None" for cst
    by (rule moves_quiet; use assms that in \<open>simp add: feed_def window_ok_def\<close>)+
  show ?thesis using stay win open_new reopen by (auto simp: handleFight_def Let_def split: option.split)
qed

lemma finish_view:
  assumes "window_ok h"
  shows "view_moves h (handleAutoResolve h)" and "view_moves h (handleDebugDefeat h)" and "view_moves h (killBeatFires h)"
    and "view_moves h (handleCloseCombatModal h)"
  using assms
  by (auto simp: handleAutoResolve_def handleDebugDefeat_def killBeatFires_def handleCloseCombatModal_def Let_def window_ok_def
      feed_def split: option.split intro!: moves_quiet victory_view)

lemma present_view: "feed k = feed h \<Longrightarrow> view_moves h (presentEncounter k enc)"
  by (rule moves_quiet, simp) (simp add: window_ok_def presentEncounter_def cancelCounterBeat_def)

lemma engage_view: "window_ok h \<Longrightarrow> view_moves h (engageHeldFoe h cleared)"
  by (rule moves_quiet) (auto simp: engageHeldFoe_def emit_def feed_def window_ok_def split: option.split)

lemma clear_view: "view_moves h (clearEncounter h)"
  by (rule moves_cleared) (simp_all add: clearEncounter_def cancelCounterBeat_def feed_def window_ok_def Let_def)

lemma force_view: "view_moves h (hookForceEncounter h)"
proof -
  obtain enc k where k: "rollForced h (or_falsy (map_option p_level (h_player h)) 1) None = (enc, k)" by force
  have "feed k = feed h"
    using rollForced_same_view[of h "or_falsy (map_option p_level (h_player h)) 1" None] k by (simp add: same_view_def)
  then have "view_moves h (presentEncounter k enc)" by (rule present_view)
  moreover have "same_view l (refreshTimes (l\<lparr> h_encounterChance := 0 \<rparr>))" for l
    by (simp add: refreshTimes_def same_view_def feed_def)
  ultimately show ?thesis using k by (simp add: hookForceEncounter_def view_moves_same)
qed

lemma route_view:
  assumes "same_view h k" and "window_ok h"
  shows "view_moves h (routeEncounter k enc existing saveOk)"
proof -
  obtain k' held where k': "holdEliteEncounter (k\<lparr> h_nextRef := Suc (h_nextRef k) \<rparr>) (h_nextRef k, enc) (h_isBackground k) existing saveOk = (k', held)"
    by force
  have "same_view k k'"
    using held_same_view[of k "Suc (h_nextRef k)" "(h_nextRef k, enc)" "h_isBackground k" existing saveOk] k' by simp
  then have s: "same_view h k'" "same_view h (resolvePassiveEncounter k' enc bg t)" "same_view h (resolvePassiveEncounter k enc bg t)" for bg t
    using assms(1) by (blast intro: same_view_trans passive_same_view)+
  have "feed k = feed h" using assms(1) by (simp add: same_view_def)
  then show ?thesis using present_view[of k h enc] same_view_moves[OF _ assms(2)] s k'
    by (simp add: routeEncounter_def Let_def split: encounter_route.split)
qed

lemma distance_view:
  assumes "window_ok h"
  shows "view_moves h (onDistanceEncounterUpdate h dd p existing saveOk)"
proof (cases "h_encounter h")
  case (Some re)
  have "window_ok (emit h x)" for x using assms by (simp add: window_ok_def emit_def)
  then show ?thesis using Some assms same_view_moves[OF same_view_refl assms]
    by (cases re) (auto simp: onDistanceEncounterUpdate_def autoFlee_def intro!: flee_view)
next
  case None
  have frames: "same_view h (refreshChance k) = same_view h k"
    "same_view k (refreshTimes (k\<lparr> h_encounterChance := x, h_lastEncounterChance := y \<rparr>))" for k x y
    by (simp_all add: refreshChance_def refreshTimes_def same_view_def feed_def)
  have rolled: "same_view h (h\<lparr> h_rng := r, h_service := sv \<rparr>)" for r sv by (simp add: same_view_def feed_def)
  show ?thesis
    using same_view_moves[OF _ assms] view_moves_same[OF route_view[OF rolled assms] frames(2)] frames(1) rolled None
    by (auto simp: onDistanceEncounterUpdate_def run_rand_def Let_def split: option.splits prod.splits)
qed

lemma paid_flag_frames [simp]:
  "h_victoryProcessed (pushHit h ev) = h_victoryProcessed h" "h_victoryProcessed (pushLog h e) = h_victoryProcessed h"
  "h_victoryProcessed (snd (run_rand h m)) = h_victoryProcessed h"
  "h_victoryProcessed (fst (directSwing h ab p c d)) = h_victoryProcessed h"
  "h_victoryProcessed (fst (applyHeal h ab p n)) = h_victoryProcessed h"
  "h_victoryProcessed (announceStatus h ab p c) = h_victoryProcessed h"
  by (simp_all add: pushHit_def pushLog_def run_rand_def directSwing_def applyHeal_def announceStatus_def case_prod_beta Let_def
      split: ability_kind.split)

lemma performAbility_window: "\<not> h_victoryProcessed h \<Longrightarrow> window_ok (performAbility h ab p re c pst pre new)"
  by (simp add: performAbility_def case_prod_beta Let_def window_ok_def scheduleVictory_def scheduleCounterAttack_def
      setPlayerAndSave_def)

lemma dots_window:
  "h_encounter (fst (tickCreatureDots h c st)) = h_encounter h"
  "h_victoryProcessed (fst (tickCreatureDots h c st)) = h_victoryProcessed h"
proof -
  have "swing_frame h (fst (tickCreatureDots h c st))"
    using dotLoop_frame[of h h] by (auto simp: tickCreatureDots_def Let_def case_prod_beta split: option.split)
  from swing_frame_fields(1,6)[OF this]
  show "h_encounter (fst (tickCreatureDots h c st)) = h_encounter h"
    "h_victoryProcessed (fst (tickCreatureDots h c st)) = h_victoryProcessed h" by simp_all
qed

lemma ability_view:
  assumes "window_ok h" shows "view_moves h (fst (handleAbility h ab))"
proof (cases "(\<exists>re. h_encounter h = Some re) \<and> (\<exists>p. h_player h = Some p) \<and> (\<exists>pst. h_playerCombatState h = Some pst)")
  case True
  then obtain re p pst where e: "h_encounter h = Some re" "h_player h = Some p" "h_playerCombatState h = Some pst" by blast
  note stay = same_view_moves[OF same_view_refl assms]
  obtain h1 c new where t: "tickCreatureDots h (e_creature (snd re)) (h_creatureCombatState h) = (h1, c, new)" by (metis prod.collapse)
  have h1: "h_encounter h1 = Some re" "h_victoryProcessed h1 = h_victoryProcessed h" "feeds h h1"
    using dots_window[of h "e_creature (snd re)" "h_creatureCombatState h"] t e(1)
      tickCreatureDots_feeds[of h "e_creature (snd re)" "h_creatureCombatState h"] by simp_all
  have live: "\<not> h_victoryProcessed h" using assms e(1) by (simp add: window_ok_def)
  have kill: "view_moves h (scheduleVictory ((setCreature h1 c)\<lparr> h_playerCombatState := Some (tickedState pst),
      h_creatureCombatState := new \<rparr>) (clone_player p))"
    using h1 live by (intro moves_fed, simp) (simp add: window_ok_def scheduleVictory_def setCreature_def)
  have acted: "view_moves h (performAbility (setCreature h1 c) ab (clone_player p) re c pst (h_creatureCombatState h) new)"
    using h1 live feeds_trans[OF _ performAbility_feeds, of h "setCreature h1 c"]
    by (intro moves_fed performAbility_window) (simp_all add: setCreature_def)
  have "view_moves h ((handleVictory h None)\<lparr> h_showCombatModal := False \<rparr>)"
  proof (rule moves_quiet)
    show "feed ((handleVictory h None)\<lparr> h_showCombatModal := False \<rparr>) = feed h"
      using handleVictory_cleans[of h None] by (auto simp: feed_def)
    show "window_ok ((handleVictory h None)\<lparr> h_showCombatModal := False \<rparr>)"
      using handleVictory_cleans[of h None] live by (auto simp: window_ok_def)
  qed
  then show ?thesis using e t stay kill acted by (simp add: handleAbility_def Let_def)
next
  case False
  then have "fst (handleAbility h ab) = h" by (auto simp: handleAbility_def split: option.splits)
  then show ?thesis using same_view_moves[OF same_view_refl assms] by simp
qed

lemma counterStrike_window:
  assumes "window_ok h" shows "window_ok (counterStrike h atk def c p)"
  using assms
  by (auto simp: counterStrike_def case_prod_beta Let_def window_ok_def handlePlayerDefeat_def endEnemyTurn_def emit_def
      endFight_def setPlayerAndSave_def pushHit_def pushLog_def run_rand_def)

lemma counter_view:
  assumes "window_ok h" shows "view_moves h (counterTimerFires h)"
proof -
  have k: "window_ok (h\<lparr> h_counterTimer := None \<rparr>)" "feeds h (h\<lparr> h_counterTimer := None \<rparr>)"
    using assms by (simp_all add: window_ok_def)
  have "view_moves h (counterStrike (h\<lparr> h_counterTimer := None \<rparr>) atk def c p)" for atk def c p
    by (rule moves_fed[OF feeds_trans[OF k(2) counterStrike_feeds] counterStrike_window[OF k(1)]])
  moreover have "view_moves h (endEnemyTurn (h\<lparr> h_counterTimer := None \<rparr>))"
    using k by (intro moves_fed, simp) (simp add: window_ok_def endEnemyTurn_def)
  ultimately show ?thesis using same_view_moves[OF same_view_refl assms]
    by (auto simp: counterTimerFires_def Let_def split: option.split counter_timer.split)
qed

lemma hook_step_view: "window_ok h \<Longrightarrow> view_moves h (hook_step h e)"
  by (cases e) (simp_all add: fight_view ability_view flee_view finish_view counter_view distance_view engage_view clear_view
      force_view same_view_moves settings_same_view walk_same_view idle_same_view simulate_same_view elite_same_view
      preview_same_view)

text \<open>With the phases: the foe of the enemy's turn is on stage and the window has what it shows.\<close>

definition stage_ok :: "hook \<Rightarrow> bool" where
  "stage_ok h \<longleftrightarrow> hook_ok h \<and> foe_turn h \<and> window_ok h"

interpretation stage_machine: step_machine hook_step stage_ok event_ok
  by unfold_locales (auto simp: stage_ok_def hook_step_ok dest: hook_step_simulates hook_step_view
      simp: simulates_def view_moves_def)

lemma stage_init: "valid_rng r \<Longrightarrow> stage_ok (hook_init r now)"
  by (simp add: stage_ok_def hook_init_ok) (simp add: window_ok_def hook_init_def)

section \<open>A tap passes the turn\<close>

lemma handleAbility_decided:
  assumes ok: "stage_ok h" and ab: "ability_ok ab" and e: "h_encounter h = Some re" "h_player h = Some p" "h_playerCombatState h = Some pst"
    and free: "phase_of h = YourTurn" and alive: "\<not> c_isDefeated (e_creature (snd re))" and cost: "a_resourceCost ab \<le> cs_resource pst"
  shows "phase_of (fst (handleAbility h ab)) \<in> {EnemyTurn, KillTurn}"
proof -
  have idle: "\<not> h_victoryProcessed h" "\<not> h_killBeatPending h" "\<not> h_counterPending h" and hok: "hook_ok h"
    using ok e(1) free by (auto simp: stage_ok_def window_ok_def phase_of_def phase_view_def split: if_splits)
  show ?thesis
  proof (cases "snd (handleAbility h ab)")
    case True
    then have "handleAbility h ab = (fst (handleAbility h ab), True)" by (metis prod.collapse)
    then show ?thesis
      by (rule handleAbility_used[OF hok ab]) (auto simp: turn_passed_def phase_of_def phase_view_def split: if_splits)
  next
    case False
    obtain h1 c new where t: "tickCreatureDots h (e_creature (snd re)) (h_creatureCombatState h) = (h1, c, new)" by (metis prod.collapse)
    have "fst (handleAbility h ab) =
      scheduleVictory ((setCreature h1 c)\<lparr> h_playerCombatState := Some (tickedState pst), h_creatureCombatState := new \<rparr>) (clone_player p)"
      using False e idle alive cost t by (auto simp: handleAbility_def Let_def split: if_splits)
    then show ?thesis using dot_kill_fields[OF hok e(1) idle t] by (simp add: phase_of_def phase_view_def)
  qed
qed

text \<open>The buttons an open window draws, and what tapping them does.\<close>

lemma tap_decides:
  assumes ok: "stage_ok h" and ab: "ability_ok ab" and shown: "h_showCombatModal h" and p: "h_player h = Some p"
  obtains re pst where "h_encounter h = Some re" "h_playerCombatState h = Some pst"
    "buttonDisabled (combatRender h) (e_creature (snd re)) p ab \<Longrightarrow> tapAbility (combatRender h) h ab = h"
    "\<not> buttonDisabled (combatRender h) (e_creature (snd re)) p ab \<Longrightarrow> phase_of h = YourTurn \<Longrightarrow>
       phase_of (tapAbility (combatRender h) h ab) \<in> {EnemyTurn, KillTurn}"
    "\<not> buttonDisabled (combatRender h) (e_creature (snd re)) p ab \<Longrightarrow> phase_of h \<in> {YourTurn, KillTurn}"
proof -
  from ok shown obtain re pst where e: "h_encounter h = Some re" "h_playerCombatState h = Some pst"
    by (auto simp: stage_ok_def window_ok_def)
  have turn: "h_isEnemyTurn h = h_counterPending h" using ok by (auto simp: stage_ok_def hook_ok_def beat_ok_def)
  show ?thesis
  proof (rule that[OF e])
    show "tapAbility (combatRender h) h ab = h" if "buttonDisabled (combatRender h) (e_creature (snd re)) p ab"
      using that e p by (simp add: tapAbility_def combatRender_def)
  next
    assume enabled: "\<not> buttonDisabled (combatRender h) (e_creature (snd re)) p ab"
    then show "phase_of h \<in> {YourTurn, KillTurn}"
      using e turn by (auto simp: buttonDisabled_def combatRender_def phase_of_def phase_view_def)
    assume "phase_of h = YourTurn"
    moreover have "\<not> c_isDefeated (e_creature (snd re))" "a_resourceCost ab \<le> cs_resource pst" "\<not> p_isDefeated p"
      using enabled e by (simp_all add: buttonDisabled_def combatRender_def shownResource_def)
    ultimately show "phase_of (tapAbility (combatRender h) h ab) \<in> {EnemyTurn, KillTurn}"
      using handleAbility_decided[OF ok ab e(1) p e(2)] enabled e p
      by (simp add: tapAbility_def combatRender_def handleAbilityPress_def shownResource_def)
  qed
qed

section \<open>Every hit is shown once\<close>

text \<open>A floating number stands for a hit: same id, its panel and its text, at most 18 pixels off centre.\<close>

definition stands_for :: "floater \<Rightarrow> hit_event \<Rightarrow> bool" where
  "stands_for f ev \<longleftrightarrow> fl_id f = ev_id ev \<and> fl_target f = ev_target ev \<and> fl_label f = ts_label (hitFloaterStyle ev) \<and>
     fl_color f = ts_color (hitFloaterStyle ev) \<and> fl_fontSize f = ts_fontSize (hitFloaterStyle ev) \<and>
     \<bar>fl_dx f\<bar> \<le> FLOATER_DX_SPREAD"

text \<open>The hits that get a burst: all but healing and full dodges.\<close>

definition bursts_out :: "hit_event \<Rightarrow> bool" where
  "bursts_out ev \<longleftrightarrow> ev_kind ev \<in> {KBuff, KDebuff} \<or> ev_kind ev \<noteq> KHeal \<and> ev_evade ev \<noteq> Some Dodged"

lemma floater_jitter:
  assumes "valid_draw d" shows "\<bar>jmul (jsub (jmul d 2) 1) FLOATER_DX_SPREAD\<bar> \<le> FLOATER_DX_SPREAD"
proof -
  have d: "0 \<le> d" "d \<le> 1" using assms by (auto simp: valid_draw_def)
  have "0 \<le> jmul d 2" "jmul d 2 \<le> 2"
    using d rnd_le_of_int[of "d * 2" 2] by (simp_all add: jmul_def rnd_nonneg)
  then have x: "- 1 \<le> jsub (jmul d 2) 1" "jsub (jmul d 2) 1 \<le> 1"
    using rnd_ge_of_int[of "- 1" "jmul d 2 - 1"] rnd_le_of_int[of "jmul d 2 - 1" 1] by (simp_all add: jsub_def)
  show ?thesis
    using x rnd_ge_of_int[of "- 18" "jsub (jmul d 2) 1 * 18"] rnd_le_of_int[of "jsub (jmul d 2) 1 * 18" 18]
    by (simp add: FLOATER_DX_SPREAD_def jmul_def[of "jsub (jmul d 2) 1"] abs_le_iff)
qed

lemma spawnFloater_stands: "valid_draw d \<Longrightarrow> ev_id ev = i \<Longrightarrow> stands_for (spawnFloater i ev d) ev"
  using floater_jitter[of d] by (simp add: stands_for_def spawnFloater_def)

lemma spawnFloaters_stand:
  "map ev_id evs = [i ..< i + length evs] \<Longrightarrow> rand_all (\<lambda>fs. list_all2 stands_for fs evs) (spawnFloaters i evs)"
proof (induction evs arbitrary: i)
  case (Cons ev evs)
  then have ids: "ev_id ev = i" "map ev_id evs = [Suc i ..< Suc i + length evs]"
    by (simp_all add: upt_conv_Cons del: upt_Suc)
  show ?case unfolding spawnFloaters.simps
    by (rule rand_all_bind[OF rand_all_random], rule rand_all_bind[OF Cons.IH[OF ids(2)]], rule rand_all_return)
      (simp add: spawnFloater_stands ids(1))
qed (simp add: rand_all_return)

lemma spawnBursts_ids:
  "spawnBursts n evs bs fx = (n', bs', fx') \<Longrightarrow>
     n' = n + length (filter bursts_out evs) \<and> (\<exists>new. bs' = bs @ new \<and> map bu_id new = [n ..< n'])"
proof (induction evs arbitrary: n bs fx)
  case (Cons ev evs)
  show ?case
  proof (cases "bursts_out ev")
    case True
    then obtain b g where "spawnBursts (Suc n) evs (bs @ [b]) (fx @ g) = (n', bs', fx')" and b: "bu_id b = n"
      using Cons.prems by (fastforce simp: bursts_out_def split: if_splits)
    from Cons.IH[OF this(1)] show ?thesis using True b by (auto simp: upt_conv_Cons simp del: upt_Suc)
  next
    case False
    then have "spawnBursts n evs bs fx = (n', bs', fx')" using Cons.prems by (auto simp: bursts_out_def split: if_splits)
    from Cons.IH[OF this] show ?thesis using False by auto
  qed
qed simp

text \<open>The window has seen every hit so far, and its numbers and bursts have ids of their own.\<close>

definition impact_ok :: "hook \<Rightarrow> impact \<Rightarrow> bool" where
  "impact_ok h im \<longleftrightarrow> im_nextFloaterId im = h_hitId h \<and> im_lastSeenHitId im = int (h_hitId h) - 1 \<and>
     ids_ok (map fl_id (im_floaters im)) (im_nextFloaterId im) \<and> ids_ok (map bu_id (im_bursts im)) (im_nextBurstId im)"

lemma ids_ok_append: "ids_ok is n \<Longrightarrow> n \<le> m \<Longrightarrow> ids_ok (is @ [n ..< m]) m"
  by (auto simp: ids_ok_def sorted_wrt_append)

lemma ids_ok_distinct: "ids_ok is n \<Longrightarrow> distinct is"
  by (auto simp: ids_ok_def strict_sorted_iff)

lemma ids_ok_filter: "ids_ok (map f xs) n \<Longrightarrow> ids_ok (map f (filter P xs)) n"
  by (auto simp: ids_ok_def sorted_wrt_map intro: sorted_wrt_filter)

lemma freshHits_moved:
  assumes "hook_ok h" and "feed_moves h h' evs"
  shows "freshHits (int (h_hitId h) - 1) (h_combatHits h') = evs"
proof -
  have old: "filter (\<lambda>ev. int (ev_id ev) > int (h_hitId h) - 1) (h_combatHits h) = []"
    using assms(1) by (auto simp: hook_ok_def ids_ok_def filter_empty_conv)
  have new: "filter (\<lambda>ev. int (ev_id ev) > int (h_hitId h) - 1) evs = evs" if "fed h h' evs"
  proof (rule filter_True, rule ballI)
    fix ev assume "ev \<in> set evs"
    then have "ev_id ev \<in> set [h_hitId h ..< h_hitId h + length evs]" using that by (metis fed_def image_eqI set_map)
    then show "int (h_hitId h) - 1 < int (ev_id ev)" by simp
  qed
  show ?thesis using assms(2) old new by (auto simp: feed_moves_def freshHits_def fed_def feed_def)
qed

lemma enterEncounter_cases:
  obtains kept bs where "enterEncounter im i = im\<lparr> im_fxEncounter := i, im_floaters := kept, im_bursts := bs \<rparr>"
    "kept \<in> {im_floaters im, []}" "bs \<in> {im_bursts im, []}"
  using that[where kept = "im_floaters im" and bs = "im_bursts im"] that[where kept = "[]" and bs = "[]"]
  by (cases "im_fxEncounter im = i") (auto simp: enterEncounter_def)

lemma impactEffect_shows:
  assumes ok: "hook_ok h" and moves: "feed_moves h h' evs" and im: "impact_ok h im" and r: "valid_rng r"
    and run: "run_state (impactEffect im i (h_combatHits h')) r = (im', r')"
  obtains kept spawned where "im_floaters im' = kept @ spawned" "kept \<in> {im_floaters im, []}"
    "list_all2 stands_for spawned evs" "impact_ok h' im'" "valid_rng r'"
proof (rule enterEncounter_cases[of im i])
  fix kept bs
  assume k: "enterEncounter im i = im\<lparr> im_fxEncounter := i, im_floaters := kept, im_bursts := bs \<rparr>"
    and kept: "kept \<in> {im_floaters im, []}" "bs \<in> {im_bursts im, []}"
  have fresh: "freshHits (im_lastSeenHitId im) (h_combatHits h') = evs"
    using freshHits_moved[OF ok moves] im by (simp add: impact_ok_def)
  have ids: "ids_ok (map fl_id kept) (h_hitId h)" "ids_ok (map bu_id bs) (im_nextBurstId im)"
    using kept im by (auto simp: impact_ok_def)
  show ?thesis
  proof (cases "evs = []")
    case True
    then have "h_hitId h' = h_hitId h" using moves by (auto simp: feed_moves_def fed_def feed_def)
    then show ?thesis using that[of kept "[]"] True run im ids kept r by (auto simp: impactEffect_def k fresh impact_ok_def)
  next
    case False
    then have new: "map ev_id evs = [h_hitId h ..< h_hitId h + length evs]" "h_hitId h' = h_hitId h + length evs"
      using moves by (auto simp: feed_moves_def fed_def feed_def)
    obtain fs r1 where fs: "run_state (spawnFloaters (h_hitId h) evs) r = (fs, r1)" by force
    have stand: "list_all2 stands_for fs evs" "valid_rng r1"
      using rand_allD[OF spawnFloaters_stand[OF new(1)] r] fs by simp_all
    obtain n' nb fx where b: "spawnBursts (im_nextBurstId im) evs [] [] = (n', nb, fx)" by (metis prod.collapse)
    have burst: "im_nextBurstId im \<le> n'" "map bu_id nb = [im_nextBurstId im ..< n']"
      using spawnBursts_ids[OF b] by auto
    have "map fl_id fs = map ev_id evs"
      using stand(1) by (induction rule: list_all2_induct) (simp_all add: stands_for_def)
    then have flids: "map fl_id fs = [h_hitId h ..< h_hitId h']" using new by simp
    have "ev_id (last evs) = last (map ev_id evs)" using False by (simp add: last_map)
    then have "ev_id (last evs) = h_hitId h' - 1" using new False by simp
    moreover have "0 < h_hitId h'" using new(2) False by simp
    ultimately have last: "int (ev_id (last evs)) = int (h_hitId h') - 1" by (simp add: of_nat_diff)
    have im': "im' = (enterEncounter im i)\<lparr> im_lastSeenHitId := int (h_hitId h') - 1, im_floaters := kept @ fs,
        im_nextFloaterId := h_hitId h', im_nextBurstId := n', im_bursts := bs @ nb, im_panelFx := im_panelFx im @ fx \<rparr>" "r' = r1"
      using run im False fs b last new(2) by (auto simp: impactEffect_def k fresh impact_ok_def Let_def)
    have "impact_ok h' im'"
      using ids_ok_append[OF ids(1), of "h_hitId h'"] ids_ok_append[OF ids(2) burst(1)] new(2)
      by (simp add: impact_ok_def im' flids burst(2))
    then show ?thesis using that[of kept fs] im' kept stand by simp
  qed
qed

definition view_ok :: "combat_view \<Rightarrow> bool" where
  "view_ok v \<longleftrightarrow> stage_ok (v_hook v) \<and> impact_ok (v_hook v) (v_impact v) \<and> valid_rng (v_draws v)"

lemma view_step_shows:
  assumes ok: "view_ok v" and e: "event_ok e"
  obtains evs kept spawned where "feed_moves (v_hook v) (hook_step (v_hook v) e) evs"
    "im_floaters (v_impact (view_step v (HookEvent e))) = kept @ spawned" "kept \<in> {im_floaters (v_impact v), []}"
    "list_all2 stands_for spawned evs" "view_ok (view_step v (HookEvent e))"
proof -
  let ?h = "hook_step (v_hook v) e"
  have st: "stage_ok ?h" using stage_machine.step_inv[of "v_hook v" e] ok e by (simp add: view_ok_def)
  obtain evs where evs: "feed_moves (v_hook v) ?h evs"
    using ok hook_step_view[of "v_hook v" e] by (auto simp: view_ok_def stage_ok_def view_moves_def)
  obtain im' r' where run: "run_state (impactEffect (v_impact v) (map_option (e_timestamp \<circ> snd) (h_encounter ?h)) (h_combatHits ?h)) (v_draws v) = (im', r')"
    by force
  have v': "view_step v (HookEvent e) = v\<lparr> v_hook := ?h, v_impact := im', v_draws := r' \<rparr>" using run by (simp add: Let_def)
  show ?thesis
  proof (rule impactEffect_shows[OF _ evs _ _ run])
    show "hook_ok (v_hook v)" "impact_ok (v_hook v) (v_impact v)" "valid_rng (v_draws v)" using ok by (simp_all add: view_ok_def stage_ok_def)
    fix kept spawned
    assume "im_floaters im' = kept @ spawned" "kept \<in> {im_floaters (v_impact v), []}" "list_all2 stands_for spawned evs"
      "impact_ok ?h im'" "valid_rng r'"
    then show ?thesis using that[OF evs, of kept spawned] st by (simp add: v' view_ok_def del: view_step.simps)
  qed
qed

lemma done_view: "view_ok v \<Longrightarrow> view_ok (view_step v (FloaterDone i))" "view_ok v \<Longrightarrow> view_ok (view_step v (BurstDone i))"
  by (auto simp: view_ok_def impact_ok_def removeFloater_def removeBurst_def intro: ids_ok_filter)

interpretation view_machine: step_machine view_step view_ok view_event_ok
proof
  fix v e assume v: "view_ok v" and e: "view_event_ok e"
  show "view_ok (view_step v e)"
  proof (cases e)
    case (HookEvent x)
    then show ?thesis using view_step_shows[OF v] e by (metis view_event_ok.simps(1))
  qed (simp_all add: done_view[OF v] del: view_step.simps)
qed

lemma view_init_ok: "valid_rng r \<Longrightarrow> valid_rng d \<Longrightarrow> view_ok (view_init r now d)"
  by (simp add: view_ok_def view_init_def stage_init) (simp add: impact_ok_def impact_init_def hook_init_def)

section \<open>The buttons of the encounter window\<close>

lemma tap_fight_opens:
  assumes "h_encounter h = Some re" and "h_player h = Some p" and "\<not> encounterButtonsDisabled (snd re) (Some (p_hp p))"
  shows "h_showCombatModal (handleFight h)" and "h_encounter (handleFight h) = h_encounter h"
  using assms by (auto simp: handleFight_def encounterButtonsDisabled_def p_isDefeated_def Let_def split: prod.split)

lemma tap_auto_resolve_wins:
  assumes ok: "stage_ok h" and enc: "h_encounter h = Some re" and p: "h_player h = Some p" and "canAutoResolve (snd re)"
  shows "phase_of (handleAutoResolve h) = NoFoe" and "h_rewardRevealTimer (handleAutoResolve h) \<noteq> None"
proof -
  let ?k = "h\<lparr> h_showCombatModal := False, h_showEncounterModal := False, h_isMinimized := False \<rparr>"
  obtain ref e where re: "re = (ref, e)" by force
  have k: "hook_ok ?k" "h_encounter ?k = Some (ref, e)" "\<not> h_victoryProcessed ?k" "player_ok p"
    using ok enc re hook_okD(2)[OF _ p] by (simp_all add: stage_ok_def window_ok_def views_ok)
  have eq: "handleAutoResolve h = handleVictory ?k (Some p)" using assms re by (simp add: handleAutoResolve_def canAutoResolve_def)
  show "phase_of (handleAutoResolve h) = NoFoe" and "h_rewardRevealTimer (handleAutoResolve h) \<noteq> None" unfolding eq
    by (rule handleVictory_cases[OF k(1,2,4) _ k(3), of "Some p"],
        simp_all add: phase_of_def phase_view_def endFight_def setPlayerAndSave_def)+
qed

section \<open>What is displayed\<close>

lemma toPct_range: "0 \<le> toPct v m" "toPct v m \<le> 100"
  by (simp_all add: toPct_def clampPct_def)

lemma toPct_full: "0 < m \<Longrightarrow> m \<le> v \<Longrightarrow> toPct v m = 100"
proof -
  assume m: "0 < m" "m \<le> v"
  then have "1 \<le> jdiv (of_int v) (of_int m)"
    using rnd_ge_of_int[of 1 "of_int v / of_int m"] by (simp add: jdiv_def field_simps)
  then have "100 \<le> jmul (jdiv (of_int v) (of_int m)) 100"
    using rnd_ge_of_int[of 100 "jdiv (of_int v) (of_int m) * 100"] by (simp add: jmul_def)
  then show ?thesis using m by (simp add: toPct_def clampPct_def)
qed

lemma toPct_mono:
  assumes "0 \<le> v" and "v \<le> w" shows "toPct v m \<le> toPct w m"
proof (cases "0 < m")
  case True
  then have "jmul (jdiv (of_int v) (of_int m)) 100 \<le> jmul (jdiv (of_int w) (of_int m)) 100"
    using assms by (intro jmul_mono jdiv_mono jdiv_nonneg) simp_all
  then show ?thesis using True by (auto simp: toPct_def clampPct_def max_def min_def)
qed (simp add: toPct_def)

lemma shakeMagnitude_range: "0 \<le> amount \<Longrightarrow> 3 \<le> shakeMagnitude amount maxHp \<and> shakeMagnitude amount maxHp \<le> 9"
proof -
  assume a: "0 \<le> amount"
  define x where "x = (if maxHp > 0 then min 1 (jdiv (of_int amount) (jmul (of_int maxHp) (1 / 4))) else 1 / 2)"
  have x: "0 \<le> x" "x \<le> 1" using a by (auto simp: x_def intro!: jdiv_nonneg jmul_nonneg)
  have six: "jsub 9 3 = 6" using rnd_of_int[of 6] by (simp add: jsub_def)
  have "0 \<le> jmul 6 x" "jmul 6 x \<le> 6"
    using x rnd_le_of_int[of "6 * x" 6] by (simp_all add: jmul_def rnd_nonneg)
  then show ?thesis
    using rnd_ge_of_int[of 3 "3 + jmul 6 x"] rnd_le_of_int[of "3 + jmul 6 x" 9]
    by (simp add: shakeMagnitude_def x_def[symmetric] six jadd_def)
qed

text \<open>The announced damage is what the swing rolls against, as long as no effect changes the foe's defence.\<close>

lemma preview_is_damage:
  assumes "h_playerCombatState h = Some pst" and "a_kind ab = Direct m ty" and "0 \<le> c_defense c" and "sum_list (map defenseMod es) = 0"
  shows "getDamagePreview (combatRender h) c p ab =
    ''~'' @ show_int (ar_damage (resolveAbility ab (fst (computeEffectiveStats (p_attack p) (p_defense p) (cs_statusEffects pst)))
      (snd (computeEffectiveStats 0 (c_defense c) es)) (c_resistances c) (p_maxHp p))) @ '' dmg''"
  using assms by (simp add: getDamagePreview_def combatRender_def computeEffectiveStats_eq Let_def)

text \<open>The foe lunges exactly on its turn, unless it lies defeated.\<close>

lemma pose_of_phase:
  assumes "stage_ok h" and "h_encounter h = Some re"
  shows "deriveCreatureAnimState (c_isDefeated (e_creature (snd re))) (h_isEnemyTurn h) =
    (if c_isDefeated (e_creature (snd re)) then AnimDeath else if phase_of h = EnemyTurn then AnimAttack else AnimIdle)"
  using assms by (auto simp: deriveCreatureAnimState_def phase_of_def phase_view_def stage_ok_def hook_ok_def beat_ok_def)

text \<open>Daylight art is shown by day only, and the gloom exactly when night art is exposed by day.\<close>

lemma painted_light:
  assumes "n \<noteq> []" and "map_of reg n = Some c"
  shows "resolvePainted reg (Some n) daylight =
    Some (if daylight = Some True then (case pc_day c of None \<Rightarrow> pc_night c | Some day \<Rightarrow> day) else pc_night c,
      pc_scale c, daylight = Some True \<and> pc_day c = None)"
  using assms by (auto simp: resolvePainted_def split: option.split bool.split)

end
