(* ===== verification/Home.thy ===== *)
theory Home
  imports FightLemmas AuthFlow
begin

text \<open>
  What the home screen adds to its hooks (\<open>screens/HomeScreen.tsx\<close>, \<open>hooks/useDebugActions.ts\<close>):
  every distance report is added to the player, its milestones are announced, and the report is
  passed on to the encounter controller; an equipped or deleted item is merged into the latest
  player; the debug panel changes the player directly. The player reference is the controller's.
\<close>

section \<open>Distance\<close>

record home =
  hm_hook :: hook
  hm_currentDistance :: real
  hm_currentLocation :: "location_data option"
  hm_milestones :: "(int \<times> real) list"
  hm_alerts :: "string list"

definition MILESTONES :: "int list" where
  "MILESTONES = [1000, 5000, 10000, 25000, 50000, 100000]"

definition crossed :: "real \<Rightarrow> real \<Rightarrow> int \<Rightarrow> bool" where
  "crossed prevTotal newTotal milestone \<longleftrightarrow> prevTotal < of_int milestone \<and> of_int milestone \<le> newTotal"

text \<open>\<open>existing\<close> and \<open>saveOk\<close> are the store's answers to the controller.\<close>

definition handleDistanceUpdate :: "home \<Rightarrow> distance_data \<Rightarrow> encounter_data option \<Rightarrow> bool \<Rightarrow> home" where
  "handleDistanceUpdate s dd existing saveOk =
     (let s1 = s\<lparr> hm_currentDistance := dd_total dd, hm_currentLocation := Some (dd_location dd),
                  hm_hook := (hm_hook s)\<lparr> h_currentLocation := Some (plain_location (dd_location dd)) \<rparr> \<rparr>;
          currentPlayer = h_player (hm_hook s1);
          s2 = (case currentPlayer of
                  None \<Rightarrow> s1
                | Some p \<Rightarrow>
                    let updatedPlayer = addDistance (clone_player p) (dd_incremental dd);
                        newTotal = p_totalDistance updatedPlayer
                    in s1\<lparr> hm_hook := setPlayerAndSave (hm_hook s1) updatedPlayer,
                           hm_milestones := hm_milestones s1 @
                             map (\<lambda>m. (m, newTotal)) (filter (crossed (p_totalDistance p) newTotal) MILESTONES) \<rparr>)
      in s2\<lparr> hm_hook := onDistanceEncounterUpdate (hm_hook s2) dd currentPlayer existing saveOk \<rparr>)"

section \<open>Items\<close>

text \<open>The screen's player carries the change, the reference the latest distance and experience.\<close>

definition onItemEquipped :: "player \<Rightarrow> player \<Rightarrow> player" where
  "onItemEquipped ref shownPlayer =
     new_Player ((params_of_data (p_toJSON ref))
       \<lparr> q_inventory := Some (p_inventory shownPlayer), q_equipment := Some (p_equipment shownPlayer),
         q_attack := Some (p_attack shownPlayer), q_defense := Some (p_defense shownPlayer),
         q_hp := Some (p_hp shownPlayer), q_maxHp := Some (p_maxHp shownPlayer) \<rparr>)"

definition onItemDeleted :: "player \<Rightarrow> player \<Rightarrow> player" where
  "onItemDeleted ref shownPlayer =
     new_Player ((params_of_data (p_toJSON ref))\<lparr> q_inventory := Some (p_inventory shownPlayer) \<rparr>)"

text \<open>
  The inventory window changes the shown player only if the slot still holds the selected item;
  the result says whether anything changed.
\<close>

definition stillSelected :: "player \<Rightarrow> int \<Rightarrow> item \<Rightarrow> bool" where
  "stillSelected p index selected \<longleftrightarrow>
     0 \<le> index \<and> index < int (length (p_inventory p)) \<and>
     map_option i_id (p_inventory p ! nat index) = Some (i_id selected)"

definition handleEquip :: "player \<Rightarrow> int \<Rightarrow> item \<Rightarrow> equipment_slot option \<Rightarrow> player \<times> bool" where
  "handleEquip p index selected slot =
     (if index = - 1 \<or> \<not> stillSelected p index selected then (p, False) else equipItem p index slot)"

definition handleDelete :: "player \<Rightarrow> int \<Rightarrow> item \<Rightarrow> player \<times> bool" where
  "handleDelete p index selected =
     (if index = - 1 \<or> \<not> stillSelected p index selected then (p, False)
      else (fst (removeItemFromInventory p index), True))"

section \<open>Debug actions\<close>

definition withPlayer :: "home \<Rightarrow> (player \<Rightarrow> home) \<Rightarrow> home" where
  "withPlayer s f = (case h_player (hm_hook s) of None \<Rightarrow> s | Some p \<Rightarrow> f (clone_player p))"

definition savePlayer :: "home \<Rightarrow> player \<Rightarrow> home" where
  "savePlayer s p = s\<lparr> hm_hook := setPlayerAndSave (hm_hook s) p \<rparr>"

definition showAlert :: "home \<Rightarrow> string \<Rightarrow> home" where
  "showAlert s title = s\<lparr> hm_alerts := hm_alerts s @ [title] \<rparr>"

text \<open>\<open>||\<close> replaces a latitude or longitude of zero as well as a missing one.\<close>

definition or_zero :: "real option \<Rightarrow> real \<Rightarrow> real" where
  "or_zero x d = (case x of None \<Rightarrow> d | Some v \<Rightarrow> if v = 0 then d else v)"

definition simulateMovement :: "home \<Rightarrow> real \<Rightarrow> encounter_data option \<Rightarrow> bool \<Rightarrow> home" where
  "simulateMovement s distanceMeters existing saveOk =
     (let baseLat = or_zero (map_option l_latitude (h_currentLocation (hm_hook s))) (rnd (377749 / 10000));
          baseLon = or_zero (map_option l_longitude (h_currentLocation (hm_hook s))) (rnd (- (1224194 / 10000)));
          latOffset = jdiv distanceMeters 111000;
          newLocation = \<lparr> l_latitude = jadd baseLat latOffset, l_longitude = baseLon, l_accuracy = 10,
            l_altitude = Some 0, l_heading = Some 0, l_speed = 0, l_timestamp = h_now (hm_hook s) \<rparr>
      in handleDistanceUpdate s
           \<lparr> dd_incremental = distanceMeters, dd_total = jadd (hm_currentDistance s) distanceMeters,
             dd_location = newLocation \<rparr> existing saveOk)"

definition debugSetLevel :: "home \<Rightarrow> int \<Rightarrow> home" where
  "debugSetLevel s targetLevel = withPlayer s (\<lambda>p. showAlert (savePlayer s (setLevel p targetLevel)) ''Level Set'')"

definition debugSetArchetype :: "home \<Rightarrow> archetype \<Rightarrow> home" where
  "debugSetArchetype s a = withPlayer s (\<lambda>p. showAlert (savePlayer s (setArchetype p a)) ''Class Changed'')"

definition debugAddXP :: "home \<Rightarrow> int \<Rightarrow> home" where
  "debugAddXP s amount =
     withPlayer s (\<lambda>p.
       let (p', levelsGained) = addExperience p amount
       in showAlert (savePlayer s p') (if levelsGained > 0 then ''XP Added & Level Up!'' else ''XP Added''))"

definition debugRestoreHp :: "home \<Rightarrow> home" where
  "debugRestoreHp s = withPlayer s (\<lambda>p. savePlayer s (fullHeal p))"

definition debugClearInventory :: "home \<Rightarrow> home" where
  "debugClearInventory s = withPlayer s (\<lambda>p. savePlayer s (clearInventory p))"

text \<open>The loop of \<open>fillInventory\<close>: it ends because every round takes an empty slot.\<close>

function fillLoop :: "int \<Rightarrow> player \<Rightarrow> rng \<Rightarrow> int \<Rightarrow> player \<times> rng \<times> int" where
  "fillLoop now p r added =
     (let (it, r') = run_state (generateItem now (p_level p) None 1) r;
          (p', i) = addItemToInventory p it
      in if i = - 1 then (p', r', added) else fillLoop now p' r' (added + 1))"
  by pat_completeness auto
termination
proof (relation "measure (\<lambda>(now, p, r, n). nat (getEmptyInventorySlots p))")
  fix now added i :: int and p and r :: rng and x it r' y p'
  assume "x = run_state (generateItem now (p_level p) None 1) r" "(it, r') = x"
    "y = addItemToInventory p it" "(p', i) = y" and i: "i \<noteq> - 1"
  then have add: "addItemToInventory p it = (p', i)" by simp
  have nf: "\<not> isInventoryFull p" using addItem_full[of p it] add i by auto
  obtain j where j: "j < length (p_inventory p)" "p_inventory p ! j = None"
      "addItemToInventory p it = (p\<lparr> p_inventory := (p_inventory p)[j := Some it] \<rparr>, int j)"
    using addItem_free[OF nf, of it] by blast
  have "length (filter (\<lambda>s. s = None) ((p_inventory p)[j := Some it])) < length (filter (\<lambda>s. s = None) (p_inventory p))"
    using j(1,2)
    by (subst (2) id_take_nth_drop[OF j(1)]) (simp add: upd_conv_take_nth_drop)
  then show "((now, p', r', added + 1), now, p, r, added) \<in> measure (\<lambda>(now, p, r, n). nat (getEmptyInventorySlots p))"
    using j(3) add by (simp add: getEmptyInventorySlots_def)
qed simp

declare fillLoop.simps [simp del]

definition debugFillInventory :: "home \<Rightarrow> home" where
  "debugFillInventory s =
     withPlayer s (\<lambda>p.
       let (p', r', added) = fillLoop (h_now (hm_hook s)) p (h_rng (hm_hook s)) 0
       in showAlert (savePlayer (s\<lparr> hm_hook := (hm_hook s)\<lparr> h_rng := r' \<rparr> \<rparr>) p') ''Inventory Filled'')"

section \<open>Lemmas: distance\<close>

lemma resolvePassive_distance:
  assumes "hook_ok h" and "h_player h = Some p"
  shows "\<exists>q. h_player (resolvePassiveEncounter h enc bg tier) = Some q \<and> p_totalDistance q = p_totalDistance p"
proof -
  have p: "clone_player p = p" using hook_okD(2)[OF assms] by (rule clone_ok)
  obtain won xp it h1 where out: "passiveOutcome h (p_level p) (e_creature enc) tier = ((won, xp, it), h1)" by (metis prod.exhaust)
  let ?p2 = "if won then defeatCreature (incrementEncounters p) else incrementEncounters p"
  obtain p3 lv where xp: "addExperience ?p2 xp = (p3, lv)" by force
  obtain loot h2 where loot: "passiveLoot h1 (p_level p3) tier it = (loot, h2)" by force
  obtain p4 it2 where kd: "keepDrop p3 loot = (p4, it2)" by force
  obtain full up where sd: "storeDrop p3 loot = (p4, full, up)"
    using keepDrop_storeDrop[of p3 loot] kd by (metis prod.collapse fst_conv)
  have "p_totalDistance p4 = p_totalDistance p"
    using storeDrop_spec(3)[OF sd] addExperience_counters(3)[OF xp]
    by (simp add: incrementEncounters_def defeatCreature_def split: if_splits)
  then show ?thesis
    using assms(2)
    by (auto simp: resolvePassiveEncounter_def p out xp loot kd Let_def setPlayerAndSave_def fullHeal_def
        split: option.splits)
qed

lemma handleFlee_distance:
  assumes "hook_ok h" and "h_player h = Some p"
  shows "\<exists>q. h_player (handleFlee h) = Some q \<and> p_totalDistance q = p_totalDistance p"
  using assms(2) clone_ok[OF hook_okD(2)[OF assms]]
  by (auto simp: handleFlee_def endFight_def setPlayerAndSave_def fullHeal_def incrementEncounters_def Let_def
      split: option.splits)

lemma view_players [simp]:
  "h_player (refreshTimes h) = h_player h" "h_player (refreshChance h) = h_player h"
  "h_player (presentEncounter h e) = h_player h"
  "h_player (fst (holdEliteEncounter h re bg existing saveOk)) = h_player h"
  by (simp_all add: refreshTimes_def refreshChance_def presentEncounter_def cancelCounterBeat_def
      holdEliteEncounter_def Let_def)

lemma routeEncounter_distance:
  assumes "hook_ok h" and "h_player h = Some p" and "encounter_ok e"
  shows "\<exists>q. h_player (routeEncounter h e existing saveOk) = Some q \<and> p_totalDistance q = p_totalDistance p"
proof (cases "resolveEncounterRoute (h_isBackground h) (isEliteCreature (c_rarity (e_creature e))) (h_autoResolveBelowRare h)")
  case Hold
  obtain h1 held where hold: "holdEliteEncounter (h\<lparr> h_nextRef := Suc (h_nextRef h) \<rparr>) (h_nextRef h, e)
      (h_isBackground h) existing saveOk = (h1, held)" by force
  then have h1: "h1 = fst (holdEliteEncounter (h\<lparr> h_nextRef := Suc (h_nextRef h) \<rparr>) (h_nextRef h, e)
      (h_isBackground h) existing saveOk)" by simp
  have "hook_ok (h\<lparr> h_nextRef := Suc (h_nextRef h) \<rparr>)" by (rule nextRef_ok[OF assms(1)])
  then have "hook_ok h1" unfolding h1 by (rule holdElite_ok) (simp add: assms(3))
  moreover have "h_player h1 = Some p" unfolding h1 using assms(2) by simp
  ultimately show ?thesis using Hold hold resolvePassive_distance[of h1 p e "h_isBackground h" IdleTier]
    by (auto simp: routeEncounter_def)
qed (use assms resolvePassive_distance[OF assms(1,2)] in \<open>simp_all add: routeEncounter_def\<close>)

lemma onDistance_distance:
  assumes ok: "hook_ok h" and p: "h_player h = Some p"
  shows "\<exists>q. h_player (onDistanceEncounterUpdate h dd cp existing saveOk) = Some q \<and> p_totalDistance q = p_totalDistance p"
proof (cases "h_encounter h")
  case (Some re)
  have "hook_ok (emit h x)" for x by (rule emit_ok[OF ok])
  then show ?thesis using Some p handleFlee_distance
    by (cases re) (auto simp: onDistanceEncounterUpdate_def autoFlee_def)
next
  case None
  show ?thesis
  proof (cases cp)
    case None
    then show ?thesis using \<open>h_encounter h = None\<close> p by (simp add: onDistanceEncounterUpdate_def Let_def)
  next
    case (Some q)
    obtain eo sv r where run: "run_state (processDistanceUpdate (h_now h) (h_service h) (Some dd)
        (Some (plain_location (dd_location dd))) (p_level q)) (h_rng h) = ((eo, sv), r)" by (metis prod.exhaust)
    show ?thesis
    proof (cases eo)
      case None
      then show ?thesis using \<open>h_encounter h = None\<close> Some p run
        by (simp add: onDistanceEncounterUpdate_def Let_def run_rand_def)
    next
      case (Some e)
      have e: "encounter_ok e" and r: "valid_rng r"
        using rand_allD[OF process_fresh[of "p_level q" "h_now h" "h_service h" "Some dd"
              "Some (plain_location (dd_location dd))"] hook_okD(1)[OF ok]]
        by (auto simp: run Some fresh_encounter_def)
      have "hook_ok (h\<lparr> h_rng := r, h_service := sv \<rparr>)" using ok r by (simp add: hook_ok_def)
      from routeEncounter_distance[OF this _ e] p
      show ?thesis
        unfolding \<open>cp = Some q\<close> onDistance_route[OF \<open>h_encounter h = None\<close> run[unfolded Some]] by simp
    qed
  qed
qed

lemma crossed_split:
  assumes "sorted ms" and "a \<le> b" and "b \<le> c"
  shows "filter (crossed a b) ms @ filter (crossed b c) ms = filter (crossed a c) ms"
  using assms(1)
proof (induction ms)
  case (Cons m ms)
  consider "crossed a b m" | "crossed b c m" | "\<not> crossed a b m" "\<not> crossed b c m" by blast
  then show ?case
  proof cases
    case 1
    then have "\<not> crossed b c m" "crossed a c m" using assms by (auto simp: crossed_def)
    then show ?thesis using 1 Cons by simp
  next
    case 2
    then have "crossed a c m" "\<not> crossed a b m" using assms by (auto simp: crossed_def)
    moreover have "filter (crossed a b) ms = []"
      using 2 Cons.prems by (force simp: filter_empty_conv crossed_def)
    ultimately show ?thesis using 2 Cons by simp
  next
    case 3
    then have "\<not> crossed a c m" by (auto simp: crossed_def)
    then show ?thesis using 3 Cons by simp
  qed
qed simp

lemma addDistance_ok: "player_ok p \<Longrightarrow> player_ok (addDistance p d)"
  by (rule player_ops_ok)

text \<open>One report: the distance grows by exactly the increment, whatever the controller does.\<close>

lemma handleDistanceUpdate_effect:
  assumes ok: "hook_ok (hm_hook s)" and p: "h_player (hm_hook s) = Some p"
  obtains q where "h_player (hm_hook (handleDistanceUpdate s dd existing saveOk)) = Some q"
    "p_totalDistance q = jadd (p_totalDistance p) (dd_incremental dd)"
    "hook_ok (hm_hook (handleDistanceUpdate s dd existing saveOk))"
    "map fst (hm_milestones (handleDistanceUpdate s dd existing saveOk)) =
      map fst (hm_milestones s) @ filter (crossed (p_totalDistance p) (p_totalDistance q)) MILESTONES"
proof -
  let ?p = "addDistance p (dd_incremental dd)"
  let ?h = "setPlayerAndSave ((hm_hook s)\<lparr> h_currentLocation := Some (plain_location (dd_location dd)) \<rparr>) ?p"
  have pok: "player_ok p" using hook_okD(2)[OF ok p] .
  have "hook_ok ((hm_hook s)\<lparr> h_currentLocation := Some (plain_location (dd_location dd)) \<rparr>)"
    using ok by (simp add: hook_ok_def)
  then have hok: "hook_ok ?h" by (rule setPlayer_ok) (rule addDistance_ok[OF pok])
  obtain q where q: "h_player (onDistanceEncounterUpdate ?h dd (Some p) existing saveOk) = Some q"
      "p_totalDistance q = p_totalDistance ?p"
    using onDistance_distance[OF hok, of ?p dd "Some p" existing saveOk] by (auto simp: setPlayerAndSave_def)
  have run: "handleDistanceUpdate s dd existing saveOk =
      s\<lparr> hm_currentDistance := dd_total dd, hm_currentLocation := Some (dd_location dd),
         hm_hook := onDistanceEncounterUpdate ?h dd (Some p) existing saveOk,
         hm_milestones := hm_milestones s @ map (\<lambda>m. (m, p_totalDistance ?p))
           (filter (crossed (p_totalDistance p) (p_totalDistance ?p)) MILESTONES) \<rparr>"
    using p clone_ok[OF pok] by (simp add: handleDistanceUpdate_def Let_def)
  show thesis
  proof (rule that[of q])
    show "h_player (hm_hook (handleDistanceUpdate s dd existing saveOk)) = Some q" using q(1) by (simp add: run)
    show "p_totalDistance q = jadd (p_totalDistance p) (dd_incremental dd)" using q(2) by (simp add: addDistance_def)
    show "hook_ok (hm_hook (handleDistanceUpdate s dd existing saveOk))" using onDistance_ok[OF hok] by (simp add: run)
    show "map fst (hm_milestones (handleDistanceUpdate s dd existing saveOk)) =
      map fst (hm_milestones s) @ filter (crossed (p_totalDistance p) (p_totalDistance q)) MILESTONES"
      using q(2) by (simp add: run comp_def)
  qed
qed

definition walk :: "home \<Rightarrow> (distance_data \<times> encounter_data option \<times> bool) list \<Rightarrow> home" where
  "walk s reports = foldl (\<lambda>s (dd, existing, saveOk). handleDistanceUpdate s dd existing saveOk) s reports"

lemma jadd_grows: "rnd a = a \<Longrightarrow> 0 \<le> b \<Longrightarrow> a \<le> jadd a b"
  using rnd_mono[of a "a + b"] by (simp add: jadd_def)

lemma foldl_jadd_grows: "rnd a = a \<Longrightarrow> list_all (\<lambda>x. 0 \<le> x) xs \<Longrightarrow> a \<le> foldl jadd a xs"
proof (induction xs arbitrary: a)
  case (Cons x xs)
  have "jadd a x \<le> foldl jadd (jadd a x) xs" 
    by (rule Cons.IH) (use Cons.prems in \<open>simp_all add: jadd_def\<close>)
  then show ?case using jadd_grows[of a x] Cons.prems by simp
qed simp

lemma walk_effect:
  assumes "hook_ok (hm_hook s)" and "h_player (hm_hook s) = Some p" and "rnd (p_totalDistance p) = p_totalDistance p"
    and "list_all (\<lambda>r. 0 \<le> dd_incremental (fst r)) rs"
  shows "\<exists>q. h_player (hm_hook (walk s rs)) = Some q \<and>
    p_totalDistance q = foldl jadd (p_totalDistance p) (map (dd_incremental \<circ> fst) rs) \<and>
    map fst (hm_milestones (walk s rs)) =
      map fst (hm_milestones s) @ filter (crossed (p_totalDistance p) (p_totalDistance q)) MILESTONES"
  using assms
proof (induction rs arbitrary: s p)
  case Nil
  then show ?case by (simp add: walk_def crossed_def filter_empty_conv)
next
  case (Cons r rs)
  obtain dd existing saveOk where r: "r = (dd, existing, saveOk)" by (metis prod.exhaust)
  let ?s = "handleDistanceUpdate s dd existing saveOk"
  obtain p1 where p1: "h_player (hm_hook ?s) = Some p1" "p_totalDistance p1 = jadd (p_totalDistance p) (dd_incremental dd)"
      "hook_ok (hm_hook ?s)" "map fst (hm_milestones ?s) =
        map fst (hm_milestones s) @ filter (crossed (p_totalDistance p) (p_totalDistance p1)) MILESTONES"
    by (rule handleDistanceUpdate_effect[OF Cons.prems(1,2), of dd existing saveOk])
  have rnd1: "rnd (p_totalDistance p1) = p_totalDistance p1" by (simp add: p1(2) jadd_def)
  have rest: "list_all (\<lambda>r. 0 \<le> dd_incremental (fst r)) rs" using Cons.prems(4) by simp
  obtain q where q: "h_player (hm_hook (walk ?s rs)) = Some q"
      "p_totalDistance q = foldl jadd (p_totalDistance p1) (map (dd_incremental \<circ> fst) rs)"
      "map fst (hm_milestones (walk ?s rs)) =
        map fst (hm_milestones ?s) @ filter (crossed (p_totalDistance p1) (p_totalDistance q)) MILESTONES"
    using Cons.IH[OF p1(3,1) rnd1 rest] by blast
  have le: "p_totalDistance p \<le> p_totalDistance p1" "p_totalDistance p1 \<le> p_totalDistance q"
    using jadd_grows[OF Cons.prems(3)] Cons.prems(4) r foldl_jadd_grows[OF rnd1, of "map (dd_incremental \<circ> fst) rs"]
    by (auto simp: p1(2) q(2) list_all_iff)
  have ms: "filter (crossed (p_totalDistance p) (p_totalDistance p1)) MILESTONES @
      filter (crossed (p_totalDistance p1) (p_totalDistance q)) MILESTONES =
      filter (crossed (p_totalDistance p) (p_totalDistance q)) MILESTONES"
    by (rule crossed_split[OF _ le]) (simp add: MILESTONES_def)
  have w: "walk s (r # rs) = walk ?s rs" by (simp add: walk_def r)
  show ?case
  proof (intro exI[of _ q] conjI)
    show "p_totalDistance q = foldl jadd (p_totalDistance p) (map (dd_incremental \<circ> fst) (r # rs))"
      unfolding q(2) p1(2) by (simp add: r)
    show "map fst (hm_milestones (walk s (r # rs))) =
        map fst (hm_milestones s) @ filter (crossed (p_totalDistance p) (p_totalDistance q)) MILESTONES"
      unfolding w q(3) p1(4) append_assoc ms ..
  qed (simp add: w q(1))
qed

text \<open>
  The kill beat resolves the victory with the player captured when the blow landed: a report that
  arrives during the beat is lost again when it fires.
\<close>

lemma victory_distance:
  assumes "hook_ok h" and "h_encounter h = Some (ref, enc)" and "\<not> h_victoryProcessed h" and "player_ok p"
  shows "\<exists>q. h_player (handleVictory h (Some p)) = Some q \<and> p_totalDistance q = p_totalDistance p"
proof -
  have base: "(if Some p \<noteq> None then Some p else h_player h) = Some p" by simp
  show ?thesis
  proof (rule handleVictory_cases[OF assms(1,2,4) base assms(3)])
    fix p2 lv loot p3 full up h3
    assume x: "addExperience (incrementEncounters (defeatCreature p)) (activeCombatXp (getExperienceReward (e_creature enc))) = (p2, lv)"
      and d: "storeDrop p2 loot = (p3, full, up)"
      and v: "handleVictory h (Some p) = (endFight (setPlayerAndSave h3 (fullHeal p3)))
        \<lparr> h_fleeProcessed := False, h_rewardRevealTimer := Some (victoryReveal enc lv (fullHeal p3) loot full up) \<rparr>"
    show ?thesis
      using addExperience_counters(3)[OF x] storeDrop_spec(3)[OF d]
      by (simp add: v endFight_def setPlayerAndSave_def fullHeal_def incrementEncounters_def defeatCreature_def)
  qed
qed

lemma beat_ok_untimed: "beat_ok cp ct et kp kt \<Longrightarrow> beat_ok cp ct et kp None"
  by (auto simp: beat_ok_def)

lemma kill_beat_loses_distance:
  assumes "hook_ok (hm_hook s)" and "h_killBeatTimer (hm_hook s) = Some p" and "h_player (hm_hook s) = Some p"
    and "h_encounter (hm_hook s) = Some re" and "\<not> h_isMinimized (hm_hook s)" and "\<not> h_victoryProcessed (hm_hook s)"
  shows "\<exists>q. h_player (hm_hook (handleDistanceUpdate s dd existing saveOk)) = Some (addDistance p (dd_incremental dd)) \<and>
    h_player (killBeatFires (hm_hook (handleDistanceUpdate s dd existing saveOk))) = Some q \<and>
    p_totalDistance q = p_totalDistance p"
proof -
  let ?h = "setPlayerAndSave ((hm_hook s)\<lparr> h_currentLocation := Some (plain_location (dd_location dd)) \<rparr>)
    (addDistance p (dd_incremental dd))"
  have pok: "player_ok p" using hook_okD(2)[OF assms(1,3)] .
  obtain ref enc where re: "re = (ref, enc)" by force
  have h: "hm_hook (handleDistanceUpdate s dd existing saveOk) = ?h"
    using assms clone_ok[OF pok] re
    by (simp add: handleDistanceUpdate_def Let_def onDistanceEncounterUpdate_def setPlayerAndSave_def)
  have "hook_ok (?h\<lparr> h_killBeatTimer := None, h_showCombatModal := False \<rparr>)"
    using assms(1) addDistance_ok[OF pok, of "dd_incremental dd"]
    by (auto simp: hook_ok_def setPlayerAndSave_def dest: beat_ok_untimed)
  moreover have "h_encounter (?h\<lparr> h_killBeatTimer := None, h_showCombatModal := False \<rparr>) = Some (ref, enc)"
    "\<not> h_victoryProcessed (?h\<lparr> h_killBeatTimer := None, h_showCombatModal := False \<rparr>)"
    using assms re by (simp_all add: setPlayerAndSave_def)
  ultimately have "\<exists>q. h_player (handleVictory (?h\<lparr> h_killBeatTimer := None, h_showCombatModal := False \<rparr>) (Some p)) = Some q \<and>
      p_totalDistance q = p_totalDistance p"
    by (intro victory_distance pok)
  moreover have "killBeatFires ?h = handleVictory (?h\<lparr> h_killBeatTimer := None, h_showCombatModal := False \<rparr>) (Some p)"
    using assms(2) by (simp add: killBeatFires_def setPlayerAndSave_def)
  ultimately show ?thesis unfolding h by (simp add: setPlayerAndSave_def)
qed

section \<open>Lemmas: items and the debug panel\<close>

text \<open>While the screen shows the latest player, the merge is exactly the change that was made.\<close>

lemma merge_in_sync:
  assumes "player_ok p"
  shows "onItemEquipped p p = p" and "onItemDeleted p p = p"
  using clone_ok[OF assms]
  by (simp_all add: onItemEquipped_def onItemDeleted_def clone_player_def params_of_data_def p_toJSON_def)

lemma equip_from_window:
  assumes "player_ok p"
  shows "(snd (handleEquip p i it slot) \<longleftrightarrow> stillSelected p i it \<and> equippable p i) \<and>
    owned (fst (handleEquip p i it slot)) = owned p \<and>
    onItemEquipped (fst (handleEquip p i it slot)) (fst (handleEquip p i it slot)) = fst (handleEquip p i it slot)"
proof -
  have ok: "player_ok (fst (handleEquip p i it slot))"
    using assms by (simp add: handleEquip_def equipItem_ok)
  have neg: "stillSelected p i it \<Longrightarrow> i \<noteq> - 1" by (auto simp: stillSelected_def)
  have "snd (equipItem p i slot)" if "equippable p i"
    by (rule equipItem_done[OF that, of slot]) simp
  then have eq: "snd (equipItem p i slot) \<longleftrightarrow> equippable p i"
    using equipItem_refused[of p i slot] by (cases "equippable p i") simp_all
  show ?thesis
    using merge_in_sync(1)[OF ok] neg by (cases "stillSelected p i it") (simp_all add: handleEquip_def equipItem_owned eq)
qed

lemma addItem_empties:
  assumes "\<not> isInventoryFull p" and "addItemToInventory p it = (q, i)"
  shows "getEmptyInventorySlots q = getEmptyInventorySlots p - 1" and "owned q = add_mset it (owned p)"
    and "p_level q = p_level p"
proof -
  obtain j where j: "j < length (p_inventory p)" "p_inventory p ! j = None"
      "q = p\<lparr> p_inventory := (p_inventory p)[j := Some it] \<rparr>"
    using addItem_free[OF assms(1), of it] assms(2) by auto
  have "filter (\<lambda>s. s = None) (p_inventory p) =
      filter (\<lambda>s. s = None) (take j (p_inventory p)) @ None # filter (\<lambda>s. s = None) (drop (Suc j) (p_inventory p))"
    using j(1,2) by (subst id_take_nth_drop[OF j(1)]) simp
  then show "getEmptyInventorySlots q = getEmptyInventorySlots p - 1"
    using j(1) by (simp add: getEmptyInventorySlots_def j(3) upd_conv_take_nth_drop)
  show "owned q = add_mset it (owned p)" using addItem_owned[of p it] assms by simp
  show "p_level q = p_level p" by (simp add: j(3))
qed

lemma fillLoop_effect:
  assumes "valid_rng r" and "1 \<le> p_level p" and "fillLoop now p r n = (p', r', m)"
  shows "isInventoryFull p' \<and> m = n + getEmptyInventorySlots p \<and> valid_rng r' \<and>
     (\<exists>its. owned p' = owned p + mset its \<and> int (length its) = getEmptyInventorySlots p \<and> list_all item_ok its)"
  using assms
proof (induction now p r n arbitrary: p' r' m rule: fillLoop.induct)
  case (1 now p r n)
  obtain it r1 where g: "run_state (generateItem now (p_level p) None 1) r = (it, r1)" by force
  obtain q i where a: "addItemToInventory p it = (q, i)" by force
  have it: "item_ok it" "valid_rng r1"
    using rand_allD[OF generateItem_spec[of "p_level p" None 1 now] "1.prems"(1)] g
      generated_item_ok[of "p_level p" None 1 it] by simp_all
  show ?case
  proof (cases "i = - 1")
    case True
    then have full: "isInventoryFull p" using addItem_index[OF a] by simp
    then have "q = p" using addItem_full[of p it] a by simp
    then have "p' = p" "r' = r1" "m = n"
      using "1.prems"(3) True by (simp_all add: fillLoop.simps[of now p r n] g a)
    then show ?thesis using full it(2) by (auto simp: isInventoryFull_def intro!: exI[of _ "[]"])
  next
    case False
    then have nf: "\<not> isInventoryFull p" using addItem_index[OF a] by simp
    note add = addItem_empties[OF nf a]
    have run: "fillLoop now q r1 (n + 1) = (p', r', m)"
      using "1.prems"(3) False by (simp add: fillLoop.simps[of now p r n] g a)
    have lv: "1 \<le> p_level q" using "1.prems"(2) add(3) by simp
    from "1.IH"[OF refl g[symmetric] refl a[symmetric] False it(2) lv run]
    obtain its where its: "isInventoryFull p'" "m = n + 1 + getEmptyInventorySlots q" "valid_rng r'"
        "owned p' = owned q + mset its" "int (length its) = getEmptyInventorySlots q" "list_all item_ok its"
      by blast
    then show ?thesis using add it(1) by (auto intro!: exI[of _ "it # its"])
  qed
qed

lemma fillLoop_ok:
  assumes "valid_rng r" and "player_ok p" and "fillLoop now p r n = (p', r', m)"
  shows "player_ok p'"
  using assms
proof (induction now p r n arbitrary: p' r' m rule: fillLoop.induct)
  case (1 now p r n)
  obtain it r1 where g: "run_state (generateItem now (p_level p) None 1) r = (it, r1)" by force
  obtain q i where a: "addItemToInventory p it = (q, i)" by force
  have "1 \<le> p_level p" using "1.prems"(2) by (simp add: player_ok_def)
  then have it: "item_ok it" "valid_rng r1"
    using rand_allD[OF generateItem_spec[of "p_level p" None 1 now] "1.prems"(1)] g
      generated_item_ok[of "p_level p" None 1 it] by simp_all
  have q: "player_ok q" using inventory_op_ok(1)[OF "1.prems"(2) it(1)] a by simp
  show ?case
    using "1.prems"(3) "1.IH"[OF refl g[symmetric] refl a[symmetric] _ it(2) q] q
    by (auto simp: fillLoop.simps[of now p r n] g a split: if_splits)
qed

text \<open>The loop that fills the inventory ends with a full one, and counts what it added.\<close>

lemma fill_inventory:
  assumes "valid_rng (h_rng (hm_hook s))" and "h_player (hm_hook s) = Some p" and "player_ok p"
  shows "\<exists>q its. h_player (hm_hook (debugFillInventory s)) = Some q \<and> isInventoryFull q \<and>
    owned q = owned p + mset its \<and> int (length its) = getEmptyInventorySlots p \<and> list_all item_ok its \<and>
    snd (snd (fillLoop now p (h_rng (hm_hook s)) 0)) = getEmptyInventorySlots p"
proof -
  have lv: "1 \<le> p_level p" using assms(3) by (simp add: player_ok_def)
  obtain q r m where f: "fillLoop (h_now (hm_hook s)) p (h_rng (hm_hook s)) 0 = (q, r, m)" by (metis prod.exhaust)
  obtain q' r' m' where f': "fillLoop now p (h_rng (hm_hook s)) 0 = (q', r', m')" by (metis prod.exhaust)
  show ?thesis
    using fillLoop_effect[OF assms(1) lv f] fillLoop_effect[OF assms(1) lv f'] f' assms(2) clone_ok[OF assms(3)]
    by (auto simp: debugFillInventory_def withPlayer_def savePlayer_def showAlert_def setPlayerAndSave_def f)
qed

end
