(* ===== verification/AppLifecycle.thy ===== *)
theory AppLifecycle
  imports Home
begin

text \<open>
  The home screen between the platform and the controller: the app's state
  (\<open>hooks/useAppLifecycle.ts\<close>), the effects of \<open>screens/HomeScreen.tsx\<close> that surface a held foe and
  the walk summary, the notifications (\<open>services/NotificationService.ts\<close>) and the taps on them, and
  the one request for the permission to send them. What the store answers is part of the event.
\<close>

section \<open>Notifications\<close>

record notification =
  nt_title :: string
  nt_body :: string
  nt_dataType :: string
  nt_encounterId :: "string option"

definition swords :: string where
  "swords = [CHR 0xE2, CHR 0x9A, CHR 0x94, CHR 0xEF, CHR 0xB8, CHR 0x8F]"

definition showEncounterNotification :: "encounter \<Rightarrow> notification" where
  "showEncounterNotification e =
     \<lparr> nt_title = swords @ '' A Worthy Foe Awaits!'',
       nt_body = ''A '' @ c_name (e_creature e) @ '' ('' @ rarity_name (c_rarity (e_creature e)) @ '') stalks you. Tap to fight it.'',
       nt_dataType = ''encounter'', nt_encounterId = Some (show_int (e_timestamp e)) \<rparr>"

definition showPassiveVictoryNotification :: "string \<Rightarrow> string \<Rightarrow> notification" where
  "showPassiveVictoryNotification creatureName itemName =
     \<lparr> nt_title = swords @ '' Victory while walking!'',
       nt_body = ''You defeated a '' @ creatureName @ '' and found '' @ itemName @ ''. Tap to see your haul.'',
       nt_dataType = ''walk_summary'', nt_encounterId = None \<rparr>"

text \<open>What the controller's effects show.\<close>

fun notificationOf :: "hook_effect \<Rightarrow> notification option" where
  "notificationOf (NotifyEncounter e) = Some (showEncounterNotification e)"
| "notificationOf (NotifyPassiveVictory c i) = Some (showPassiveVictoryNotification c i)"
| "notificationOf _ = None"

text \<open>The channels, created on Android only, and the answer to the request; \<open>None\<close> is an exception.\<close>

definition notificationChannels :: "bool \<Rightarrow> string list" where
  "notificationChannels isAndroid = (if isAndroid then [''encounter_channel'', ''tracking_channel''] else [])"

definition requestPermissions :: "int option \<Rightarrow> bool" where
  "requestPermissions status = (case status of None \<Rightarrow> False | Some n \<Rightarrow> n \<ge> 1)"

section \<open>The permission request\<close>

text \<open>\<open>pm_task\<close>: a callback waits for the interactions to settle; \<open>pm_requests\<close> counts the dialogs.\<close>

record permission =
  pm_requestedRef :: bool
  pm_hasPlayer :: bool
  pm_task :: bool
  pm_requests :: nat

definition permission_init :: permission where
  "permission_init = \<lparr> pm_requestedRef = False, pm_hasPlayer = False, pm_task = False, pm_requests = 0 \<rparr>"

text \<open>The effect runs when \<open>hasPlayer\<close> changes; its cleanup cancels the waiting callback.\<close>

definition permissionEffect :: "permission \<Rightarrow> bool \<Rightarrow> permission" where
  "permissionEffect pm hasPlayer =
     (if hasPlayer = pm_hasPlayer pm then pm
      else
        let pm1 = pm\<lparr> pm_hasPlayer := hasPlayer, pm_task := False \<rparr>
        in if pm_requestedRef pm1 \<or> \<not> hasPlayer then pm1 else pm1\<lparr> pm_task := True \<rparr>)"

definition interactionsSettle :: "permission \<Rightarrow> permission" where
  "interactionsSettle pm =
     (if \<not> pm_task pm then pm
      else
        let pm1 = pm\<lparr> pm_task := False \<rparr>
        in if pm_requestedRef pm1 then pm1
           else pm1\<lparr> pm_requestedRef := True, pm_requests := Suc (pm_requests pm1) \<rparr>)"

section \<open>The screen\<close>

datatype app_status = AppActive | AppBackground | AppInactive | AppUnknown | AppExtension

datatype shown_screen = ArchetypeSelection | Loading | HomeView

definition shownScreen :: "bool \<Rightarrow> player option \<Rightarrow> shown_screen" where
  "shownScreen needsArchetypeSelection p =
     (if needsArchetypeSelection then ArchetypeSelection else if p = None then Loading else HomeView)"

record screen =
  sn_hook :: hook
  sn_appState :: app_status
  sn_prevAppState :: app_status
  sn_permission :: permission

text \<open>\<open>appStateRef\<close> is what the controller reads as its background flag.\<close>

definition handleAppStateChange :: "screen \<Rightarrow> app_status \<Rightarrow> screen" where
  "handleAppStateChange s st =
     s\<lparr> sn_appState := st, sn_hook := (sn_hook s)\<lparr> h_isBackground := (st \<noteq> AppActive) \<rparr> \<rparr>"

text \<open>The two reads of a return: \<open>pending\<close> is the stored foe, \<open>entries\<close> the drained walk log.\<close>

definition surface :: "hook \<Rightarrow> encounter_data option \<Rightarrow> walk_entry list \<Rightarrow> hook" where
  "surface h pending entries = checkWalkSummaryBegin (refreshHeldFoe h pending) entries"

definition mountEffect :: "screen \<Rightarrow> encounter_data option \<Rightarrow> walk_entry list \<Rightarrow> screen" where
  "mountEffect s pending entries = s\<lparr> sn_hook := surface (sn_hook s) pending entries \<rparr>"

definition foregroundEffect :: "screen \<Rightarrow> encounter_data option \<Rightarrow> walk_entry list \<Rightarrow> screen" where
  "foregroundEffect s pending entries =
     (let s1 = (if sn_appState s = AppActive \<and> sn_prevAppState s \<noteq> AppActive
                then s\<lparr> sn_hook := surface (sn_hook s) pending entries \<rparr> else s)
      in s1\<lparr> sn_prevAppState := sn_appState s \<rparr>)"

text \<open>The effect depends on the app's state and runs only when that changes.\<close>

definition appStateChanges :: "screen \<Rightarrow> app_status \<Rightarrow> encounter_data option \<Rightarrow> walk_entry list \<Rightarrow> screen" where
  "appStateChanges s st pending entries =
     (let s1 = handleAppStateChange s st
      in if st = sn_appState s then s1 else foregroundEffect s1 pending entries)"

definition onForegroundEvent ::
  "screen \<Rightarrow> bool \<Rightarrow> string option \<Rightarrow> encounter_data option \<Rightarrow> walk_entry list \<Rightarrow> screen" where
  "onForegroundEvent s isPress dataType pending entries =
     (if isPress \<and> dataType = Some ''encounter''
      then s\<lparr> sn_hook := refreshHeldFoe (sn_hook s) pending \<rparr>
      else if isPress \<and> dataType = Some ''walk_summary''
      then s\<lparr> sn_hook := checkWalkSummaryBegin (sn_hook s) entries \<rparr>
      else s)"

definition mountScreen :: "hook \<Rightarrow> app_status \<Rightarrow> encounter_data option \<Rightarrow> walk_entry list \<Rightarrow> screen" where
  "mountScreen h st pending entries =
     (let s = \<lparr> sn_hook = h\<lparr> h_isBackground := (st \<noteq> AppActive) \<rparr>, sn_appState = st, sn_prevAppState = st,
                sn_permission = permission_init \<rparr>
      in foregroundEffect (mountEffect s pending entries) pending entries)"

section \<open>The screen as a machine\<close>

datatype screen_event =
  AppStateEvent app_status "encounter_data option" "walk_entry list"
| NotificationEvent bool "string option" "encounter_data option" "walk_entry list"
| Rendered
| Settled
| ControllerEvent hook_event

fun screen_step :: "screen \<Rightarrow> screen_event \<Rightarrow> screen" where
  "screen_step s (AppStateEvent st pending entries) = appStateChanges s st pending entries"
| "screen_step s (NotificationEvent press ty pending entries) = onForegroundEvent s press ty pending entries"
| "screen_step s Rendered = s\<lparr> sn_permission := permissionEffect (sn_permission s) (h_player (sn_hook s) \<noteq> None) \<rparr>"
| "screen_step s Settled = s\<lparr> sn_permission := interactionsSettle (sn_permission s) \<rparr>"
| "screen_step s (ControllerEvent e) = s\<lparr> sn_hook := hook_step (sn_hook s) e \<rparr>"

text \<open>Stored foes are well formed, and the app's state reaches the controller only through the screen.\<close>

fun screen_event_ok :: "screen_event \<Rightarrow> bool" where
  "screen_event_ok (AppStateEvent st pending entries) \<longleftrightarrow> event_ok (RefreshFoe pending)"
| "screen_event_ok (NotificationEvent press ty pending entries) \<longleftrightarrow> event_ok (RefreshFoe pending)"
| "screen_event_ok (ControllerEvent e) \<longleftrightarrow> event_ok e \<and> (\<forall>b. e \<noteq> SetBackground b)"
| "screen_event_ok _ \<longleftrightarrow> True"

text \<open>The dialog was shown at most once; while a player is on screen it was shown or is about to be.\<close>

definition permission_ok :: "permission \<Rightarrow> bool" where
  "permission_ok pm \<longleftrightarrow> pm_requests pm = (if pm_requestedRef pm then 1 else 0) \<and>
     (pm_task pm \<longleftrightarrow> pm_hasPlayer pm \<and> \<not> pm_requestedRef pm)"

definition screen_ok :: "screen \<Rightarrow> bool" where
  "screen_ok s \<longleftrightarrow> hook_ok (sn_hook s) \<and> permission_ok (sn_permission s) \<and> sn_prevAppState s = sn_appState s"

lemma permission_steps:
  "permission_ok permission_init" "permission_ok pm \<Longrightarrow> permission_ok (permissionEffect pm b)"
  "permission_ok pm \<Longrightarrow> permission_ok (interactionsSettle pm)"
  by (auto simp: permission_ok_def permission_init_def permissionEffect_def interactionsSettle_def Let_def)

lemma background_flag_ok: "hook_ok h \<Longrightarrow> hook_ok (h\<lparr> h_isBackground := b \<rparr>)"
  using hook_step_ok[of h "SetBackground b"] by simp

lemma refresh_ok: "hook_ok h \<Longrightarrow> event_ok (RefreshFoe pending) \<Longrightarrow> hook_ok (refreshHeldFoe h pending)"
  using hook_step_ok[of h "RefreshFoe pending"] by simp

lemma drain_ok: "hook_ok h \<Longrightarrow> hook_ok (checkWalkSummaryBegin h entries)"
  using hook_step_ok[of h "WalkBegin entries"] by simp

lemma surface_ok: "hook_ok h \<Longrightarrow> event_ok (RefreshFoe pending) \<Longrightarrow> hook_ok (surface h pending entries)"
  unfolding surface_def by (intro drain_ok refresh_ok)

lemma appStateChanges_ok:
  assumes "screen_ok s" and "event_ok (RefreshFoe pending)"
  shows "screen_ok (appStateChanges s st pending entries)"
  using assms surface_ok[OF background_flag_ok, of "sn_hook s" pending] background_flag_ok[of "sn_hook s"]
  by (auto simp: appStateChanges_def foregroundEffect_def handleAppStateChange_def screen_ok_def Let_def simp del: event_ok.simps)

lemma onForegroundEvent_ok:
  assumes "screen_ok s" and "event_ok (RefreshFoe pending)"
  shows "screen_ok (onForegroundEvent s press ty pending entries)"
  using assms refresh_ok[of "sn_hook s" pending] drain_ok[of "sn_hook s"]
  by (auto simp: onForegroundEvent_def screen_ok_def simp del: event_ok.simps)

interpretation screen_machine: step_machine screen_step screen_ok screen_event_ok
proof
  fix s e assume s: "screen_ok s" and e: "screen_event_ok e"
  show "screen_ok (screen_step s e)"
  proof (cases e)
    case (AppStateEvent st pending entries)
    then show ?thesis using s e appStateChanges_ok by (simp del: event_ok.simps)
  next
    case (NotificationEvent press ty pending entries)
    then show ?thesis using s e onForegroundEvent_ok by (simp del: event_ok.simps)
  qed (use s e in \<open>simp_all add: screen_ok_def permission_steps hook_step_ok\<close>)
qed

lemma mountScreen_ok:
  assumes "hook_ok h" and "event_ok (RefreshFoe pending)"
  shows "screen_ok (mountScreen h st pending entries)"
  using surface_ok[OF background_flag_ok[OF assms(1)] assms(2)]
  by (simp add: mountScreen_def mountEffect_def foregroundEffect_def screen_ok_def permission_steps Let_def)

section \<open>Returning to the app\<close>

text \<open>The stored foe and the drained log are in the controller once, however the app came back.\<close>

lemma surface_fields:
  assumes "h_encounter h = None"
  shows "h_heldFoe (surface h pending entries) = map_option (\<lambda>d. (h_nextRef h, encounterOfData (h_now h) d)) pending"
    and "walkCheckStarts h \<Longrightarrow> h_drained (surface h pending entries) = Some entries"
    and "\<not> walkCheckStarts h \<Longrightarrow> h_drained (surface h pending entries) = h_drained h"
    and "h_encounter (surface h pending entries) = None" "h_isBackground (surface h pending entries) = h_isBackground h"
    and "h_rewardRevealTimer (surface h pending entries) = h_rewardRevealTimer h"
  using assms by (auto simp: surface_def checkWalkSummaryBegin_def refreshHeldFoe_def walkCheckStarts_def walkBlocked_def
      split: option.split)

lemma drained_summary_shown:
  assumes "h_encounter h = None" and "walkCheckStarts h" and "entries \<noteq> []"
  shows "h_walkSummary (checkWalkSummaryEnd (surface h pending entries)) = Some entries"
  using surface_fields[OF assms(1), of pending entries] assms(2,3)
  by (simp add: checkWalkSummaryEnd_def walkBlocked_def walkCheckStarts_def Let_def)

lemma return_surfaces:
  assumes "sn_prevAppState s = sn_appState s" and "sn_appState s \<noteq> AppActive"
  shows "sn_hook (appStateChanges s AppActive pending entries) = surface ((sn_hook s)\<lparr> h_isBackground := False \<rparr>) pending entries"
  using assms by (simp add: appStateChanges_def handleAppStateChange_def foregroundEffect_def Let_def)

lemma no_second_surface:
  assumes "sn_prevAppState s = sn_appState s" and "sn_appState s = AppActive \<or> st \<noteq> AppActive"
  shows "sn_hook (appStateChanges s st pending entries) = (sn_hook s)\<lparr> h_isBackground := (st \<noteq> AppActive) \<rparr>"
  using assms by (auto simp: appStateChanges_def handleAppStateChange_def foregroundEffect_def Let_def)

text \<open>A foe held in the background is announced by one notification; tapping it finds the foe.\<close>

lemma held_foe_announced:
  assumes "holdEliteEncounter h re True None True = (h', True)"
  shows "h_effects h' = h_effects h @ [SavePending (heldEncounterData (snd re)), NotifyEncounter (snd re)]"
    and "h_encounter h' = h_encounter h" "h_now h' = h_now h" "h_nextRef h' = h_nextRef h" "walkCheckStarts h' = walkCheckStarts h"
    and "List.map_filter notificationOf (drop (length (h_effects h)) (h_effects h')) = [showEncounterNotification (snd re)]"
  using assms by (auto simp: holdEliteEncounter_def emit_def walkCheckStarts_def walkBlocked_def List.map_filter_simps Let_def)

text \<open>The permission: at most one dialog in any run, and one after the interactions settle on a painted player.\<close>

lemma permission_once:
  assumes "screen_ok s" and "list_all screen_event_ok es"
  shows "pm_requests (sn_permission (foldl screen_step s es)) \<le> 1"
  using screen_machine.run_inv[OF assms] by (simp add: screen_ok_def permission_ok_def)

lemma permission_asked:
  assumes "screen_ok s" and "h_player (sn_hook s) \<noteq> None"
  shows "pm_requests (sn_permission (foldl screen_step s [Rendered, Settled])) = 1"
  using assms by (auto simp: screen_ok_def permission_ok_def permissionEffect_def interactionsSettle_def Let_def)

definition asking :: "screen \<Rightarrow> bool" where
  "asking s \<longleftrightarrow> pm_task (sn_permission s) \<or> pm_requests (sn_permission s) \<noteq> 0"

lemma asking_starts:
  assumes "asking (screen_step s e)" shows "asking s \<or> e = Rendered \<and> h_player (sn_hook s) \<noteq> None"
  using assms
  by (cases e) (auto simp: asking_def appStateChanges_def foregroundEffect_def handleAppStateChange_def onForegroundEvent_def
      permissionEffect_def interactionsSettle_def Let_def split: if_splits)

lemma permission_needs_player:
  assumes "\<not> asking s" and "asking (foldl screen_step s es)"
  shows "\<exists>xs ys. es = xs @ Rendered # ys \<and> h_player (sn_hook (foldl screen_step s xs)) \<noteq> None"
  using assms(2)
proof (induction es rule: rev_induct)
  case (snoc e es)
  then show ?case using asking_starts[of "foldl screen_step s es" e] by fastforce
qed (use assms(1) in simp)

end
