(* ===== verification/Screens.thy ===== *)
theory Screens
  imports CombatView AppLifecycle
begin

text \<open>
  What the screens compute before they draw: distances and ages as text (\<open>DistanceDisplay.tsx\<close>,
  \<open>AccountConflictModal.tsx\<close>), totals of a walk (\<open>WalkSummaryModal.tsx\<close>), bars and the level flourish
  (\<open>PlayerStats.tsx\<close>), the cards of the classes (\<open>ArchetypeSelectionScreen.tsx\<close>), the account section
  (\<open>SettingsModal.tsx\<close>), the banner (\<open>BetaIndicator.tsx\<close>), the tables of effects
  (\<open>RewardRevealModal.tsx\<close>, \<open>RewardGlowCanvas.tsx\<close>, \<open>CombatFxCanvas.tsx\<close>), the colours of log lines and
  buttons, and the debug panel with everything its buttons do (\<open>DebugPanel.tsx\<close>).
\<close>

section \<open>Numbers as text\<close>

text \<open>
  \<open>toFixed\<close> of the language: the integer nearest to the scaled value, the larger of two, printed with
  at least one digit before the point. Only values below \<open>10 ^ 21\<close> are printed this way.
\<close>

definition toFixedUnits :: "real \<Rightarrow> nat \<Rightarrow> nat" where
  "toFixedUnits x f = nat \<lfloor>x * 10 ^ f + 1 / 2\<rfloor>"

definition padded :: "nat \<Rightarrow> nat \<Rightarrow> string" where
  "padded n f = (let m = show_digits n in replicate (Suc f - length m) CHR ''0'' @ m)"

definition toFixed :: "real \<Rightarrow> nat \<Rightarrow> string" where
  "toFixed x f =
     (let m = padded (toFixedUnits \<bar>x\<bar> f) f;
          k = length m - f
      in (if x < 0 then ''-'' else '''') @ (if f = 0 then m else take k m @ ''.'' @ drop k m))"

datatype distance_unit = Km | Mi

definition formatDistance :: "distance_unit \<Rightarrow> real \<Rightarrow> string" where
  "formatDistance u meters =
     (case u of
        Km \<Rightarrow> toFixed (jdiv meters 1000) 2
      | Mi \<Rightarrow> toFixed (jdiv meters (rnd (160934 / 100))) 2)"

definition formatShortDistance :: "distance_unit \<Rightarrow> real \<Rightarrow> string" where
  "formatShortDistance u meters =
     (if meters \<ge> 1000 then formatDistance u meters @ (if u = Km then '' km'' else '' mi'')
      else show_int (math_round meters) @ '' m'')"

section \<open>The account conflict\<close>

definition conflictDistance :: "real \<Rightarrow> string" where
  "conflictDistance meters =
     (if meters < 1000 then show_int (math_round meters) @ '' m'' else toFixed (jdiv meters 1000) 1 @ '' km'')"

definition ageMinutes :: "int \<Rightarrow> int \<Rightarrow> int" where
  "ageMinutes now ts = \<lfloor>jdiv (of_int (now - ts)) 60000\<rfloor>"

definition formatTimestamp :: "int \<Rightarrow> int \<Rightarrow> string" where
  "formatTimestamp now ts =
     (if ts = 0 then ''Unknown''
      else
        let minutes = ageMinutes now ts;
            hours = \<lfloor>jdiv (of_int minutes) 60\<rfloor>
        in if minutes < 60 then show_int minutes @ ''m ago''
           else if hours < 24 then show_int hours @ ''h ago''
           else show_int \<lfloor>jdiv (of_int hours) 24\<rfloor> @ ''d ago'')"

text \<open>The buttons that are drawn, and what one of them does; \<open>resolving\<close> hides them for good.\<close>

definition conflictButtons :: "bool \<Rightarrow> pending_conflict \<Rightarrow> (conflict_choice \<times> string) list" where
  "conflictButtons resolving c =
     (if resolving then []
      else (if pc_localData c \<noteq> None then [(ChooseLocal, ''Keep Guest Save'')] else []) @
           [(ChooseCloud, if pc_cloudData c \<noteq> None then ''Keep Cloud Save'' else ''Use Cloud Account'')])"

definition handleResolve ::
  "'s async_storage \<Rightarrow> bool \<times> 's auth_world \<Rightarrow> conflict_choice \<Rightarrow> int \<Rightarrow> bool \<times> 's auth_world" where
  "handleResolve io m choice now = (True, resolveConflict io (snd m) choice now)"

section \<open>The walk summary and the bars\<close>

record walk_totals =
  wt_fought :: nat
  wt_won :: int
  wt_totalXp :: int
  wt_itemsFound :: int

text \<open>Nothing is drawn without entries.\<close>

definition walkTotals :: "walk_entry list option \<Rightarrow> (walk_totals \<times> walk_entry list) option" where
  "walkTotals es =
     (case es of
        None \<Rightarrow> None
      | Some entries \<Rightarrow>
          if entries = [] then None
          else Some
            (\<lparr> wt_fought = length entries,
               wt_won = foldl (\<lambda>n e. n + (if w_won e then 1 else 0)) 0 entries,
               wt_totalXp = foldl (\<lambda>n e. n + w_xpGained e) 0 entries,
               wt_itemsFound = foldl (\<lambda>n e. n + (if w_item e \<noteq> None then 1 else 0)) 0 entries \<rparr>,
             rev entries))"

definition progressPercentage :: "player option \<Rightarrow> real" where
  "progressPercentage p =
     (case p of
        None \<Rightarrow> 0
      | Some q \<Rightarrow>
          if getExperienceForNextLevel q > 0
          then jmul (jdiv (of_int (p_experience q)) (of_int (getExperienceForNextLevel q))) 100 else 0)"

definition hpPercentage :: "player option \<Rightarrow> real" where
  "hpPercentage p =
     (case p of
        None \<Rightarrow> 1
      | Some q \<Rightarrow> if p_maxHp q > 0 then jdiv (of_int (p_hp q)) (of_int (p_maxHp q)) else 1)"

text \<open>The effect on the level: the new reference, and whether the text pops.\<close>

definition levelEffect :: "int option \<Rightarrow> int option \<Rightarrow> int option \<times> bool" where
  "levelEffect prevLevel currentLevel =
     (case currentLevel of
        None \<Rightarrow> (prevLevel, False)
      | Some l \<Rightarrow> (Some l, case prevLevel of None \<Rightarrow> False | Some k \<Rightarrow> l > k))"

section \<open>Class cards, account section, banner\<close>

record class_card =
  cc_name :: string
  cc_hp :: int
  cc_atk :: int
  cc_def :: int

definition classCard :: "archetype \<Rightarrow> class_card" where
  "classCard a =
     (let attrs = computeAttributes a 1
      in \<lparr> cc_name = cfg_name (ARCHETYPE_CONFIGS a), cc_hp = deriveMaxHp a (at_str attrs) (at_agi attrs),
           cc_atk = deriveAttack (at_str attrs) (at_agi attrs), cc_def = deriveDefense (at_str attrs) (at_agi attrs) \<rparr>)"

definition ARCHETYPES :: "archetype list" where
  "ARCHETYPES = [Martial, Agile, Mage]"

datatype account_button = BSignOut | BGoogle | BApple | BDeleteAccount

definition displayName :: "auth_user option \<Rightarrow> string" where
  "displayName u =
     (case u of
        None \<Rightarrow> ''Signed in''
      | Some a \<Rightarrow> (case au_displayName a of Some n \<Rightarrow> n
                   | None \<Rightarrow> (case au_email a of Some m \<Rightarrow> m | None \<Rightarrow> ''Signed in'')))"

definition accountButtons :: "bool \<Rightarrow> bool \<Rightarrow> auth_user option \<Rightarrow> account_button list" where
  "accountButtons isIos authLoading u =
     (if authLoading then []
      else (if (case u of None \<Rightarrow> False | Some a \<Rightarrow> \<not> au_isAnonymous a) then [BSignOut]
            else BGoogle # (if isIos then [BApple] else [])) @ [BDeleteAccount])"

text \<open>The banner's text and the warning below it; \<open>None\<close> draws nothing.\<close>

definition betaBanner :: "env_config \<Rightarrow> (string \<times> string option) option" where
  "betaBanner cfg =
     (if \<not> ec_showEnvironmentBanner cfg then None
      else Some (case ec_environmentName cfg of
          Development \<Rightarrow> (''DEVELOPMENT BUILD'', Some ''Development build. Debug features enabled.'')
        | Testing \<Rightarrow> (''TESTING BUILD'', Some ''This is a test version. Features may be incomplete or unstable.'')
        | Production \<Rightarrow> (''BETA VERSION'', None)))"

text \<open>The slots of the equipment panel in the order in which they are drawn.\<close>

definition slotLabels :: "(equipment_slot \<times> string) list" where
  "slotLabels =
     [(SWeapon, ''Weapon''), (SOffhand, ''Offhand''), (SHead, ''Head''), (SChest, ''Chest''), (SLegs, ''Legs''),
      (SBoots, ''Boots''), (SGloves, ''Gloves''), (SAccessory1, ''Accessory 1''), (SAccessory2, ''Accessory 2'')]"

section \<open>Effects\<close>

record rarity_fx =
  fx_particles :: nat
  fx_size :: int
  fx_spread :: int
  fx_shake :: int
  fx_haptic :: "int list"
  fx_cardDelay :: int
  fx_emitMs :: int

definition POOL_SIZE :: nat where "POOL_SIZE = 30"

text \<open>A single haptic duration is a list of one, none the empty list.\<close>

fun RARITY_FX :: "rarity \<Rightarrow> rarity_fx" where
  "RARITY_FX Common = \<lparr> fx_particles = 8, fx_size = 6, fx_spread = 130, fx_shake = 0, fx_haptic = [], fx_cardDelay = 300, fx_emitMs = 120 \<rparr>"
| "RARITY_FX Uncommon = \<lparr> fx_particles = 14, fx_size = 7, fx_spread = 160, fx_shake = 0, fx_haptic = [15], fx_cardDelay = 380, fx_emitMs = 260 \<rparr>"
| "RARITY_FX Rare = \<lparr> fx_particles = 20, fx_size = 8, fx_spread = 190, fx_shake = 4, fx_haptic = [25], fx_cardDelay = 480, fx_emitMs = 420 \<rparr>"
| "RARITY_FX Epic = \<lparr> fx_particles = 26, fx_size = 9, fx_spread = 220, fx_shake = 8, fx_haptic = [0, 30, 40, 30], fx_cardDelay = 580, fx_emitMs = 600 \<rparr>"
| "RARITY_FX Legendary = \<lparr> fx_particles = 30, fx_size = 11, fx_spread = 250, fx_shake = 12, fx_haptic = [0, 50, 50, 90], fx_cardDelay = 680, fx_emitMs = 780 \<rparr>"

definition revealFx :: "reward_reveal option \<Rightarrow> rarity_fx option" where
  "revealFx reveal = map_option (RARITY_FX \<circ> i_rarity) (Option.bind reveal rr_item)"

definition cardDelay :: "reward_reveal option \<Rightarrow> int" where
  "cardDelay reveal = (case revealFx reveal of Some fx \<Rightarrow> fx_cardDelay fx | None \<Rightarrow> 80)"

fun RARITY_GLOW :: "rarity \<Rightarrow> int \<times> real \<times> bool" where
  "RARITY_GLOW Common = (90, rnd (18 / 100), False)"
| "RARITY_GLOW Uncommon = (110, rnd (24 / 100), False)"
| "RARITY_GLOW Rare = (140, rnd (32 / 100), False)"
| "RARITY_GLOW Epic = (175, rnd (42 / 100), True)"
| "RARITY_GLOW Legendary = (215, rnd (55 / 100), True)"

record burst_preset =
  bp_color :: string
  bp_count :: int
  bp_speed :: int
  bp_size :: int
  bp_lifetimeMs :: int
  bp_upwardBias :: real
  bp_gravity :: int

fun PARTICLE_PRESETS :: "damage_type \<Rightarrow> burst_preset" where
  "PARTICLE_PRESETS Fire = \<lparr> bp_color = ''#FF7043'', bp_count = 16, bp_speed = 34, bp_size = 5, bp_lifetimeMs = 620, bp_upwardBias = rnd (7 / 10), bp_gravity = - 26 \<rparr>"
| "PARTICLE_PRESETS Frost = \<lparr> bp_color = ''#4FC3F7'', bp_count = 12, bp_speed = 40, bp_size = 5, bp_lifetimeMs = 560, bp_upwardBias = 0, bp_gravity = 8 \<rparr>"
| "PARTICLE_PRESETS Arcane = \<lparr> bp_color = ''#BA68C8'', bp_count = 14, bp_speed = 36, bp_size = 5, bp_lifetimeMs = 640, bp_upwardBias = 0, bp_gravity = 0 \<rparr>"
| "PARTICLE_PRESETS Physical = \<lparr> bp_color = ''#ECEFF1'', bp_count = 10, bp_speed = 46, bp_size = 4, bp_lifetimeMs = 440, bp_upwardBias = 0, bp_gravity = 12 \<rparr>"

definition BUFF_PRESET :: burst_preset where
  "BUFF_PRESET = \<lparr> bp_color = ''#FFD54F'', bp_count = 16, bp_speed = 30, bp_size = 5, bp_lifetimeMs = 700, bp_upwardBias = rnd (85 / 100), bp_gravity = - 34 \<rparr>"

definition DEBUFF_PRESET :: burst_preset where
  "DEBUFF_PRESET = \<lparr> bp_color = ''#B39DDB'', bp_count = 12, bp_speed = 26, bp_size = 5, bp_lifetimeMs = 650, bp_upwardBias = 0, bp_gravity = 22 \<rparr>"

fun RESIST_COUNT_SCALE :: "resist_tier \<Rightarrow> real" where
  "RESIST_COUNT_SCALE Resisted = 1 / 2"
| "RESIST_COUNT_SCALE Neutral = 1"
| "RESIST_COUNT_SCALE Vulnerable = rnd (13 / 10)"

definition burstPreset :: "burst \<Rightarrow> burst_preset" where
  "burstPreset b =
     (case bu_kind b of
        BBuff \<Rightarrow> BUFF_PRESET
      | BDebuff \<Rightarrow> DEBUFF_PRESET
      | BDamage \<Rightarrow> PARTICLE_PRESETS (case bu_damageType b of Some d \<Rightarrow> d | None \<Rightarrow> Physical))"

definition particleCount :: "burst_preset \<Rightarrow> real \<Rightarrow> nat" where
  "particleCount preset countScale = nat (max 4 (math_round (jmul (of_int (bp_count preset)) countScale)))"

record particle =
  pa_angle :: real
  pa_dist :: real
  pa_gravity :: int

definition particleAngle :: "burst_preset \<Rightarrow> nat \<Rightarrow> nat \<Rightarrow> real \<Rightarrow> real" where
  "particleAngle preset i n u =
     (if bp_upwardBias preset > 0
      then jadd (jdiv (- rnd pi) 2) (jmul (jmul (jsub u (1 / 2)) (rnd pi)) (jsub 1 (bp_upwardBias preset)))
      else jadd (jmul (jmul (jdiv (of_nat i) (of_nat n)) (rnd pi)) 2) (jmul (jsub u (1 / 2)) (rnd (8 / 10))))"

fun makeParticlesFrom :: "burst_preset \<Rightarrow> nat \<Rightarrow> nat list \<Rightarrow> particle list rand" where
  "makeParticlesFrom preset n [] = State_Monad.return []"
| "makeParticlesFrom preset n (i # is) = do {
     u \<leftarrow> math_random;
     v \<leftarrow> math_random;
     rest \<leftarrow> makeParticlesFrom preset n is;
     State_Monad.return
       (\<lparr> pa_angle = particleAngle preset i n u,
          pa_dist = jmul (of_int (bp_speed preset)) (jadd (rnd (6 / 10)) (jmul v (rnd (6 / 10)))),
          pa_gravity = bp_gravity preset \<rparr> # rest)
   }"

definition makeParticles :: "burst_preset \<Rightarrow> real \<Rightarrow> particle list rand" where
  "makeParticles preset countScale =
     (let n = particleCount preset countScale in makeParticlesFrom preset n [0..<n])"

text \<open>Colours by name of the theme's token.\<close>

datatype tone = ToneDanger | ToneSuccess | ToneWarning | ToneArcane | ToneAccent | ToneFire | ToneFrost | TonePhysical | ToneTextMuted

definition lineColor :: "log_entry \<Rightarrow> tone" where
  "lineColor e =
     (case lg_kind e of
        LAttack \<Rightarrow> if lg_target e = Some TPlayer then ToneDanger else ToneSuccess
      | LDot \<Rightarrow> if lg_target e = Some TPlayer then ToneDanger else ToneSuccess
      | LHeal \<Rightarrow> ToneSuccess
      | LBuff \<Rightarrow> ToneWarning
      | LDebuff \<Rightarrow> ToneArcane
      | LDefeat \<Rightarrow> if lg_target e = Some TPlayer then ToneDanger else ToneAccent)"

fun damageTypeColor :: "damage_type \<Rightarrow> tone" where
  "damageTypeColor Fire = ToneFire"
| "damageTypeColor Frost = ToneFrost"
| "damageTypeColor Arcane = ToneArcane"
| "damageTypeColor Physical = TonePhysical"

definition getButtonColor :: "ability \<Rightarrow> tone" where
  "getButtonColor ab =
     (case a_kind ab of
        Direct _ d \<Rightarrow> damageTypeColor d
      | Dot _ _ d \<Rightarrow> damageTypeColor d
      | BuffDebuff _ _ _ \<Rightarrow> ToneTextMuted
      | Defensive _ _ _ \<Rightarrow> ToneSuccess)"

section \<open>The debug panel\<close>

datatype debug_panel = PanelAbsent | PanelToggle | PanelOpen

definition debugPanel :: "env_config \<Rightarrow> bool \<Rightarrow> debug_panel" where
  "debugPanel cfg debugMode =
     (if \<not> ec_enableDebugMode cfg then PanelAbsent else if debugMode then PanelOpen else PanelToggle)"

datatype debug_press =
  PressRestoreHp | PressClearInventory | PressFillInventory | PressBypass | PressForceDrop
| PressRarity "rarity option" | PressPreview | PressMove int | PressForceEncounter | PressIdle rarity | PressElite rarity
| PressSimulateWalk nat | PressShowSummary | PressLevel int | PressArchetype archetype | PressXP int

text \<open>The buttons of the open panel, top to bottom.\<close>

definition debugButtons :: "debug_press list" where
  "debugButtons =
     [PressRestoreHp, PressClearInventory, PressFillInventory, PressBypass, PressForceDrop] @
     PressRarity None # map (PressRarity \<circ> Some) [Common, Uncommon, Rare, Epic, Legendary] @ [PressPreview] @
     map PressMove [10, 100, 1000] @ [PressForceEncounter, PressIdle Common, PressElite Rare, PressElite Epic,
     PressSimulateWalk 5, PressShowSummary] @ map PressLevel [1, 5, 10, 20, 50] @
     map PressArchetype [Martial, Agile, Mage] @ map PressXP [100, 500, 1000]"

definition onHook :: "home \<Rightarrow> hook_event \<Rightarrow> home" where
  "onHook s e = s\<lparr> hm_hook := hook_step (hm_hook s) e \<rparr>"

text \<open>\<open>existing\<close>, \<open>saveOk\<close> and \<open>entries\<close> are the answers of the store.\<close>

fun debugPress :: "home \<Rightarrow> debug_press \<Rightarrow> encounter_data option \<Rightarrow> bool \<Rightarrow> walk_entry list \<Rightarrow> home" where
  "debugPress s PressRestoreHp existing saveOk entries = debugRestoreHp s"
| "debugPress s PressClearInventory existing saveOk entries = debugClearInventory s"
| "debugPress s PressFillInventory existing saveOk entries = debugFillInventory s"
| "debugPress s PressBypass existing saveOk entries =
     onHook s (SetBypass (\<not> es_bypassTimeConstraint (h_service (hm_hook s))))"
| "debugPress s PressForceDrop existing saveOk entries = onHook s (SetForceDrop (\<not> h_forceItemDrop (hm_hook s)))"
| "debugPress s (PressRarity r) existing saveOk entries = onHook s (SetForcedRarity r)"
| "debugPress s PressPreview existing saveOk entries = onHook s (PreviewReveal (h_forcedRarity (hm_hook s)))"
| "debugPress s (PressMove m) existing saveOk entries = simulateMovement s (of_int m) existing saveOk"
| "debugPress s PressForceEncounter existing saveOk entries = onHook s ForceEncounter"
| "debugPress s (PressIdle r) existing saveOk entries = onHook s (ForceIdle r)"
| "debugPress s (PressElite r) existing saveOk entries = onHook s (ForceElite r existing saveOk)"
| "debugPress s (PressSimulateWalk n) existing saveOk entries = onHook s (SimulateWalk n)"
| "debugPress s PressShowSummary existing saveOk entries = onHook s (WalkBegin entries)"
| "debugPress s (PressLevel l) existing saveOk entries = debugSetLevel s l"
| "debugPress s (PressArchetype a) existing saveOk entries = debugSetArchetype s a"
| "debugPress s (PressXP x) existing saveOk entries = debugAddXP s x"

text \<open>Only a drawn button can be pressed; two more show and hide the panel.\<close>

datatype panel_event = PanelPress debug_press "encounter_data option" bool "walk_entry list" | PanelShow bool

fun panel_step :: "env_config \<Rightarrow> bool \<times> home \<Rightarrow> panel_event \<Rightarrow> bool \<times> home" where
  "panel_step cfg (debugMode, s) (PanelPress b existing saveOk entries) =
     (debugMode, if debugPanel cfg debugMode = PanelOpen \<and> b \<in> set debugButtons
                 then debugPress s b existing saveOk entries else s)"
| "panel_step cfg (debugMode, s) (PanelShow b) =
     (if debugPanel cfg debugMode = (if b then PanelToggle else PanelOpen) then b else debugMode, s)"

section \<open>Lemmas: text\<close>

lemma read_zeros: "read_digits (replicate n CHR ''0'' @ s) = read_digits s"
  by (induction n) simp_all

lemma padded_reads: "read_digits (padded n f) = n"
  using read_zeros[of "Suc f - length (show_digits n)" "show_digits n"] read_show_digits[of n]
  by (simp add: padded_def Let_def del: read_digits.simps)

lemma padded_length: "f < length (padded n f)"
  by (simp add: padded_def Let_def)

text \<open>The printed number has the asked digits and is off by at most half a unit of the last one.\<close>

lemma toFixed_close:
  assumes "0 \<le> x" and "0 < f"
  obtains a b where "toFixed x f = a @ ''.'' @ b" "a \<noteq> []" "length b = f"
    "\<bar>real (read_digits (a @ b)) / 10 ^ f - x\<bar> \<le> 1 / (2 * 10 ^ f)"
proof
  let ?m = "padded (toFixedUnits x f) f" and ?k = "length (padded (toFixedUnits x f) f) - f"
  show "toFixed x f = take ?k ?m @ ''.'' @ drop ?k ?m" using assms by (simp add: toFixed_def Let_def)
  show "take ?k ?m \<noteq> []" "length (drop ?k ?m) = f" using padded_length[of f "toFixedUnits x f"] by auto
  have n: "real (toFixedUnits x f) = of_int \<lfloor>x * 10 ^ f + 1 / 2\<rfloor>" using assms by (simp add: toFixedUnits_def)
  have "\<bar>real (toFixedUnits x f) - x * 10 ^ f\<bar> \<le> 1 / 2" unfolding n by linarith
  then have "\<bar>(real (toFixedUnits x f) - x * 10 ^ f) / 10 ^ f\<bar> \<le> (1 / 2) / 10 ^ f"
    using divide_right_mono[of "\<bar>real (toFixedUnits x f) - x * 10 ^ f\<bar>" "1 / 2" "10 ^ f"] by (simp add: abs_divide)
  moreover have "(real (toFixedUnits x f) - x * 10 ^ f) / 10 ^ f = real (toFixedUnits x f) / 10 ^ f - x"
    by (simp add: diff_divide_distrib)
  ultimately show "\<bar>real (read_digits (take ?k ?m @ drop ?k ?m)) / 10 ^ f - x\<bar> \<le> 1 / (2 * 10 ^ f)"
    using padded_reads[of "toFixedUnits x f" f] by (simp del: read_digits.simps)
qed

text \<open>An older save never shows a smaller age.\<close>

lemma ageMinutes_mono: "ts \<le> ts' \<Longrightarrow> ageMinutes now ts' \<le> ageMinutes now ts"
  unfolding ageMinutes_def jdiv_def by (intro floor_mono rnd_mono divide_right_mono) simp_all

text \<open>A save stamped ahead of the clock, as a forced increase of the stamp can make it, shows a negative age.\<close>

lemma future_save_negative_age:
  assumes "now < ts" and "ts - now \<le> 60000"
  shows "ageMinutes now ts = - 1"
proof -
  have "0 < rnd (of_int (ts - now) / 60000)" "rnd (of_int (ts - now) / 60000) \<le> of_int 1"
    using assms rnd_strict_pos[of "of_int (ts - now) / 60000"] rnd_le_of_int[of "of_int (ts - now) / 60000" 1] by simp_all
  moreover have "jdiv (of_int (now - ts)) 60000 = - rnd (of_int (ts - now) / 60000)"
    by (metis jdiv_def minus_diff_eq minus_divide_left of_int_minus rnd_minus)
  ultimately show ?thesis unfolding ageMinutes_def by linarith
qed

section \<open>Lemmas: windows\<close>

text \<open>Every button of the conflict window closes it, and keeping the guest's save is offered only if there is one.\<close>

lemma conflict_button_closes:
  assumes "aw_conflictState w = Some c" and "\<not> aw_conflictResolving w" and "(choice, label) \<in> set (conflictButtons False c)"
  shows "aw_conflictState (snd (handleResolve io (False, w) choice now)) = None"
    and "choice = ChooseLocal \<Longrightarrow> pc_localData c \<noteq> None"
proof -
  have keep: "aw_conflictState (keepLocal io v c now) = aw_conflictState v" "aw_conflictState (keepCloud io v c) = aw_conflictState v" for v
    by (auto simp: keepLocal_def keepCloud_def alert_def Let_def split: prod.splits option.splits if_splits)
  show "aw_conflictState (snd (handleResolve io (False, w) choice now)) = None"
    using assms(1,2) keep by (cases choice) (simp_all add: handleResolve_def resolveConflict_def onAccountChange_def Let_def)
  show "choice = ChooseLocal \<Longrightarrow> pc_localData c \<noteq> None" using assms(3) by (auto simp: conflictButtons_def split: if_splits)
qed

lemma foldl_plus: "foldl (\<lambda>n e. n + g e) (a :: int) es = a + sum_list (map g es)"
  by (induction es arbitrary: a) simp_all

lemma walkTotals_sums:
  assumes "es \<noteq> []"
  shows "\<exists>t. walkTotals (Some es) = Some (t, rev es) \<and> wt_fought t = length es \<and>
    wt_won t = int (length (filter w_won es)) \<and> wt_totalXp t = sum_list (map w_xpGained es) \<and>
    wt_itemsFound t = int (length (List.map_filter w_item es))"
proof -
  have "sum_list (map (\<lambda>e. if w_won e then 1 else 0) es) = int (length (filter w_won es))"
    "sum_list (map (\<lambda>e. if w_item e \<noteq> None then 1 else 0) es) = int (length (List.map_filter w_item es))"
    by (induction es) (auto simp: List.map_filter_simps split: option.split)
  then show ?thesis using assms by (simp add: walkTotals_def foldl_plus)
qed

lemma hpPercentage_range:
  assumes "player_ok p" shows "0 \<le> hpPercentage (Some p) \<and> hpPercentage (Some p) \<le> 1"
proof -
  have "0 \<le> p_hp p" "p_hp p \<le> p_maxHp p" using assms by (simp_all add: player_ok_def)
  then have "real_of_int (p_hp p) / real_of_int (p_maxHp p) \<le> of_int 1" if "0 < p_maxHp p" using that by simp
  then show ?thesis
    using \<open>0 \<le> p_hp p\<close> rnd_le_of_int[of _ 1] by (auto simp: hpPercentage_def jdiv_def intro!: rnd_nonneg)
qed

text \<open>The card of a class shows the values a new character of that class has; all classes are offered.\<close>

lemma class_card_honest:
  assumes "p = new_Player (no_params\<lparr> q_archetype := Some a \<rparr>)"
  shows "cc_hp (classCard a) = p_maxHp p" "cc_hp (classCard a) = p_hp p" "cc_atk (classCard a) = p_attack p"
    "cc_def (classCard a) = p_defense p" "a \<in> set ARCHETYPES"
  using assms by (simp_all add: classCard_def new_Player_def no_params_def ARCHETYPES_def Let_def) (cases a; simp)

text \<open>Deletion is always offered once loading is over, sign-out only to an account that is not a guest.\<close>

lemma account_buttons_spec:
  "BDeleteAccount \<in> set (accountButtons ios ld u) \<longleftrightarrow> \<not> ld"
  "BSignOut \<in> set (accountButtons ios ld u) \<longleftrightarrow> \<not> ld \<and> (\<exists>a. u = Some a \<and> \<not> au_isAnonymous a)"
  "BGoogle \<in> set (accountButtons ios ld u) \<longleftrightarrow> \<not> ld \<and> BSignOut \<notin> set (accountButtons ios ld u)"
  by (auto simp: accountButtons_def split: option.splits)

lemma every_slot_drawn_once: "distinct (map fst slotLabels)" "s \<in> set (map fst slotLabels)"
  by (simp add: slotLabels_def) (cases s; simp add: slotLabels_def)

section \<open>Lemmas: effects\<close>

text \<open>The rarer the item, the bigger the burst; no burst needs more particles than the pool has.\<close>

lemma fx_escalates:
  assumes "r \<le> s"
  shows "fx_particles (RARITY_FX r) \<le> fx_particles (RARITY_FX s) \<and> fx_particles (RARITY_FX s) \<le> POOL_SIZE \<and>
    fx_spread (RARITY_FX r) \<le> fx_spread (RARITY_FX s) \<and> fx_shake (RARITY_FX r) \<le> fx_shake (RARITY_FX s) \<and>
    fx_cardDelay (RARITY_FX r) \<le> fx_cardDelay (RARITY_FX s) \<and> fst (RARITY_GLOW r) \<le> fst (RARITY_GLOW s)"
  using assms by (cases r; cases s) (simp_all add: less_eq_rarity_def POOL_SIZE_def)

lemma particleCount_mono:
  assumes "0 \<le> bp_count preset" and "0 \<le> x" and "x \<le> y"
  shows "4 \<le> particleCount preset x \<and> particleCount preset x \<le> particleCount preset y"
proof -
  have "math_round (jmul (of_int (bp_count preset)) x) \<le> math_round (jmul (of_int (bp_count preset)) y)"
    unfolding math_round_def using assms by (intro floor_mono add_right_mono jmul_mono) simp_all
  then show ?thesis by (auto simp: particleCount_def)
qed

lemma makeParticlesFrom_length:
  "rand_all (\<lambda>ps. length ps = length is \<and> list_all (\<lambda>p. pa_gravity p = bp_gravity preset) ps) (makeParticlesFrom preset n is)"
  by (induction "is") (auto intro!: rand_all_bind[OF rand_all_random] rand_all_bind rand_all_return)

section \<open>Lemmas: the debug panel\<close>

text \<open>In a release build no press does anything, whatever the mode was set to.\<close>

lemma no_debug_in_release: "foldl (panel_step (ENV_CONFIG Production)) (m, s) es = (m, s)"
proof (induction es)
  case (Cons e es)
  have "panel_step (ENV_CONFIG Production) (m, s) e = (m, s)"
    by (cases e) (simp_all add: debugPanel_def ENV_CONFIG_def)
  then show ?case using Cons by simp
qed simp

lemma no_banner_in_release: "betaBanner (ENV_CONFIG Production) = None"
  by (simp add: betaBanner_def ENV_CONFIG_def)

lemma savePlayer_hook_ok: "hook_ok (hm_hook s) \<Longrightarrow> player_ok p \<Longrightarrow> hook_ok (hm_hook (savePlayer s p))"
  by (simp add: savePlayer_def setPlayer_ok)

lemma withPlayer_hook_ok:
  assumes "hook_ok (hm_hook s)" and "\<And>p. player_ok p \<Longrightarrow> hook_ok (hm_hook (f p))"
  shows "hook_ok (hm_hook (withPlayer s f))"
  using assms hook_okD(2)[OF assms(1)] clone_ok by (auto simp: withPlayer_def split: option.split)

lemma showAlert_hook [simp]: "hm_hook (showAlert s t) = hm_hook s"
  by (simp add: showAlert_def)

lemma move_hook_ok:
  assumes "hook_ok (hm_hook s)"
  shows "hook_ok (hm_hook (simulateMovement s m existing saveOk))"
proof -
  have "hook_ok (hm_hook (handleDistanceUpdate s dd existing saveOk))" for dd
  proof (cases "h_player (hm_hook s)")
    case None
    have "hook_ok ((hm_hook s)\<lparr> h_currentLocation := l \<rparr>)" for l using assms by (simp add: hook_ok_def)
    then show ?thesis using None onDistance_ok by (simp add: handleDistanceUpdate_def Let_def)
  next
    case (Some p)
    then show ?thesis using handleDistanceUpdate_effect[OF assms] by metis
  qed
  then show ?thesis by (simp add: simulateMovement_def Let_def)
qed

lemma fill_hook_ok:
  assumes "hook_ok (hm_hook s)" shows "hook_ok (hm_hook (debugFillInventory s))"
  unfolding debugFillInventory_def
proof (rule withPlayer_hook_ok[OF assms])
  fix p assume p: "player_ok p"
  obtain q r n where f: "fillLoop (h_now (hm_hook s)) p (h_rng (hm_hook s)) 0 = (q, r, n)" by (metis prod.exhaust)
  have rng: "valid_rng (h_rng (hm_hook s))" using assms by (simp add: hook_ok_def)
  have "1 \<le> p_level p" using p by (simp add: player_ok_def)
  then have "valid_rng r" "player_ok q" using fillLoop_effect[OF rng _ f] fillLoop_ok[OF rng p f] by simp_all
  then show "hook_ok (hm_hook (let (p', r', added) = fillLoop (h_now (hm_hook s)) p (h_rng (hm_hook s)) 0
      in showAlert (savePlayer (s\<lparr> hm_hook := (hm_hook s)\<lparr> h_rng := r' \<rparr> \<rparr>) p') ''Inventory Filled''))"
    using assms by (auto simp: f intro!: savePlayer_hook_ok) (simp add: hook_ok_def)
qed

lemma xp_hook_ok:
  assumes "hook_ok (hm_hook s)" and "0 \<le> x" shows "hook_ok (hm_hook (debugAddXP s x))"
  unfolding debugAddXP_def
  by (rule withPlayer_hook_ok[OF assms(1)])
    (auto simp: case_prod_beta Let_def intro!: savePlayer_hook_ok assms player_ops_ok)

text \<open>Every button keeps the controller's invariant.\<close>

lemma debugPress_ok:
  assumes "hook_ok (hm_hook s)" and "b \<in> set debugButtons"
  shows "hook_ok (hm_hook (debugPress s b existing saveOk entries))"
proof -
  have hook: "hook_ok (hm_hook (onHook s e))" if "event_ok e" for e using hook_step_ok[OF assms(1) that] by (simp add: onHook_def)
  have player: "hook_ok (hm_hook (debugRestoreHp s))" "hook_ok (hm_hook (debugClearInventory s))"
    "1 \<le> l \<Longrightarrow> hook_ok (hm_hook (debugSetLevel s l))" "hook_ok (hm_hook (debugSetArchetype s a))" for l a
    unfolding debugRestoreHp_def debugClearInventory_def debugSetLevel_def debugSetArchetype_def
    by (rule withPlayer_hook_ok[OF assms(1)], auto intro!: savePlayer_hook_ok assms player_ops_ok)+
  show ?thesis
    using assms(2) hook player move_hook_ok[OF assms(1)] fill_hook_ok[OF assms(1)] xp_hook_ok[OF assms(1)]
    by (cases b) (auto simp: debugButtons_def)
qed

definition panel_ok :: "bool \<times> home \<Rightarrow> bool" where
  "panel_ok ms \<longleftrightarrow> hook_ok (hm_hook (snd ms))"

interpretation panel_machine: step_machine "panel_step cfg" panel_ok "\<lambda>_. True" for cfg
proof
  fix ms e assume "panel_ok ms"
  then show "panel_ok (panel_step cfg ms e)"
    by (cases ms; cases e) (auto simp: panel_ok_def debugPress_ok)
qed

end
