(* ===== verification/HomeWindows.thy ===== *)
theory HomeWindows
  imports Screens
begin

text \<open>
  What \<open>screens/HomeScreen.tsx\<close> draws of the controller's state: the windows of an encounter, the bar of
  a minimized one, the controls of each (\<open>EncounterModal.tsx\<close>, \<open>CombatModal.tsx\<close>, \<open>WorthyFoeCard.tsx\<close>)
  and the handler each control calls. The screen is a machine whose taps are those of enabled
  controls: a foe on stage is always drawn in exactly one place, and its fight can always be left.
\<close>

section \<open>The surfaces of a foe\<close>

datatype foe_surface = MinimizedBar | EncounterWindow | CombatWindow

text \<open>Both windows draw nothing without an encounter; \<open>needs\<close> is \<open>needsArchetypeSelection\<close>.\<close>

definition shownSurfaces :: "bool \<Rightarrow> hook \<Rightarrow> foe_surface list" where
  "shownSurfaces needs h =
     (if shownScreen needs (h_player h) \<noteq> HomeView \<or> h_encounter h = None then []
      else (if h_isMinimized h \<and> \<not> h_showCombatModal h then [MinimizedBar] else []) @
           (if h_showEncounterModal h \<and> \<not> h_showCombatModal h then [EncounterWindow] else []) @
           (if h_showCombatModal h then [CombatWindow] else []))"

definition minimizedText :: "encounter \<Rightarrow> string" where
  "minimizedText e = '' Active Encounter: '' @ c_name (e_creature e) @ '' (Tap to view)''"

text \<open>The card of a held foe is the second child of the list, and sticks there.\<close>

definition stickyFoeIndices :: "hook \<Rightarrow> nat list option" where
  "stickyFoeIndices h = (if h_heldFoe h \<noteq> None then Some [1] else None)"

section \<open>Controls\<close>

text \<open>
  \<open>TapMinimize\<close> is the button, the backdrop and the back key of the encounter window, \<open>TapCloseCombat\<close>
  those of the combat window. The flag of \<open>TapFoeCard\<close> is the answer of the store that is cleared.
\<close>

datatype home_control =
  TapFight | TapAutoResolve | TapFlee | TapMinimize | TapDebugDefeat
| TapAbility ability | TapCloseCombat
| TapExpand | TapFoeCard bool | TapDismissReward | TapDismissWalk

text \<open>\<open>hu_debugMode\<close> is the debug panel's switch.\<close>

record home_ui =
  hu_hook :: hook
  hu_needsArchetype :: bool
  hu_debugMode :: bool

abbreviation surfaces :: "home_ui \<Rightarrow> foe_surface list" where
  "surfaces u \<equiv> shownSurfaces (hu_needsArchetype u) (hu_hook u)"

definition fightDisabled :: "hook \<Rightarrow> bool" where
  "fightDisabled h =
     (case h_encounter h of None \<Rightarrow> True
      | Some (ref, e) \<Rightarrow> encounterButtonsDisabled e (map_option p_hp (h_player h)))"

fun controlEnabled :: "env_config \<Rightarrow> home_ui \<Rightarrow> home_control \<Rightarrow> bool" where
  "controlEnabled cfg u TapFight \<longleftrightarrow> EncounterWindow \<in> set (surfaces u) \<and> \<not> fightDisabled (hu_hook u)"
| "controlEnabled cfg u TapAutoResolve \<longleftrightarrow> EncounterWindow \<in> set (surfaces u) \<and> \<not> fightDisabled (hu_hook u) \<and>
     pred_option (canAutoResolve \<circ> snd) (h_encounter (hu_hook u))"
| "controlEnabled cfg u TapFlee \<longleftrightarrow> EncounterWindow \<in> set (surfaces u)"
| "controlEnabled cfg u TapMinimize \<longleftrightarrow> EncounterWindow \<in> set (surfaces u)"
| "controlEnabled cfg u TapDebugDefeat \<longleftrightarrow> EncounterWindow \<in> set (surfaces u) \<and> \<not> fightDisabled (hu_hook u) \<and>
     ec_enableDebugMode cfg \<and> hu_debugMode u"
| "controlEnabled cfg u (TapAbility ab) \<longleftrightarrow> CombatWindow \<in> set (surfaces u) \<and>
     (case (h_encounter (hu_hook u), h_player (hu_hook u)) of
        (Some (ref, e), Some p) \<Rightarrow> ab \<in> set (ARCHETYPE_ABILITIES (p_archetype p)) \<and>
          \<not> buttonDisabled (combatRender (hu_hook u)) (e_creature e) p ab
      | _ \<Rightarrow> False)"
| "controlEnabled cfg u TapCloseCombat \<longleftrightarrow> CombatWindow \<in> set (surfaces u)"
| "controlEnabled cfg u TapExpand \<longleftrightarrow> MinimizedBar \<in> set (surfaces u)"
| "controlEnabled cfg u (TapFoeCard cleared) \<longleftrightarrow> shownScreen (hu_needsArchetype u) (h_player (hu_hook u)) = HomeView \<and>
     h_heldFoe (hu_hook u) \<noteq> None"
| "controlEnabled cfg u TapDismissReward \<longleftrightarrow> shownScreen (hu_needsArchetype u) (h_player (hu_hook u)) = HomeView \<and>
     h_rewardReveal (hu_hook u) \<noteq> None"
| "controlEnabled cfg u TapDismissWalk \<longleftrightarrow> shownScreen (hu_needsArchetype u) (h_player (hu_hook u)) = HomeView \<and>
     walkTotals (h_walkSummary (hu_hook u)) \<noteq> None"

text \<open>The handlers the screen passes to the windows; an ability button decides again when it is pressed.\<close>

fun onControl :: "hook \<Rightarrow> home_control \<Rightarrow> hook" where
  "onControl h TapFight = handleFight h"
| "onControl h TapAutoResolve = handleAutoResolve h"
| "onControl h TapFlee = handleFlee h"
| "onControl h TapMinimize = handleMinimize h"
| "onControl h TapDebugDefeat = handleDebugDefeat h"
| "onControl h (TapAbility ab) = tapAbility (combatRender h) h ab"
| "onControl h TapCloseCombat = handleCloseCombatModal h"
| "onControl h TapExpand = handleExpandMinimized h"
| "onControl h (TapFoeCard cleared) = engageHeldFoe h cleared"
| "onControl h TapDismissReward = dismissReward h"
| "onControl h TapDismissWalk = dismissWalkSummary h"

section \<open>The screen as a machine\<close>

text \<open>What reaches the controller without a tap on these controls; the debug panel is among it.\<close>

fun untapped :: "hook_event \<Rightarrow> bool" where
  "untapped e \<longleftrightarrow> (case e of Fight \<Rightarrow> False | UseAbility _ \<Rightarrow> False | Flee \<Rightarrow> False | AutoResolveTap \<Rightarrow> False
     | DebugDefeat \<Rightarrow> False | Minimize \<Rightarrow> False | CloseCombat \<Rightarrow> False | Expand \<Rightarrow> False | EngageFoe _ \<Rightarrow> False
     | DismissReward \<Rightarrow> False | DismissWalk \<Rightarrow> False | _ \<Rightarrow> True)"

datatype ui_event = Tap home_control | Happens hook_event | ArchetypeNeeded bool | DebugSwitch bool

fun ui_step :: "home_ui \<Rightarrow> ui_event \<Rightarrow> home_ui" where
  "ui_step u (Tap c) = u\<lparr> hu_hook := onControl (hu_hook u) c \<rparr>"
| "ui_step u (Happens e) = u\<lparr> hu_hook := hook_step (hu_hook u) e \<rparr>"
| "ui_step u (ArchetypeNeeded b) = u\<lparr> hu_needsArchetype := b \<rparr>"
| "ui_step u (DebugSwitch b) = u\<lparr> hu_debugMode := b \<rparr>"

fun ui_possible :: "env_config \<Rightarrow> home_ui \<Rightarrow> ui_event \<Rightarrow> bool" where
  "ui_possible cfg u (Tap c) \<longleftrightarrow> controlEnabled cfg u c"
| "ui_possible cfg u (Happens e) \<longleftrightarrow> untapped e \<and> event_ok e"
| "ui_possible cfg u _ \<longleftrightarrow> True"

definition ui_init :: "env_config \<Rightarrow> rng \<Rightarrow> int \<Rightarrow> home_ui" where
  "ui_init cfg r now = \<lparr> hu_hook = hook_init r now, hu_needsArchetype = False, hu_debugMode = ec_enableDebugMode cfg \<rparr>"

section \<open>Exactly one surface\<close>

definition stage :: "hook \<Rightarrow> bool \<times> bool \<times> bool \<times> bool \<times> bool" where
  "stage h = (h_encounter h = None, h_showEncounterModal h, h_isMinimized h, h_showCombatModal h, h_fleeProcessed h)"

text \<open>No window without a foe; with one, the encounter window or the bar, and a foe one has not fled yet.\<close>

fun stage_fits :: "bool \<times> bool \<times> bool \<times> bool \<times> bool \<Rightarrow> bool" where
  "stage_fits (gone, encounterModal, minimized, combatModal, fled) \<longleftrightarrow>
     (if gone then \<not> encounterModal \<and> \<not> minimized \<and> \<not> combatModal
      else encounterModal \<noteq> minimized \<and> (combatModal \<longrightarrow> \<not> minimized) \<and> \<not> fled)"

abbreviation surfaces_ok :: "hook \<Rightarrow> bool" where
  "surfaces_ok h \<equiv> stage_fits (stage h)"

lemma stage_frames [simp]:
  "stage (pushLog h e) = stage h" "stage (pushHit h v) = stage h" "stage (emit h x) = stage h"
  "stage (setPlayerAndSave h p) = stage h" "stage (cancelCounterBeat h) = stage h" "stage (endEnemyTurn h) = stage h"
  "stage (setCreature h c) = stage h" "stage (scheduleVictory h p) = stage h"
  "stage (scheduleCounterAttack h a d c) = stage h" "stage (snd (run_rand h m)) = stage h" "stage (refreshTimes h) = stage h"
  "stage (h\<lparr> h_rng := r \<rparr>) = stage h" "stage (h\<lparr> h_service := sv \<rparr>) = stage h" "stage (h\<lparr> h_nextRef := n \<rparr>) = stage h"
  "stage (h\<lparr> h_creatureDodgeStreak := i \<rparr>) = stage h" "stage (h\<lparr> h_playerDodgeStreak := i \<rparr>) = stage h"
  "stage (h\<lparr> h_counterTimer := t \<rparr>) = stage h"
  by (simp_all add: stage_def pushLog_def pushHit_def emit_def setPlayerAndSave_def cancelCounterBeat_def endEnemyTurn_def
      setCreature_def scheduleVictory_def scheduleCounterAttack_def run_rand_def refreshTimes_def case_prod_beta)

lemma stage_emits [simp]: "stage (foldl (\<lambda>k e. emit k (f e)) h es) = stage h"
  by (induction es arbitrary: h) simp_all

lemma stage_ended [simp]: "surfaces_ok (endFight h)" "surfaces_ok ((endFight h)\<lparr> h_fleeProcessed := b \<rparr>)"
  by (simp_all add: stage_def endFight_def)

lemma stage_presented [simp]: "surfaces_ok (presentEncounter h enc)"
  by (simp add: stage_def presentEncounter_def cancelCounterBeat_def)

subsection \<open>Steps that leave the surfaces alone\<close>

lemma stage_passive [simp]: "stage (resolvePassiveEncounter h enc bg tier) = stage h"
  by (auto simp: resolvePassiveEncounter_def passiveOutcome_def passiveLoot_def run_rand_def setPlayerAndSave_def Let_def
      stage_def emit_def split: option.splits prod.splits if_splits)

lemma stage_hold [simp]: "stage (fst (holdEliteEncounter h re bg existing saveOk)) = stage h"
  by (simp add: holdEliteEncounter_def Let_def stage_def emit_def)

lemma stage_rolled [simp]: "stage (snd (rollForced h l r)) = stage h"
  by (simp add: rollForced_def run_rand_def Let_def stage_def case_prod_beta)

lemma stage_debug [simp]:
  "stage (debugForceIdleEncounter h r) = stage h" "stage (debugForceEliteEncounter h r existing saveOk) = stage h"
  "stage (debugPreviewReveal h q) = stage h"
  by (simp_all add: debugForceIdleEncounter_def debugForceEliteEncounter_def debugPreviewReveal_def case_prod_beta Let_def)
    (simp add: stage_def run_rand_def case_prod_beta)

lemma stage_simulated [simp]: "stage (debugSimulateWalk h n) = stage h"
  unfolding debugSimulateWalk_def by (induction n) simp_all

lemma stage_settings [simp]:
  "stage (hookSetBypass h b) = stage h" "stage (tickCountdown h) = stage h" "stage (rewardTimerFires h) = stage h"
  "stage (dismissReward h) = stage h" "stage (dismissWalkSummary h) = stage h" "stage (refreshHeldFoe h d) = stage h"
  "stage (checkWalkSummaryBegin h es) = stage h" "stage (refreshChance h) = stage h"
  by (simp_all add: stage_def hookSetBypass_def tickCountdown_def rewardTimerFires_def dismissReward_def refreshChance_def
      dismissWalkSummary_def refreshHeldFoe_def refreshTimes_def checkWalkSummaryBegin_def split: option.split)

lemma stage_walkEnd [simp]: "stage (checkWalkSummaryEnd h) = stage h"
proof -
  have "stage (h\<lparr> h_isCheckingWalkSummary := False, h_drained := None \<rparr>) = stage h" by (simp add: stage_def)
  then show ?thesis
    by (cases "h_drained h") (simp_all add: checkWalkSummaryEnd_def Let_def, simp add: stage_def)
qed

lemma stage_dots [simp]: "stage (fst (tickCreatureDots h c st)) = stage h"
proof -
  have "stage (fst (dotLoop k c' ds n)) = stage k" for k c' ds n
    by (induction ds arbitrary: k n) (simp_all add: Let_def)
  then show ?thesis by (simp add: tickCreatureDots_def Let_def case_prod_beta split: option.split)
qed

lemma stage_swing [simp]:
  "stage (fst (directSwing h ab p c d)) = stage h" "stage (fst (applyHeal h ab p n)) = stage h"
  "stage (announceStatus h ab p c) = stage h"
  by (simp_all add: directSwing_def applyHeal_def announceStatus_def case_prod_beta Let_def split: ability_kind.split)

text \<open>An action replaces the encounter on stage by its successor.\<close>

lemma stage_perform: "h_encounter h \<noteq> None \<Longrightarrow> stage (performAbility h ab p re c pst pre new) = stage h"
proof -
  assume e: "h_encounter h \<noteq> None"
  have "stage (k\<lparr> h_encounter := Some x, h_nextRef := n \<rparr>) = stage h" if "stage k = stage h" for k x n
    using that e by (simp add: stage_def)
  moreover have "stage (k\<lparr> h_playerCombatState := a, h_creatureCombatState := b \<rparr>) = stage k" for k a b by (simp add: stage_def)
  ultimately show ?thesis by (simp add: performAbility_def case_prod_beta Let_def)
qed

subsection \<open>Steps that move the surfaces\<close>

lemma victory_stage:
  assumes "surfaces_ok h \<or> h_encounter h \<noteq> None" and "window_ok h" and "pu \<noteq> None \<or> h_player h \<noteq> None"
  shows "surfaces_ok (handleVictory h pu)"
  using assms
  by (auto simp: handleVictory_def window_ok_def Let_def split: option.splits prod.splits) (simp_all add: stage_def endFight_def)

lemma flee_stage: "surfaces_ok h \<Longrightarrow> surfaces_ok (handleFlee h)"
  by (simp add: handleFlee_def Let_def) (simp add: stage_def endFight_def)

lemma fight_stage:
  assumes "surfaces_ok h" and "window_ok h" and "h_showEncounterModal h"
  shows "surfaces_ok (handleFight h)"
proof -
  have "surfaces_ok (handleVictory h None)" if "h_player h \<noteq> None" using assms that by (intro victory_stage) simp_all
  then show ?thesis using assms
    by (auto simp: handleFight_def Let_def split: option.split) (simp_all add: stage_def split: if_splits)
qed

lemma finish_stage:
  assumes "surfaces_ok h" and "window_ok h"
  shows "surfaces_ok (handleAutoResolve h)" and "surfaces_ok (handleDebugDefeat h)" and "surfaces_ok (killBeatFires h)"
    and "surfaces_ok (handleCloseCombatModal h)"
proof -
  have won: "surfaces_ok (handleVictory k (Some p))"
    if "h_encounter k \<noteq> None" "h_victoryProcessed k = h_victoryProcessed h" "h_encounter h \<noteq> None" "\<not> h_showCombatModal k" for k p
    using that assms(2) by (intro victory_stage) (auto simp: window_ok_def)
  show "surfaces_ok (handleAutoResolve h)" "surfaces_ok (handleDebugDefeat h)" using assms won
    by (auto simp: handleAutoResolve_def handleDebugDefeat_def Let_def split: option.split)
  show "surfaces_ok (handleCloseCombatModal h)" using assms(1)
    by (simp add: handleCloseCombatModal_def) (simp add: stage_def split: if_splits)
  have "surfaces_ok (h\<lparr> h_killBeatTimer := None, h_showCombatModal := False \<rparr>)" using assms(1) by (simp add: stage_def split: if_splits)
  then show "surfaces_ok (killBeatFires h)" using assms
    by (auto simp: killBeatFires_def window_ok_def split: option.split intro!: victory_stage)
qed

lemma engage_stage: "surfaces_ok h \<Longrightarrow> surfaces_ok (engageHeldFoe h cleared)"
  by (simp add: engageHeldFoe_def split: option.split) (simp add: stage_def)

lemma toggled_stage:
  "surfaces_ok h \<Longrightarrow> h_encounter h \<noteq> None \<Longrightarrow> \<not> h_showCombatModal h \<Longrightarrow> surfaces_ok (handleMinimize h) \<and> surfaces_ok (handleExpandMinimized h)"
  by (simp add: stage_def handleMinimize_def handleExpandMinimized_def)

lemma torn_stage: "surfaces_ok (clearEncounter h)"
  by (simp add: stage_def clearEncounter_def cancelCounterBeat_def Let_def)

lemma ability_stage:
  assumes "surfaces_ok h" and "window_ok h"
  shows "surfaces_ok (fst (handleAbility h ab))"
proof (cases "(\<exists>re. h_encounter h = Some re) \<and> (\<exists>p. h_player h = Some p) \<and> (\<exists>pst. h_playerCombatState h = Some pst)")
  case True
  then obtain re p pst where e: "h_encounter h = Some re" "h_player h = Some p" "h_playerCombatState h = Some pst" by blast
  obtain h1 c new where t: "tickCreatureDots h (e_creature (snd re)) (h_creatureCombatState h) = (h1, c, new)" by (metis prod.collapse)
  have h1: "stage h1 = stage h" "h_encounter h1 = Some re"
    using stage_dots[of h "e_creature (snd re)" "h_creatureCombatState h"] dots_window(1)[of h "e_creature (snd re)" "h_creatureCombatState h"]
      t e(1) by simp_all
  have "stage (performAbility (setCreature h1 c) ab (clone_player p) re c pst (h_creatureCombatState h) new) = stage h"
    using h1 by (subst stage_perform) (simp_all add: setCreature_def[of h1] del: stage_frames, simp add: stage_def)
  moreover have "stage ((setCreature h1 c)\<lparr> h_playerCombatState := a, h_creatureCombatState := b \<rparr>) = stage (setCreature h1 c)" for a b
    by (simp add: stage_def)
  moreover have "surfaces_ok ((handleVictory h None)\<lparr> h_showCombatModal := False \<rparr>)"
  proof -
    have "surfaces_ok (handleVictory h None)" using assms e by (intro victory_stage) simp_all
    then show ?thesis by (simp add: stage_def split: if_splits)
  qed
  ultimately show ?thesis using assms e t h1 by (simp add: handleAbility_def Let_def)
next
  case False
  then have "fst (handleAbility h ab) = h" by (auto simp: handleAbility_def split: option.splits)
  then show ?thesis using assms by simp
qed

lemma defeat_stage: "surfaces_ok (handlePlayerDefeat h p)"
  by (simp add: handlePlayerDefeat_def Let_def)

lemma counter_stage: "surfaces_ok h \<Longrightarrow> surfaces_ok (counterTimerFires h)"
  by (auto simp: counterTimerFires_def counterStrike_def Let_def case_prod_beta defeat_stage split: option.split counter_timer.split)

lemma route_stage: "surfaces_ok h \<Longrightarrow> surfaces_ok (routeEncounter h enc existing saveOk)"
  by (simp add: routeEncounter_def Let_def case_prod_beta split: encounter_route.split)

lemma distance_stage:
  assumes "surfaces_ok h" shows "surfaces_ok (onDistanceEncounterUpdate h dd p existing saveOk)"
proof (cases "h_encounter h")
  case (Some re)
  then show ?thesis using assms
    by (cases re) (auto simp: onDistanceEncounterUpdate_def autoFlee_def intro!: flee_stage)
next
  case None
  have chances: "stage (k\<lparr> h_encounterChance := x, h_lastEncounterChance := y \<rparr>) = stage k" for k x y by (simp add: stage_def)
  have rolled: "surfaces_ok (h\<lparr> h_rng := r, h_service := sv \<rparr>)" for r sv using assms by (simp add: stage_def)
  show ?thesis
    using None assms route_stage[OF rolled] rolled
    by (auto simp: onDistanceEncounterUpdate_def run_rand_def Let_def chances split: option.splits prod.splits)
qed

lemma force_stage: "surfaces_ok (hookForceEncounter h)"
proof -
  have "stage (k\<lparr> h_encounterChance := x \<rparr>) = stage k" for k x by (simp add: stage_def)
  then show ?thesis by (simp add: hookForceEncounter_def case_prod_beta)
qed

lemma untapped_stage: "surfaces_ok h \<Longrightarrow> window_ok h \<Longrightarrow> untapped e \<Longrightarrow> surfaces_ok (hook_step h e)"
  by (cases e) (simp_all add: finish_stage counter_stage distance_stage torn_stage force_stage, simp_all add: stage_def)

text \<open>Every control does what an event of the controller does, or nothing.\<close>

fun controlEvent :: "home_control \<Rightarrow> hook_event" where
  "controlEvent TapFight = Fight"
| "controlEvent TapAutoResolve = AutoResolveTap"
| "controlEvent TapFlee = Flee"
| "controlEvent TapMinimize = Minimize"
| "controlEvent TapDebugDefeat = DebugDefeat"
| "controlEvent (TapAbility ab) = UseAbility ab"
| "controlEvent TapCloseCombat = CloseCombat"
| "controlEvent TapExpand = Expand"
| "controlEvent (TapFoeCard cleared) = EngageFoe cleared"
| "controlEvent TapDismissReward = DismissReward"
| "controlEvent TapDismissWalk = DismissWalk"

lemma onControl_step: "onControl h c = h \<or> onControl h c = hook_step h (controlEvent c)"
  by (cases c) (simp_all add: tapAbility_def split: option.split)

lemma control_event_ok: "controlEnabled cfg u c \<Longrightarrow> event_ok (controlEvent c)"
  using roster_ok by (cases c) (auto simp: list_all_iff split: option.splits)

lemma shown_iff:
  "EncounterWindow \<in> set (shownSurfaces needs h) \<longleftrightarrow> shownScreen needs (h_player h) = HomeView \<and> h_encounter h \<noteq> None \<and>
     h_showEncounterModal h \<and> \<not> h_showCombatModal h"
  "CombatWindow \<in> set (shownSurfaces needs h) \<longleftrightarrow> shownScreen needs (h_player h) = HomeView \<and> h_encounter h \<noteq> None \<and>
     h_showCombatModal h"
  "MinimizedBar \<in> set (shownSurfaces needs h) \<longleftrightarrow> shownScreen needs (h_player h) = HomeView \<and> h_encounter h \<noteq> None \<and>
     h_isMinimized h \<and> \<not> h_showCombatModal h"
  by (auto simp: shownSurfaces_def)

lemma control_stage:
  assumes "surfaces_ok (hu_hook u)" and "window_ok (hu_hook u)" and "controlEnabled cfg u c"
  shows "surfaces_ok (onControl (hu_hook u) c)"
proof (cases c)
  case TapFight
  then show ?thesis using assms fight_stage[OF assms(1,2)] by (simp add: shown_iff)
next
  case TapMinimize
  then show ?thesis using assms toggled_stage[OF assms(1)] by (simp add: shown_iff)
next
  case TapExpand
  then show ?thesis using assms toggled_stage[OF assms(1)] by (simp add: shown_iff)
next
  case (TapAbility ab)
  then show ?thesis using assms(1) ability_stage[OF assms(1,2), of ab] onControl_step[of "hu_hook u" c] by auto
qed (simp_all add: finish_stage[OF assms(1,2)] flee_stage[OF assms(1)] engage_stage[OF assms(1)] assms(1))

definition ui_ok :: "home_ui \<Rightarrow> bool" where
  "ui_ok u \<longleftrightarrow> stage_ok (hu_hook u) \<and> surfaces_ok (hu_hook u)"

lemma ui_init_ok: "valid_rng r \<Longrightarrow> ui_ok (ui_init cfg r now)"
  using stage_init[of r now] by (simp add: ui_ok_def ui_init_def) (simp add: stage_def hook_init_def)

interpretation home_screen: guarded_machine ui_step ui_ok "ui_possible cfg" for cfg
proof
  fix u e assume ok: "ui_ok u" and e: "ui_possible cfg u e"
  have st: "stage_ok (hu_hook u)" "surfaces_ok (hu_hook u)" and win: "window_ok (hu_hook u)"
    using ok by (simp_all add: ui_ok_def stage_ok_def)
  show "ui_ok (ui_step u e)"
  proof (cases e)
    case (Tap c)
    then have c: "controlEnabled cfg u c" using e by simp
    have "stage_ok (onControl (hu_hook u) c)"
      using onControl_step[of "hu_hook u" c] stage_machine.step_inv[OF st(1) control_event_ok[OF c]] st(1) by auto
    then show ?thesis using Tap control_stage[OF st(2) win c] by (simp add: ui_ok_def)
  next
    case (Happens ev)
    then show ?thesis using e st stage_machine.step_inv[OF st(1)] untapped_stage[OF st(2) win]
      by (simp add: ui_ok_def del: untapped.simps)
  qed (use ok in \<open>simp_all add: ui_ok_def\<close>)
qed

text \<open>With a foe on stage exactly one surface is drawn; without one, none.\<close>

lemma one_surface:
  assumes "ui_ok u" and "shownScreen (hu_needsArchetype u) (h_player (hu_hook u)) = HomeView"
  shows "length (surfaces u) = (if h_encounter (hu_hook u) = None then 0 else 1)"
  using assms by (auto simp: ui_ok_def shownSurfaces_def stage_def split: if_splits)

section \<open>The way out\<close>

text \<open>
  The fight can be left with taps on enabled controls while the timers of the enemy's turn run out:
  at most two timers, one tap that opens the encounter window, and the flight.
\<close>

fun patient :: "env_config \<Rightarrow> home_ui \<Rightarrow> ui_event \<Rightarrow> bool" where
  "patient cfg u (Tap c) \<longleftrightarrow> controlEnabled cfg u c"
| "patient cfg u (Happens e) \<longleftrightarrow> e = CounterTimer \<and> h_counterTimer (hu_hook u) \<noteq> None"
| "patient cfg u _ \<longleftrightarrow> False"

lemma patient_possible: "patient cfg u e \<Longrightarrow> ui_possible cfg u e"
  by (cases e) simp_all

lemma flee_leaves: "\<not> h_fleeProcessed h \<Longrightarrow> \<not> h_counterPending h \<Longrightarrow> h_encounter (handleFlee h) = None"
  by (simp add: handleFlee_def endFight_def Let_def)

definition exits :: "env_config \<Rightarrow> home_ui \<Rightarrow> ui_event list \<Rightarrow> bool" where
  "exits cfg u es \<longleftrightarrow> run_ok ui_step (patient cfg) u es \<and> h_encounter (hu_hook (foldl ui_step u es)) = None"

lemma exits_later: "patient cfg u e \<Longrightarrow> exits cfg (ui_step u e) es \<Longrightarrow> exits cfg u (e # es)"
  by (simp add: exits_def)

lemma flee_exits:
  assumes "surfaces_ok (hu_hook u)" and "EncounterWindow \<in> set (surfaces u)" and "\<not> h_counterPending (hu_hook u)"
  shows "exits cfg u [Tap TapFlee]"
proof -
  have "\<not> h_fleeProcessed (hu_hook u)" using assms(1,2) by (simp add: shown_iff stage_def)
  then show ?thesis using assms(2) flee_leaves[OF _ assms(3)] by (simp add: exits_def)
qed

lemma exit_your_turn:
  assumes ok: "ui_ok u" and home: "shownScreen (hu_needsArchetype u) (h_player (hu_hook u)) = HomeView"
    and foe: "h_encounter (hu_hook u) \<noteq> None" and turn: "\<not> h_counterPending (hu_hook u)"
  shows "\<exists>es. length es \<le> 2 \<and> exits cfg u es"
proof -
  have fits: "surfaces_ok (hu_hook u)" using ok by (simp add: ui_ok_def)
  have onto: "\<exists>es. length es \<le> 2 \<and> exits cfg u es"
    if "controlEnabled cfg u c" "surfaces_ok (onControl (hu_hook u) c)" "\<not> h_counterPending (onControl (hu_hook u) c)"
      "EncounterWindow \<in> set (shownSurfaces (hu_needsArchetype u) (onControl (hu_hook u) c))" for c
  proof -
    have "exits cfg (ui_step u (Tap c)) [Tap TapFlee]" using that(2-4) by (intro flee_exits) simp_all
    then have "exits cfg u [Tap c, Tap TapFlee]" by (rule exits_later[rotated]) (simp add: that(1))
    then show ?thesis by (intro exI[of _ "[Tap c, Tap TapFlee]"]) simp
  qed
  show ?thesis
  proof (cases "h_showCombatModal (hu_hook u)")
    case True
    have "h_showEncounterModal (hu_hook u)" using fits foe True by (simp add: stage_def)
    then show ?thesis using home foe turn True
      by (intro onto[of TapCloseCombat] control_stage[OF fits _, of cfg]) (use ok in \<open>simp_all add: shown_iff handleCloseCombatModal_def ui_ok_def stage_ok_def\<close>)
  next
    case closed: False
    show ?thesis
    proof (cases "h_isMinimized (hu_hook u)")
      case True
      then show ?thesis using home foe turn closed
        by (intro onto[of TapExpand] control_stage[OF fits _, of cfg]) (use ok in \<open>simp_all add: shown_iff handleExpandMinimized_def ui_ok_def stage_ok_def\<close>)
    next
      case False
      then have "h_showEncounterModal (hu_hook u)" using fits foe by (simp add: stage_def)
      then have "exits cfg u [Tap TapFlee]" using home foe closed turn by (intro flee_exits[OF fits]) (simp_all add: shown_iff)
      then show ?thesis by (intro exI[of _ "[Tap TapFlee]"]) simp
    qed
  qed
qed

lemma strike_advances:
  "h_counterTimer h = None \<Longrightarrow> h_counterTimer (counterStrike h atk def c p) \<in> {None, Some StrikeHold}"
  "h_player (counterStrike h atk def c p) \<noteq> None"
  by (simp_all add: counterStrike_def endEnemyTurn_def handlePlayerDefeat_def emit_def endFight_def
      setPlayerAndSave_def pushLog_def pushHit_def run_rand_def Let_def case_prod_beta)

lemma timer_advances:
  assumes "h_counterTimer h = Some t"
  shows "t = StrikeHold \<Longrightarrow> \<not> h_counterPending (counterTimerFires h)"
    and "h_counterTimer (counterTimerFires h) \<in> {None, Some StrikeHold}"
    and "h_player h \<noteq> None \<Longrightarrow> h_player (counterTimerFires h) \<noteq> None"
proof -
  show "t = StrikeHold \<Longrightarrow> \<not> h_counterPending (counterTimerFires h)"
    using assms by (simp add: counterTimerFires_def endEnemyTurn_def)
  show "h_counterTimer (counterTimerFires h) \<in> {None, Some StrikeHold}"
    using assms strike_advances(1)[of "h\<lparr> h_counterTimer := None \<rparr>"]
    by (cases t) (auto simp: counterTimerFires_def endEnemyTurn_def Let_def split: option.split)
  show "h_player h \<noteq> None \<Longrightarrow> h_player (counterTimerFires h) \<noteq> None"
    using assms strike_advances(2)[of "h\<lparr> h_counterTimer := None \<rparr>"]
    by (cases t) (auto simp: counterTimerFires_def endEnemyTurn_def Let_def split: option.split)
qed

lemma way_out:
  assumes ok: "ui_ok u" and home: "shownScreen (hu_needsArchetype u) (h_player (hu_hook u)) = HomeView"
  shows "\<exists>es. length es \<le> 4 \<and> exits cfg u es"
proof -
  let ?fire = "\<lambda>v. ui_step v (Happens CounterTimer)"
  have gone: "\<exists>es. length es \<le> n \<and> exits cfg v es" if "h_encounter (hu_hook v) = None" for v n
    using that by (intro exI[of _ "[]"]) (simp add: exits_def)
  have idle: "\<exists>es. length es \<le> 2 \<and> exits cfg v es"
    if "ui_ok v" "shownScreen (hu_needsArchetype v) (h_player (hu_hook v)) = HomeView" "\<not> h_counterPending (hu_hook v)" for v
    using exit_your_turn[of v cfg] gone[of v 2] that by blast
  have fired: "ui_ok (?fire v)" "shownScreen (hu_needsArchetype (?fire v)) (h_player (hu_hook (?fire v))) = HomeView"
    if "ui_ok v" "shownScreen (hu_needsArchetype v) (h_player (hu_hook v)) = HomeView" "h_counterTimer (hu_hook v) = Some t" for v t
    using that home_screen.guarded_step_inv[of v cfg "Happens CounterTimer"] timer_advances(3)[of "hu_hook v" t]
    by (auto simp: shownScreen_def split: if_splits)
  have beat: "h_counterPending (hu_hook v) \<longleftrightarrow> h_counterTimer (hu_hook v) \<noteq> None" if "ui_ok v" for v
    using that by (auto simp: ui_ok_def stage_ok_def hook_ok_def beat_ok_def)
  have hold: "\<exists>es. length es \<le> 3 \<and> exits cfg v es"
    if v: "ui_ok v" "shownScreen (hu_needsArchetype v) (h_player (hu_hook v)) = HomeView" "h_counterTimer (hu_hook v) \<in> {None, Some StrikeHold}" for v
  proof (cases "h_counterTimer (hu_hook v)")
    case None
    then obtain es where "length es \<le> 2" "exits cfg v es" using idle[of v] beat v by auto
    then show ?thesis by (intro exI[of _ es]) simp
  next
    case (Some t)
    then obtain es where "length es \<le> 2" "exits cfg (?fire v) es"
      using idle[OF fired[OF v(1,2) Some]] timer_advances(1)[OF Some] v(3) by auto
    then show ?thesis using Some by (intro exI[of _ "Happens CounterTimer # es"]) (auto intro!: exits_later)
  qed
  show ?thesis
  proof (cases "h_counterTimer (hu_hook u)")
    case None
    then obtain es where "length es \<le> 3" "exits cfg u es" using hold[of u] assms by auto
    then show ?thesis by (intro exI[of _ es]) simp
  next
    case (Some t)
    then obtain es where "length es \<le> 3" "exits cfg (?fire u) es"
      using hold[OF fired[OF ok home Some]] timer_advances(2)[OF Some] by auto
    then show ?thesis using Some by (intro exI[of _ "Happens CounterTimer # es"]) (auto intro!: exits_later)
  qed
qed

end
