(* ===== verification/Elements.thy ===== *)
theory Elements
  imports Creatures Loot CombatText
begin

text \<open>
  The trees a component returns when it renders: text, drawings, bars, boxes, pressable areas with
  their handler, and windows with the handler of a request to close them. \<open>texts\<close> and \<open>presses\<close> read a
  tree the way a player does: what it says, and which handlers a touch can reach. Styles, colours
  that carry no meaning and animation are left out.
\<close>

section \<open>Trees\<close>

text \<open>A component that returns \<open>null\<close> is the empty list; the flag of \<open>Press\<close> is \<open>disabled\<close>.\<close>

datatype 'h element =
  Txt string
| Icon string
| Fill real
| Box "'h element list"
| Press 'h bool "'h element list"
| Window "'h option" "'h element list"

fun texts :: "'h element \<Rightarrow> string list" where
  "texts (Txt s) = [s]"
| "texts (Icon _) = []"
| "texts (Fill _) = []"
| "texts (Box es) = concat (map texts es)"
| "texts (Press _ _ es) = concat (map texts es)"
| "texts (Window _ es) = concat (map texts es)"

fun presses :: "'h element \<Rightarrow> 'h list" where
  "presses (Txt _) = []"
| "presses (Icon _) = []"
| "presses (Fill _) = []"
| "presses (Box es) = concat (map presses es)"
| "presses (Press h disabled es) = (if disabled then [] else [h]) @ concat (map presses es)"
| "presses (Window close es) = (case close of None \<Rightarrow> [] | Some h \<Rightarrow> [h]) @ concat (map presses es)"

text \<open>What a list of siblings says and offers.\<close>

definition says :: "'h element list \<Rightarrow> string list" where
  "says es = concat (map texts es)"

definition offers :: "'h element list \<Rightarrow> 'h set" where
  "offers es = set (concat (map presses es))"

text \<open>\<open>condition && element\<close>, an optional value that is drawn, and a modal window.\<close>

definition only_if :: "bool \<Rightarrow> 'h element list \<Rightarrow> 'h element list" where
  "only_if b es = (if b then es else [])"

definition given :: "'a option \<Rightarrow> ('a \<Rightarrow> 'h element list) \<Rightarrow> 'h element list" where
  "given x f = (case x of None \<Rightarrow> [] | Some y \<Rightarrow> f y)"

definition modal :: "bool \<Rightarrow> 'h option \<Rightarrow> 'h element list \<Rightarrow> 'h element list" where
  "modal visible close es = (if visible then [Window close es] else [])"

definition button :: "'h \<Rightarrow> bool \<Rightarrow> string \<Rightarrow> 'h element" where
  "button h disabled label = Press h disabled [Txt label]"

lemma offers_simps [simp]:
  "offers [] = {}" "offers (Txt s # es) = offers es" "offers (Icon s # es) = offers es" "offers (Fill x # es) = offers es"
  "offers (Box fs # es) = offers fs \<union> offers es"
  "offers (Press h d fs # es) = (if d then {} else {h}) \<union> offers fs \<union> offers es"
  "offers (Window c fs # es) = set_option c \<union> offers fs \<union> offers es"
  by (auto simp: offers_def split: option.splits)

lemma offers_append [simp]: "offers (xs @ ys) = offers xs \<union> offers ys"
  by (simp add: offers_def)

lemma offers_only_if [simp]: "offers (only_if b es) = (if b then offers es else {})"
  by (simp add: only_if_def)

lemma offers_given [simp]: "offers (given x f) = (case x of None \<Rightarrow> {} | Some y \<Rightarrow> offers (f y))"
  by (simp add: given_def split: option.split)

lemma offers_modal [simp]: "offers (modal v c es) = (if v then set_option c \<union> offers es else {})"
  by (simp add: modal_def)

lemma offers_button [simp]: "offers (button h d l # es) = (if d then {} else {h}) \<union> offers es"
  by (simp add: button_def)

lemma offers_map: "offers (map f xs) = (\<Union>x \<in> set xs. offers [f x])"
  by (induction xs) (simp_all add: offers_def)

lemma offers_concat [simp]: "offers (concat xss) = (\<Union>xs \<in> set xss. offers xs)"
  by (induction xss) simp_all

lemma offers_if [simp]: "offers (if b then es else fs) = (if b then offers es else offers fs)"
  by simp

lemma says_simps [simp]:
  "says [] = []" "says (Txt s # es) = s # says es" "says (Icon s # es) = says es" "says (Fill x # es) = says es"
  "says (Box fs # es) = says fs @ says es" "says (Press h d fs # es) = says fs @ says es"
  "says (Window c fs # es) = says fs @ says es"
  by (simp_all add: says_def)

lemma says_append [simp]: "says (xs @ ys) = says xs @ says ys"
  by (simp add: says_def)

lemma says_only_if [simp]: "says (only_if b es) = (if b then says es else [])"
  by (simp add: only_if_def)

lemma says_given [simp]: "says (given x f) = (case x of None \<Rightarrow> [] | Some y \<Rightarrow> says (f y))"
  by (simp add: given_def split: option.split)

lemma says_modal [simp]: "says (modal v c es) = (if v then says es else [])"
  by (simp add: modal_def)

lemma says_button [simp]: "says (button h d l # es) = l # says es"
  by (simp add: button_def)

lemma says_map: "says (map f xs) = concat (map (\<lambda>x. says [f x]) xs)"
  by (induction xs) (simp_all add: says_def)

section \<open>Text\<close>

text \<open>Characters outside ASCII are their UTF-8 bytes.\<close>

definition middle_dot :: string where "middle_dot = [CHR 0xC2, CHR 0xB7]"
definition bullet :: string where "bullet = [CHR 0xE2, CHR 0x80, CHR 0xA2]"
definition ellipsis :: string where "ellipsis = [CHR 0xE2, CHR 0x80, CHR 0xA6]"
definition minus_sign :: string where "minus_sign = [CHR 0xE2, CHR 0x88, CHR 0x92]"
definition arrow_right :: string where "arrow_right = [CHR 0xE2, CHR 0x86, CHR 0x92]"
definition triangle_up :: string where "triangle_up = [CHR 0xE2, CHR 0x96, CHR 0xB2]"
definition triangle_down :: string where "triangle_down = [CHR 0xE2, CHR 0x96, CHR 0xBC]"
definition diamond :: string where "diamond = [CHR 0xE2, CHR 0x97, CHR 0x86]"

definition toUpperCase :: "string \<Rightarrow> string" where
  "toUpperCase s = map to_upper s"

definition toLowerCase :: "string \<Rightarrow> string" where
  "toLowerCase s = map to_lower s"

text \<open>\<open>a / b\<close>, as hit points and experience are written.\<close>

definition ratio :: "int \<Rightarrow> int \<Rightarrow> string \<Rightarrow> string" where
  "ratio a b unit = show_int a @ '' / '' @ show_int b @ unit"

text \<open>\<open>replace\<close> of the language with a string pattern of one character: the first occurrence only.\<close>

fun replace_first :: "char \<Rightarrow> char \<Rightarrow> string \<Rightarrow> string" where
  "replace_first a b [] = []"
| "replace_first a b (c # s) = (if c = a then b # s else c # replace_first a b s)"

end
