(* ===== verification/Artwork.thy ===== *)
theory Artwork
  imports Elements AppShell CombatView
begin

text \<open>
  What is drawn for a creature, an ability, a slot: the tables of drawings with their fallbacks
  (\<open>combat/creatures/registry.ts\<close> and \<open>components/icons\<close>), the plate and the stage that choose among
  them (\<open>CreaturePlate.tsx\<close>, \<open>CreatureStage.tsx\<close>), the motion of a creature's body
  (\<open>useCreatureBodyAnim.ts\<close>) and the two palettes (\<open>constants/theme.ts\<close>). The drawings themselves are
  names here. The lemmas show that no creature, ability or slot of the game falls back, that a body
  never turns inside out, and that both palettes are readable.
\<close>

section \<open>Bodies\<close>

datatype idle_style = IdleGround | IdleFloat
datatype death_style = DeathMelt | DeathCollapse | DeathFade

record creature_body =
  cb_name :: string
  cb_idleStyle :: idle_style
  cb_deathStyle :: death_style

definition body :: "string \<Rightarrow> idle_style \<Rightarrow> death_style \<Rightarrow> creature_body" where
  "body n i d = \<lparr> cb_name = n, cb_idleStyle = i, cb_deathStyle = d \<rparr>"

definition CREATURE_BODIES :: "(string \<times> creature_body) list" where
  "CREATURE_BODIES =
     [(''sump_ooze'', body ''SumpOozeBody'' IdleGround DeathMelt),
      (''forest_sprite'', body ''ForestSpriteBody'' IdleFloat DeathFade),
      (''urban_phantom'', body ''UrbanPhantomBody'' IdleFloat DeathFade),
      (''alley_cur'', body ''AlleyCurBody'' IdleGround DeathCollapse),
      (''gutter_swarm'', body ''GutterSwarmBody'' IdleGround DeathCollapse),
      (''mossback_toad'', body ''MossbackToadBody'' IdleGround DeathCollapse),
      (''grit_golemling'', body ''GritGolemlingBody'' IdleGround DeathCollapse),
      (''pale_stray'', body ''PaleStrayBody'' IdleGround DeathFade),
      (''ash_wretch'', body ''AshWretchBody'' IdleGround DeathCollapse),
      (''copper_sentinel'', body ''CopperSentinelBody'' IdleGround DeathCollapse)]"

definition resolveCreatureBody :: "string option \<Rightarrow> creature_body option" where
  "resolveCreatureBody creatureId =
     (case creatureId of None \<Rightarrow> None | Some i \<Rightarrow> if i = [] then None else map_of CREATURE_BODIES i)"

section \<open>Glyphs\<close>

definition ABILITY_ICONS :: "(string \<times> string) list" where
  "ABILITY_ICONS =
     [(''strike'', ''StrikeIcon''), (''power_strike'', ''PowerStrikeIcon''), (''battle_cry'', ''BattleCryIcon''),
      (''execute'', ''ExecuteIcon''), (''quick_slash'', ''QuickSlashIcon''), (''twin_fangs'', ''TwinFangsIcon''),
      (''hemorrhage'', ''HemorrhageIcon''), (''evasive_leap'', ''EvasiveLeapIcon''),
      (''arcane_bolt'', ''ArcaneBoltIcon''), (''fireball'', ''FireballIcon''), (''frost_bolt'', ''FrostBoltIcon''),
      (''immolate'', ''ImmolateIcon''), (''arcane_surge'', ''ArcaneSurgeIcon'')]"

definition abilityIcon :: "string \<Rightarrow> string" where
  "abilityIcon i = (case map_of ABILITY_ICONS i of None \<Rightarrow> ''FallbackIcon'' | Some g \<Rightarrow> g)"

definition ITEM_SLOT_ICONS :: "(string \<times> string) list" where
  "ITEM_SLOT_ICONS =
     [(''weapon'', ''WeaponIcon''), (''offhand'', ''OffhandIcon''), (''head'', ''HeadIcon''), (''chest'', ''ChestIcon''),
      (''legs'', ''LegsIcon''), (''boots'', ''BootsIcon''), (''gloves'', ''GlovesIcon''), (''accessory'', ''AccessoryIcon'')]"

definition normalizeSlotKey :: "string \<Rightarrow> string" where
  "normalizeSlotKey slot = (if take 9 slot = ''accessory'' then ''accessory'' else slot)"

definition itemSlotIcon :: "string \<Rightarrow> string" where
  "itemSlotIcon slot = (case map_of ITEM_SLOT_ICONS (normalizeSlotKey slot) of None \<Rightarrow> ''FallbackSlotIcon'' | Some g \<Rightarrow> g)"

definition ELEMENT_EMBLEMS :: "string list" where
  "ELEMENT_EMBLEMS =
     [''Fire'', ''Frost'', ''Water'', ''Air'', ''Earth'', ''Nature'', ''Shadow'', ''Arcane'', ''Spirit'', ''Undead'',
      ''Beast'', ''Vermin'', ''Ooze'', ''Fungus'', ''Construct'']"

definition ELEMENT_COLORS :: "(string \<times> string) list" where
  "ELEMENT_COLORS =
     [(''Fire'', ''#FF7043''), (''Frost'', ''#4FC3F7''), (''Water'', ''#29B6F6''), (''Air'', ''#90CAF9''),
      (''Earth'', ''#A1887F''), (''Nature'', ''#66BB6A''), (''Shadow'', ''#7E57C2''), (''Arcane'', ''#BA68C8''),
      (''Spirit'', ''#B39DDB''), (''Undead'', ''#90A4AE''), (''Beast'', ''#FF8A65''), (''Vermin'', ''#9CCC65''),
      (''Ooze'', ''#26A69A''), (''Fungus'', ''#AB47BC''), (''Construct'', ''#78909C'')]"

definition emblemColor :: "string \<Rightarrow> string" where
  "emblemColor ty = (case map_of ELEMENT_COLORS ty of None \<Rightarrow> ''#B0BEC5'' | Some c \<Rightarrow> c)"

fun resource_name :: "resource \<Rightarrow> string" where
  "resource_name Rage = ''rage''"
| "resource_name Energy = ''energy''"
| "resource_name Mana = ''mana''"

definition RESOURCE_ICONS :: "(string \<times> string) list" where
  "RESOURCE_ICONS = [(''rage'', ''RageIcon''), (''energy'', ''EnergyIcon''), (''mana'', ''ManaIcon'')]"

definition resourceIcon :: "string \<Rightarrow> string" where
  "resourceIcon resource = (case map_of RESOURCE_ICONS resource of None \<Rightarrow> ''ManaIcon'' | Some g \<Rightarrow> g)"

section \<open>Plate and stage\<close>

text \<open>An emblem for a type that has none draws nothing.\<close>

datatype creature_art = BodyArt creature_body int anim_state | EmblemArt string int | NoArt

definition creaturePlate :: "string \<Rightarrow> real \<Rightarrow> string option \<Rightarrow> anim_state \<Rightarrow> creature_art" where
  "creaturePlate ty sz creatureId state =
     (case resolveCreatureBody creatureId of
        Some b \<Rightarrow> BodyArt b (math_round (jmul sz (rnd (76 / 100)))) state
      | None \<Rightarrow> if ty \<in> set ELEMENT_EMBLEMS then EmblemArt ty (math_round (jmul sz (rnd (56 / 100)))) else NoArt)"

text \<open>A layout event keeps the stored size when it did not change.\<close>

definition onLayout :: "(real \<times> real) option \<Rightarrow> real \<times> real \<Rightarrow> (real \<times> real) option" where
  "onLayout prev layout = (case prev of None \<Rightarrow> Some layout | Some p \<Rightarrow> if p = layout then prev else Some layout)"

datatype stage_art = SpriteArt painted_key bool "rect \<times> rect" | PlateArt creature_art

definition stageGround :: "bool option \<Rightarrow> string" where
  "stageGround daylight = (if daylight = Some True then ''#A69E92'' else ''#0A0A0D'')"

definition creatureStage :: "(real \<times> real) option \<Rightarrow> string option \<Rightarrow> string \<Rightarrow> bool option \<Rightarrow> anim_state \<Rightarrow> stage_art" where
  "creatureStage sz creatureId ty daylight state =
     (case (sz, resolvePaintedCreature creatureId daylight) of
        (Some (w, h), Some (key, scale, gloom)) \<Rightarrow>
          SpriteArt key gloom (computeStageLayout w h (pk_framing key) scale None None)
      | _ \<Rightarrow>
          PlateArt (creaturePlate ty
            (case sz of None \<Rightarrow> 120 | Some (w, h) \<Rightarrow> of_int (math_round (jmul (min w h) (rnd (62 / 100)))))
            creatureId state))"

section \<open>The motion of a body\<close>

text \<open>\<open>bob\<close>, \<open>attack\<close> and \<open>death\<close> run between 0 and 1; the legs are targets with their durations.\<close>

definition bobMs :: "idle_style \<Rightarrow> int" where
  "bobMs s = (if s = IdleFloat then 1400 else 950)"

definition attackLegs :: "anim_state \<Rightarrow> (real \<times> int) list \<times> bool" where
  "attackLegs state = (if state = AnimAttack then ([(1, 200), (0, 260)], True) else ([(0, 140)], False))"

definition deathLeg :: "anim_state \<Rightarrow> real \<times> int" where
  "deathLeg state = (if state = AnimDeath then (1, 620) else (0, 200))"

record body_style =
  bs_opacity :: real
  bs_translateY :: real
  bs_rotate :: real
  bs_scaleX :: real
  bs_scaleY :: real

definition idlePose :: "idle_style \<Rightarrow> real \<Rightarrow> real \<Rightarrow> real \<times> real \<times> real" where
  "idlePose idleStyle sz b =
     (if idleStyle = IdleFloat
      then (jadd 1 (jmul (rnd (2 / 100)) (jsub 1 b)), jsub 1 (jmul (rnd (2 / 100)) (jsub 1 b)),
            jmul (jmul (- rnd (6 / 100)) sz) b)
      else (jadd 1 (jmul (rnd (5 / 100)) (jsub 1 b)), jsub 1 (jmul (rnd (5 / 100)) (jsub 1 b)),
            jmul (jmul (- rnd (5 / 100)) sz) b))"

definition attackPose :: "real \<Rightarrow> real \<Rightarrow> real \<times> real \<times> real \<Rightarrow> real \<times> real \<times> real" where
  "attackPose sz a pose =
     (case pose of (sx, sy, ty) \<Rightarrow>
        (jadd sx (jmul (rnd (1 / 10)) a), jadd sy (jmul (rnd (6 / 100)) a),
         jadd ty (jmul (jmul (- rnd (6 / 100)) sz) a)))"

definition bodyStyle :: "idle_style \<Rightarrow> death_style \<Rightarrow> real \<Rightarrow> real \<Rightarrow> real \<Rightarrow> real \<Rightarrow> body_style" where
  "bodyStyle idleStyle deathStyle sz b a d =
     (case attackPose sz a (idlePose idleStyle sz b) of (sx, sy, ty) \<Rightarrow>
        (case deathStyle of
           DeathMelt \<Rightarrow>
             \<lparr> bs_opacity = jsub 1 d, bs_translateY = jadd ty (jmul (jmul (rnd (12 / 100)) sz) d), bs_rotate = 0,
               bs_scaleX = jmul sx (jadd 1 (jmul (1 / 2) d)), bs_scaleY = jmul sy (jsub 1 (jmul (rnd (8 / 10)) d)) \<rparr>
         | DeathFade \<Rightarrow>
             \<lparr> bs_opacity = jsub 1 d, bs_translateY = jadd ty (jmul (jmul (- rnd (14 / 100)) sz) d), bs_rotate = 0,
               bs_scaleX = jmul sx (jsub 1 (jmul (rnd (1 / 10)) d)), bs_scaleY = jmul sy (jsub 1 (jmul (rnd (1 / 10)) d)) \<rparr>
         | DeathCollapse \<Rightarrow>
             \<lparr> bs_opacity = jsub 1 d, bs_translateY = jadd ty (jmul (jmul (rnd (14 / 100)) sz) d), bs_rotate = jmul (- 8) d,
               bs_scaleX = sx, bs_scaleY = jmul sy (jsub 1 (jmul (1 / 2) d)) \<rparr>))"

section \<open>Palettes\<close>

record theme_tokens =
  th_bg :: string
  th_surface :: string
  th_surfaceAlt :: string
  th_surfaceRaised :: string
  th_border :: string
  th_divider :: string
  th_text :: string
  th_textSecondary :: string
  th_textMuted :: string
  th_accent :: string
  th_onAccent :: string
  th_danger :: string
  th_success :: string
  th_warning :: string
  th_info :: string
  th_overlay :: string
  th_track :: string
  th_physical :: string
  th_fire :: string
  th_frost :: string
  th_arcane :: string
  th_plateBg :: string
  th_plateRing :: string
  th_statusBar :: string

definition NIGHT :: theme_tokens where
  "NIGHT =
     \<lparr> th_bg = ''#0A0A0E'', th_surface = ''#14141B'', th_surfaceAlt = ''#1B1B24'', th_surfaceRaised = ''#22222C'',
       th_border = ''#2A2833'', th_divider = ''#232029'', th_text = ''#ECE7EA'', th_textSecondary = ''#A09AA2'',
       th_textMuted = ''#66616C'', th_accent = ''#FF6A2A'', th_onAccent = ''#14141B'', th_danger = ''#C4453B'',
       th_success = ''#6FA05E'', th_warning = ''#D9A441'', th_info = ''#5A8AA0'', th_overlay = ''rgba(0,0,0,0.78)'',
       th_track = ''#23222C'', th_physical = ''#8A8F98'', th_fire = ''#C25A2A'', th_frost = ''#5A8AA0'',
       th_arcane = ''#8A5FA0'', th_plateBg = ''#0B0B10'', th_plateRing = ''#3A3742'', th_statusBar = ''light-content'' \<rparr>"

definition DAY :: theme_tokens where
  "DAY =
     \<lparr> th_bg = ''#C9C3B5'', th_surface = ''#E0DACC'', th_surfaceAlt = ''#D2CBBB'', th_surfaceRaised = ''#EBE6DA'',
       th_border = ''#B2A895'', th_divider = ''#C3BBA9'', th_text = ''#2B2721'', th_textSecondary = ''#5A5346'',
       th_textMuted = ''#8B8474'', th_accent = ''#A5442A'', th_onAccent = ''#EBE6DA'', th_danger = ''#8E2F26'',
       th_success = ''#5E6E3C'', th_warning = ''#97762C'', th_info = ''#4E7286'', th_overlay = ''rgba(45,40,32,0.55)'',
       th_track = ''#BEB6A5'', th_physical = ''#6E6A5E'', th_fire = ''#A5442A'', th_frost = ''#4E7286'',
       th_arcane = ''#6E4A80'', th_plateBg = ''#B8B0A0'', th_plateRing = ''#9A9080'', th_statusBar = ''dark-content'' \<rparr>"

definition THEMES :: "theme_name \<Rightarrow> theme_tokens" where
  "THEMES n = (case n of Night \<Rightarrow> NIGHT | Day \<Rightarrow> DAY)"

text \<open>The colours of the crash screen, which must not read the theme.\<close>

definition crashColors :: "(string \<times> (theme_tokens \<Rightarrow> string)) list" where
  "crashColors =
     [(''#0A0A0E'', th_bg), (''#ECE7EA'', th_text), (''#A09AA2'', th_textSecondary), (''#14141B'', th_surface),
      (''#C4453B'', th_danger), (''#FF6A2A'', th_accent), (''#14141B'', th_onAccent)]"

text \<open>The three channels of a colour written as \<open>#RRGGBB\<close>.\<close>

definition hex_digit :: "char \<Rightarrow> nat" where
  "hex_digit c = (let n = of_char c :: nat in if n \<le> 57 then n - 48 else n - 55)"

fun channels :: "string \<Rightarrow> nat list" where
  "channels [h, a, b, c, d, e, f] =
     [16 * hex_digit a + hex_digit b, 16 * hex_digit c + hex_digit d, 16 * hex_digit e + hex_digit f]"
| "channels _ = []"

text \<open>Every channel of the first colour is at least \<open>n\<close> above that of the second.\<close>

definition lighter_by :: "nat \<Rightarrow> string \<Rightarrow> string \<Rightarrow> bool" where
  "lighter_by n x y \<longleftrightarrow> channels x \<noteq> [] \<and> list_all2 (\<lambda>a b. b + n \<le> a) (channels x) (channels y)"

section \<open>Lemmas: nothing falls back\<close>

lemma roster_drawn: "list_all (\<lambda>t. t_type t \<in> set ELEMENT_EMBLEMS \<and> t_type t \<in> set (map fst ELEMENT_COLORS)) CREATURE_TEMPLATES"
  unfolding CREATURE_TEMPLATES_def list_all_append by (intro conjI; code_simp)

text \<open>Every creature of the game is drawn, in its own colour, on the plate and on the stage.\<close>

lemma template_drawn:
  assumes "t \<in> set CREATURE_TEMPLATES"
  shows "creaturePlate (t_type t) sz (Some (t_id t)) state \<noteq> NoArt"
    and "creatureStage layout (Some (t_id t)) (t_type t) daylight state \<noteq> PlateArt NoArt"
    and "(t_type t, emblemColor (t_type t)) \<in> set ELEMENT_COLORS"
proof -
  have e: "t_type t \<in> set ELEMENT_EMBLEMS" "t_type t \<in> fst ` set ELEMENT_COLORS"
    using roster_drawn assms unfolding list_all_iff list.set_map by blast+
  then have plate: "creaturePlate (t_type t) x (Some (t_id t)) state \<noteq> NoArt" for x
    by (simp add: creaturePlate_def split: option.split)
  then show "creaturePlate (t_type t) sz (Some (t_id t)) state \<noteq> NoArt" .
  show "creatureStage layout (Some (t_id t)) (t_type t) daylight state \<noteq> PlateArt NoArt"
    using plate by (auto simp: creatureStage_def split: option.split prod.split)
  obtain c where "map_of ELEMENT_COLORS (t_type t) = Some c"
    using e(2) by (metis weak_map_of_SomeI imageE prod.collapse)
  then show "(t_type t, emblemColor (t_type t)) \<in> set ELEMENT_COLORS"
    by (simp add: emblemColor_def map_of_SomeD)
qed

text \<open>The bodies belong to creatures of the game, and so does the painted art.\<close>

lemma bodies_used: "list_all (\<lambda>i. i \<in> set (map t_id CREATURE_TEMPLATES)) (map fst CREATURE_BODIES @ map fst PAINTED_CREATURES)"
  by code_simp

lemma abilities_drawn: "list_all (\<lambda>ab. abilityIcon (a_id ab) \<noteq> ''FallbackIcon'') (ARCHETYPE_ABILITIES a)"
  by (cases a; simp only:; code_simp)

lemma abilities_told_apart: "distinct (map snd ABILITY_ICONS)"
  by code_simp

lemma slots_drawn: "itemSlotIcon (slot_name ty) \<noteq> ''FallbackSlotIcon''" "slot_name ty \<in> set (map fst ITEM_SLOT_ICONS)"
  by (cases ty; simp only:; code_simp)+

lemma resources_drawn: "resource_name (cfg_resource (ARCHETYPE_CONFIGS a)) \<in> set (map fst RESOURCE_ICONS)"
  by (cases a; simp only:; code_simp)

text \<open>
  The body's box is wider than the square that fits the round frame, so its corners lie outside:
  with the frame's diameter as the hypotenuse, the square's diagonal is longer. The sizes are those
  of the foe's card, of the encounter window and of an unmeasured stage.
\<close>

lemma body_box_pokes_out:
  "list_all (\<lambda>sz. let side = math_round (jmul (of_int sz) (rnd (76 / 100))) in side \<le> sz \<and> sz * sz < 2 * side * side)
     [58, 84, 120]"
  by code_simp

section \<open>Lemmas: motion\<close>

lemma rnd_between:
  assumes "of_int m * 2 powi k \<le> x" and "x \<le> of_int n * 2 powi j" and "\<bar>m\<bar> \<le> 2 ^ 53" and "\<bar>n\<bar> \<le> 2 ^ 53"
  shows "of_int m * 2 powi k \<le> rnd x" and "rnd x \<le> of_int n * 2 powi j"
  using rnd_mono[OF assms(1)] rnd_mono[OF assms(2)] rnd_dyadic[OF assms(3)] rnd_dyadic[OF assms(4)] by simp_all

text \<open>Bounds in sixteenths are kept by rounding.\<close>

definition span16 :: "int \<Rightarrow> int \<Rightarrow> real \<Rightarrow> bool" where
  "span16 m n x \<longleftrightarrow> of_int m / 16 \<le> x \<and> x \<le> of_int n / 16"

lemma span_rnd: "span16 m n x \<Longrightarrow> \<bar>m\<bar> \<le> 2 ^ 53 \<Longrightarrow> \<bar>n\<bar> \<le> 2 ^ 53 \<Longrightarrow> span16 m n (rnd x)"
  using rnd_between[of m "- 4" x n "- 4"] by (simp add: span16_def power_int_minus field_simps)

lemma span_add: "span16 a b x \<Longrightarrow> span16 c d y \<Longrightarrow> span16 (a + c) (b + d) (x + y)"
  by (simp add: span16_def add_divide_distrib)

lemma span_sub: "span16 a b x \<Longrightarrow> span16 c d y \<Longrightarrow> span16 (a - d) (b - c) (x - y)"
  by (simp add: span16_def diff_divide_distrib)

text \<open>A share of a quantity that is not negative.\<close>

lemma span_share:
  assumes "span16 0 b k" and "span16 0 16 x"
  shows "span16 0 b (k * x)"
proof -
  have "0 \<le> k" "0 \<le> x" "x \<le> 1" "k \<le> of_int b / 16" using assms by (simp_all add: span16_def)
  then show ?thesis using mult_left_le[of x k] by (simp add: span16_def)
qed

lemma jpart:
  assumes "span16 0 b k" and "span16 0 16 x" and "b \<le> 2 ^ 50"
  shows "span16 0 b (jmul (rnd k) x)"
proof -
  have "0 \<le> of_int b / (16::real)" using assms(1) unfolding span16_def by linarith
  then have "0 \<le> b" by simp
  then show ?thesis unfolding jmul_def using assms by (intro span_rnd span_share) simp_all
qed

lemma idle_span:
  assumes "span16 0 16 b"
  shows "span16 16 17 (fst (idlePose i sz b))" and "span16 15 16 (fst (snd (idlePose i sz b)))"
proof -
  have r: "span16 0 16 (jsub 1 b)" unfolding jsub_def using assms by (intro span_rnd) (simp_all add: span16_def)
  have "span16 0 1 (jmul (rnd k) (jsub 1 b))" if "span16 0 1 k" for k using r that by (intro jpart) simp_all
  then have *: "span16 0 1 (jmul (rnd (2 / 100)) (jsub 1 b))" "span16 0 1 (jmul (rnd (5 / 100)) (jsub 1 b))"
    by (simp_all add: span16_def)
  have "span16 16 17 (jadd 1 y)" "span16 15 16 (jsub 1 y)" if "span16 0 1 y" for y
    unfolding jadd_def jsub_def using that by (intro span_rnd; simp add: span16_def)+
  with * show "span16 16 17 (fst (idlePose i sz b))" "span16 15 16 (fst (snd (idlePose i sz b)))"
    by (simp_all add: idlePose_def)
qed

lemma attack_span:
  assumes "span16 0 16 b" and "span16 0 16 a"
  shows "span16 16 19 (fst (attackPose sz a (idlePose i sz b)))"
    and "span16 15 17 (fst (snd (attackPose sz a (idlePose i sz b))))"
proof -
  obtain sx sy ty where p: "idlePose i sz b = (sx, sy, ty)" by (metis prod.collapse)
  have s: "span16 16 17 sx" "span16 15 16 sy" using idle_span[OF assms(1), of i sz] p by simp_all
  have "span16 0 2 (jmul (rnd (1 / 10)) a)" "span16 0 1 (jmul (rnd (6 / 100)) a)"
    using assms(2) by (intro jpart; simp add: span16_def)+
  then have "span16 16 19 (jadd sx (jmul (rnd (1 / 10)) a))" "span16 15 17 (jadd sy (jmul (rnd (6 / 100)) a))"
    unfolding jadd_def using span_add[OF s(1)] span_add[OF s(2)] by (force intro!: span_rnd)+
  then show "span16 16 19 (fst (attackPose sz a (idlePose i sz b)))"
    "span16 15 17 (fst (snd (attackPose sz a (idlePose i sz b))))" by (simp_all add: attackPose_def p)
qed

lemma span_mult:
  assumes "span16 a b x" and "span16 c d y" and "0 \<le> a" and "0 \<le> c"
  shows "of_int (a * c) / 256 \<le> x * y" and "x * y \<le> of_int (b * d) / 256"
proof -
  have x: "of_int a / 16 \<le> x" "x \<le> of_int b / 16" "0 \<le> of_int a / (16::real)"
    and y: "of_int c / 16 \<le> y" "y \<le> of_int d / 16" "0 \<le> of_int c / (16::real)" using assms by (simp_all add: span16_def)
  have "of_int a / 16 * (of_int c / 16) \<le> x * y" using x y by (intro mult_mono) auto
  then show "of_int (a * c) / 256 \<le> x * y" by simp
  have "0 \<le> x" "0 \<le> y" using x y by linarith+
  then have "x * y \<le> of_int b / 16 * (of_int d / 16)" using x y by (intro mult_mono) auto
  then show "x * y \<le> of_int (b * d) / 256" by simp
qed

lemma jmul_span:
  assumes "span16 a b x" and "span16 c d y" and "0 \<le> a" and "0 \<le> c" and "\<bar>a * c\<bar> \<le> 2 ^ 53" and "\<bar>b * d\<bar> \<le> 2 ^ 53"
  shows "of_int (a * c) / 256 \<le> jmul x y \<and> jmul x y \<le> of_int (b * d) / 256"
  using rnd_between[of "a * c" "- 8" "x * y" "b * d" "- 8"] span_mult[OF assms(1-4)] assms(5,6)
  by (simp add: jmul_def power_int_minus field_simps)

text \<open>
  Whatever the three clocks show, a body stays upright and of about its size, and its opacity is a
  share that falls to nothing when the death animation has ended.
\<close>

lemma body_style_sane:
  assumes "span16 0 16 b" and "span16 0 16 a" and "span16 0 16 d" and s_def: "s = bodyStyle i ds sz b a d"
  shows "0 \<le> bs_opacity s \<and> bs_opacity s \<le> 1 \<and> 7 / 8 \<le> bs_scaleX s \<and> bs_scaleX s < 2 \<and> 1 / 8 \<le> bs_scaleY s \<and> bs_scaleY s < 5 / 4"
proof -
  obtain sx sy ty where p: "attackPose sz a (idlePose i sz b) = (sx, sy, ty)" by (metis prod.collapse)
  have w: "span16 16 19 sx" "span16 15 17 sy" using attack_span[OF assms(1,2), of sz i] p by simp_all
  have half: "rnd (1 / 2) = 1 / 2" using rnd_dyadic[of 1 "- 1"] by (simp add: power_int_minus)
  have "span16 0 8 (jmul (rnd (1 / 2)) d)" "span16 0 13 (jmul (rnd (8 / 10)) d)" "span16 0 2 (jmul (rnd (1 / 10)) d)"
    using assms(3) by (intro jpart; simp add: span16_def)+
  then have f: "span16 16 24 (jadd 1 (jmul (1 / 2) d))" "span16 3 16 (jsub 1 (jmul (rnd (8 / 10)) d))"
    "span16 14 16 (jsub 1 (jmul (rnd (1 / 10)) d))" "span16 8 16 (jsub 1 (jmul (1 / 2) d))"
    unfolding jadd_def jsub_def half by (intro span_rnd; simp add: span16_def)+
  have op: "span16 0 16 (jsub 1 d)" unfolding jsub_def using assms(3) by (intro span_rnd) (simp_all add: span16_def)
  note x = jmul_span[OF w(1) f(1)] jmul_span[OF w(1) f(3)]
    and y = jmul_span[OF w(2) f(2)] jmul_span[OF w(2) f(3)] jmul_span[OF w(2) f(4)]
  show ?thesis using op x y w unfolding s_def bodyStyle_def p span16_def by (cases ds) simp_all
qed

lemma body_gone: "snd (deathLeg AnimDeath) < 1000" "bs_opacity (bodyStyle i ds sz b a (fst (deathLeg AnimDeath))) = 0"
  "bs_opacity (bodyStyle i ds sz b a (fst (deathLeg AnimIdle))) = 1"
  by (cases ds; simp add: bodyStyle_def deathLeg_def js_num case_prod_beta)+

section \<open>Lemmas: palettes\<close>

text \<open>Text stands out from every ground it is written on, and so does the system's status bar.\<close>

lemma palettes_readable:
  "list_all (\<lambda>ground. lighter_by 90 (th_text NIGHT) (ground NIGHT) \<and> lighter_by 90 (th_textSecondary NIGHT) (ground NIGHT))
     [th_bg, th_surface, th_surfaceAlt, th_surfaceRaised]"
  "list_all (\<lambda>ground. lighter_by 90 (ground DAY) (th_text DAY) \<and> lighter_by 90 (ground DAY) (th_textSecondary DAY))
     [th_bg, th_surface, th_surfaceAlt, th_surfaceRaised]"
  "th_statusBar (THEMES n) = ''light-content'' \<longleftrightarrow> lighter_by 90 (th_text (THEMES n)) (th_bg (THEMES n))"
  by code_simp+ (cases n; simp only:; code_simp)

lemma crash_screen_matches: "list_all (\<lambda>(c, token). c = token NIGHT) crashColors"
  by code_simp

text \<open>The plate's ground is light in the day palette.\<close>

lemma day_plate_is_light: "list_all (\<lambda>c. 150 < c) (channels (th_plateBg DAY))"
  by code_simp

end
