(* ===== verification/InventoryView.thy ===== *)
theory InventoryView
  imports Home
begin

text \<open>
  The inventory window (\<open>components/inventory/InventoryModal.tsx\<close>), the item details it opens
  (\<open>ItemDetailsModal.tsx\<close>) and the buttons of \<open>screens/HomeScreen.tsx\<close> that open and close it, as a
  machine over the window's state and the player it shows. The window remembers an item and its
  index while the player under it may be replaced at any time; the invariant says that open details
  always describe an item that is still in that place.
\<close>

section \<open>Rows\<close>

text \<open>The entries with their original index, restricted to a slot if one was tapped.\<close>

definition filteredInventoryData :: "inventory \<Rightarrow> equipment_slot option \<Rightarrow> (item option \<times> nat) list" where
  "filteredInventoryData inventory equipmentSlot =
     (let entries = zip inventory [0..<length inventory]
      in case equipmentSlot of
           None \<Rightarrow> entries
         | Some slot \<Rightarrow> filter (\<lambda>(i, _). case i of None \<Rightarrow> False | Some it \<Rightarrow> canEquipInSlot it slot) entries)"

definition itemRows :: "inventory \<Rightarrow> equipment_slot option \<Rightarrow> (item \<times> nat) list" where
  "itemRows inventory equipmentSlot =
     List.map_filter (\<lambda>(i, n). map_option (\<lambda>it. (it, n)) i) (filteredInventoryData inventory equipmentSlot)"

definition usedSlots :: "inventory \<Rightarrow> nat" where
  "usedSlots inventory = length (filter (\<lambda>i. i \<noteq> None) inventory)"

definition getEquippedFor :: "player option \<Rightarrow> item \<Rightarrow> item option" where
  "getEquippedFor p target = (case p of None \<Rightarrow> None | Some q \<Rightarrow> p_equipment q (getItemSlot target))"

text \<open>The mark beside a value: up, down or none; a stat the worn item lacks counts as zero.\<close>

datatype stat_mark = StatUp | StatDown | StatNeutral

definition statMark :: "item option \<Rightarrow> (item \<Rightarrow> int option) \<Rightarrow> int \<Rightarrow> stat_mark" where
  "statMark equipped key value =
     (case equipped of
        None \<Rightarrow> StatNeutral
      | Some e \<Rightarrow>
          let equippedValue = (case key e of None \<Rightarrow> 0 | Some v \<Rightarrow> v)
          in if value > equippedValue then StatUp else if value < equippedValue then StatDown else StatNeutral)"

definition STAT_DISPLAY :: "((item \<Rightarrow> int option) \<times> string) list" where
  "STAT_DISPLAY = [(i_attack, []), (i_defense, []), (i_maxHp, ''+'')]"

definition statChips :: "player option \<Rightarrow> item \<Rightarrow> (string \<times> stat_mark) list" where
  "statChips p it =
     List.map_filter (\<lambda>(key, prefix).
       map_option (\<lambda>v. (prefix @ show_int v, statMark (getEquippedFor p it) key v)) (key it)) STAT_DISPLAY"

text \<open>Whether the Equip button of the details is enabled.\<close>

definition canEquip :: "player option \<Rightarrow> item \<Rightarrow> bool" where
  "canEquip p it \<longleftrightarrow> (case p of None \<Rightarrow> False | Some q \<Rightarrow> i_level it \<le> p_level q)"

section \<open>The window\<close>

record inventory_window =
  iw_visible :: bool
  iw_equipmentSlot :: "equipment_slot option"
  iw_selectedItem :: "item option"
  iw_selectedItemIndex :: int
  iw_showItemDetails :: bool

definition window_init :: inventory_window where
  "window_init = \<lparr> iw_visible = False, iw_equipmentSlot = None, iw_selectedItem = None, iw_selectedItemIndex = - 1,
     iw_showItemDetails = False \<rparr>"

definition onSlotPress :: "inventory_window \<Rightarrow> equipment_slot \<Rightarrow> inventory_window" where
  "onSlotPress w slot = w\<lparr> iw_equipmentSlot := Some slot, iw_visible := True \<rparr>"

definition openInventory :: "inventory_window \<Rightarrow> inventory_window" where
  "openInventory w = w\<lparr> iw_equipmentSlot := None, iw_visible := True \<rparr>"

definition closeInventory :: "inventory_window \<Rightarrow> inventory_window" where
  "closeInventory w = w\<lparr> iw_visible := False, iw_equipmentSlot := None \<rparr>"

definition handleCloseItemDetails :: "inventory_window \<Rightarrow> inventory_window" where
  "handleCloseItemDetails w = w\<lparr> iw_showItemDetails := False, iw_selectedItem := None, iw_selectedItemIndex := - 1 \<rparr>"

definition handleItemPress :: "inventory_window \<Rightarrow> item option \<Rightarrow> nat \<Rightarrow> inventory_window" where
  "handleItemPress w i originalIndex =
     (case i of
        None \<Rightarrow> w
      | Some it \<Rightarrow> w\<lparr> iw_selectedItem := Some it, iw_selectedItemIndex := int originalIndex, iw_showItemDetails := True \<rparr>)"

text \<open>The two effects: a hidden window forgets its selection, and so does one whose item moved.\<close>

definition visibleEffect :: "inventory_window \<Rightarrow> inventory_window" where
  "visibleEffect w = (if iw_visible w then w else handleCloseItemDetails w)"

definition validateEffect :: "inventory_window \<Rightarrow> player option \<Rightarrow> inventory_window" where
  "validateEffect w p =
     (case iw_selectedItem w of
        None \<Rightarrow> w
      | Some it \<Rightarrow>
          if iw_selectedItemIndex w = - 1 then w
          else if (case p of None \<Rightarrow> False | Some q \<Rightarrow> stillSelected q (iw_selectedItemIndex w) it) then w
          else handleCloseItemDetails w)"

text \<open>Equipping and deleting: the handlers of \<open>Home\<close> change the player, the window closes its details.\<close>

definition windowEquip :: "inventory_window \<Rightarrow> player option \<Rightarrow> inventory_window \<times> player option" where
  "windowEquip w p =
     (case (p, iw_selectedItem w) of
        (Some q, Some it) \<Rightarrow>
          if iw_selectedItemIndex w = - 1 then (w, p)
          else if \<not> stillSelected q (iw_selectedItemIndex w) it then (handleCloseItemDetails w, p)
          else
            let (q', success) = handleEquip q (iw_selectedItemIndex w) it (iw_equipmentSlot w)
            in if success then (handleCloseItemDetails w, Some q') else (w, Some q')
      | _ \<Rightarrow> (w, p))"

definition windowDelete :: "inventory_window \<Rightarrow> player option \<Rightarrow> inventory_window \<times> player option" where
  "windowDelete w p =
     (case (p, iw_selectedItem w) of
        (Some q, Some it) \<Rightarrow>
          if iw_selectedItemIndex w = - 1 then (w, p)
          else (handleCloseItemDetails w, Some (fst (handleDelete q (iw_selectedItemIndex w) it)))
      | _ \<Rightarrow> (w, p))"

section \<open>The window as a machine\<close>

text \<open>
  \<open>RowPress n\<close> taps the row at position \<open>n\<close> of what is drawn; the buttons of the details exist while
  they are open and the Equip button while it is enabled; \<open>PlayerShown\<close> is a render with another player.
\<close>

record inventory_view =
  iv_window :: inventory_window
  iv_player :: "player option"

datatype inventory_event =
  SlotPress equipment_slot | OpenInventory | CloseInventory | RowPress nat | CloseDetails
| EquipPress | DeletePress | PlayerShown "player option"

definition shownRows :: "inventory_view \<Rightarrow> (item \<times> nat) list" where
  "shownRows v = itemRows (case iv_player v of None \<Rightarrow> [] | Some p \<Rightarrow> p_inventory p) (iw_equipmentSlot (iv_window v))"

definition equipEnabled :: "inventory_view \<Rightarrow> bool" where
  "equipEnabled v \<longleftrightarrow> iw_showItemDetails (iv_window v) \<and>
     (case iw_selectedItem (iv_window v) of None \<Rightarrow> False | Some it \<Rightarrow> canEquip (iv_player v) it)"

fun inventory_handle :: "inventory_view \<Rightarrow> inventory_event \<Rightarrow> inventory_view" where
  "inventory_handle v (SlotPress s) = v\<lparr> iv_window := onSlotPress (iv_window v) s \<rparr>"
| "inventory_handle v OpenInventory = v\<lparr> iv_window := openInventory (iv_window v) \<rparr>"
| "inventory_handle v CloseInventory = v\<lparr> iv_window := closeInventory (iv_window v) \<rparr>"
| "inventory_handle v (RowPress n) =
     (if iw_visible (iv_window v) \<and> n < length (shownRows v)
      then v\<lparr> iv_window := (case shownRows v ! n of (it, i) \<Rightarrow> handleItemPress (iv_window v) (Some it) i) \<rparr> else v)"
| "inventory_handle v CloseDetails = v\<lparr> iv_window := handleCloseItemDetails (iv_window v) \<rparr>"
| "inventory_handle v EquipPress =
     (if equipEnabled v
      then (case windowEquip (iv_window v) (iv_player v) of (w, p) \<Rightarrow> v\<lparr> iv_window := w, iv_player := p \<rparr>) else v)"
| "inventory_handle v DeletePress =
     (if iw_showItemDetails (iv_window v)
      then (case windowDelete (iv_window v) (iv_player v) of (w, p) \<Rightarrow> v\<lparr> iv_window := w, iv_player := p \<rparr>) else v)"
| "inventory_handle v (PlayerShown p) = v\<lparr> iv_player := p \<rparr>"

text \<open>The effects run after the render that follows.\<close>

definition inventory_step :: "inventory_view \<Rightarrow> inventory_event \<Rightarrow> inventory_view" where
  "inventory_step v e =
     (let v1 = inventory_handle v e
      in v1\<lparr> iv_window := validateEffect (visibleEffect (iv_window v1)) (iv_player v1) \<rparr>)"

fun inventory_event_ok :: "inventory_event \<Rightarrow> bool" where
  "inventory_event_ok (PlayerShown p) \<longleftrightarrow> pred_option player_ok p"
| "inventory_event_ok _ \<longleftrightarrow> True"

section \<open>Lemmas\<close>

lemma in_map_filter: "y \<in> set (List.map_filter f xs) \<longleftrightarrow> (\<exists>x \<in> set xs. f x = Some y)"
  by (induction xs) (auto simp: List.map_filter_simps split: option.split)

lemma in_zip_upt: "(x, n) \<in> set (zip xs [0..<length xs]) \<longleftrightarrow> n < length xs \<and> x = xs ! n"
  by (auto simp: set_zip)

text \<open>The rows are exactly the items that fit, each with its place.\<close>

lemma itemRows_iff:
  "(it, n) \<in> set (itemRows iv slot) \<longleftrightarrow>
     n < length iv \<and> iv ! n = Some it \<and> (case slot of None \<Rightarrow> True | Some s \<Rightarrow> canEquipInSlot it s)"
proof -
  have "(it, n) \<in> set (itemRows iv slot) \<longleftrightarrow> (Some it, n) \<in> set (filteredInventoryData iv slot)"
    by (force simp: itemRows_def in_map_filter)
  then show ?thesis
    by (cases slot) (auto simp: filteredInventoryData_def in_zip_upt)
qed

lemma itemRows_count: "length (itemRows iv None) = usedSlots iv"
proof -
  have "length (List.map_filter (\<lambda>(i, n). map_option (\<lambda>it. (it, n)) i) (zip iv ns)) = usedSlots iv"
    if "length ns = length iv" for ns :: "nat list"
    using that
  proof (induction iv ns rule: list_induct2')
    case (4 x xs y ys)
    then show ?case by (cases x) (simp_all add: usedSlots_def List.map_filter_simps)
  qed (simp_all add: usedSlots_def List.map_filter_simps)
  then show ?thesis by (simp add: itemRows_def filteredInventoryData_def)
qed

lemma rows_of_slot_fit: "(it, n) \<in> set (itemRows iv (Some s)) \<Longrightarrow> canEquipInSlot it s"
  by (simp add: itemRows_iff)

text \<open>The selection is complete or absent; while details are open the window is, and the place still holds that item.\<close>

definition selection_ok :: "inventory_window \<Rightarrow> player option \<Rightarrow> bool" where
  "selection_ok w p \<longleftrightarrow>
     (case iw_selectedItem w of
        None \<Rightarrow> iw_selectedItemIndex w = - 1 \<and> \<not> iw_showItemDetails w
      | Some it \<Rightarrow> iw_showItemDetails w \<and> iw_visible w \<and>
          (case p of None \<Rightarrow> False | Some q \<Rightarrow> stillSelected q (iw_selectedItemIndex w) it))"

definition selection_whole :: "inventory_window \<Rightarrow> bool" where
  "selection_whole w \<longleftrightarrow>
     (case iw_selectedItem w of
        None \<Rightarrow> iw_selectedItemIndex w = - 1 \<and> \<not> iw_showItemDetails w
      | Some it \<Rightarrow> iw_showItemDetails w \<and> 0 \<le> iw_selectedItemIndex w)"

definition inventory_view_ok :: "inventory_view \<Rightarrow> bool" where
  "inventory_view_ok v \<longleftrightarrow> pred_option player_ok (iv_player v) \<and> selection_ok (iv_window v) (iv_player v)"

lemma selection_ok_whole: "selection_ok w p \<Longrightarrow> selection_whole w"
  by (auto simp: selection_ok_def selection_whole_def stillSelected_def split: option.splits)

lemma closed_whole: "selection_whole (handleCloseItemDetails w)"
  by (simp add: selection_whole_def handleCloseItemDetails_def)

lemma effects_validate: "selection_whole w \<Longrightarrow> selection_ok (validateEffect (visibleEffect w) p) p"
  by (auto simp: selection_whole_def selection_ok_def validateEffect_def visibleEffect_def handleCloseItemDetails_def
      split: option.splits)

lemma windowEquip_keeps:
  assumes "selection_whole w" and "pred_option player_ok p" and "windowEquip w p = (w', p')"
  shows "selection_whole w'" and "pred_option player_ok p'"
  using assms closed_whole[of w] equipItem_ok
  by (auto simp: windowEquip_def handleEquip_def Let_def split: option.splits if_splits prod.splits)
    (metis equipItem_ok fst_conv)+

lemma windowDelete_keeps:
  assumes "selection_whole w" and "pred_option player_ok p" and "windowDelete w p = (w', p')"
  shows "selection_whole w'" and "pred_option player_ok p'"
  using assms closed_whole[of w] player_ops_ok
  by (auto simp: windowDelete_def handleDelete_def split: option.splits if_splits)

interpretation inventory_machine: step_machine inventory_step inventory_view_ok inventory_event_ok
proof
  fix v e assume v: "inventory_view_ok v" and e: "inventory_event_ok e"
  then have w: "selection_whole (iv_window v)" and p: "pred_option player_ok (iv_player v)"
    using selection_ok_whole by (auto simp: inventory_view_ok_def)
  have "selection_whole (iv_window (inventory_handle v e)) \<and> pred_option player_ok (iv_player (inventory_handle v e))"
  proof (cases e)
    case EquipPress
    then show ?thesis using w p windowEquip_keeps[OF w p] by (auto split: prod.split)
  next
    case DeletePress
    then show ?thesis using w p windowDelete_keeps[OF w p] by (auto split: prod.split)
  qed (use w p e closed_whole in \<open>auto simp: onSlotPress_def openInventory_def closeInventory_def handleItemPress_def
      selection_whole_def split: option.splits prod.splits\<close>)
  then show "inventory_view_ok (inventory_step v e)"
    by (simp add: inventory_step_def inventory_view_ok_def effects_validate Let_def)
qed

lemma inventory_init_ok: "pred_option player_ok p \<Longrightarrow> inventory_view_ok \<lparr> iv_window = window_init, iv_player = p \<rparr>"
  by (simp add: inventory_view_ok_def selection_ok_def window_init_def)

section \<open>From a tapped slot to a worn item\<close>

lemma target_is_tapped: "canEquipInSlot it s \<Longrightarrow> resolveEquipTargetSlot p it (Some s) = s"
  by (cases "i_type it") (auto simp: canEquipInSlot_def resolveEquipTargetSlot_def getEquipTargetSlot_def)

lemma equip_fills_slot:
  assumes "n < length (p_inventory p)" and "p_inventory p ! n = Some it" and "i_level it \<le> p_level p" and "canEquipInSlot it s"
  obtains q where "equipItem p (int n) (Some s) = (q, True)" "p_equipment q s = Some it"
    "\<And>t. t \<noteq> s \<Longrightarrow> p_equipment q t = p_equipment p t"
proof -
  have "equippable p (int n)" using assms(1-3) by (simp add: equippable_def)
  then show ?thesis
  proof (rule equipItem_done[where pref = "Some s"])
    fix it' iv t
    assume "p_inventory p ! nat (int n) = Some it'" "t = resolveEquipTargetSlot p it' (Some s)"
      and eq: "equipItem p (int n) (Some s) = (recalculateStats (p\<lparr> p_inventory := iv, p_equipment := (p_equipment p)(t := Some it') \<rparr>), True)"
    then have "it' = it" "t = s" using assms(2) target_is_tapped[OF assms(4), of p] by simp_all
    then show ?thesis using that[OF eq] by simp
  qed
qed

lemma row_pressed:
  assumes "iw_visible (iv_window v)" and "n < length (shownRows v)" and "shownRows v ! n = (it, i)" and "iv_player v = Some p"
  shows "inventory_step v (RowPress n) = v\<lparr> iv_window := (iv_window v)
    \<lparr> iw_selectedItem := Some it, iw_selectedItemIndex := int i, iw_showItemDetails := True \<rparr> \<rparr>"
proof -
  have "(it, i) \<in> set (shownRows v)" using assms(2,3) by (metis nth_mem)
  then have "i < length (p_inventory p)" "p_inventory p ! i = Some it" using assms(4) by (simp_all add: shownRows_def itemRows_iff)
  then show ?thesis
    using assms by (simp add: inventory_step_def handleItemPress_def visibleEffect_def validateEffect_def stillSelected_def Let_def)
qed

lemma slot_pressed:
  "inventory_step \<lparr> iv_window = window_init, iv_player = Some p \<rparr> (SlotPress s) =
     \<lparr> iv_window = window_init\<lparr> iw_visible := True, iw_equipmentSlot := Some s \<rparr>, iv_player = Some p \<rparr>"
  by (simp add: inventory_step_def onSlotPress_def window_init_def visibleEffect_def validateEffect_def Let_def)

lemma tapped_slot_equips:
  assumes v: "v = inventory_step \<lparr> iv_window = window_init, iv_player = Some p \<rparr> (SlotPress s)"
    and n: "n < length (shownRows v)" "shownRows v ! n = (it, i)"
  shows "equipEnabled (inventory_step v (RowPress n)) \<longleftrightarrow> i_level it \<le> p_level p"
    and "i_level it \<le> p_level p \<Longrightarrow> \<exists>q. foldl inventory_step v [RowPress n, EquipPress] = v\<lparr> iv_player := Some q \<rparr> \<and>
      equipItem p (int i) (Some s) = (q, True) \<and> p_equipment q s = Some it \<and> (\<forall>t. t \<noteq> s \<longrightarrow> p_equipment q t = p_equipment p t)"
proof -
  have vv: "v = \<lparr> iv_window = window_init\<lparr> iw_visible := True, iw_equipmentSlot := Some s \<rparr>, iv_player = Some p \<rparr>"
    unfolding v by (rule slot_pressed)
  have "(it, i) \<in> set (shownRows v)" using n by (metis nth_mem)
  then have row: "i < length (p_inventory p)" "p_inventory p ! i = Some it" "canEquipInSlot it s"
    by (simp_all add: vv shownRows_def itemRows_iff)
  have pressed: "inventory_step v (RowPress n) = v\<lparr> iv_window := (iv_window v)
    \<lparr> iw_selectedItem := Some it, iw_selectedItemIndex := int i, iw_showItemDetails := True \<rparr> \<rparr>"
    by (rule row_pressed[OF _ n]) (simp_all add: vv)
  show en: "equipEnabled (inventory_step v (RowPress n)) \<longleftrightarrow> i_level it \<le> p_level p"
    unfolding pressed by (simp add: equipEnabled_def canEquip_def vv)
  assume lv: "i_level it \<le> p_level p"
  show "\<exists>q. foldl inventory_step v [RowPress n, EquipPress] = v\<lparr> iv_player := Some q \<rparr> \<and>
      equipItem p (int i) (Some s) = (q, True) \<and> p_equipment q s = Some it \<and> (\<forall>t. t \<noteq> s \<longrightarrow> p_equipment q t = p_equipment p t)"
  proof (rule equip_fills_slot[OF row(1,2) lv row(3)])
    fix q
    assume q: "equipItem p (int i) (Some s) = (q, True)" "p_equipment q s = Some it" "\<And>t. t \<noteq> s \<Longrightarrow> p_equipment q t = p_equipment p t"
    have sel: "stillSelected p (int i) it" using row by (simp add: stillSelected_def)
    have "inventory_step (inventory_step v (RowPress n)) EquipPress = v\<lparr> iv_player := Some q \<rparr>"
      using lv sel q(1) unfolding pressed
      by (simp add: inventory_step_def equipEnabled_def canEquip_def windowEquip_def handleEquip_def vv
          handleCloseItemDetails_def visibleEffect_def validateEffect_def window_init_def Let_def)
    then show ?thesis using q by simp
  qed
qed

end
