(* ===== verification/FightScreens.thy ===== *)
theory FightScreens
  imports HomeWindows Artwork InventoryView
begin

text \<open>
  The trees of the windows around a fight: the encounter window (\<open>EncounterModal.tsx\<close>), the combat
  window with its log (\<open>CombatModal.tsx\<close>, \<open>CombatLog.tsx\<close>), the card of a held foe
  (\<open>WorthyFoeCard.tsx\<close>), the reward (\<open>RewardRevealModal.tsx\<close>) and the summary of a walk
  (\<open>WalkSummaryModal.tsx\<close>). The lemmas say which handlers a touch can reach and that what is written
  about a foe is true of it.
\<close>

section \<open>Handlers\<close>

text \<open>Everything a touch on the home screen can call; \<open>NoPress\<close> swallows the touch.\<close>

datatype home_press =
  Foe home_control
| OpenSettings | CloseSettings | AccountPress account_button | AutoResolveSwitch bool | ThemeOption theme_preference | PrivacyLink
| Bag inventory_event
| TrackPress | DebugShow bool | DebugButton debug_press | ConflictPress conflict_choice | ClassPress archetype | NoPress

section \<open>Shared parts\<close>

definition DAMAGE_TYPES :: "damage_type list" where
  "DAMAGE_TYPES = [Physical, Fire, Frost, Arcane]"

fun damage_name :: "damage_type \<Rightarrow> string" where
  "damage_name Physical = ''physical''"
| "damage_name Fire = ''fire''"
| "damage_name Frost = ''frost''"
| "damage_name Arcane = ''arcane''"

text \<open>The resistances that are not zero, their percentage, and whether the chip is green.\<close>

definition resistChips :: "creature \<Rightarrow> (damage_type \<times> int \<times> bool) list" where
  "resistChips c =
     map (\<lambda>t. (t, math_round (jmul (c_resistances c t) 100), c_resistances c t > 0))
       (filter (\<lambda>t. c_resistances c t \<noteq> 0) DAMAGE_TYPES)"

definition chipText :: "int \<Rightarrow> string" where
  "chipText pct = '' '' @ (if pct > 0 then ''+'' else []) @ show_int pct @ ''%''"

definition resistChip :: "damage_type \<times> int \<times> bool \<Rightarrow> 'h element" where
  "resistChip x = (case x of (t, pct, green) \<Rightarrow> Box [Icon (damage_name t), Txt (chipText pct)])"

text \<open>What a plate draws; an emblem without a drawing is nothing.\<close>

fun artIcon :: "creature_art \<Rightarrow> 'h element list" where
  "artIcon (BodyArt b _ _) = [Icon (cb_name b)]"
| "artIcon (EmblemArt ty _) = [Icon ty]"
| "artIcon NoArt = []"

fun stageIcon :: "stage_art \<Rightarrow> 'h element list" where
  "stageIcon (SpriteArt key _ _) = [Icon (pk_source key)]"
| "stageIcon (PlateArt a) = artIcon a"

definition rarityBadge :: "rarity \<Rightarrow> string" where
  "rarityBadge r = toUpperCase (rarity_name r)"

section \<open>The encounter window\<close>

definition playerHpPercentage :: "int option \<Rightarrow> int option \<Rightarrow> real" where
  "playerHpPercentage playerHp playerMaxHp =
     (case (playerHp, playerMaxHp) of
        (Some hp, Some mx) \<Rightarrow> if mx > 0 then jdiv (of_int hp) (of_int mx) else 1
      | _ \<Rightarrow> 1)"

definition playerCard :: "int option \<Rightarrow> int option \<Rightarrow> int option \<Rightarrow> int option \<Rightarrow> 'h element list" where
  "playerCard playerAttack playerDefense playerHp playerMaxHp =
     only_if (playerHp \<noteq> None \<or> playerAttack \<noteq> None \<or> playerDefense \<noteq> None)
       [Box ([Txt ''Your Stats''] @
         (case (playerHp, playerMaxHp) of
            (Some hp, Some mx) \<Rightarrow>
              [Box [Fill (jmul (playerHpPercentage playerHp playerMaxHp) 100)], Txt (ratio hp mx '' HP'')]
          | _ \<Rightarrow> []) @
         [Box (given playerAttack (\<lambda>a. [Box [Icon ''attack'', Txt '' Attack:'', Txt (show_int a)]]) @
               given playerDefense (\<lambda>d. [Box [Icon ''defense'', Txt '' Defense:'', Txt (show_int d)]]))])]"

definition creatureCard :: "creature \<Rightarrow> 'h element" where
  "creatureCard c =
     Box ([Box [Txt (rarityBadge (c_rarity c))],
       Box (artIcon (creaturePlate (c_type c) 84 (Some (c_id c)) (if c_isDefeated c then AnimDeath else AnimIdle))),
       Txt (c_name c), Txt (c_type c @ '' '' @ middle_dot @ '' Level '' @ show_int (c_level c)), Txt (c_description c),
       Box [Box [Txt ''HP:'', Txt (ratio (c_hp c) (c_maxHp c) [])], Box [Txt ''Attack:'', Txt (show_int (c_attack c))],
            Box [Txt ''Defense:'', Txt (show_int (c_defense c))], Box [Txt ''Speed:'', Txt (show_int (c_speed c))]]] @
       only_if (\<exists>t \<in> set DAMAGE_TYPES. c_resistances c t \<noteq> 0)
         [Box [Txt ''Resistances'', Box (map resistChip (resistChips c))]])"

definition lightning :: string where "lightning = [CHR 0xE2, CHR 0x9A, CHR 0xA1]"

definition encounterButtons :: "bool \<Rightarrow> encounter \<Rightarrow> bool \<Rightarrow> bool \<Rightarrow> home_press element list" where
  "encounterButtons debugMode e isDefeated playerDefeated =
     (let off = (isDefeated \<or> playerDefeated)
      in only_if isDefeated [Box [Txt ''DEFEATED!'']] @
         only_if debugMode [button (Foe TapDebugDefeat) off (lightning @ '' Instant Defeat (Debug)'')] @
         [Box ([button (Foe TapFight) off
                  (if isDefeated then ''Defeated'' else if playerDefeated then ''You are Defeated'' else ''Fight'')] @
               only_if (canAutoResolve e) [button (Foe TapAutoResolve) off ''Auto-Resolve''] @
               [button (Foe TapFlee) False ''Flee''])])"

definition encounterModal :: "bool \<Rightarrow> encounter option \<Rightarrow> bool \<Rightarrow> int option \<Rightarrow> int option \<Rightarrow> int option \<Rightarrow> int option \<Rightarrow>
    home_press element list" where
  "encounterModal debugMode encounter visible playerAttack playerDefense playerHp playerMaxHp =
     given encounter (\<lambda>e.
       let c = e_creature e;
           isDefeated = c_isDefeated c;
           playerDefeated = (case playerHp of None \<Rightarrow> False | Some hp \<Rightarrow> hp \<le> 0)
       in modal visible (Some (Foe TapMinimize))
            [Press (Foe TapMinimize) False [],
             Box ([Box [Txt ''Wild Creature Encountered!'', button (Foe TapMinimize) False minus_sign],
                   Box (playerCard playerAttack playerDefense playerHp playerMaxHp @ [creatureCard c])] @
                  encounterButtons debugMode e isDefeated playerDefeated)])"

section \<open>The combat window\<close>

definition resourceLabel :: "archetype \<Rightarrow> string" where
  "resourceLabel a = cap (resource_name (cfg_resource (ARCHETYPE_CONFIGS a)))"

definition combatLog :: "log_entry list \<Rightarrow> string \<Rightarrow> string \<Rightarrow> 'h element" where
  "combatLog entries playerName creatureName =
     Box [Txt ''Combat Log'',
       Box (if entries = [] then [Txt (''The fight begins'' @ ellipsis)]
            else map (\<lambda>e. Txt (formatCombatLogEntry e \<lparr> n_player = playerName, n_creature = creatureName \<rparr>)) entries)]"

definition statChipsRow :: "int \<Rightarrow> int \<Rightarrow> int \<Rightarrow> 'h element list" where
  "statChipsRow atk dfs spd = [Txt (''ATK '' @ show_int atk), Txt (''DEF '' @ show_int dfs), Txt (''SPD '' @ show_int spd)]"

definition badgeText :: "status_effect \<Rightarrow> string" where
  "badgeText eff = '' '' @ replace_first CHR ''_'' CHR '' '' (se_id eff) @ '' ('' @ show_int (se_remainingTicks eff) @ ''t)''"

definition statusBadge :: "status_effect \<Rightarrow> 'h element" where
  "statusBadge eff =
     Box [Icon (case se_type eff of EBuff \<Rightarrow> ''BuffIcon'' | EDebuff \<Rightarrow> ''DebuffIcon'' | EDot \<Rightarrow> ''DotIcon''), Txt (badgeText eff)]"

text \<open>The numbers that float over a panel; the flash and the burst above it are in \<open>Motion\<close>.\<close>

definition floaterLayer :: "combatant \<Rightarrow> impact \<Rightarrow> 'h element" where
  "floaterLayer target im = Box (map (\<lambda>f. Txt (fl_label f)) (filter (\<lambda>f. fl_target f = target) (im_floaters im)))"

definition creaturePanel :: "(real \<times> real) option \<Rightarrow> combat_props \<Rightarrow> impact \<Rightarrow> encounter \<Rightarrow> 'h element" where
  "creaturePanel layout cm im e =
     (let c = e_creature e
      in Box (stageIcon (creatureStage layout (Some (c_id c)) (c_type c) (e_daylight e)
                (deriveCreatureAnimState (c_isDefeated c) (cm_isEnemyTurn cm))) @
              [floaterLayer TCreature im, Txt (c_name c), Fill (bt_creatureHp (barTargets cm)), Txt (ratio (c_hp c) (c_maxHp c) '' HP''),
               Box (statChipsRow (c_attack c) (c_defense c) (c_speed c) @ map resistChip (resistChips c))]))"

definition playerPanel :: "combat_props \<Rightarrow> impact \<Rightarrow> player \<Rightarrow> 'h element" where
  "playerPanel cm im p =
     Box ([Txt (''You ('' @ cfg_name (ARCHETYPE_CONFIGS (p_archetype p)) @ '')''),
           Fill (bt_playerHp (barTargets cm)), Txt (ratio (p_hp p) (p_maxHp p) '' HP''),
           Box [Txt (resourceLabel (p_archetype p)), Fill (bt_resource (barTargets cm)),
                Txt (show_int (shownResource (cm_playerCombatState cm) (p_archetype p)) @ ''/'' @
                  show_int (rc_max (RESOURCE_CONFIGS (p_archetype p))))]] @
          (case cm_playerCombatState cm of
             None \<Rightarrow> []
           | Some st \<Rightarrow> only_if (cs_statusEffects st \<noteq> []) [Box (map statusBadge (cs_statusEffects st))]) @
          [Box (statChipsRow (p_attack p) (p_defense p) (p_speed p)), floaterLayer TPlayer im])"

definition abilityButton :: "combat_props \<Rightarrow> creature \<Rightarrow> player \<Rightarrow> ability \<Rightarrow> home_press element" where
  "abilityButton cm c p ab =
     Press (Foe (TapAbility ab)) (buttonDisabled cm c p ab)
       ([Icon (abilityIcon (a_id ab)), Txt (a_name ab), Txt (getDamagePreview cm c p ab)] @
        only_if (a_resourceCost ab > 0) [Txt (show_int (a_resourceCost ab) @ '' '' @ resourceLabel (p_archetype p))])"

definition combatModal ::
    "(real \<times> real) option \<Rightarrow> combat_props \<Rightarrow> impact \<Rightarrow> bool \<Rightarrow> log_entry list \<Rightarrow> home_press element list" where
  "combatModal layout cm im visible entries =
     (case (cm_encounter cm, cm_player cm) of
        (Some e, Some p) \<Rightarrow>
          let c = e_creature e
          in modal visible (Some (Foe TapCloseCombat))
               [Press (Foe TapCloseCombat) False
                 [Box ([Box [Press (Foe TapCloseCombat) False [Icon ''CloseIcon'']],
                        Box [Txt (if cm_isEnemyTurn cm then c_name c @ [CHR 0x27] @ ''s turn '' @ em_dash @ '' bracing'' @ ellipsis else ''Your turn'')],
                        creaturePanel layout cm im e, playerPanel cm im p,
                        Txt (if cm_isEnemyTurn cm then ''Enemy turn '' @ em_dash @ '' hold on'' @ ellipsis else ''Choose an Ability'')] @
                       map (abilityButton cm c p) (ARCHETYPE_ABILITIES (p_archetype p)) @
                       only_if (c_isDefeated c \<or> p_isDefeated p)
                         [Txt (if c_isDefeated c then ''Creature Defeated!'' else ''You are Defeated!'')] @
                       [combatLog entries ''You'' (c_name c)])]]
      | _ \<Rightarrow> [])"

section \<open>The card, the reward and the summary\<close>

definition worthyFoeCard :: "encounter option \<Rightarrow> bool \<Rightarrow> home_press element list" where
  "worthyFoeCard foe cleared =
     given foe (\<lambda>e.
       let c = e_creature e
       in [Box ([Box [Icon ''attack'', Txt '' A WORTHY FOE STALKS YOU''],
             Box (artIcon (creaturePlate (c_type c) 58 (Some (c_id c)) AnimIdle)), Txt (c_name c),
             Txt (rarityBadge (c_rarity c) @ '' '' @ middle_dot @ '' Lv '' @ show_int (c_level c)),
             button (Foe (TapFoeCard cleared)) False (''Fight '' @ arrow_right)])])"

definition rewardStats :: "item \<Rightarrow> 'h element" where
  "rewardStats it =
     Box (given (i_attack it) (\<lambda>v. [Box [Icon ''attack'', Txt ('' +'' @ show_int v)]]) @
          given (i_defense it) (\<lambda>v. [Box [Icon ''defense'', Txt ('' +'' @ show_int v)]]) @
          given (i_maxHp it) (\<lambda>v. [Box [Icon ''maxHp'', Txt ('' +'' @ show_int v)]]))"

definition rewardItem :: "reward_reveal \<Rightarrow> item \<Rightarrow> 'h element list" where
  "rewardItem r it =
     [Icon (itemSlotIcon (slot_name (i_type it))), Txt (i_name it),
      Txt (rarityBadge (i_rarity it) @ '' '' @ bullet @ '' '' @ slot_name (i_type it)), rewardStats it,
      Txt (if rr_isUpgrade r then triangle_up @ '' UPGRADE'' else ''NEW'')] @
     only_if (rr_inventoryFull r)
       [Box [Icon ''WarningIcon'',
         Txt ('' Inventory full '' @ em_dash @ '' this drop was lost. Clear space to keep future finds.'')]]"

definition rewardRevealModal :: "reward_reveal option \<Rightarrow> home_press element list" where
  "rewardRevealModal reveal =
     given reveal (\<lambda>r.
       [Window (Some (Foe TapDismissReward))
         [Press (Foe TapDismissReward) False
           [Box ((case rr_item r of
                    Some it \<Rightarrow> rewardItem r it
                  | None \<Rightarrow> [Icon ''TrophyIcon'', Txt ''Victory!'', Txt (''Defeated '' @ rr_creatureName r)]) @
                 [Txt (''+'' @ show_int (rr_xpGained r) @ '' XP'')] @
                 only_if (rr_leveledUp r) [Txt (''LEVEL UP! '' @ arrow_right @ '' '' @ show_int (rr_newLevel r))]),
            Txt ''Tap to continue'']]])"

definition totalBox :: "string \<Rightarrow> string \<Rightarrow> 'h element" where
  "totalBox label value = Box [Txt value, Txt label]"

definition walkRow :: "walk_entry \<Rightarrow> 'h element" where
  "walkRow e =
     Box [Icon (if w_won e then ''attack'' else ''FleeIcon''),
          Box ([Txt ((if w_won e then ''Defeated'' else ''Fled from'') @ '' '' @ w_creatureName e)] @
               given (w_item e) (\<lambda>it. [Box [Icon (itemSlotIcon (slot_name (i_type it))), Txt ('' '' @ i_name it)]])),
          Txt (''+'' @ show_int (w_xpGained e))]"

definition walkSummaryModal :: "walk_entry list option \<Rightarrow> home_press element list" where
  "walkSummaryModal entries =
     given (walkTotals entries) (\<lambda>(t, rows).
       [Window (Some (Foe TapDismissWalk))
         [Press (Foe TapDismissWalk) False
           [Press NoPress False
             [Txt (''While you walked'' @ ellipsis),
              Box [totalBox ''Fought'' (show_digits (wt_fought t)), totalBox ''Won'' (show_int (wt_won t)),
                   totalBox ''XP'' (''+'' @ show_int (wt_totalXp t)), totalBox ''Items'' (show_int (wt_itemsFound t))],
              Box (map walkRow rows), Txt ''Tap outside to close'']]]])"

section \<open>Lemmas: what can be touched\<close>

lemma icons_offer_nothing [simp]: "offers (artIcon art) = {}" "offers (stageIcon st) = {}"
proof -
  show *: "offers (artIcon art) = {}" for art by (cases art) simp_all
  show "offers (stageIcon st) = {}" by (cases st) (simp_all add: *)
qed

lemma floaters_offer_nothing [simp]: "offers (floaterLayer t im # es) = offers es"
  by (simp add: floaterLayer_def offers_map)

lemma nothing_to_press [simp]:
  "offers (playerCard a d hp mx) = {}" "offers (creatureCard c # es) = offers es" "offers (combatLog entries n m # es) = offers es" "offers (creaturePanel l cm im e # es) = offers es"
  "offers (playerPanel cm im p # es) = offers es" "offers (rewardItem r it) = {}" "offers (map walkRow rows) = {}"
  "offers (totalBox x y # es) = offers es"
proof -
  have chips [simp]: "offers (map resistChip xs) = {}" "offers (map statusBadge ys) = {}" for xs ys
    by (auto simp: offers_map resistChip_def statusBadge_def split: prod.split)
  show "offers (playerCard a d hp mx) = {}" by (simp add: playerCard_def split: option.split)
  show "offers (creatureCard c # es) = offers es" by (simp add: creatureCard_def)
  show "offers (combatLog entries n m # es) = offers es" by (simp add: combatLog_def offers_map)
  show "offers (creaturePanel l cm im e # es) = offers es" by (simp add: creaturePanel_def statChipsRow_def Let_def)
  show "offers (playerPanel cm im p # es) = offers es" by (simp add: playerPanel_def statChipsRow_def split: option.split)
  show "offers (rewardItem r it) = {}" by (simp add: rewardItem_def rewardStats_def split: option.split)
  show "offers (map walkRow rows) = {}" by (simp add: offers_map walkRow_def split: option.split)
  show "offers (totalBox x y # es) = offers es" by (simp add: totalBox_def)
qed

lemma encounterModal_offers:
  "offers (encounterModal dm (Some e) visible a d hp mx) =
     (if \<not> visible then {}
      else {Foe TapMinimize, Foe TapFlee} \<union>
        (if encounterButtonsDisabled e hp then {}
         else {Foe TapFight} \<union> (if canAutoResolve e then {Foe TapAutoResolve} else {}) \<union> (if dm then {Foe TapDebugDefeat} else {})))"
  by (auto simp: encounterModal_def encounterButtons_def encounterButtonsDisabled_def Let_def)

lemma abilityButton_offers [simp]:
  "offers (abilityButton cm c p ab # es) = (if buttonDisabled cm c p ab then {} else {Foe (TapAbility ab)}) \<union> offers es"
  by (simp add: abilityButton_def)

lemma combatModal_offers:
  "offers (combatModal layout cm im visible entries) =
     (case (cm_encounter cm, cm_player cm) of
        (Some e, Some p) \<Rightarrow>
          if visible then {Foe TapCloseCombat} \<union>
            {Foe (TapAbility ab) | ab. ab \<in> set (ARCHETYPE_ABILITIES (p_archetype p)) \<and> \<not> buttonDisabled cm (e_creature e) p ab}
          else {}
      | _ \<Rightarrow> {})"
  by (auto simp: combatModal_def Let_def offers_map split: option.split if_splits)

lemma small_windows_offer:
  "offers (worthyFoeCard foe cleared) = (if foe = None then {} else {Foe (TapFoeCard cleared)})"
  "offers (rewardRevealModal reveal) = (if reveal = None then {} else {Foe TapDismissReward})"
  "offers (walkSummaryModal entries) = (if walkTotals entries = None then {} else {Foe TapDismissWalk, NoPress})"
  by (auto simp: worthyFoeCard_def rewardRevealModal_def walkSummaryModal_def Let_def split: option.split)

section \<open>Lemmas: what is written is true\<close>

text \<open>
  A green chip marks a type the foe takes no more than the raw damage from, a red one a type it takes
  at least as much from, and a type without a chip deals its raw damage.
\<close>

lemma resist_chips_true:
  assumes "0 \<le> raw" and "raw \<le> 2 ^ 52"
  shows "(t, pct, True) \<in> set (resistChips c) \<Longrightarrow> applyResistance raw (c_resistances c t) \<le> raw"
    and "(t, pct, False) \<in> set (resistChips c) \<Longrightarrow> raw \<le> applyResistance raw (c_resistances c t)"
    and "t \<notin> fst ` set (resistChips c) \<Longrightarrow> applyResistance raw (c_resistances c t) = raw"
proof -
  have all: "t \<in> set DAMAGE_TYPES" for t by (cases t) (simp_all add: DAMAGE_TYPES_def)
  show "(t, pct, True) \<in> set (resistChips c) \<Longrightarrow> applyResistance raw (c_resistances c t) \<le> raw"
    using applyResistance_bounds(1)[OF assms, of "c_resistances c t"] by (auto simp: resistChips_def)
  show "(t, pct, False) \<in> set (resistChips c) \<Longrightarrow> raw \<le> applyResistance raw (c_resistances c t)"
    using applyResistance_bounds(2)[OF assms, of "c_resistances c t"] by (auto simp: resistChips_def)
  show "t \<notin> fst ` set (resistChips c) \<Longrightarrow> applyResistance raw (c_resistances c t) = raw"
    using all[of t] applyResistance_neutral[of raw] assms by (force simp: resistChips_def)
qed

text \<open>The badge of an effect is the name of its ability in lower case: no identifier shows through.\<close>

lemma badges_read_well:
  "list_all (\<lambda>ab. replace_first CHR ''_'' CHR '' '' (a_id ab) = toLowerCase (a_name ab)) (ARCHETYPE_ABILITIES a)"
  by (cases a; simp only:; code_simp)

text \<open>Hit points and experience can be read off: equal texts mean equal numbers.\<close>

lemma show_digits_plain: "c \<in> set (show_digits n) \<Longrightarrow> 48 \<le> (of_char c :: nat) \<and> (of_char c :: nat) \<le> 57"
proof (induction n rule: show_digits.induct)
  case (1 n)
  have "c \<in> set (if n < 10 then [char_of (48 + n)] else show_digits (n div 10) @ [char_of (48 + n mod 10)])"
    using 1(2) show_digits.simps[of n] by argo
  then show ?case using 1(1) by (auto split: if_splits)
qed

lemma show_int_plain: "CHR '' '' \<notin> set (show_int n)"
  using show_digits_plain[of "CHR '' ''"] by (auto simp: show_int_def)

lemma show_int_inj: "show_int m = show_int n \<Longrightarrow> m = n"
proof -
  have "show_digits k \<noteq> CHR ''-'' # s" for k s using show_digits_plain[of "CHR ''-''" k] by auto
  moreover assume "show_int m = show_int n"
  ultimately show ?thesis
    using show_digits_inj[of "nat m" "nat n"] show_digits_inj[of "nat (- m)" "nat (- n)"]
    by (auto simp: show_int_def split: if_splits) metis+
qed

lemma ratio_inj:
  assumes "ratio a b u = ratio c d u" shows "a = c \<and> b = d"
proof -
  have "takeWhile (\<lambda>x. x \<noteq> CHR '' '') (show_int n @ CHR '' '' # s) = show_int n" for n s
    using show_int_plain[of n] by (simp add: takeWhile_append takeWhile_eq_all_conv)
  then have "show_int a = show_int c" using assms unfolding ratio_def by (metis append_Cons)
  then have "a = c" by (rule show_int_inj)
  with assms have "show_int b = show_int d" by (simp add: ratio_def)
  with \<open>a = c\<close> show ?thesis by (simp add: show_int_inj)
qed

end
