(* ===== verification/HomeScreens.thy ===== *)
theory HomeScreens
  imports FightScreens
begin

text \<open>
  The trees of the home screen and of everything it holds: the panels of the player
  (\<open>PlayerStats.tsx\<close>, \<open>Equipment.tsx\<close>, \<open>DistanceDisplay.tsx\<close>), the inventory and the details of an
  item (\<open>InventoryModal.tsx\<close>, \<open>ItemDetailsModal.tsx\<close>), the settings (\<open>SettingsModal.tsx\<close>), the choice
  between two saves (\<open>AccountConflictModal.tsx\<close>), the debug panel (\<open>DebugPanel.tsx\<close>), the banner
  (\<open>BetaIndicator.tsx\<close>), the choice of a class (\<open>ArchetypeSelectionScreen.tsx\<close>) and their composition
  in \<open>HomeScreen.tsx\<close>. The lemmas tie the trees to the machines of the other theories: a touch can
  reach exactly the handlers those machines admit.
\<close>

section \<open>Panels of the player\<close>

record player_stats =
  st_level :: int
  st_experience :: int
  st_experienceForNextLevel :: int
  st_attack :: int
  st_defense :: int
  st_hp :: int
  st_maxHp :: int
  st_totalDistance :: real
  st_totalEncounters :: int
  st_creaturesDefeated :: int

text \<open>What \<open>getStats\<close> of the player returns, as far as a component reads it.\<close>

definition getStats :: "player \<Rightarrow> player_stats" where
  "getStats p =
     \<lparr> st_level = p_level p, st_experience = p_experience p, st_experienceForNextLevel = getExperienceForNextLevel p,
       st_attack = p_attack p, st_defense = p_defense p, st_hp = p_hp p, st_maxHp = p_maxHp p,
       st_totalDistance = p_totalDistance p, st_totalEncounters = p_totalEncounters p,
       st_creaturesDefeated = p_creaturesDefeated p \<rparr>"

definition statBlock :: "string \<Rightarrow> string \<Rightarrow> 'h element" where
  "statBlock value label = Box [Txt value, Txt label]"

definition playerStats :: "player option \<Rightarrow> 'h element list" where
  "playerStats player =
     given player (\<lambda>p.
       let stats = getStats p
       in [Box [Txt (cfg_name (ARCHETYPE_CONFIGS (p_archetype p))), Txt (''Level '' @ show_int (st_level stats))],
           Box [Fill (jmul (hpPercentage player) 100), Txt (ratio (st_hp stats) (st_maxHp stats) '' HP'')],
           Box [Fill (progressPercentage player), Txt (ratio (st_experience stats) (st_experienceForNextLevel stats) '' XP'')],
           Box [Box [Txt (show_int (st_attack stats)), Icon ''attack'', Txt '' Attack''],
                Box [Txt (show_int (st_defense stats)), Icon ''defense'', Txt '' Defense'']],
           Box [statBlock (toFixed (st_totalDistance stats) 1 @ '' m'') ''Total Distance'',
                statBlock (show_int (st_totalEncounters stats)) ''Encounters'',
                statBlock (show_int (st_creaturesDefeated stats)) ''Defeated'']])"

definition distanceDisplay :: "distance_unit \<Rightarrow> real \<Rightarrow> 'h element" where
  "distanceDisplay unit distance = Box [Txt ''Distance Traveled'', Txt (formatShortDistance unit distance)]"

fun slot_key :: "equipment_slot \<Rightarrow> string" where
  "slot_key SWeapon = ''weapon''"
| "slot_key SOffhand = ''offhand''"
| "slot_key SHead = ''head''"
| "slot_key SChest = ''chest''"
| "slot_key SLegs = ''legs''"
| "slot_key SBoots = ''boots''"
| "slot_key SGloves = ''gloves''"
| "slot_key SAccessory1 = ''accessory1''"
| "slot_key SAccessory2 = ''accessory2''"

definition renderSlot :: "equipment \<Rightarrow> equipment_slot \<Rightarrow> home_press element" where
  "renderSlot equipment slot =
     Press (Bag (SlotPress slot)) False
       ([Icon (itemSlotIcon (slot_key slot)), Txt (the (map_of slotLabels slot))] @
        (case equipment slot of
           None \<Rightarrow> [Txt ''Empty'']
         | Some it \<Rightarrow> [Box [Txt (i_name it), Txt (''Lv. '' @ show_int (i_level it))]]))"

definition equipmentDisplay :: "equipment \<Rightarrow> home_press element" where
  "equipmentDisplay equipment =
     (let r = renderSlot equipment
      in Box [Txt ''Equipment'',
           Box [Box [r SWeapon, r SOffhand], Box [r SHead], Box [r SChest], Box [r SLegs], Box [r SBoots, r SGloves],
                Box [Txt ''Accessories'', Box [r SAccessory1, r SAccessory2]]]])"

section \<open>The inventory\<close>

fun getSlotName :: "item_type \<Rightarrow> string" where
  "getSlotName Weapon = ''Weapon''"
| "getSlotName Offhand = ''Offhand''"
| "getSlotName Head = ''Head''"
| "getSlotName Chest = ''Chest''"
| "getSlotName Legs = ''Legs''"
| "getSlotName Boots = ''Boots''"
| "getSlotName Gloves = ''Gloves''"
| "getSlotName Accessory = ''Accessory''"

definition getSlotLabel :: "equipment_slot \<Rightarrow> string" where
  "getSlotLabel slot =
     (if slot = SAccessory1 \<or> slot = SAccessory2 then ''Accessory'' else the (map_of slotLabels slot))"

fun affixStatLabel :: "affix_stat \<Rightarrow> string" where
  "affixStatLabel AffixAttack = ''Attack''"
| "affixStatLabel AffixDefense = ''Defense''"
| "affixStatLabel AffixMaxHp = ''Max HP''"

definition detailStat :: "string \<Rightarrow> string \<Rightarrow> int option \<Rightarrow> 'h element list" where
  "detailStat key label v = given v (\<lambda>x. [Box [Icon key, Txt label, Txt (''+'' @ show_int x)]])"

definition affixRow :: "affix \<Rightarrow> 'h element" where
  "affixRow a = Box [Txt diamond, Txt (''+'' @ show_int (af_value a) @ '' '' @ affixStatLabel (af_stat a))]"

definition itemDetailsModal :: "item option \<Rightarrow> player option \<Rightarrow> bool \<Rightarrow> home_press element list" where
  "itemDetailsModal selected player visible =
     given selected (\<lambda>it. modal visible (Some (Bag CloseDetails))
       [Press (Bag CloseDetails) False
         [Box [Txt ''Item Details'', Press (Bag CloseDetails) False [Icon ''CloseIcon'']],
          Box ([Icon (itemSlotIcon (slot_name (i_type it))), Txt (i_name it),
                Box [Txt (getSlotName (i_type it) @ '' '' @ bullet @ '' '' @ rarityBadge (i_rarity it)),
                     Txt (''Level '' @ show_int (i_level it))],
                Txt (i_description it)] @
               only_if (i_attack it \<noteq> None \<or> i_defense it \<noteq> None \<or> i_maxHp it \<noteq> None)
                 [Box ([Txt ''Stats''] @ detailStat ''attack'' ''Attack'' (i_attack it) @
                       detailStat ''defense'' ''Defense'' (i_defense it) @ detailStat ''maxHp'' ''Max HP'' (i_maxHp it))] @
               (case i_affixes it of
                  None \<Rightarrow> []
                | Some as \<Rightarrow> only_if (as \<noteq> []) [Box (Txt ''Modifiers'' # map affixRow as)]) @
               (case player of
                  None \<Rightarrow> []
                | Some p \<Rightarrow> only_if (\<not> canEquip player it)
                    [Box [Icon ''WarningIcon'',
                      Txt ('' Requires level '' @ show_int (i_level it) @ '' (You are level '' @ show_int (p_level p) @ '')'')]])),
          Box [button (Bag EquipPress) (\<not> canEquip player it) ''Equip'', button (Bag DeletePress) False ''Delete'']]])"

definition statChipView :: "string \<times> stat_mark \<Rightarrow> 'h element" where
  "statChipView x = (case x of (text, mark) \<Rightarrow>
     Txt ('' '' @ text @ (case mark of StatUp \<Rightarrow> '' '' @ triangle_up | StatDown \<Rightarrow> '' '' @ triangle_down | StatNeutral \<Rightarrow> [])))"

definition renderItemRow :: "player option \<Rightarrow> nat \<Rightarrow> item \<Rightarrow> home_press element" where
  "renderItemRow player n it =
     (let affixCount = length (case i_affixes it of None \<Rightarrow> [] | Some as \<Rightarrow> as)
      in Press (Bag (RowPress n)) False
           [Icon (itemSlotIcon (slot_name (i_type it))), Txt (i_name it),
            Txt (''Lv '' @ show_int (i_level it) @ '' '' @ middle_dot @ '' '' @ rarityBadge (i_rarity it) @
              (if affixCount > 0 then '' '' @ middle_dot @ '' '' @ diamond @ '' '' @ show_digits affixCount else [])),
            Box (map statChipView (statChips player it))])"

definition inventoryModal :: "inventory_view \<Rightarrow> home_press element list" where
  "inventoryModal v =
     (let w = iv_window v; player = iv_player v; slot = iw_equipmentSlot w;
          inventory = (case player of None \<Rightarrow> [] | Some p \<Rightarrow> p_inventory p);
          rows = shownRows v
      in modal (iw_visible w) (Some (Bag CloseInventory))
           [Press (Bag CloseInventory) False
             ([Box [Txt (case slot of None \<Rightarrow> ''Inventory'' | Some s \<Rightarrow> getSlotLabel s @ '' Items''),
                    Press (Bag CloseInventory) False [Icon ''CloseIcon'']],
               Txt (case slot of
                      None \<Rightarrow> show_digits (usedSlots inventory) @ '' / '' @ show_digits (length inventory) @ '' slots used''
                    | Some s \<Rightarrow> show_digits (length rows) @ '' '' @ toLowerCase (getSlotLabel s) @ '' item'' @
                        (if length rows \<noteq> 1 then ''s'' else []) @ '' available'')] @
              only_if (player \<noteq> None) [Txt (triangle_up @ '' better / '' @ triangle_down @ '' worse than equipped'')] @
              (if rows = []
               then [Txt (if slot \<noteq> None then ''No items for this slot yet.''
                          else ''No items yet '' @ em_dash @ '' defeat creatures to find loot!'')]
               else map (\<lambda>n. renderItemRow player n (fst (rows ! n))) [0..<length rows]))] @
         itemDetailsModal (iw_selectedItem w) player (iw_showItemDetails w))"

section \<open>Settings and accounts\<close>

fun themeLabel :: "theme_preference \<Rightarrow> string" where
  "themeLabel ThemeAuto = ''Auto''"
| "themeLabel ThemeNight = ''Night''"
| "themeLabel ThemeDay = ''Day''"

definition accountSection :: "bool \<Rightarrow> bool \<Rightarrow> auth_user option \<Rightarrow> home_press element" where
  "accountSection isIos authLoading u =
     Box ([Txt ''Account''] @
       (if authLoading then [Icon ''ActivityIndicator'']
        else if (case u of None \<Rightarrow> False | Some a \<Rightarrow> \<not> au_isAnonymous a)
        then [Box [Txt (''Signed in as '' @ displayName u @ ''. Your progress is backed up automatically.''),
                   button (AccountPress BSignOut) False ''Sign Out'']]
        else [Box ([Txt ''Sign in to back up your progress and recover it if you reinstall.'',
                    button (AccountPress BGoogle) False ''Sign in with Google''] @
                   only_if isIos [button (AccountPress BApple) False ''Sign in with Apple''])]) @
       only_if (\<not> authLoading) [button (AccountPress BDeleteAccount) False ''Delete account & data''])"

definition settingsModal :: "bool \<Rightarrow> bool \<Rightarrow> bool \<Rightarrow> auth_user option \<Rightarrow> bool \<Rightarrow> theme_clock \<Rightarrow> home_press element list" where
  "settingsModal visible isIos authLoading u autoResolveBelowRare th =
     modal visible (Some CloseSettings)
       [Press CloseSettings False
         [Box [Txt ''Settings'', button CloseSettings False ''x''],
          accountSection isIos authLoading u,
          Box [Txt ''Gameplay'', Txt ''Auto-resolve minor encounters'',
               Txt (''Skip common and uncommon fights automatically '' @ em_dash @ '' you still earn the same rewards, '' @
                 ''collected in your walk summary. Rare and tougher foes always appear for you to fight.''),
               Press (AutoResolveSwitch (\<not> autoResolveBelowRare)) False []],
          Box ([Txt ''Appearance'', Txt ''Theme'',
                Txt (''Night is the game'' @ [CHR 0x27] @ ''s home key. Day is a weathered, daylit palette '' @ em_dash @
                  '' easier to read in bright sun.''),
                Box (map (\<lambda>option. button (ThemeOption option) False (themeLabel option)) [ThemeAuto, ThemeNight, ThemeDay])] @
               only_if (tc_preference th = ThemeAuto)
                 [Txt (''Following the sun '' @ em_dash @ '' currently '' @ (if tc_themeName th = Day then ''day'' else ''night'') @
                    '' where you are.'')]),
          Box [Txt ''Legal'', button PrivacyLink False ''Privacy Policy'']]]"

text \<open>\<open>localized\<close> is \<open>toLocaleString\<close>, which depends on the device's language.\<close>

definition saveCard :: "(int \<Rightarrow> string) \<Rightarrow> int \<Rightarrow> string \<Rightarrow> player_data \<Rightarrow> int \<Rightarrow> 'h element" where
  "saveCard localized now label data savedAt =
     Box [Txt label, Txt (''Level '' @ show_int (d_level data)), Txt (localized (d_experience data) @ '' XP''),
          Txt (conflictDistance (d_totalDistance data) @ '' walked''),
          Txt (show_int (d_creaturesDefeated data) @ '' creatures defeated''),
          Txt (''Last saved '' @ formatTimestamp now savedAt)]"

definition accountConflictModal :: "(int \<Rightarrow> string) \<Rightarrow> int \<Rightarrow> bool \<Rightarrow> pending_conflict \<Rightarrow> home_press element list" where
  "accountConflictModal localized now resolving c =
     [Window None
       [Txt ''Choose Your Save'', Txt ''This account already has a cloud save. Which progress do you want to keep?'',
        Box (given (pc_localData c) (\<lambda>d. [saveCard localized now ''Guest Save'' d (pc_localSavedAt c)]) @
             [case pc_cloudData c of
                Some d \<Rightarrow> saveCard localized now ''Cloud Save'' d (pc_cloudSavedAt c)
              | None \<Rightarrow> Box [Txt ''Cloud Save'',
                  Txt (''Could not be loaded (network issue). Keeping your guest save will overwrite any '' @
                    ''existing cloud data.'')]]),
        Txt ''The other save will be permanently lost.'',
        if resolving then Icon ''ActivityIndicator''
        else Box (map (\<lambda>(choice, label). button (ConflictPress choice) False label) (conflictButtons resolving c))]]"

section \<open>The debug panel\<close>

fun RARITY_SHORT :: "rarity \<Rightarrow> string" where
  "RARITY_SHORT Common = ''C''"
| "RARITY_SHORT Uncommon = ''U''"
| "RARITY_SHORT Rare = ''R''"
| "RARITY_SHORT Epic = ''E''"
| "RARITY_SHORT Legendary = ''L''"

text \<open>The emoji of the readouts, in UTF-8.\<close>

definition heart :: string where "heart = [CHR 0xE2, CHR 0x9D, CHR 0xA4, CHR 0xEF, CHR 0xB8, CHR 0x8F]"
definition shield :: string where "shield = [CHR 0xF0, CHR 0x9F, CHR 0x9B, CHR 0xA1, CHR 0xEF, CHR 0xB8, CHR 0x8F]"
definition star :: string where "star = [CHR 0xE2, CHR 0xAD, CHR 0x90]"
definition pin :: string where "pin = [CHR 0xF0, CHR 0x9F, CHR 0x93, CHR 0x8D]"
definition bullseye :: string where "bullseye = [CHR 0xF0, CHR 0x9F, CHR 0x8E, CHR 0xAF]"
definition plus_minus :: string where "plus_minus = [CHR 0xC2, CHR 0xB1]"
definition runner :: string where "runner = [CHR 0xF0, CHR 0x9F, CHR 0x8F, CHR 0x83]"
definition compass :: string where "compass = [CHR 0xF0, CHR 0x9F, CHR 0xA7, CHR 0xAD]"
definition degree_sign :: string where "degree_sign = [CHR 0xC2, CHR 0xB0]"
definition cloud_emoji :: string where "cloud_emoji = [CHR 0xE2, CHR 0x98, CHR 0x81, CHR 0xEF, CHR 0xB8, CHR 0x8F]"
definition hourglass :: string where "hourglass = [CHR 0xE2, CHR 0x8F, CHR 0xB3]"
definition no_entry :: string where "no_entry = [CHR 0xE2, CHR 0x9B, CHR 0x94]"
definition bug :: string where "bug = [CHR 0xF0, CHR 0x9F, CHR 0x90, CHR 0x9B]"
definition wrench :: string where "wrench = [CHR 0xF0, CHR 0x9F, CHR 0x94, CHR 0xA7]"
definition test_tube :: string where "test_tube = [CHR 0xF0, CHR 0x9F, CHR 0xA7, CHR 0xAA]"

definition syncText :: "sync_status \<Rightarrow> int \<Rightarrow> string" where
  "syncText sync now =
     cloud_emoji @ '' Sync: '' @
       (case sy_lastSuccessfulSyncAt sync of
          Some t \<Rightarrow> if t \<noteq> 0 then show_int (math_round (jdiv (of_int (now - t)) 1000)) @ ''s ago'' else ''never''
        | None \<Rightarrow> ''never'') @
       ''  '' @ hourglass @ '' '' @ show_int (sy_pendingWrites sync) @ '' pending'' @
       (if sy_writesSuspended sync then ''  '' @ no_entry @ '' suspended'' else [])"

definition debugStats :: "player \<Rightarrow> location_data option \<Rightarrow> sync_status \<Rightarrow> int \<Rightarrow> 'h element" where
  "debugStats p l sync now =
     Box ([Txt (heart @ '' HP: '' @ ratio (p_hp p) (p_maxHp p) [] @ ''  '' @ swords @ '' ATK: '' @ show_int (p_attack p) @
             ''  '' @ shield @ '' DEF: '' @ show_int (p_defense p)),
           Txt (star @ '' Lv '' @ show_int (p_level p) @ ''  XP: '' @ ratio (p_experience p) (getExperienceForNextLevel p) [])] @
          given l (\<lambda>loc.
            [Txt (pin @ '' '' @ toFixed (l_latitude loc) 5 @ '', '' @ toFixed (l_longitude loc) 5),
             Txt (bullseye @ '' '' @ plus_minus @ toFixed (l_accuracy loc) 0 @ ''m  '' @ runner @ '' '' @ toFixed (l_speed loc) 1 @
               '' m/s  '' @ compass @ '' '' @ toFixed (case l_heading loc of None \<Rightarrow> 0 | Some h \<Rightarrow> h) 0 @ degree_sign)]) @
          [Txt (syncText sync now)])"

definition debugReadouts :: "hook \<Rightarrow> home_press element list" where
  "debugReadouts h =
     [Box ([Txt ''Encounter Chance:'', Txt (toFixed (jmul (h_encounterChance h) 100) 2 @ ''%'')] @
           only_if (h_isTimeBlocking h) [Txt (''(Blocked: '' @ show_int (h_timeRemaining h) @ ''s)'')])] @
     given (h_lastEncounterChance h) (\<lambda>x. [Box [Txt ''Last Encounter @:'', Txt (toFixed (jmul x 100) 2 @ ''%'')]]) @
     [Box [Txt ''Bypass Time Constraint:'',
           button (DebugButton PressBypass) False (if es_bypassTimeConstraint (h_service h) then ''ON'' else ''OFF'')],
      Box [Txt ''Force Item Drop:'', button (DebugButton PressForceDrop) False (if h_forceItemDrop h then ''ON'' else ''OFF'')],
      Box ([Txt ''Drop Rarity (turn Force Item Drop ON to guarantee):'', button (DebugButton (PressRarity None)) False ''Auto''] @
           map (\<lambda>r. button (DebugButton (PressRarity (Some r))) False (RARITY_SHORT r)) [Common, Uncommon, Rare, Epic, Legendary] @
           [button (DebugButton PressPreview) False
              (''Preview Reveal '' @ (case h_forcedRarity h of Some r \<Rightarrow> ''('' @ rarity_name r @ '')'' | None \<Rightarrow> ''(random)''))])]"

definition debugActionRows :: "home_press element list" where
  "debugActionRows =
     [Box (Txt ''Simulate Movement:'' #
        map (\<lambda>(label, meters). button (DebugButton (PressMove meters)) False label) [(''+10m'', 10), (''+100m'', 100), (''+1km'', 1000)]),
      button (DebugButton PressForceEncounter) False ''Force Encounter'',
      Box [Txt ''Encounter Routing (real gate):'', button (DebugButton (PressIdle Common)) False ''Idle Win (common)'',
           button (DebugButton (PressElite Rare)) False ''Worthy Foe (rare)'',
           button (DebugButton (PressElite Epic)) False ''Worthy Foe (epic)'',
           button (DebugButton (PressSimulateWalk 5)) False (''Simulate Walk '' @ [CHR 0xC3, CHR 0x97] @ ''5''),
           button (DebugButton PressShowSummary) False ''Show Walk Summary''],
      Box (Txt ''Set Level:'' # map (\<lambda>lvl. button (DebugButton (PressLevel lvl)) False (''L'' @ show_int lvl)) [1, 5, 10, 20, 50]),
      Box (Txt ''Class (test abilities):'' #
        map (\<lambda>a. button (DebugButton (PressArchetype a)) False (cfg_name (ARCHETYPE_CONFIGS a))) [Martial, Agile, Mage]),
      Box (Txt ''Add XP:'' #
        map (\<lambda>x. button (DebugButton (PressXP x)) False (''+'' @ show_int x @ '' XP'')) [100, 500, 1000])]"

definition debugPanelView ::
  "env_config \<Rightarrow> bool \<Rightarrow> player \<Rightarrow> hook \<Rightarrow> location_data option \<Rightarrow> sync_status \<Rightarrow> int \<Rightarrow> home_press element list" where
  "debugPanelView cfg debugMode p h l sync now =
     (if \<not> ec_enableDebugMode cfg then []
      else if \<not> debugMode then [button (DebugShow True) False ''Show Debug Mode'']
      else [Box ([Txt (bug @ '' Debug Mode''), debugStats p l sync now,
              button (DebugButton PressRestoreHp) False ''Restore Full HP'',
              button (DebugButton PressClearInventory) False ''Clear Inventory'',
              button (DebugButton PressFillInventory) False ''Fill Inventory''] @
              debugReadouts h @ debugActionRows @ [button (DebugShow False) False ''Hide Debug''])])"

section \<open>The screens\<close>

definition betaIndicator :: "env_config \<Rightarrow> string \<Rightarrow> 'h element list" where
  "betaIndicator cfg version =
     given (betaBanner cfg) (\<lambda>(text, warning).
       [Box ([Txt ((if ec_environmentName cfg = Development then wrench else test_tube) @ '' '' @ text)] @ only_if (version \<noteq> []) [Txt version] @ given warning (\<lambda>w. [Txt w]))])"

definition archetypeCard :: "archetype \<Rightarrow> home_press element" where
  "archetypeCard a =
     (let card = classCard a
      in Press (ClassPress a) False
           [Txt (cc_name card), Icon (resourceIcon (resource_name (cfg_resource (ARCHETYPE_CONFIGS a)))),
            Txt ('' '' @ resourceLabel a), Txt (cfg_description (ARCHETYPE_CONFIGS a)),
            Box [Icon ''hp'', Txt ('' '' @ show_int (cc_hp card) @ '' HP''), Icon ''attack'', Txt ('' '' @ show_int (cc_atk card) @ '' ATK''),
                 Icon ''defense'', Txt ('' '' @ show_int (cc_def card) @ '' DEF'')],
            Txt (''Choose '' @ cc_name card)])"

definition archetypeSelectionScreen :: "home_press element list" where
  "archetypeSelectionScreen =
     [Box ([Txt ''Choose Your Archetype'',
            Txt ''Your archetype determines your combat style, abilities, and resource pool.''] @ map archetypeCard ARCHETYPES)]"

text \<open>
  What the screen renders from: the controller and the switches of \<open>home_ui\<close>, the inventory window,
  the tracking flag, the account, the settings and the conflict. \<open>hp_cleared\<close> is the answer the store
  will give when the held foe is taken.
\<close>

record home_props =
  hp_ui :: home_ui
  hp_layout :: "(real \<times> real) option"
  hp_impact :: impact
  hp_distance :: real
  hp_location :: "location_data option"
  hp_tracking :: bool
  hp_window :: inventory_window
  hp_showSettings :: bool
  hp_isIos :: bool
  hp_authUser :: "auth_user option"
  hp_authLoading :: bool
  hp_conflict :: "pending_conflict option"
  hp_resolving :: bool
  hp_autoResolve :: bool
  hp_theme :: theme_clock
  hp_sync :: sync_status
  hp_version :: string
  hp_cleared :: bool

definition locationInfo :: "location_data option \<Rightarrow> 'h element list" where
  "locationInfo l =
     given l (\<lambda>loc.
       [Box ([Txt ''Current Location:'', Txt (toFixed (l_latitude loc) 6 @ '', '' @ toFixed (l_longitude loc) 6)] @
             only_if (l_speed loc > 0) [Txt (''Speed: '' @ toFixed (jmul (l_speed loc) (rnd (36 / 10))) 1 @ '' km/h'')])])"

definition conflictWindow :: "(int \<Rightarrow> string) \<Rightarrow> home_props \<Rightarrow> home_press element list" where
  "conflictWindow localized s =
     given (hp_conflict s) (accountConflictModal localized (h_now (hu_hook (hp_ui s))) (hp_resolving s))"

definition minimizedBar :: "hook \<Rightarrow> home_press element list" where
  "minimizedBar h =
     given (h_encounter h) (\<lambda>re.
       only_if (h_isMinimized h \<and> \<not> h_showCombatModal h)
         [Press (Foe TapExpand) False [Icon ''WarningIcon'', Txt (minimizedText (snd re))]])"

definition scrollContent :: "env_config \<Rightarrow> home_props \<Rightarrow> player \<Rightarrow> home_press element list" where
  "scrollContent cfg s p =
     (let h = hu_hook (hp_ui s)
      in [Box ([Box [Press OpenSettings False [Icon ''SettingsIcon''], Txt ''StrideQuest'']] @ playerStats (Some p))] @
         worthyFoeCard (map_option snd (h_heldFoe h)) (hp_cleared s) @
         [Box ([equipmentDisplay (p_equipment p),
                Press (Bag OpenInventory) False [Icon ''InventoryIcon'', Txt '' View Inventory''],
                distanceDisplay Km (hp_distance s),
                Txt (if hp_tracking s then ''Tracking Active'' else ''Not Tracking'')] @
               locationInfo (hp_location s) @
               [button TrackPress False (if hp_tracking s then ''Stop Tracking'' else ''Start Walking''),
                Txt ''Walk around to trigger random creature encounters!''] @
               minimizedBar h @
               debugPanelView cfg (hu_debugMode (hp_ui s)) p h (hp_location s) (hp_sync s) (h_now h))])"

definition homeWindows :: "env_config \<Rightarrow> (int \<Rightarrow> string) \<Rightarrow> home_props \<Rightarrow> player \<Rightarrow> home_press element list" where
  "homeWindows cfg localized s p =
     (let h = hu_hook (hp_ui s)
      in encounterModal (ec_enableDebugMode cfg \<and> hu_debugMode (hp_ui s)) (map_option snd (h_encounter h))
           (h_showEncounterModal h \<and> \<not> h_showCombatModal h) (Some (p_attack p)) (Some (p_defense p)) (Some (p_hp p)) (Some (p_maxHp p)) @
         combatModal (hp_layout s) (combatRender h) (hp_impact s) (h_showCombatModal h) (h_combatLog h) @
         rewardRevealModal (h_rewardReveal h) @ walkSummaryModal (h_walkSummary h) @
         inventoryModal \<lparr> iv_window = hp_window s, iv_player = h_player h \<rparr> @
         settingsModal (hp_showSettings s) (hp_isIos s) (hp_authLoading s) (hp_authUser s) (hp_autoResolve s) (hp_theme s) @
         conflictWindow localized s)"

definition homeScreen :: "env_config \<Rightarrow> (int \<Rightarrow> string) \<Rightarrow> home_props \<Rightarrow> home_press element list" where
  "homeScreen cfg localized s =
     (case (hu_needsArchetype (hp_ui s), h_player (hu_hook (hp_ui s))) of
        (True, _) \<Rightarrow> archetypeSelectionScreen
      | (False, None) \<Rightarrow> Txt ''Loading...'' # conflictWindow localized s
      | (False, Some p) \<Rightarrow>
          betaIndicator cfg (hp_version s) @ scrollContent cfg s p @ homeWindows cfg localized s p)"

section \<open>Lemmas: what can be touched\<close>

lemma quiet_panels [simp]:
  "offers (playerStats p) = {}" "offers (distanceDisplay u d # es) = offers es" "offers (debugStats q l sync now # es) = offers es"
  "offers (locationInfo l) = {}" "offers (betaIndicator cfg v) = {}" "offers (saveCard loc now lb dt t # es) = offers es"
  by (auto simp: playerStats_def Let_def statBlock_def distanceDisplay_def debugStats_def locationInfo_def betaIndicator_def saveCard_def
      split: option.split)

lemma equipmentDisplay_offers: "offers [equipmentDisplay equipment] = range (Bag \<circ> SlotPress)"
proof -
  have slots: "(UNIV :: equipment_slot set) = {SWeapon, SOffhand, SHead, SChest, SLegs, SBoots, SGloves, SAccessory1, SAccessory2}"
    using equipment_slot.exhaust by blast
  have [simp]: "offers (renderSlot equipment s # es) = insert (Bag (SlotPress s)) (offers es)" for s es
    by (auto simp: renderSlot_def split: option.split)
  show ?thesis by (auto simp: equipmentDisplay_def slots Let_def)
qed

lemma itemDetailsModal_offers:
  "offers (itemDetailsModal selected player visible) =
     (case selected of
        None \<Rightarrow> {}
      | Some it \<Rightarrow> if visible then {Bag CloseDetails, Bag DeletePress} \<union> (if canEquip player it then {Bag EquipPress} else {}) else {})"
proof -
  have [simp]: "offers (map affixRow as) = {}" "offers (detailStat k l v) = {}" for as k l v
    by (simp_all add: offers_map affixRow_def detailStat_def split: option.split)
  show ?thesis by (auto simp: itemDetailsModal_def split: option.split)
qed

text \<open>The rows, the details and their buttons: what the inventory machine admits.\<close>

lemma inventoryModal_offers:
  "offers (inventoryModal v) =
     (if iw_visible (iv_window v) then insert (Bag CloseInventory) ((Bag \<circ> RowPress) ` {..<length (shownRows v)}) else {}) \<union>
     offers (itemDetailsModal (iw_selectedItem (iv_window v)) (iv_player v) (iw_showItemDetails (iv_window v)))"
proof -
  have "offers (map statChipView xs :: home_press element list) = {}" for xs by (auto simp: offers_map statChipView_def split: prod.split)
  then have [simp]: "offers (renderItemRow p n it # es) = insert (Bag (RowPress n)) (offers es)" for p n it es
    by (simp add: renderItemRow_def Let_def)
  have rows: "offers (map (\<lambda>n. renderItemRow (iv_player v) n (fst (shownRows v ! n))) [0..<length (shownRows v)]) =
      (Bag \<circ> RowPress) ` {..<length (shownRows v)}"
    by (auto simp: offers_map)
  show ?thesis by (auto simp: inventoryModal_def Let_def rows simp del: upt_Suc)
qed

lemma equip_drawn_iff:
  "Bag EquipPress \<in> offers (inventoryModal v) \<longleftrightarrow> equipEnabled v"
  by (auto simp: inventoryModal_offers itemDetailsModal_offers equipEnabled_def split: option.splits if_splits)

lemma accountSection_offers: "offers [accountSection ios loading u] = AccountPress ` set (accountButtons ios loading u)"
  by (auto simp: accountSection_def accountButtons_def split: if_splits option.splits)

lemma settingsModal_offers:
  "offers (settingsModal visible ios loading u v th) =
     (if visible then {CloseSettings, AutoResolveSwitch (\<not> v), PrivacyLink} \<union> range ThemeOption \<union>
        AccountPress ` set (accountButtons ios loading u) else {})"
proof -
  have prefs: "(UNIV :: theme_preference set) = {ThemeAuto, ThemeNight, ThemeDay}" using theme_preference.exhaust by blast
  have "offers (accountSection ios loading u # es) = AccountPress ` set (accountButtons ios loading u) \<union> offers es" for es
    using offers_append[of "[accountSection ios loading u]" es] accountSection_offers[of ios loading u] by simp
  then show ?thesis by (auto simp: settingsModal_def prefs)
qed

lemma accountConflictModal_offers:
  "offers (accountConflictModal loc now resolving c) = (ConflictPress \<circ> fst) ` set (conflictButtons resolving c)"
proof -
  have "offers (map (\<lambda>(choice, label). button (ConflictPress choice) False label) xs) = (ConflictPress \<circ> fst) ` set xs" for xs
    by (force simp: offers_map split: prod.split)
  then show ?thesis by (auto simp: accountConflictModal_def conflictButtons_def split: option.split)
qed

lemma debugPanelView_offers:
  "offers (debugPanelView cfg dm p h l sync now) =
     (case debugPanel cfg dm of
        PanelAbsent \<Rightarrow> {}
      | PanelToggle \<Rightarrow> {DebugShow True}
      | PanelOpen \<Rightarrow> insert (DebugShow False) (DebugButton ` set debugButtons))"
  by (auto simp: debugPanelView_def debugPanel_def debugReadouts_def debugActionRows_def debugButtons_def split: option.split)

lemma classes_offered: "offers archetypeSelectionScreen = range ClassPress"
proof -
  have "(UNIV :: archetype set) = {Martial, Agile, Mage}" using archetype.exhaust by blast
  then show ?thesis by (auto simp: archetypeSelectionScreen_def offers_map archetypeCard_def ARCHETYPES_def Let_def)
qed

section \<open>Lemmas: the composed screen\<close>

lemma encounterModal_None: "encounterModal dm None v a d hp mx = []"
  by (simp add: encounterModal_def given_def)

lemma conflictWindow_offers:
  "offers (conflictWindow loc s) =
     (case hp_conflict s of None \<Rightarrow> {} | Some c \<Rightarrow> (ConflictPress \<circ> fst) ` set (conflictButtons (hp_resolving s) c))"
  by (simp add: conflictWindow_def accountConflictModal_offers split: option.split)

lemma minimizedBar_offers:
  "offers (minimizedBar h) = (if h_encounter h \<noteq> None \<and> h_isMinimized h \<and> \<not> h_showCombatModal h then {Foe TapExpand} else {})"
  by (simp add: minimizedBar_def split: option.split)

lemma scrollContent_offers:
  "offers (scrollContent cfg s p) =
     {OpenSettings, Bag OpenInventory, TrackPress} \<union> range (Bag \<circ> SlotPress) \<union>
     (if h_heldFoe (hu_hook (hp_ui s)) = None then {} else {Foe (TapFoeCard (hp_cleared s))}) \<union>
     offers (minimizedBar (hu_hook (hp_ui s))) \<union>
     offers (debugPanelView cfg (hu_debugMode (hp_ui s)) p (hu_hook (hp_ui s)) (hp_location s) (hp_sync s) (h_now (hu_hook (hp_ui s))))"
proof -
  have "offers (equipmentDisplay x # es) = range (Bag \<circ> SlotPress) \<union> offers es" for x es
    using offers_append[of "[equipmentDisplay x]" es] equipmentDisplay_offers[of x] by simp
  then show ?thesis by (simp add: scrollContent_def Let_def small_windows_offer) blast
qed

text \<open>The controls of the fight that are drawn and enabled are those of the machine of the screen.\<close>

lemma foe_controls_drawn:
  "Foe c \<in> offers (homeScreen cfg loc s) \<longleftrightarrow>
     controlEnabled cfg (hp_ui s) c \<and> (\<forall>b. c = TapFoeCard b \<longrightarrow> b = hp_cleared s)"
proof (cases "shownScreen (hu_needsArchetype (hp_ui s)) (h_player (hu_hook (hp_ui s))) = HomeView")
  case False
  then have "Foe c \<notin> offers (homeScreen cfg loc s)"
    by (auto simp: homeScreen_def shownScreen_def classes_offered conflictWindow_offers split: option.splits bool.splits if_splits)
  moreover have "\<not> controlEnabled cfg (hp_ui s) c" using False by (cases c) (auto simp: shown_iff)
  ultimately show ?thesis by simp
next
  case True
  then obtain p where p: "h_player (hu_hook (hp_ui s)) = Some p" "\<not> hu_needsArchetype (hp_ui s)"
    by (auto simp: shownScreen_def split: if_splits)
  have quiet: "Foe x \<notin> offers (inventoryModal v)" "Foe x \<notin> offers (settingsModal a i l u ar th)"
    "Foe x \<notin> offers (conflictWindow loc s)" "Foe x \<notin> offers (debugPanelView cfg dm q h lo sy now)" for x v a i l u ar th dm q h lo sy now
    by (auto simp: inventoryModal_offers itemDetailsModal_offers settingsModal_offers conflictWindow_offers debugPanelView_offers
        split: option.splits debug_panel.splits if_splits)
  let ?h = "hu_hook (hp_ui s)"
  have drawn: "Foe c \<in> offers (homeScreen cfg loc s) \<longleftrightarrow>
      c = TapExpand \<and> h_encounter ?h \<noteq> None \<and> h_isMinimized ?h \<and> \<not> h_showCombatModal ?h \<or>
      c = TapFoeCard (hp_cleared s) \<and> h_heldFoe ?h \<noteq> None \<or>
      Foe c \<in> offers (encounterModal (ec_enableDebugMode cfg \<and> hu_debugMode (hp_ui s)) (map_option snd (h_encounter ?h))
        (h_showEncounterModal ?h \<and> \<not> h_showCombatModal ?h) (Some (p_attack p)) (Some (p_defense p)) (Some (p_hp p)) (Some (p_maxHp p))) \<or>
      Foe c \<in> offers (combatModal (hp_layout s) (combatRender ?h) (hp_impact s) (h_showCombatModal ?h) (h_combatLog ?h)) \<or>
      c = TapDismissReward \<and> h_rewardReveal ?h \<noteq> None \<or> c = TapDismissWalk \<and> walkTotals (h_walkSummary ?h) \<noteq> None"
    using p quiet by (simp add: homeScreen_def homeWindows_def scrollContent_offers minimizedBar_offers small_windows_offer Let_def) auto
  show ?thesis
  proof (cases "h_encounter ?h")
    case None
    then show ?thesis unfolding drawn using p True
      by (cases c) (simp_all add: encounterModal_None combatModal_offers combatRender_def shown_iff, auto)
  next
    case (Some re)
    then show ?thesis unfolding drawn using p True
      by (cases c; cases re) (simp_all add: encounterModal_offers combatModal_offers combatRender_def shown_iff fightDisabled_def, auto)
  qed
qed

text \<open>In a production build no touch reaches a debug function, whatever the state of the app.\<close>

lemma no_debug_in_production:
  assumes "\<not> ec_enableDebugMode cfg"
  shows "DebugButton b \<notin> offers (homeScreen cfg loc s)" and "DebugShow m \<notin> offers (homeScreen cfg loc s)"
    and "Foe TapDebugDefeat \<notin> offers (homeScreen cfg loc s)"
proof -
  have panel: "debugPanelView cfg dm p h l sync now = []" for dm p h l sync now using assms by (simp add: debugPanelView_def)
  have fight: "x \<in> offers (encounterModal dm eo v a d hp mx) \<Longrightarrow> x \<in> range Foe" for x dm eo v a d hp mx
    by (cases eo) (auto simp: encounterModal_None encounterModal_offers split: if_splits)
  have quiet: "x \<notin> offers (encounterModal dm eo v a d hp mx)" "x \<notin> offers (combatModal lo cm im v en)" "x \<notin> offers (rewardRevealModal rr)"
    "x \<notin> offers (walkSummaryModal ws)" "x \<notin> offers (inventoryModal iv)" "x \<notin> offers (settingsModal v i l u ar th)"
    "x \<notin> offers (conflictWindow loc s)"
    if "x \<in> {DebugButton b, DebugShow m}" for x dm eo v a d hp mx lo cm im en rr ws iv i l u ar th
    using that fight[of x dm eo v a d hp mx]
    by (auto simp: combatModal_offers small_windows_offer inventoryModal_offers itemDetailsModal_offers settingsModal_offers
        conflictWindow_offers split: option.splits if_splits)
  have "x \<notin> offers (homeScreen cfg loc s)" if "x \<in> {DebugButton b, DebugShow m}" for x
    using quiet[OF that] that
    by (auto simp: homeScreen_def homeWindows_def scrollContent_offers minimizedBar_offers panel classes_offered Let_def
        split: option.split bool.split if_splits)
  then show "DebugButton b \<notin> offers (homeScreen cfg loc s)" "DebugShow m \<notin> offers (homeScreen cfg loc s)" by simp_all
  show "Foe TapDebugDefeat \<notin> offers (homeScreen cfg loc s)" using assms by (simp add: foe_controls_drawn)
qed

text \<open>Without a player nothing can be touched but the answers to a conflict.\<close>

lemma loading_offers:
  assumes "h_player (hu_hook (hp_ui s)) = None" and "\<not> hu_needsArchetype (hp_ui s)"
  shows "offers (homeScreen cfg loc s) = offers (conflictWindow loc s)"
  using assms by (simp add: homeScreen_def)

lemma conflict_answerable:
  assumes "hp_conflict s = Some c" and "\<not> hp_resolving s" and "\<not> hu_needsArchetype (hp_ui s)"
  shows "ConflictPress ChooseCloud \<in> offers (homeScreen cfg loc s)"
proof -
  have "ConflictPress ChooseCloud \<in> offers (conflictWindow loc s)"
    using assms by (auto simp: conflictWindow_offers conflictButtons_def)
  then show ?thesis using assms(3) by (auto simp: homeScreen_def homeWindows_def Let_def split: option.split)
qed

section \<open>The tracking button\<close>

text \<open>
  The button's label and handler depend on the hook's flag and the service's. On Android a
  notification keeps the process alive while tracking: \<open>tg_service\<close>. \<open>accepted\<close> is whether the
  notification package did what it was asked.
\<close>

record 's tracking =
  tg_tracker :: "'s tracker"
  tg_service :: bool

definition trackingShown :: "'s tracker \<Rightarrow> bool" where
  "trackingShown t \<longleftrightarrow> tk_isTracking t \<or> ls_isTracking (tk_service t)"

definition requestPermission :: "bool \<Rightarrow> string \<Rightarrow> bool" where
  "requestPermission isIos answer \<longleftrightarrow> answer = ''granted''"

definition startForegroundService :: "bool \<Rightarrow> bool \<Rightarrow> bool \<Rightarrow> bool" where
  "startForegroundService isAndroid accepted service = (if \<not> isAndroid then service else if accepted then True else service)"

definition stopForegroundService :: "bool \<Rightarrow> bool \<Rightarrow> bool \<Rightarrow> bool" where
  "stopForegroundService isAndroid accepted service = (if \<not> isAndroid then service else if accepted then False else service)"

definition trackPress :: "'s async_storage \<Rightarrow> bool \<Rightarrow> bool \<Rightarrow> 's tracking \<Rightarrow> string \<Rightarrow> bool \<Rightarrow> 's tracking" where
  "trackPress io isAndroid hasNative g answer accepted =
     (let t = tg_tracker g
      in if trackingShown t
         then g\<lparr> tg_tracker := useStopTracking io t, tg_service := stopForegroundService isAndroid accepted (tg_service g) \<rparr>
         else
           let granted = requestPermission (\<not> isAndroid) answer
           in if \<not> granted then g
              else g\<lparr> tg_tracker := useStartTracking io isAndroid hasNative t granted,
                      tg_service := startForegroundService isAndroid accepted (tg_service g) \<rparr>)"

text \<open>A press turns what the button says around, unless the permission is refused.\<close>

lemma track_press_toggles:
  "trackingShown (tg_tracker (trackPress io isAndroid hasNative g answer accepted)) \<longleftrightarrow>
     \<not> trackingShown (tg_tracker g) \<and> answer = ''granted''"
  by (auto simp: trackPress_def trackingShown_def requestPermission_def useStopTracking_def useStartTracking_def stopTracking_def
      startTracking_def startWatch_def Let_def)

text \<open>The notification is up, and the device remembers to track, exactly while the button says so.\<close>

definition tracking_ok :: "bool \<Rightarrow> (storage_key \<Rightarrow> stored option) tracking \<Rightarrow> bool" where
  "tracking_ok isAndroid g \<longleftrightarrow> (tg_service g \<longleftrightarrow> isAndroid \<and> trackingShown (tg_tracker g)) \<and>
     (loadTrackingState mem_storage (bt_store (tk_battery (tg_tracker g))) \<longleftrightarrow> trackingShown (tg_tracker g))"

interpretation track_button: step_machine "\<lambda>g answer. trackPress mem_storage isAndroid hasNative g answer True" "tracking_ok isAndroid" "\<lambda>_. True"
  for isAndroid hasNative
proof
  fix g :: "(storage_key \<Rightarrow> stored option) tracking" and answer :: string
  assume ok: "tracking_ok isAndroid g"
  have store: "bt_store (maybeRequestExemption mem_storage b isAndroid hasNative) = bt_store b" for b
    by (simp add: maybeRequestExemption_def)
  have flag: "loadTrackingState mem_storage (snd (saveTrackingState mem_storage m b)) = b" for m b
    using mem.flag_written[OF reliable_mem, of m TRACKING_STATE b] by (simp add: loadTrackingState_def saveTrackingState_def mem.flag_read[OF reliable_mem])
  show "tracking_ok isAndroid (trackPress mem_storage isAndroid hasNative g answer True)"
    using ok
    by (auto simp: tracking_ok_def trackPress_def requestPermission_def useStopTracking_def useStartTracking_def stopTracking_def
        startTracking_def startWatch_def trackingShown_def startForegroundService_def stopForegroundService_def store flag Let_def)
qed

section \<open>The crash screen\<close>

text \<open>What the error boundary draws around the app; \<open>reset\<close> is its own handler.\<close>

definition errorBoundary :: "bool \<Rightarrow> 'h \<Rightarrow> string option \<Rightarrow> 'h element list \<Rightarrow> 'h element list" where
  "errorBoundary dev reset err children =
     (case err of
        None \<Rightarrow> children
      | Some msg \<Rightarrow>
          [Box ([Txt ''Something went wrong'',
                 Txt (''The app encountered an unexpected error. Your progress is saved '' @ em_dash @ '' tap below to try again.'')] @
                only_if dev [Txt msg] @ [button reset False ''Try Again''])])"

text \<open>The crash screen offers the way back, and the error's text to developers only.\<close>

lemma crash_screen_recovers:
  "offers (errorBoundary dev reset (Some msg) children) = {reset}"
  "\<not> dev \<Longrightarrow> errorBoundary dev reset (Some msg) children = errorBoundary dev reset (Some msg') children"
  by (simp_all add: errorBoundary_def only_if_def)

end
