(* ===== verification/ThemeRun.thy ===== *)
theory ThemeRun
  imports AppShell
begin

text \<open>
  The theme provider (\<open>hooks/useTheme.tsx\<close>) as a machine: the stored choice arrives, the timer fires,
  the app comes back, the player chooses. The effect that resolves the palette runs again exactly
  when the preference or the hydration changed, and its cleanup drops the timer and the listener of
  the run before. The lemmas say which palette is on the screen at every moment.
\<close>

section \<open>The machine\<close>

text \<open>\<open>tw_looked\<close> is the moment of the last look at the sun; the code does not keep it.\<close>

record 's theme_world =
  tw_clock :: theme_clock
  tw_store :: 's
  tw_looked :: int

datatype theme_event = ThemeRead "app_settings option" | ThemeTick | ThemeForeground | ThemeChosen theme_preference

text \<open>The listener for the app's state exists while the effect of an automatic theme is in force.\<close>

definition listening :: "theme_clock \<Rightarrow> bool" where
  "listening t \<longleftrightarrow> tc_preference t = ThemeAuto \<and> tc_timer t \<noteq> None"

definition rerun :: "(int \<Rightarrow> real \<Rightarrow> real \<Rightarrow> bool) \<Rightarrow> int \<Rightarrow> (real \<times> real) option \<Rightarrow> theme_clock \<Rightarrow> theme_clock \<Rightarrow> theme_clock \<times> bool" where
  "rerun daylight now cached t t' =
     (if tc_preference t' = tc_preference t \<and> tc_hydrated t' = tc_hydrated t then (t', False)
      else (themeEffect t' now cached daylight, tc_hydrated t' \<or> tc_userChose t'))"

fun theme_step ::
  "'s async_storage \<Rightarrow> (int \<Rightarrow> real \<Rightarrow> real \<Rightarrow> bool) \<Rightarrow> 's theme_world \<Rightarrow> theme_event \<times> int \<times> (real \<times> real) option \<Rightarrow> 's theme_world" where
  "theme_step io daylight w (ThemeRead settings, now, cached) =
     (if tc_hydrated (tw_clock w) then w
      else let (t, looked) = rerun daylight now cached (tw_clock w) (themeRestored (tw_clock w) settings)
           in w\<lparr> tw_clock := t, tw_looked := (if looked then now else tw_looked w) \<rparr>)"
| "theme_step io daylight w (ThemeTick, now, cached) =
     (if tc_timer (tw_clock w) \<noteq> None
      then w\<lparr> tw_clock := applyAndSchedule (tw_clock w) now cached daylight, tw_looked := now \<rparr> else w)"
| "theme_step io daylight w (ThemeForeground, now, cached) =
     (if listening (tw_clock w)
      then w\<lparr> tw_clock := applyAndSchedule (tw_clock w) now cached daylight, tw_looked := now \<rparr> else w)"
| "theme_step io daylight w (ThemeChosen p, now, cached) =
     (let (t', s) = setPreference io (tw_clock w, tw_store w) p;
          (t, looked) = rerun daylight now cached (tw_clock w) t'
      in w\<lparr> tw_clock := t, tw_store := s, tw_looked := (if looked then now else tw_looked w) \<rparr>)"

definition theme_start :: "'s \<Rightarrow> 's theme_world" where
  "theme_start s = \<lparr> tw_clock = theme_init, tw_store = s, tw_looked = 0 \<rparr>"

section \<open>The palette on the screen\<close>

definition palette_of :: "theme_preference \<Rightarrow> theme_name" where
  "palette_of p = (if p = ThemeDay then Day else Night)"

text \<open>
  An explicit choice is what is shown. An automatic theme shows the sun of the last look, at the last
  known place, with one timer for the next look; until the stored choice is known it waits, in the
  dark.
\<close>

definition clock_ok :: "(int \<Rightarrow> real \<Rightarrow> real \<Rightarrow> bool) \<Rightarrow> theme_clock \<Rightarrow> int \<Rightarrow> bool" where
  "clock_ok daylight t looked \<longleftrightarrow>
     (if tc_preference t \<noteq> ThemeAuto then tc_themeName t = palette_of (tc_preference t) \<and> tc_timer t = None
      else if tc_timer t = None then tc_themeName t = Night \<and> \<not> tc_hydrated t
      else tc_timer t \<in> {Some AWAITING_FIX_MS, Some SUN_TICK_MS} \<and>
           tc_themeName t = resolveThemeName ThemeAuto looked (tc_lastCoords t) daylight)"

definition theme_ok :: "(int \<Rightarrow> real \<Rightarrow> real \<Rightarrow> bool) \<Rightarrow> 's theme_world \<Rightarrow> bool" where
  "theme_ok daylight w \<longleftrightarrow> clock_ok daylight (tw_clock w) (tw_looked w)"

lemma look_ok:
  assumes "t' = applyAndSchedule t now cached daylight"
  shows "clock_ok daylight t' now"
    and "tc_preference t' = tc_preference t" and "tc_hydrated t' = tc_hydrated t" and "tc_userChose t' = tc_userChose t"
    and "tc_lastCoords t' = (if cached = None then tc_lastCoords t else cached)"
  using assms by (auto simp: applyAndSchedule_def clock_ok_def resolveThemeName_def palette_of_def Let_def split: theme_preference.splits)

lemma rerun_ok:
  assumes "clock_ok daylight t0 before" and "rerun daylight now cached t0 t' = (t, looked)"
    and "tc_themeName t' = tc_themeName t0" and "tc_timer t' = tc_timer t0" and "tc_lastCoords t' = tc_lastCoords t0"
    and "tc_preference t' \<noteq> tc_preference t0 \<or> tc_hydrated t' \<noteq> tc_hydrated t0 \<Longrightarrow> tc_hydrated t' \<or> tc_userChose t'"
  shows "clock_ok daylight t (if looked then now else before)"
proof (cases "tc_preference t' = tc_preference t0 \<and> tc_hydrated t' = tc_hydrated t0")
  case True
  then show ?thesis using assms(1-5) unfolding clock_ok_def by (auto simp: rerun_def)
next
  case False
  then have "t = applyAndSchedule (t'\<lparr> tc_timer := None, tc_fastPolls := 0 \<rparr>) now cached daylight" "looked"
    using assms(2,6) by (auto simp: rerun_def themeEffect_def Let_def)
  then show ?thesis using look_ok(1)[OF refl] by simp
qed

interpretation theme_machine: step_machine "theme_step io daylight" "theme_ok daylight" "\<lambda>_. True" for io daylight
proof
  fix w :: "'a theme_world" and e :: "theme_event \<times> int \<times> (real \<times> real) option"
  assume ok: "theme_ok daylight w"
  obtain ev now cached where e: "e = (ev, now, cached)" by (metis prod.collapse)
  have clock: "clock_ok daylight (tw_clock w) (tw_looked w)" using ok by (simp add: theme_ok_def)
  show "theme_ok daylight (theme_step io daylight w e)"
  proof (cases ev)
    case (ThemeRead settings)
    obtain t looked where r: "rerun daylight now cached (tw_clock w) (themeRestored (tw_clock w) settings) = (t, looked)" by force
    have "clock_ok daylight t (if looked then now else tw_looked w)"
      by (rule rerun_ok[OF clock r]) (auto simp: themeRestored_def Let_def split: option.split)
    then show ?thesis using clock r ThemeRead e by (simp add: theme_ok_def)
  next
    case (ThemeChosen p)
    obtain t' s where s: "setPreference io (tw_clock w, tw_store w) p = (t', s)" by force
    obtain t looked where r: "rerun daylight now cached (tw_clock w) t' = (t, looked)" by force
    have "clock_ok daylight t (if looked then now else tw_looked w)"
      using s by (intro rerun_ok[OF clock r]) (auto simp: setPreference_def Let_def)
    then show ?thesis using s r ThemeChosen e by (simp add: theme_ok_def)
  qed (use clock e look_ok(1)[OF refl] in \<open>simp_all add: theme_ok_def\<close>)
qed

lemma theme_start_ok: "theme_ok daylight (theme_start s)"
  by (simp add: theme_ok_def clock_ok_def theme_start_def theme_init_def)

text \<open>A choice is shown at once and stays until the next one, whatever the store answers late.\<close>

definition chosen :: "theme_preference \<Rightarrow> 's theme_world \<Rightarrow> bool" where
  "chosen p w \<longleftrightarrow> tc_preference (tw_clock w) = p \<and> tc_userChose (tw_clock w)"

lemma rerun_keeps:
  "tc_preference (fst (rerun daylight now cached t t')) = tc_preference t'" "tc_userChose (fst (rerun daylight now cached t t')) = tc_userChose t'"
  by (simp_all add: rerun_def themeEffect_def look_ok(2,4)[OF refl] Let_def)

lemma choice_made: "chosen p (theme_step io daylight w (ThemeChosen p, now, cached))"
  using rerun_keeps[of daylight now cached "tw_clock w" "fst (setPreference io (tw_clock w, tw_store w) p)"]
  by (simp add: chosen_def setPreference_def case_prod_beta Let_def)

interpretation choice_kept: step_machine "theme_step io daylight" "chosen p" "\<lambda>e. \<forall>q. fst e \<noteq> ThemeChosen q" for io daylight p
proof
  fix w :: "'a theme_world" and e :: "theme_event \<times> int \<times> (real \<times> real) option"
  assume kept: "chosen p w" "\<forall>q. fst e \<noteq> ThemeChosen q"
  obtain ev now cached where e: "e = (ev, now, cached)" by (metis prod.collapse)
  have "tc_preference (themeRestored (tw_clock w) st) = p" "tc_userChose (themeRestored (tw_clock w) st)" for st
    using kept(1) by (auto simp: chosen_def themeRestored_def Let_def split: option.split)
  then show "chosen p (theme_step io daylight w e)"
    using kept e rerun_keeps[of daylight now cached "tw_clock w"] look_ok(2,4)[OF refl, of "tw_clock w" now cached daylight]
    by (cases ev) (simp_all add: chosen_def case_prod_beta Let_def)
qed

lemma choice_shown:
  assumes "w = foldl (theme_step io daylight) (theme_start s) es" and "list_all (\<lambda>e. \<forall>q. fst e \<noteq> ThemeChosen q) later"
    and "p \<noteq> ThemeAuto" and "w' = foldl (theme_step io daylight) (theme_step io daylight w (ThemeChosen p, now, cached)) later"
  shows "tc_themeName (tw_clock w') = palette_of p" and "tc_timer (tw_clock w') = None"
proof -
  have "theme_ok daylight w" unfolding assms(1) by (rule theme_machine.run_inv[OF theme_start_ok]) (simp add: list_all_iff)
  then have "theme_ok daylight w'" unfolding assms(4)
    by (intro theme_machine.run_inv theme_machine.step_inv) (simp_all add: list_all_iff)
  moreover have "chosen p w'" unfolding assms(4) by (rule choice_kept.run_inv[OF choice_made assms(2)])
  ultimately show "tc_themeName (tw_clock w') = palette_of p" "tc_timer (tw_clock w') = None"
    using assms(3) by (simp_all add: theme_ok_def clock_ok_def chosen_def)
qed

text \<open>Once a place is known it is never forgotten, however often the location service clears its own.\<close>

lemma place_remembered:
  assumes "tc_lastCoords (tw_clock w) \<noteq> None"
  shows "tc_lastCoords (tw_clock (foldl (theme_step io daylight) w es)) \<noteq> None"
proof -
  have restored: "tc_lastCoords (themeRestored t st) = tc_lastCoords t" "tc_lastCoords (fst (setPreference io (t, s) p)) = tc_lastCoords t" for t st s p
    by (simp_all add: themeRestored_def setPreference_def Let_def split: option.split)
  have effect: "tc_lastCoords t' \<noteq> None \<Longrightarrow> tc_lastCoords (fst (rerun daylight now cached t t')) \<noteq> None" for now cached t t'
    by (auto simp: rerun_def themeEffect_def look_ok(5)[OF refl] Let_def)
  have "tc_lastCoords (tw_clock (theme_step io daylight v e)) \<noteq> None" if "tc_lastCoords (tw_clock v) \<noteq> None" for v e
    by (cases "(io, daylight, v, e)" rule: theme_step.cases)
      (use that effect in \<open>auto simp: restored look_ok(5)[OF refl] case_prod_beta Let_def\<close>)
  then show ?thesis using assms by (induction es arbitrary: w) simp_all
qed

end
