(* ===== verification/Startup.thy ===== *)
theory Startup
  imports HomeScreens ThemeRun
begin

text \<open>
  From the launch of the process to a running app: the order in which the home screen makes the
  notification channels and resumes tracking (\<open>screens/HomeScreen.tsx\<close>), every notification the app
  posts with the channel it goes to (\<open>services/NotificationService.ts\<close>), the handler for taps in the
  background (\<open>index.ts\<close>) and the ground the app is drawn on (\<open>App.tsx\<close>). What the packages answer is
  an argument.
\<close>

section \<open>Postings\<close>

definition channelId :: string where "channelId = ''encounter_channel''"

definition trackingChannelId :: string where "trackingChannelId = ''tracking_channel''"

text \<open>The options of a posting that differ between the three; the press action is the same for all.\<close>

record posting =
  po_id :: "string option"
  po_title :: string
  po_body :: string
  po_dataType :: "string option"
  po_channelId :: string
  po_highImportance :: bool
  po_vibrationPattern :: "int list"
  po_asForegroundService :: bool
  po_iosPresented :: bool

definition alertPosting :: "notification \<Rightarrow> posting" where
  "alertPosting n =
     \<lparr> po_id = None, po_title = nt_title n, po_body = nt_body n, po_dataType = Some (nt_dataType n), po_channelId = channelId,
       po_highImportance = True, po_vibrationPattern = [300, 500], po_asForegroundService = False, po_iosPresented = True \<rparr>"

definition trackingPosting :: posting where
  "trackingPosting =
     \<lparr> po_id = Some ''location_tracking_service'', po_title = ''StrideQuest'', po_body = ''Tracking your location for encounters'',
       po_dataType = None, po_channelId = trackingChannelId, po_highImportance = False, po_vibrationPattern = [],
       po_asForegroundService = True, po_iosPresented = False \<rparr>"

text \<open>A posting the package rejects is reported and thrown again; the other calls swallow the rejection.\<close>

definition displayNotification :: "posting \<Rightarrow> string option \<Rightarrow> string + string" where
  "displayNotification p answer = (case answer of Some i \<Rightarrow> Inr i | None \<Rightarrow> Inl (po_title p))"

text \<open>\<open>posted\<close> lists the identifiers of the notifications that are up.\<close>

definition cancelNotification :: "bool \<Rightarrow> string \<Rightarrow> string list \<Rightarrow> string list" where
  "cancelNotification accepted i posted = (if accepted then filter (\<lambda>j. j \<noteq> i) posted else posted)"

definition cancelAllNotifications :: "bool \<Rightarrow> string list \<Rightarrow> string list" where
  "cancelAllNotifications accepted posted = (if accepted then [] else posted)"

definition getSettings :: "'n option \<Rightarrow> 'n option" where
  "getSettings answer = answer"

section \<open>The start of the home screen\<close>

datatype package_call = CreateChannel string | Display posting

text \<open>The channels are created one after the other; a rejection ends the function and is logged.\<close>

fun createChannels :: "string list \<Rightarrow> bool list \<Rightarrow> package_call list \<times> string list" where
  "createChannels [] answers = ([], [])"
| "createChannels (c # cs) [] = ([CreateChannel c], [])"
| "createChannels (c # cs) (accepted # answers) =
     (if accepted then (let (calls, made) = createChannels cs answers in (CreateChannel c # calls, c # made)) else ([CreateChannel c], []))"

definition initializeNotifications :: "bool \<Rightarrow> bool list \<Rightarrow> package_call list \<times> string list" where
  "initializeNotifications isAndroid answers = createChannels (notificationChannels isAndroid) answers"

text \<open>
  The chain the mount effect starts: the channels first, then the tracking of the session before. The
  calls come in order; \<open>answer\<close> is what the permission dialog answers and \<open>accepted\<close> whether the
  tracking notification is accepted.
\<close>

definition bootScreen ::
  "'s async_storage \<Rightarrow> bool \<Rightarrow> bool \<Rightarrow> 's tracking \<Rightarrow> bool list \<Rightarrow> string \<Rightarrow> bool \<Rightarrow> 's tracking \<times> package_call list \<times> string list" where
  "bootScreen io isAndroid hasNative g answers answer accepted =
     (let (calls, made) = initializeNotifications isAndroid answers;
          t = tg_tracker g;
          granted = requestPermission (\<not> isAndroid) answer
      in if loadTrackingState io (bt_store (tk_battery t)) \<and> granted
         then (g\<lparr> tg_tracker := initializeTracking io isAndroid hasNative t granted,
                  tg_service := startForegroundService isAndroid accepted (tg_service g) \<rparr>,
               calls @ (if isAndroid then [Display trackingPosting] else []), made)
         else (g, calls, made))"

text \<open>The process was killed: the store is left, and the package has dropped the service.\<close>

definition killed :: "'s tracking \<Rightarrow> 's tracking" where
  "killed g =
     \<lparr> tg_tracker = \<lparr> tk_isTracking = False, tk_service = loc_init,
         tk_battery = (tk_battery (tg_tracker g))\<lparr> bt_promptInFlight := False, bt_asked := None \<rparr> \<rparr>, tg_service = False \<rparr>"

section \<open>The app around the screen\<close>

text \<open>The background handler only writes a line; the foe itself is found on return.\<close>

definition onBackgroundEvent :: "bool \<Rightarrow> string option \<Rightarrow> string list" where
  "onBackgroundEvent pressed dataType =
     (if pressed \<and> dataType = Some ''encounter'' then [''Background notification tapped for encounter''] else [])"

definition themedApp :: "theme_name \<Rightarrow> string \<times> string" where
  "themedApp n = (th_bg (THEMES n), th_statusBar (THEMES n))"

section \<open>Lemmas\<close>

lemma createChannels_all: "list_all id answers \<Longrightarrow> length cs \<le> length answers \<Longrightarrow> createChannels cs answers = (map CreateChannel cs, cs)"
  by (induction cs answers rule: createChannels.induct) auto

lemma createChannels_made: "createChannels cs answers = (calls, made) \<Longrightarrow> set made \<subseteq> set cs \<and> map CreateChannel made = take (length made) calls"
  by (induction cs answers arbitrary: calls made rule: createChannels.induct) (auto split: prod.splits if_splits)

text \<open>
  On a cold start the tracking notification is the last call, made exactly if tracking was on and is
  permitted; if the package accepts the channels, the one it is posted to exists by then.
\<close>

lemma boot_order:
  assumes "bootScreen io isAndroid hasNative g answers answer accepted = (g', calls, made)"
  shows "Display p \<in> set calls \<longleftrightarrow> p = trackingPosting \<and> isAndroid \<and> answer = ''granted'' \<and> loadTrackingState io (bt_store (tk_battery (tg_tracker g)))"
    and "Display p \<in> set calls \<Longrightarrow> last calls = Display p"
    and "Display p \<in> set calls \<Longrightarrow> list_all id answers \<Longrightarrow> 2 \<le> length answers \<Longrightarrow> po_channelId p \<in> set made"
proof -
  have no_display: "Display p \<notin> set (fst (createChannels cs as))" for cs as
    by (induction cs as rule: createChannels.induct) (auto split: prod.split)
  obtain cs ms where c: "initializeNotifications isAndroid answers = (cs, ms)" by force
  have cs: "Display p \<notin> set cs" using no_display[of "notificationChannels isAndroid" answers] c by (simp add: initializeNotifications_def)
  show iff: "Display p \<in> set calls \<longleftrightarrow> p = trackingPosting \<and> isAndroid \<and> answer = ''granted'' \<and> loadTrackingState io (bt_store (tk_battery (tg_tracker g)))"
    using assms c cs by (auto simp: bootScreen_def requestPermission_def Let_def split: if_splits)
  show "Display p \<in> set calls \<Longrightarrow> last calls = Display p"
    using assms c cs by (auto simp: bootScreen_def Let_def split: if_splits)
  assume "Display p \<in> set calls" "list_all id answers" "2 \<le> length answers"
  then show "po_channelId p \<in> set made"
    using assms c createChannels_all[of answers "notificationChannels isAndroid"] iff
    by (auto simp: bootScreen_def initializeNotifications_def notificationChannels_def trackingPosting_def trackingChannelId_def Let_def
        split: if_splits)
qed

text \<open>Every notification goes to a channel the app creates, and alerts are not posted silently.\<close>

lemma postings_have_channels:
  "po_channelId (alertPosting n) \<in> set (notificationChannels True)" "po_channelId trackingPosting \<in> set (notificationChannels True)"
  "po_highImportance (alertPosting n) \<and> \<not> po_highImportance trackingPosting"
  by (simp_all add: alertPosting_def trackingPosting_def notificationChannels_def channelId_def trackingChannelId_def)

text \<open>
  A session survives the death of the process: whatever the button said before, after the next start
  it says the same, the service runs as before, and the device remembers it, if the permission
  stands and the store keeps the setting.
\<close>

lemma restart_keeps_tracking:
  assumes "tracking_ok isAndroid g"
  shows "trackingShown (tg_tracker (fst (bootScreen mem_storage isAndroid hasNative (killed g) answers ''granted'' True))) \<longleftrightarrow>
      trackingShown (tg_tracker g)"
    and "tracking_ok isAndroid (fst (bootScreen mem_storage isAndroid hasNative (killed g) answers ''granted'' True))"
proof -
  let ?s = "bt_store (tk_battery (tg_tracker g))"
  have kept: "loadTrackingState mem_storage ?s \<longleftrightarrow> trackingShown (tg_tracker g)" "tg_service g \<longleftrightarrow> isAndroid \<and> trackingShown (tg_tracker g)"
    using assms by (simp_all add: tracking_ok_def)
  have store: "bt_store (maybeRequestExemption mem_storage b isAndroid hasNative) = bt_store b" for b
    by (simp add: maybeRequestExemption_def)
  have flag: "loadTrackingState mem_storage (snd (saveTrackingState mem_storage m b)) = b" for m b
    using mem.flag_written[OF reliable_mem, of m TRACKING_STATE b] by (simp add: loadTrackingState_def saveTrackingState_def mem.flag_read[OF reliable_mem])
  show "trackingShown (tg_tracker (fst (bootScreen mem_storage isAndroid hasNative (killed g) answers ''granted'' True))) \<longleftrightarrow>
      trackingShown (tg_tracker g)"
    "tracking_ok isAndroid (fst (bootScreen mem_storage isAndroid hasNative (killed g) answers ''granted'' True))"
    using kept
    by (auto simp: bootScreen_def killed_def requestPermission_def initializeTracking_def useStartTracking_def startTracking_def startWatch_def
        loc_init_def trackingShown_def tracking_ok_def startForegroundService_def store flag Let_def split: prod.split)
qed

end
