(* ===== verification/Motion.thy ===== *)
theory Motion
  imports Artwork Screens
begin

text \<open>
  What moves during a fight and a reward, as functions of the animation clocks: the legs of the panel
  animations (\<open>hooks/useCombatImpact.ts\<close>), a floating number (\<open>FloatingCombatText.tsx\<close>), the dots of a
  burst (\<open>CombatFxCanvas.tsx\<close>), the glow behind a reward (\<open>RewardGlowCanvas.tsx\<close>) and the pools a painted
  creature stands in (\<open>CreatureStage.tsx\<close>). The curve an animation follows between two targets belongs
  to the animation package. The lemmas say that everything ends at rest and out of sight.
\<close>

section \<open>Panels\<close>

text \<open>A leg is a target and the milliseconds it takes; a new animation of a value replaces the old one.\<close>

type_synonym leg = "real \<times> int"

definition settles :: "real \<Rightarrow> leg list \<Rightarrow> real" where
  "settles x legs = (if legs = [] then x else fst (last legs))"

definition triggerFlash :: "leg list" where
  "triggerFlash = [(1, 60), (0, 200)]"

definition shakeLegs :: "real \<Rightarrow> leg list" where
  "shakeLegs mag = [(- mag, 40), (mag, 40), (jmul (- mag) (1 / 2), 40), (0, 40)]"

definition RECOIL_SCALE :: real where "RECOIL_SCALE = rnd (94 / 100)"

definition triggerRecoil :: "leg list" where
  "triggerRecoil = [(RECOIL_SCALE, 70), (1, 160)]"

definition EMPOWER_SCALE :: real where "EMPOWER_SCALE = rnd (108 / 100)"

definition triggerEmpower :: "leg list" where
  "triggerEmpower = [(EMPOWER_SCALE, 110), (1, 230)]"

record panels =
  pn_creatureFlash :: "leg list"
  pn_playerFlash :: "leg list"
  pn_shake :: "leg list"
  pn_creatureScale :: "leg list"
  pn_playerScale :: "leg list"

definition panels_init :: panels where
  "panels_init = \<lparr> pn_creatureFlash = [], pn_playerFlash = [], pn_shake = [], pn_creatureScale = [], pn_playerScale = [] \<rparr>"

fun playFx :: "panels \<Rightarrow> panel_fx \<Rightarrow> panels" where
  "playFx p (Shake mag) = p\<lparr> pn_shake := shakeLegs mag \<rparr>"
| "playFx p (Flash TCreature) = p\<lparr> pn_creatureFlash := triggerFlash \<rparr>"
| "playFx p (Flash TPlayer) = p\<lparr> pn_playerFlash := triggerFlash \<rparr>"
| "playFx p (Recoil TCreature) = p\<lparr> pn_creatureScale := triggerRecoil \<rparr>"
| "playFx p (Recoil TPlayer) = p\<lparr> pn_playerScale := triggerRecoil \<rparr>"
| "playFx p (Empower TCreature) = p\<lparr> pn_creatureScale := triggerEmpower \<rparr>"
| "playFx p (Empower TPlayer) = p\<lparr> pn_playerScale := triggerEmpower \<rparr>"

text \<open>How much of the red layer is seen.\<close>

definition flashOpacity :: "real \<Rightarrow> real" where
  "flashOpacity v = jmul v (rnd (35 / 100))"

section \<open>Floating numbers\<close>

definition RISE_PX :: real where "RISE_PX = 46"

definition LIFETIME_MS :: int where "LIFETIME_MS = 750"

record float_pose =
  fp_opacity :: real
  fp_x :: real
  fp_y :: real
  fp_scale :: real

definition floatPose :: "floater \<Rightarrow> real \<Rightarrow> float_pose" where
  "floatPose f progress =
     \<lparr> fp_opacity = jsub 1 progress, fp_x = fl_dx f, fp_y = jmul (- RISE_PX) progress,
       fp_scale = jadd (rnd (8 / 10)) (jmul (rnd (2 / 10)) (min 1 (jmul progress 4))) \<rparr>"

section \<open>Bursts\<close>

fun RESIST_OPACITY :: "resist_tier \<Rightarrow> real" where
  "RESIST_OPACITY Resisted = rnd (55 / 100)"
| "RESIST_OPACITY Neutral = rnd (9 / 10)"
| "RESIST_OPACITY Vulnerable = 1"

text \<open>The dots are drawn once per burst; sine and cosine are the real functions.\<close>

definition burstParticles :: "burst \<Rightarrow> particle list rand" where
  "burstParticles b = makeParticles (burstPreset b) (RESIST_COUNT_SCALE (bu_resist b))"

definition burstPoint :: "real \<Rightarrow> real \<Rightarrow> real \<Rightarrow> particle \<Rightarrow> real \<times> real" where
  "burstPoint cx cy t p =
     (let reach = jsub 1 (jmul (jsub 1 t) (jsub 1 t))
      in (jadd cx (jmul (jmul (cos (pa_angle p)) (pa_dist p)) reach),
          jadd (jadd cy (jmul (jmul (sin (pa_angle p)) (pa_dist p)) reach)) (jmul (jmul (of_int (pa_gravity p)) t) t)))"

definition burstOpacity :: "burst \<Rightarrow> real \<Rightarrow> real" where
  "burstOpacity b t = jmul (jsub 1 t) (RESIST_OPACITY (bu_resist b))"

text \<open>The bursts on a canvas with the point they start from.\<close>

definition combatFxCanvas :: "real \<times> real \<Rightarrow> burst list \<Rightarrow> (burst \<times> real \<times> real) list" where
  "combatFxCanvas sz bursts =
     (if fst sz > 0 \<and> bursts \<noteq> [] then map (\<lambda>b. (b, jdiv (fst sz) 2, jdiv (snd sz) 2)) bursts else [])"

section \<open>Glow and pools\<close>

definition glowIntro :: leg where "glowIntro = (1, 260)"

text \<open>The legs that are repeated without end.\<close>

definition glowPulse :: "rarity \<Rightarrow> leg list" where
  "glowPulse r = (if snd (snd (RARITY_GLOW r)) then [(1, 750), (0, 750)] else [])"

definition glowScale :: "real \<Rightarrow> real \<Rightarrow> real" where
  "glowScale intro pulse = jmul (jadd (rnd (7 / 10)) (jmul (rnd (3 / 10)) intro)) (jadd 1 (jmul (rnd (8 / 100)) pulse))"

definition glowOpacity :: "rarity \<Rightarrow> real \<Rightarrow> real \<Rightarrow> real" where
  "glowOpacity r intro pulse = jmul (jmul (fst (snd (RARITY_GLOW r))) intro) (jsub 1 (jmul (rnd (2 / 10)) pulse))"

record glow =
  gl_x :: real
  gl_y :: real
  gl_radius :: int
  gl_colors :: "string \<times> string"

definition rewardGlowCanvas :: "real \<times> real \<Rightarrow> rarity \<Rightarrow> glow option" where
  "rewardGlowCanvas sz r =
     (if fst sz > 0
      then Some \<lparr> gl_x = jdiv (fst sz) 2, gl_y = jdiv (snd sz) 2, gl_radius = fst (RARITY_GLOW r),
                  gl_colors = (RARITY_COLORS r, RARITY_COLORS r @ ''00'') \<rparr>
      else None)"

text \<open>The stops of a radial gradient: how far out, in percent, and how opaque.\<close>

definition groundPool :: "bool \<Rightarrow> string \<times> (int \<times> real) list" where
  "groundPool day =
     (let core = rnd (if day then 62 / 100 else 82 / 100)
      in (if day then ''48,41,31'' else ''0,0,0'',
          [(0, core), (38, core), (62, jmul core (rnd (42 / 100))), (82, jmul core (rnd (16 / 100))), (100, 0)]))"

definition gloomPool :: "string \<times> (int \<times> real) list" where
  "gloomPool = (''#08080B'', [(0, rnd (95 / 100)), (42, rnd (72 / 100)), (78, rnd (1 / 10)), (100, 0)])"

section \<open>Lemmas\<close>

text \<open>A track stays between two bounds, returns to its value of rest, and is over soon.\<close>

definition track_ok :: "real \<Rightarrow> real \<Rightarrow> real \<Rightarrow> leg list \<Rightarrow> bool" where
  "track_ok lo hi x legs \<longleftrightarrow> list_all (\<lambda>(v, ms). lo \<le> v \<and> v \<le> hi) legs \<and> settles x legs = x \<and> sum_list (map snd legs) \<le> 340"

definition panels_ok :: "panels \<Rightarrow> bool" where
  "panels_ok p \<longleftrightarrow> track_ok 0 1 0 (pn_creatureFlash p) \<and> track_ok 0 1 0 (pn_playerFlash p) \<and> track_ok (- 9) 9 0 (pn_shake p) \<and>
     track_ok RECOIL_SCALE EMPOWER_SCALE 1 (pn_creatureScale p) \<and>
     track_ok RECOIL_SCALE EMPOWER_SCALE 1 (pn_playerScale p)"

fun fx_ok :: "panel_fx \<Rightarrow> bool" where
  "fx_ok (Shake mag) \<longleftrightarrow> 0 \<le> mag \<and> mag \<le> 9"
| "fx_ok _ \<longleftrightarrow> True"

lemma tracks_ok:
  "track_ok lo hi x []" "track_ok 0 1 0 triggerFlash"
  "track_ok RECOIL_SCALE EMPOWER_SCALE 1 triggerRecoil" "track_ok RECOIL_SCALE EMPOWER_SCALE 1 triggerEmpower"
proof -
  have "RECOIL_SCALE \<le> 1" "1 \<le> EMPOWER_SCALE" "RECOIL_SCALE \<le> EMPOWER_SCALE" by code_simp+
  then show "track_ok lo hi x []" "track_ok 0 1 0 triggerFlash"
    "track_ok RECOIL_SCALE EMPOWER_SCALE 1 triggerRecoil" "track_ok RECOIL_SCALE EMPOWER_SCALE 1 triggerEmpower"
    by (simp_all add: track_ok_def settles_def triggerFlash_def triggerRecoil_def triggerEmpower_def)
qed

lemma shake_ok: "0 \<le> mag \<Longrightarrow> mag \<le> 9 \<Longrightarrow> track_ok (- 9) 9 0 (shakeLegs mag)"
  using rnd_le_of_int[of "- mag / 2" 9] rnd_ge_of_int[of "- 9" "- mag / 2"]
  by (simp add: track_ok_def settles_def shakeLegs_def jmul_def)

interpretation panel_machine: step_machine playFx panels_ok fx_ok
proof
  fix p fx assume "panels_ok p" "fx_ok fx"
  then show "panels_ok (playFx p fx)"
    by (cases "(p, fx)" rule: playFx.cases) (simp_all add: panels_ok_def tracks_ok shake_ok)
qed

text \<open>Whatever hits a window shows, its panels come to rest, and never stray further than this.\<close>

lemma spawned_fx_ok:
  "list_all (\<lambda>ev. 0 \<le> ev_amount ev) evs \<Longrightarrow> list_all fx_ok fx \<Longrightarrow> list_all fx_ok (snd (snd (spawnBursts n evs bs fx)))"
proof (induction evs arbitrary: n bs fx)
  case (Cons ev evs)
  then have "0 \<le> shakeMagnitude (ev_amount ev) (ev_targetMaxHp ev)" "shakeMagnitude (ev_amount ev) (ev_targetMaxHp ev) \<le> 9"
    using shakeMagnitude_range[of "ev_amount ev" "ev_targetMaxHp ev"] by auto
  with Cons show ?case by simp
qed simp

lemma panels_settle:
  assumes "list_all (\<lambda>ev. 0 \<le> ev_amount ev) evs" and "panels_ok p"
  shows "panels_ok (foldl playFx p (snd (snd (spawnBursts n evs bs []))))"
  using panel_machine.run_inv[OF assms(2) spawned_fx_ok[OF assms(1)]] by simp

lemma floatPose_ok:
  assumes "span16 0 16 t" and "s = floatPose f t"
  shows "0 \<le> fp_opacity s \<and> fp_opacity s \<le> 1 \<and> - RISE_PX \<le> fp_y s \<and> fp_y s \<le> 0 \<and> fp_scale s \<le> 17 / 16"
    and "1 / 4 \<le> t \<Longrightarrow> fp_scale s = 1" and "t = 1 \<Longrightarrow> fp_opacity s = 0"
proof -
  have t: "0 \<le> t" "t \<le> 1" using assms(1) by (simp_all add: span16_def)
  have "span16 0 16 (jsub 1 t)" unfolding jsub_def using t by (intro span_rnd) (simp_all add: span16_def)
  moreover have "- 46 \<le> jmul (- 46) t" "jmul (- 46) t \<le> 0"
    using t rnd_ge_of_int[of "- 46" "- (46 * t)"] rnd_nonneg[of "46 * t"] by (simp_all add: jmul_def)
  moreover have "fp_scale s \<le> 17 / 16"
  proof -
    have "span16 0 16 (min 1 (jmul t 4))" using t by (simp add: span16_def jmul_nonneg)
    then have "span16 0 4 (jmul (rnd (2 / 10)) (min 1 (jmul t 4)))" by (intro jpart) (simp_all add: span16_def)
    moreover have "span16 12 13 (rnd (8 / 10))" by (intro span_rnd) (simp_all add: span16_def)
    ultimately have "span16 (12 + 0) (13 + 4) (jadd (rnd (8 / 10)) (jmul (rnd (2 / 10)) (min 1 (jmul t 4))))"
      unfolding jadd_def by (intro span_rnd[OF span_add]) simp_all
    then show ?thesis using assms(2) by (simp add: floatPose_def span16_def)
  qed
  ultimately show "0 \<le> fp_opacity s \<and> fp_opacity s \<le> 1 \<and> - RISE_PX \<le> fp_y s \<and> fp_y s \<le> 0 \<and> fp_scale s \<le> 17 / 16"
    using assms(2) by (simp add: floatPose_def RISE_PX_def span16_def)
  have "jadd (rnd (8 / 10)) (rnd (2 / 10)) = 1" by code_simp
  moreover have "1 \<le> jmul t 4" if "1 / 4 \<le> t" using that rnd_ge_of_int[of 1 "t * 4"] by (simp add: jmul_def)
  ultimately show "1 / 4 \<le> t \<Longrightarrow> fp_scale s = 1" using assms(2) by (simp add: floatPose_def jmul_def min_def)
  show "t = 1 \<Longrightarrow> fp_opacity s = 0" using assms(2) by (simp add: floatPose_def jsub_def)
qed

text \<open>Numbers of the same turn are spread over eighteen pixels to each side.\<close>

lemma floater_spread: "valid_draw u \<Longrightarrow> \<bar>fl_dx (spawnFloater i ev u)\<bar> \<le> 18"
proof -
  assume "valid_draw u"
  then have u: "0 \<le> u" "u \<le> 1" by (simp_all add: valid_draw_def)
  have "0 \<le> jmul u 2" "jmul u 2 \<le> 2" using u rnd_le_of_int[of "u * 2" 2] by (simp_all add: jmul_nonneg, simp add: jmul_def)
  then have "- 1 \<le> jsub (jmul u 2) 1" "jsub (jmul u 2) 1 \<le> 1"
    using rnd_ge_of_int[of "- 1" "jmul u 2 - 1"] rnd_le_of_int[of "jmul u 2 - 1" 1] by (simp_all add: jsub_def)
  then show ?thesis
    using rnd_ge_of_int[of "- 18" "jsub (jmul u 2) 1 * 18"] rnd_le_of_int[of "jsub (jmul u 2) 1 * 18" 18]
    by (simp add: spawnFloater_def FLOATER_DX_SPREAD_def jmul_def[of _ 18] abs_le_iff)
qed

text \<open>A burst starts at the centre, fades to nothing, and is gone within a second, as a number is.\<close>

lemma burst_starts: "rnd cx = cx \<Longrightarrow> rnd cy = cy \<Longrightarrow> burstPoint cx cy 0 p = (cx, cy)"
  by (simp add: burstPoint_def jmul_def jsub_def jadd_def)

lemma burst_fades:
  assumes "span16 0 16 t"
  shows "0 \<le> burstOpacity b t \<and> burstOpacity b t \<le> 1" and "burstOpacity b 1 = 0"
    and "0 < bp_lifetimeMs (burstPreset b) \<and> bp_lifetimeMs (burstPreset b) < 1000"
proof -
  have "span16 0 16 (jsub 1 t)" unfolding jsub_def using assms by (intro span_rnd) (simp_all add: span16_def)
  moreover have "span16 0 16 (RESIST_OPACITY r)" for r
    by (cases r; simp only: RESIST_OPACITY.simps) (rule span_rnd; simp add: span16_def | simp add: span16_def)+
  ultimately have "span16 0 16 (burstOpacity b t)"
    unfolding burstOpacity_def jmul_def by (intro span_rnd span_share) simp_all
  then show "0 \<le> burstOpacity b t \<and> burstOpacity b t \<le> 1" by (simp add: span16_def)
  show "burstOpacity b 1 = 0" by (simp add: burstOpacity_def jsub_def jmul_def)
  show "0 < bp_lifetimeMs (burstPreset b) \<and> bp_lifetimeMs (burstPreset b) < 1000"
    by (auto simp: burstPreset_def BUFF_PRESET_def DEBUFF_PRESET_def split: burst_kind.split option.split damage_type.split)
      (case_tac x2; simp)+
qed

text \<open>The glow is invisible at first and never stronger than its rarity's share; only the two best pulse.\<close>

lemma glow_ok:
  assumes "span16 0 16 i" and "span16 0 16 p"
  shows "0 \<le> glowOpacity r i p" and "glowOpacity r 0 p = 0" and "glowPulse r \<noteq> [] \<longleftrightarrow> Epic \<le> r"
proof -
  have "span16 0 4 (jmul (rnd (2 / 10)) p)" using assms(2) by (intro jpart) (simp_all add: span16_def)
  then have "span16 12 16 (jsub 1 (jmul (rnd (2 / 10)) p))" unfolding jsub_def by (intro span_rnd) (simp_all add: span16_def)
  moreover have "0 \<le> fst (snd (RARITY_GLOW r))" by (cases r) (simp_all add: rnd_nonneg)
  ultimately show "0 \<le> glowOpacity r i p" using assms(1) unfolding glowOpacity_def by (intro jmul_nonneg) (simp_all add: span16_def)
  show "glowOpacity r 0 p = 0" by (simp add: glowOpacity_def jmul_def)
  show "glowPulse r \<noteq> [] \<longleftrightarrow> Epic \<le> r" by (cases r) (simp_all add: glowPulse_def less_eq_rarity_def)
qed

text \<open>The pools fade outwards to nothing, and the pool by day is the lighter one.\<close>

lemma pools_fade:
  "list_all (\<lambda>stops. sorted_wrt (\<lambda>a b. fst a < fst b \<and> snd b \<le> snd a) stops \<and> last stops = (100, 0))
     [snd (groundPool True), snd (groundPool False), snd gloomPool]"
  "list_all2 (\<lambda>a b. snd a \<le> snd b) (snd (groundPool True)) (snd (groundPool False))"
  by code_simp+

end
