(* ===== verification/RevealView.thy ===== *)
theory RevealView
  imports Motion
begin

text \<open>
  How a reward is revealed (\<open>RewardRevealModal.tsx\<close>): the reset during the render that first sees a
  reveal, and what its effect starts: the haptic pattern, the flights of the particles, the shake
  and the delayed card. A reveal is an object with an identity; the clocks of the animations are
  outside the model, the values they start from and run to are in it.
\<close>

section \<open>The reset\<close>

record particle_values =
  pv_tx :: real
  pv_ty :: real
  pv_scale :: real
  pv_opacity :: real

record reveal_view =
  rw_shownReveal :: "nat option"
  rw_revealSeq :: nat
  rw_backdrop :: real
  rw_cardScale :: real
  rw_cardOpacity :: real
  rw_shakeX :: real
  rw_promptOpacity :: real
  rw_particles :: "particle_values list"

definition particle_hidden :: particle_values where
  "particle_hidden = \<lparr> pv_tx = 0, pv_ty = 0, pv_scale = 0, pv_opacity = 0 \<rparr>"

definition reveal_init :: reveal_view where
  "reveal_init =
     \<lparr> rw_shownReveal = None, rw_revealSeq = 0, rw_backdrop = 0, rw_cardScale = 0, rw_cardOpacity = 0, rw_shakeX = 0,
       rw_promptOpacity = 0, rw_particles = replicate POOL_SIZE particle_hidden \<rparr>"

definition revealRender :: "reveal_view \<Rightarrow> (nat \<times> reward_reveal) option \<Rightarrow> reveal_view" where
  "revealRender v reveal =
     (case reveal of
        None \<Rightarrow> v
      | Some (i, r) \<Rightarrow>
          if rw_shownReveal v = Some i then v
          else
            v\<lparr> rw_shownReveal := Some i, rw_revealSeq := Suc (rw_revealSeq v), rw_backdrop := 0,
               rw_cardScale := rnd (6 / 10), rw_cardOpacity := 0, rw_shakeX := 0, rw_promptOpacity := 0,
               rw_particles := map (\<lambda>_. particle_hidden) (rw_particles v) \<rparr>)"

section \<open>What the effect starts\<close>

record flight =
  ft_dx :: real
  ft_peakY :: real
  ft_fallY :: real

definition BURST_MS :: real where "BURST_MS = 900"

definition makeFlight :: "rarity_fx \<Rightarrow> flight rand" where
  "makeFlight fx = do {
     a \<leftarrow> math_random;
     b \<leftarrow> math_random;
     c \<leftarrow> math_random;
     d \<leftarrow> math_random;
     let angle = jmul (jmul a (rnd pi)) 2;
         spread = of_int (fx_spread fx);
         travelled = jmul spread (jadd (rnd (45 / 100)) (jmul b (rnd (55 / 100))))
     in State_Monad.return
          \<lparr> ft_dx = jmul (cos angle) travelled,
            ft_peakY = - jmul spread (jadd (rnd (3 / 10)) (jmul c (rnd (3 / 10)))),
            ft_fallY = jmul spread (jadd (rnd (55 / 100)) (jmul d (1 / 2))) \<rparr>
   }"

fun makeFlights :: "rarity_fx \<Rightarrow> nat \<Rightarrow> flight list rand" where
  "makeFlights fx 0 = State_Monad.return []"
| "makeFlights fx (Suc n) = do {
     f \<leftarrow> makeFlight fx;
     fs \<leftarrow> makeFlights fx n;
     State_Monad.return (f # fs)
   }"

text \<open>
  The tracks of a particle: where it is across, where it is down, its size and its opacity. A stage of
  a track has a target, or none if it only waits, and the milliseconds it takes.
\<close>

definition flightTracks :: "flight \<Rightarrow> (real option \<times> real) list list" where
  "flightTracks f =
     [[(Some (ft_dx f), BURST_MS)],
      [(Some (ft_peakY f), jmul BURST_MS (rnd (35 / 100))), (Some (ft_fallY f), jmul BURST_MS (rnd (65 / 100)))],
      [(Some 1, 90), (Some 0, jsub BURST_MS 90)],
      [(Some 1, 90), (None, jmul BURST_MS (rnd (4 / 10))), (Some 0, jsub (jmul BURST_MS (rnd (6 / 10))) 90)]]"

text \<open>The card fades in after the delay of its rarity, on a backdrop that was there before.\<close>

definition backdropTrack :: "(real option \<times> real) list" where
  "backdropTrack = [(Some 1, 150)]"

definition cardTrack :: "reward_reveal option \<Rightarrow> (real option \<times> real) list" where
  "cardTrack reveal = [(None, of_int (cardDelay reveal)), (Some 1, 220)]"

text \<open>\<open>pl_shake\<close> lists the four targets of the shake, \<open>pl_stagger\<close> the delay between two launches.\<close>

record reveal_plan =
  pl_haptic :: "int list"
  pl_flights :: "flight list"
  pl_stagger :: real
  pl_shake :: "real list"
  pl_cardDelay :: int

definition playReveal :: "reward_reveal option \<Rightarrow> reveal_plan option rand" where
  "playReveal reveal =
     (case reveal of
        None \<Rightarrow> State_Monad.return None
      | Some r \<Rightarrow>
          (case revealFx reveal of
             None \<Rightarrow>
               State_Monad.return (Some \<lparr> pl_haptic = [], pl_flights = [], pl_stagger = 0, pl_shake = [], pl_cardDelay = cardDelay reveal \<rparr>)
           | Some fx \<Rightarrow> do {
               fs \<leftarrow> makeFlights fx (fx_particles fx);
               State_Monad.return (Some
                 \<lparr> pl_haptic = fx_haptic fx, pl_flights = fs,
                   pl_stagger = jdiv (of_int (fx_emitMs fx)) (of_int (max 1 (int (fx_particles fx) - 1))),
                   pl_shake = (let s = of_int (fx_shake fx) in if fx_shake fx > 0 then [s, - s, jmul s (rnd (6 / 10)), 0] else []),
                   pl_cardDelay = cardDelay reveal \<rparr>)
             }))"

section \<open>Lemmas\<close>

definition hidden :: "reveal_view \<Rightarrow> bool" where
  "hidden v \<longleftrightarrow> rw_backdrop v = 0 \<and> rw_cardOpacity v = 0 \<and> rw_promptOpacity v = 0 \<and> rw_shakeX v = 0 \<and>
     list_all (\<lambda>p. pv_opacity p = 0 \<and> pv_scale p = 0) (rw_particles v)"

text \<open>The first paint of a reveal shows nothing of the one before; a later paint resets nothing.\<close>

lemma first_paint_hidden:
  "rw_shownReveal v \<noteq> Some i \<Longrightarrow> hidden (revealRender v (Some (i, r)))"
  "rw_shownReveal v = Some i \<Longrightarrow> revealRender v (Some (i, r)) = v"
  "rw_shownReveal (revealRender v (Some (i, r))) = Some i"
  by (simp_all add: revealRender_def hidden_def list_all_iff particle_hidden_def)

text \<open>
  The key of the glow counts the reveals: over any renders it has grown by the number of times the
  reveal changed, whether or not an empty render came between.
\<close>

fun changes :: "nat option \<Rightarrow> nat option list \<Rightarrow> nat" where
  "changes cur [] = 0"
| "changes cur (None # xs) = changes cur xs"
| "changes cur (Some i # xs) = (if cur = Some i then changes cur xs else Suc (changes (Some i) xs))"

lemma glow_key_counts:
  "rw_revealSeq (foldl revealRender v rs) = rw_revealSeq v + changes (rw_shownReveal v) (map (map_option fst) rs)"
proof (induction rs arbitrary: v)
  case (Cons r rs)
  then show ?case by (cases r) (auto simp: revealRender_def)
qed simp

lemma pool_kept: "length (rw_particles (foldl revealRender v rs)) = length (rw_particles v)"
proof (induction rs arbitrary: v)
  case (Cons r rs)
  then show ?case by (cases r) (auto simp: revealRender_def)
qed simp

text \<open>The four tracks of a particle end together, when it has shrunk and faded to nothing.\<close>

lemma flight_ends:
  "list_all (\<lambda>track. sum_list (map snd track) = BURST_MS) (flightTracks f)"
  "map (fst \<circ> last) (drop 2 (flightTracks f)) = [Some 0, Some 0]"
proof -
  have "BURST_MS = 900" "jmul BURST_MS (rnd (35 / 100)) = 315" "jmul BURST_MS (rnd (65 / 100)) = 585" "jsub BURST_MS 90 = 810"
    "jmul BURST_MS (rnd (4 / 10)) = 360" "jsub (jmul BURST_MS (rnd (6 / 10))) 90 = 450" by code_simp+
  then show "list_all (\<lambda>track. sum_list (map snd track) = BURST_MS) (flightTracks f)"
    "map (fst \<circ> last) (drop 2 (flightTracks f)) = [Some 0, Some 0]" by (simp_all add: flightTracks_def)
qed

text \<open>The card never appears before the backdrop is drawn, unless nothing was found.\<close>

lemma card_after_backdrop:
  assumes "rr_item r = Some it"
  shows "sum_list (map snd backdropTrack) < snd (hd (cardTrack (Some r)))"
  using assms by (cases "i_rarity it") (simp_all add: cardTrack_def backdropTrack_def cardDelay_def revealFx_def)

text \<open>A particle stays within the spread, rises first and falls below where it started.\<close>

definition flight_ok :: "rarity_fx \<Rightarrow> flight \<Rightarrow> bool" where
  "flight_ok fx f \<longleftrightarrow> \<bar>ft_dx f\<bar> \<le> of_int (fx_spread fx) \<and> ft_peakY f < 0 \<and> - of_int (fx_spread fx) \<le> ft_peakY f \<and> 0 < ft_fallY f \<and>
     ft_fallY f \<le> 2 * of_int (fx_spread fx)"

lemma share_between:
  assumes "valid_draw u" and "0 < rnd x" and "0 \<le> rnd k" and "jadd (rnd x) (rnd k) \<le> of_int m"
  shows "0 < jadd (rnd x) (jmul u (rnd k))" and "jadd (rnd x) (jmul u (rnd k)) \<le> of_int m"
proof -
  have u: "0 \<le> u" "u \<le> 1" using assms(1) by (simp_all add: valid_draw_def)
  have part: "0 \<le> jmul u (rnd k)" using u assms(3) by (intro jmul_nonneg)
  have "jmul u (rnd k) \<le> jmul 1 (rnd k)" using u assms(3) by (intro jmul_mono) simp_all
  then have "jadd (rnd x) (jmul u (rnd k)) \<le> jadd (rnd x) (rnd k)" by (intro jadd_mono) (simp_all add: jmul_def)
  then show "jadd (rnd x) (jmul u (rnd k)) \<le> of_int m" using assms(4) by simp
  have "0 < rnd x + jmul u (rnd k)" using assms(2) part by linarith
  then show "0 < jadd (rnd x) (jmul u (rnd k))" unfolding jadd_def by (rule rnd_strict_pos)
qed

lemma spread_share:
  assumes "0 < n" and "n \<le> 1000" and "0 < y" and "y \<le> of_int m" and "m \<le> 2"
  shows "0 < jmul (of_int n) y" and "jmul (of_int n) y \<le> of_int (n * m)"
proof -
  have "0 < of_int n * y" using assms by simp
  then show "0 < jmul (of_int n) y" unfolding jmul_def by (rule rnd_strict_pos)
  have "0 < m" using assms(3,4) by (metis less_le_trans of_int_0_less_iff)
  then have "n * m \<le> 1000 * 2" "0 \<le> n * m" using assms mult_mono[of n 1000 m 2] by simp_all
  moreover have "of_int n * y \<le> of_int (n * m)" using assms(1,4) by simp
  ultimately show "jmul (of_int n) y \<le> of_int (n * m)" unfolding jmul_def by (intro rnd_le_of_int) simp_all
qed

lemma makeFlight_ok:
  assumes "0 < fx_spread fx" and "fx_spread fx \<le> 1000"
  shows "rand_all (flight_ok fx) (makeFlight fx)"
proof -
  have nums: "jadd (rnd (45 / 100)) (rnd (55 / 100)) \<le> of_int 1" "jadd (rnd (3 / 10)) (rnd (3 / 10)) \<le> of_int 1"
    "jadd (rnd (55 / 100)) (rnd (1 / 2)) \<le> of_int 2" "rnd (1 / 2) = 1 / 2"
    "0 < rnd (45 / 100)" "0 < rnd (3 / 10)" "0 < rnd (55 / 100)" by code_simp+
  let ?s = "of_int (fx_spread fx) :: real"
  have dx: "\<bar>jmul (cos t) d\<bar> \<le> ?s" if "0 < d" "d \<le> ?s" for t d
  proof -
    have "\<bar>cos t * d\<bar> \<le> ?s" using that mult_mono[of "\<bar>cos t\<bar>" 1 d ?s] by (simp add: abs_mult)
    then have "cos t * d \<le> of_int (fx_spread fx)" "of_int (- fx_spread fx) \<le> cos t * d" by (simp_all add: abs_le_iff)
    then have "rnd (cos t * d) \<le> of_int (fx_spread fx)" "of_int (- fx_spread fx) \<le> rnd (cos t * d)"
      using assms by (intro rnd_le_of_int rnd_ge_of_int; simp)+
    then show ?thesis by (simp add: jmul_def abs_le_iff)
  qed
  have "flight_ok fx \<lparr> ft_dx = jmul (cos t) (jmul ?s (jadd (rnd (45 / 100)) (jmul b (rnd (55 / 100))))),
      ft_peakY = - jmul ?s (jadd (rnd (3 / 10)) (jmul c (rnd (3 / 10)))), ft_fallY = jmul ?s (jadd (rnd (55 / 100)) (jmul d (1 / 2))) \<rparr>"
    if draws: "valid_draw b" "valid_draw c" "valid_draw d" for t b c d
  proof -
    have pos: "0 \<le> rnd (55 / 100)" "0 \<le> rnd (3 / 10)" "0 \<le> rnd (1 / 2)" using nums by simp_all
    note y = share_between[OF draws(1) nums(5) pos(1) nums(1)] share_between[OF draws(2) nums(6) pos(2) nums(2)]
      share_between[OF draws(3) nums(7) pos(3) nums(3)]
    note z = spread_share[OF assms y(1,2)] spread_share[OF assms y(3,4)] spread_share[OF assms y(5,6)]
    show ?thesis using dx[of "jmul ?s (jadd (rnd (45 / 100)) (jmul b (rnd (55 / 100))))"] z nums(4) by (simp add: flight_ok_def)
  qed
  then show ?thesis unfolding makeFlight_def
    by (intro rand_all_bind[OF rand_all_random]) (simp add: Let_def rand_all_return)
qed

lemma makeFlights_ok:
  assumes "0 < fx_spread fx" and "fx_spread fx \<le> 1000"
  shows "rand_all (\<lambda>fs. length fs = n \<and> list_all (flight_ok fx) fs) (makeFlights fx n)"
  by (induction n) (auto intro!: rand_all_bind[OF makeFlight_ok[OF assms]] rand_all_bind rand_all_return)

text \<open>
  The effect of a reveal that brings an item: as many flights as its rarity has particles, which the
  pool can hold, launched over the whole emission window, and a shake that ends where it began.
\<close>

definition plan_ok :: "rarity \<Rightarrow> reveal_plan option \<Rightarrow> bool" where
  "plan_ok r plan \<longleftrightarrow> (\<exists>p. plan = Some p \<and> length (pl_flights p) = fx_particles (RARITY_FX r) \<and> length (pl_flights p) \<le> POOL_SIZE \<and>
     list_all (flight_ok (RARITY_FX r)) (pl_flights p) \<and> 0 < pl_stagger p \<and> (pl_shake p \<noteq> [] \<longrightarrow> last (pl_shake p) = 0) \<and>
     pl_cardDelay p = fx_cardDelay (RARITY_FX r))"

lemma playReveal_ok:
  assumes "reveal = Some rr" and "rr_item rr = Some it"
  shows "rand_all (plan_ok (i_rarity it)) (playReveal reveal)"
proof -
  let ?fx = "RARITY_FX (i_rarity it)"
  have fx: "revealFx reveal = Some ?fx" "0 < fx_spread ?fx" "fx_spread ?fx \<le> 1000" "fx_particles ?fx \<le> POOL_SIZE" "0 < fx_emitMs ?fx"
    using assms by (simp_all add: revealFx_def) (cases "i_rarity it"; simp add: POOL_SIZE_def)+
  have "0 < jdiv (of_int (fx_emitMs ?fx)) (of_int (max 1 (int (fx_particles ?fx) - 1)))"
    unfolding jdiv_def using fx(5) by (intro rnd_strict_pos divide_pos_pos) simp_all
  then show ?thesis unfolding playReveal_def
    using assms fx makeFlights_ok[OF fx(2,3), of "fx_particles ?fx"]
    by (auto simp: plan_ok_def cardDelay_def Let_def intro!: rand_all_bind rand_all_return)
qed

lemma plain_victory_plan:
  "rr_item r = None \<Longrightarrow> rand_all (\<lambda>plan. \<exists>p. plan = Some p \<and> pl_flights p = [] \<and> pl_cardDelay p = 80) (playReveal (Some r))"
  by (simp add: playReveal_def revealFx_def cardDelay_def rand_all_return)

end
