(* ===== verification/ConflictRace.thy ===== *)
theory ConflictRace
  imports AuthFlow
begin

text \<open>
  Resolving a conflict of accounts, wait by wait (\<open>hooks/useAuth.ts\<close>). \<open>AuthFlow\<close> has the handler as one
  step; here it is suspended at each of its waits, and callbacks of the auth package and further
  taps on the buttons arrive in between. The two guards of the hook make this harmless: however the
  events interleave, the handler does what the one step does, and it ends.
\<close>

section \<open>The handler between its waits\<close>

text \<open>What the handler waits for; the argument is what it needs to go on.\<close>

datatype resolve_task =
  AwaitRead pending_conflict
| AwaitLocalWrite player_data int
| AwaitCloudWrite player_data int
| AwaitClear
| AwaitReload
| AwaitRecord

text \<open>\<open>seen\<close> is the conflict of the render the tapped button belongs to.\<close>

definition resolveBegin :: "'s auth_world \<Rightarrow> pending_conflict option \<Rightarrow> conflict_choice \<Rightarrow> 's auth_world \<times> resolve_task option" where
  "resolveBegin w seen choice =
     (case seen of
        None \<Rightarrow> (w, None)
      | Some c \<Rightarrow>
          if aw_conflictResolving w then (w, None)
          else
            (w\<lparr> aw_conflictResolving := True, aw_conflictState := None \<rparr>,
             Some (case choice of
                     ChooseLocal \<Rightarrow> AwaitRead c
                   | ChooseCloud \<Rightarrow>
                       (case pc_cloudData c of Some d \<Rightarrow> AwaitCloudWrite d (pc_cloudSavedAt c) | None \<Rightarrow> AwaitClear))))"

definition reloads :: "'s auth_world \<Rightarrow> 's auth_world \<times> resolve_task option" where
  "reloads w = (onAccountChange w, Some AwaitReload)"

definition noteFailedWrite :: "'s auth_world \<Rightarrow> bool \<Rightarrow> 's auth_world" where
  "noteFailedWrite w ok = (if ok then w else alert w ''Storage error'')"

fun resumes :: "'s async_storage \<Rightarrow> 's auth_world \<Rightarrow> resolve_task \<Rightarrow> int \<Rightarrow> 's auth_world \<times> resolve_task option" where
  "resumes io w (AwaitRead c) now =
     (let ((freshData, freshSavedAt), s1) = readLocalPlayerSnapshot io (aw_store w);
          w1 = w\<lparr> aw_store := s1 \<rparr>
      in case (if freshData \<noteq> None then freshData else pc_localData c) of
           None \<Rightarrow> reloads w1
         | Some dataToSave \<Rightarrow>
             let freshTimestamp = max (if freshData \<noteq> None then freshSavedAt else pc_localSavedAt c) now
             in (w1\<lparr> aw_cloud := cloud_step (aw_cloud w1) (CSave dataToSave freshTimestamp) \<rparr>,
                 Some (AwaitLocalWrite dataToSave freshTimestamp)))"
| "resumes io w (AwaitLocalWrite d t) now =
     (let (ok, s) = writeLocalPlayerSnapshot io (aw_store w) d t in reloads (noteFailedWrite (w\<lparr> aw_store := s \<rparr>) ok))"
| "resumes io w (AwaitCloudWrite d t) now =
     reloads (w\<lparr> aw_store := snd (writeLocalPlayerSnapshot io (aw_store w) d t) \<rparr>)"
| "resumes io w AwaitClear now = reloads (w\<lparr> aw_store := clearLocalPlayerData io (aw_store w) \<rparr>)"
| "resumes io w AwaitReload now = (w, Some AwaitRecord)"
| "resumes io w AwaitRecord now =
     (w\<lparr> aw_store := clearPendingConflict io (aw_store w), aw_conflictResolutionPending := False, aw_conflictResolving := False \<rparr>, None)"

section \<open>Interleaving\<close>

datatype race_event = WaitOver int | AuthCallback "auth_user option" | ConflictTap "pending_conflict option" conflict_choice

definition race_step :: "'s async_storage \<Rightarrow> 's auth_world \<Rightarrow> resolve_task \<Rightarrow> race_event \<Rightarrow> 's auth_world \<times> resolve_task option" where
  "race_step io w t e =
     (case e of
        WaitOver now \<Rightarrow> resumes io w t now
      | AuthCallback user \<Rightarrow> (authStateChanged io w user, Some t)
      | ConflictTap seen choice \<Rightarrow>
          (case resolveBegin w seen choice of (w', None) \<Rightarrow> (w', Some t) | (w', Some t') \<Rightarrow> (w', Some t')))"

text \<open>The events until the handler has ended.\<close>

fun race :: "'s async_storage \<Rightarrow> 's auth_world \<times> resolve_task option \<Rightarrow> race_event list \<Rightarrow> 's auth_world \<times> resolve_task option" where
  "race io st [] = st"
| "race io (w, None) (e # es) = (w, None)"
| "race io (w, Some t) (e # es) = race io (race_step io w t e) es"

fun waits :: "race_event list \<Rightarrow> int list" where
  "waits [] = []"
| "waits (WaitOver now # es) = now # waits es"
| "waits (_ # es) = waits es"

section \<open>The guards\<close>

text \<open>While the handler runs, a callback only notes who is signed in, and a tap does nothing.\<close>

definition stamped :: "'s auth_world \<Rightarrow> auth_user option \<Rightarrow> string option \<Rightarrow> string option \<Rightarrow> 's auth_world" where
  "stamped w u prev last_uid = w\<lparr> aw_authUser := u, aw_prevUid := prev, aw_lastNonAnonUid := last_uid \<rparr>"

definition erased :: "'s auth_world \<Rightarrow> 's auth_world" where
  "erased w = stamped w None None None"

lemma stamped_simps [simp]:
  "aw_store (stamped w u p l) = aw_store w" "aw_session (stamped w u p l) = aw_session w" "aw_cloud (stamped w u p l) = aw_cloud w"
  "aw_conflictResolving (stamped w u p l) = aw_conflictResolving w" "aw_alerts (stamped w u p l) = aw_alerts w"
  "aw_conflictResolutionPending (stamped w u p l) = aw_conflictResolutionPending w" "erased (stamped w u p l) = erased w"
  by (simp_all add: stamped_def erased_def)

lemma callback_stamps:
  assumes "aw_conflictResolutionPending w"
  obtains u p l where "authStateChanged io w user = stamped w u p l"
proof -
  have "\<exists>u p l. authStateChanged io w user = stamped w u p l"
  proof (intro exI)
    show "authStateChanged io w user = stamped w user (map_option au_uid user)
        (case user of None \<Rightarrow> aw_lastNonAnonUid w | Some u \<Rightarrow> if au_isAnonymous u then aw_lastNonAnonUid w else Some (au_uid u))"
      using assms by (auto simp: authStateChanged_def noteNonAnonymous_def stamped_def Let_def split: option.split)
  qed
  then show ?thesis using that by blast
qed

definition running :: "'s auth_world \<Rightarrow> bool" where
  "running w \<longleftrightarrow> aw_conflictResolutionPending w \<and> aw_conflictResolving w"

lemma tap_ignored: "running w \<Longrightarrow> race_step io w t (ConflictTap seen choice) = (w, Some t)"
  by (simp add: race_step_def resolveBegin_def running_def split: option.split)

section \<open>What remains to be done\<close>

definition closes :: "'s async_storage \<Rightarrow> 's auth_world \<Rightarrow> 's auth_world" where
  "closes io w = w\<lparr> aw_store := clearPendingConflict io (aw_store w), aw_conflictResolutionPending := False, aw_conflictResolving := False \<rparr>"

fun rest :: "'s async_storage \<Rightarrow> 's auth_world \<Rightarrow> resolve_task \<Rightarrow> int \<Rightarrow> 's auth_world" where
  "rest io w (AwaitRead c) now = closes io (onAccountChange (keepLocal io w c now))"
| "rest io w (AwaitLocalWrite d t) now =
     closes io (onAccountChange (let (ok, s) = writeLocalPlayerSnapshot io (aw_store w) d t in noteFailedWrite (w\<lparr> aw_store := s \<rparr>) ok))"
| "rest io w (AwaitCloudWrite d t) now = closes io (onAccountChange (w\<lparr> aw_store := snd (writeLocalPlayerSnapshot io (aw_store w) d t) \<rparr>))"
| "rest io w AwaitClear now = closes io (onAccountChange (w\<lparr> aw_store := clearLocalPlayerData io (aw_store w) \<rparr>))"
| "rest io w AwaitReload now = closes io w"
| "rest io w AwaitRecord now = closes io w"

fun remaining :: "resolve_task \<Rightarrow> nat" where
  "remaining (AwaitRead _) = 4"
| "remaining (AwaitLocalWrite _ _) = 3"
| "remaining (AwaitCloudWrite _ _) = 3"
| "remaining AwaitClear = 3"
| "remaining AwaitReload = 2"
| "remaining AwaitRecord = 1"

text \<open>Only the reading needs the time of day.\<close>

definition timeless :: "resolve_task \<Rightarrow> bool" where
  "timeless t \<longleftrightarrow> (\<forall>c. t \<noteq> AwaitRead c)"

lemma rest_timeless: "timeless t \<Longrightarrow> rest io w t now = rest io w t now'"
  by (cases t) (simp_all add: timeless_def)

lemma rest_stamped: "rest io (stamped w u p l) t now = stamped (rest io w t now) u p l"
  by (cases t)
    (simp_all add: closes_def onAccountChange_def keepLocal_def noteFailedWrite_def alert_def stamped_def Let_def case_prod_beta
      split: option.split)

lemma resumes_step:
  assumes "resumes io w t now = (w', Some t')" and "running w"
  shows "rest io w' t' now = rest io w t now" and "running w'" and "timeless t'" and "remaining t' < remaining t"
  using assms
  by (cases t; auto simp: reloads_def keepLocal_def noteFailedWrite_def alert_def onAccountChange_def running_def timeless_def Let_def
      split: prod.splits option.splits if_splits)+

lemma resumes_last: "resumes io w t now = (w', None) \<Longrightarrow> w' = rest io w t now"
  by (cases t) (auto simp: reloads_def closes_def Let_def split: prod.splits option.splits)

lemma begin_rest:
  assumes "aw_conflictState w = Some c" and "\<not> aw_conflictResolving w" and "aw_conflictResolutionPending w"
    and "resolveBegin w (Some c) choice = (w', t)"
  shows "\<exists>t'. t = Some t' \<and> running w' \<and> remaining t' \<le> 4 \<and> rest io w' t' now = resolveConflict io w choice now"
proof -
  have w': "w' = w\<lparr> aw_conflictResolving := True, aw_conflictState := None \<rparr>" using assms by (simp add: resolveBegin_def)
  then have "running w'" using assms(3) by (simp add: running_def)
  then show ?thesis using assms w'
    by (cases choice; cases "pc_cloudData c")
      (auto simp: resolveBegin_def resolveConflict_def keepCloud_def closes_def Let_def)
qed

section \<open>Every interleaving is the one step\<close>

lemma race_undisturbed:
  assumes "running w" and "race io (w, Some t) es = (w', None)"
  shows "\<exists>now \<in> set (waits es). erased w' = erased (rest io w t now)"
  using assms
proof (induction es arbitrary: w t)
  case (Cons e es)
  show ?case
  proof (cases e)
    case (WaitOver now)
    obtain v s where v: "resumes io w t now = (v, s)" by force
    show ?thesis
    proof (cases s)
      case None
      have "race io (v, None) es = (v, None)" by (cases es) simp_all
      then have "w' = v" using Cons.prems v None WaitOver by (simp add: race_step_def)
      then show ?thesis using resumes_last[of io w t now v] v None WaitOver by auto
    next
      case (Some t')
      note step = resumes_step[OF v[unfolded Some] Cons.prems(1)]
      have "race io (v, Some t') es = (w', None)" using Cons.prems v Some WaitOver by (simp add: race_step_def)
      then obtain n where "erased w' = erased (rest io v t' n)" using Cons.IH[OF step(2)] by blast
      then have "erased w' = erased (rest io w t now)" using rest_timeless[OF step(3), of io v n now] step(1) by simp
      then show ?thesis using WaitOver by auto
    qed
  next
    case (AuthCallback user)
    obtain u p l where s: "authStateChanged io w user = stamped w u p l"
      using callback_stamps Cons.prems(1) unfolding running_def by blast
    have "running (stamped w u p l)" using Cons.prems(1) by (simp add: running_def)
    moreover have "race io (stamped w u p l, Some t) es = (w', None)" using Cons.prems AuthCallback s by (simp add: race_step_def)
    ultimately show ?thesis using Cons.IH[of "stamped w u p l" t] AuthCallback by (simp add: rest_stamped)
  next
    case (ConflictTap seen choice)
    then show ?thesis using Cons tap_ignored[OF Cons.prems(1), of io t seen choice] by simp
  qed
qed simp

lemma race_ends:
  assumes "running w" and "remaining t \<le> length (waits es)"
  shows "snd (race io (w, Some t) es) = None"
  using assms
proof (induction es arbitrary: w t)
  case Nil
  then show ?case by (cases t) simp_all
next
  case (Cons e es)
  show ?case
  proof (cases e)
    case (WaitOver now)
    obtain v s where v: "resumes io w t now = (v, s)" by force
    show ?thesis
    proof (cases s)
      case None
      then show ?thesis using v WaitOver by (cases es) (simp_all add: race_step_def)
    next
      case (Some t')
      note step = resumes_step[OF v[unfolded Some] Cons.prems(1)]
      show ?thesis using Cons.IH[OF step(2), of t'] step(4) Cons.prems(2) v Some WaitOver by (simp add: race_step_def)
    qed
  next
    case (AuthCallback user)
    obtain u p l where s: "authStateChanged io w user = stamped w u p l"
      using callback_stamps Cons.prems(1) unfolding running_def by blast
    have "running (stamped w u p l)" using Cons.prems(1) by (simp add: running_def)
    then show ?thesis using Cons.IH[of "stamped w u p l" t] Cons.prems(2) s AuthCallback by (simp add: race_step_def)
  next
    case (ConflictTap seen choice)
    then show ?thesis using Cons tap_ignored[OF Cons.prems(1), of io t seen choice] by simp
  qed
qed

end
