(* ===== verification/Reporting.thy ===== *)
theory Reporting
  imports AppShell CombatText
begin

text \<open>
  Logging, crash reports, analytics and the start of the backend: \<open>utils/logger.ts\<close>,
  \<open>services/CrashlyticsService.ts\<close>, \<open>services/AnalyticsService.ts\<close>, \<open>components/common/ErrorBoundary.tsx\<close> and
  \<open>services/FirebaseService.ts\<close>. What the packages receive is recorded;
  whether a call of theirs throws is an argument. A logged value that is not an error is
  represented by the text it is printed as.
\<close>

section \<open>Crash reports\<close>

datatype log_arg = ArgError string | ArgText string

datatype log_level = LvDebug | LvLog | LvInfo | LvWarn | LvError

text \<open>A value of an attribute or of an event, and what is asked of the analytics package.\<close>

datatype param = PText string | PNum int | PBool bool

datatype analytics_call = LogEvent string "(string \<times> param) list" | LogLogin "(string \<times> param) list"

record sink =
  sk_console :: "(log_level \<times> log_arg list) list"
  sk_breadcrumbs :: "string list"
  sk_errors :: "(string \<times> string option) list"
  sk_collection :: "bool list"
  sk_crashes :: nat
  sk_attributes :: "(string \<times> string) list"
  sk_userId :: "string option"
  sk_analytics :: "analytics_call list"

definition sink_init :: sink where
  "sink_init = \<lparr> sk_console = [], sk_breadcrumbs = [], sk_errors = [], sk_collection = [], sk_crashes = 0,
     sk_attributes = [], sk_userId = None, sk_analytics = [] \<rparr>"

definition print :: "sink \<Rightarrow> log_level \<Rightarrow> log_arg list \<Rightarrow> sink" where
  "print s lv args = s\<lparr> sk_console := sk_console s @ [(lv, args)] \<rparr>"

definition crashlyticsLog :: "sink \<Rightarrow> string \<Rightarrow> bool \<Rightarrow> sink" where
  "crashlyticsLog s message ok =
     (if ok then s\<lparr> sk_breadcrumbs := sk_breadcrumbs s @ [message] \<rparr>
      else print s LvError [ArgText ''Error logging to Crashlytics:'', ArgError ''rejected''])"

fun arg_text :: "log_arg \<Rightarrow> string" where
  "arg_text (ArgError m) = m"
| "arg_text (ArgText m) = m"

definition recordError :: "sink \<Rightarrow> log_arg \<Rightarrow> string option \<Rightarrow> bool \<Rightarrow> sink" where
  "recordError s err jsErrorName ok =
     (if ok then s\<lparr> sk_errors := sk_errors s @ [(arg_text err, jsErrorName)] \<rparr>
      else print s LvError [ArgText ''Error recording error to Crashlytics:'', ArgError ''rejected''])"

text \<open>
  \<open>Inl\<close> is the thrown error, \<open>Inr\<close> the new value of \<open>initialized\<close>. Collection is switched on
  explicitly in development only.
\<close>

definition crashlyticsInitialize :: "sink \<Rightarrow> bool \<Rightarrow> bool \<Rightarrow> bool \<Rightarrow> (string + bool) \<times> sink" where
  "crashlyticsInitialize s initialized dev ok =
     (if initialized \<or> \<not> dev then (Inr True, s)
      else if ok then (Inr True, s\<lparr> sk_collection := sk_collection s @ [True] \<rparr>)
      else (Inl ''rejected'', print s LvError [ArgText ''Error initializing Crashlytics:'', ArgError ''rejected'']))"

fun param_text :: "param \<Rightarrow> string" where
  "param_text (PText t) = t"
| "param_text (PNum n) = show_int n"
| "param_text (PBool b) = (if b then ''true'' else ''false'')"

definition crashlyticsSetAttribute :: "sink \<Rightarrow> string \<Rightarrow> param \<Rightarrow> bool \<Rightarrow> sink" where
  "crashlyticsSetAttribute s key v ok =
     (if ok then s\<lparr> sk_attributes := sk_attributes s @ [(key, param_text v)] \<rparr>
      else print s LvError [ArgText ''Error setting Crashlytics attribute:'', ArgError ''rejected''])"

definition crashlyticsSetUserId :: "sink \<Rightarrow> string \<Rightarrow> bool \<Rightarrow> sink" where
  "crashlyticsSetUserId s userId ok =
     (if ok then s\<lparr> sk_userId := Some userId \<rparr>
      else print s LvError [ArgText ''Error setting Crashlytics user ID:'', ArgError ''rejected''])"

definition setCollectionEnabled :: "sink \<Rightarrow> bool \<Rightarrow> bool \<Rightarrow> sink" where
  "setCollectionEnabled s enabled ok =
     (if ok then s\<lparr> sk_collection := sk_collection s @ [enabled] \<rparr>
      else print s LvError [ArgText ''Error setting Crashlytics collection enabled:'', ArgError ''rejected''])"

text \<open>Each attribute is set on its own, with the answer beside it.\<close>

definition crashlyticsSetAttributes :: "sink \<Rightarrow> (string \<times> param \<times> bool) list \<Rightarrow> sink" where
  "crashlyticsSetAttributes s attributes = foldl (\<lambda>k (key, v, ok). crashlyticsSetAttribute k key v ok) s attributes"

fun environment_name :: "app_environment \<Rightarrow> string" where
  "environment_name Development = ''development''"
| "environment_name Testing = ''testing''"
| "environment_name Production = ''production''"

text \<open>The deliberate crash; the first component is the thrown error, if any.\<close>

definition crashTest :: "env_config \<Rightarrow> sink \<Rightarrow> bool \<Rightarrow> string option \<times> sink" where
  "crashTest cfg s ok =
     (if \<not> ec_enableCrashTest cfg
      then (None, print s LvWarn [ArgText ''Crash test is only available in development or testing builds''])
      else if \<not> ok
      then (Some ''rejected'', print s LvError
              [ArgText ''Error enabling Crashlytics collection or crashing:'', ArgError ''rejected''])
      else
        let s1 = s\<lparr> sk_collection := sk_collection s @ [True] \<rparr>;
            envName = map to_upper (environment_name (ec_environmentName cfg));
            s2 = print s1 LvWarn [ArgText ([CHR 0xE2, CHR 0x9A, CHR 0xA0, CHR 0xEF, CHR 0xB8, CHR 0x8F] @
                   '' Forcing crash for testing ('' @ envName @ '' MODE)...'')];
            s3 = print s2 LvWarn [ArgText ''Crashlytics collection enabled, crashing now...'']
        in (None, s3\<lparr> sk_crashes := Suc (sk_crashes s3) \<rparr>))"

section \<open>The logger\<close>

definition toMessage :: "log_arg list \<Rightarrow> string" where
  "toMessage args = join '' '' (map arg_text args)"

definition firstError :: "log_arg list \<Rightarrow> log_arg option" where
  "firstError args = find (\<lambda>a. case a of ArgError _ \<Rightarrow> True | ArgText _ \<Rightarrow> False) args"

definition logAt :: "app_environment \<Rightarrow> sink \<Rightarrow> log_level \<Rightarrow> log_arg list \<Rightarrow> bool \<Rightarrow> sink" where
  "logAt env s lv args ok =
     (let s1 = (if env \<noteq> Production then print s lv args else s)
      in case lv of
           LvWarn \<Rightarrow> crashlyticsLog s1 (''WARN: '' @ toMessage args) ok
         | LvError \<Rightarrow>
             recordError s1 (case firstError args of Some e \<Rightarrow> e | None \<Rightarrow> ArgError (toMessage args)) None ok
         | _ \<Rightarrow> s1)"

section \<open>Analytics\<close>

datatype analytics_event =
  EncounterTriggered string int int | CombatStarted string int | CombatVictory string int int bool bool
| ItemDropped string string int int | CombatDefeated string int | CombatFled string int
| DistanceMilestone int real | PlayerSessionStart int real | LevelUp int
| TrackingStarted | TrackingStopped | SignIn string | SignOut | AccountDeleted

fun analyticsCall :: "analytics_event \<Rightarrow> analytics_call" where
  "analyticsCall (EncounterTriggered c cl pl) = LogEvent ''encounter_triggered''
     [(''creature_name'', PText c), (''creature_level'', PNum cl), (''player_level'', PNum pl)]"
| "analyticsCall (CombatStarted c pl) = LogEvent ''combat_started'' [(''creature_name'', PText c), (''player_level'', PNum pl)]"
| "analyticsCall (CombatVictory c pl xp dropped up) = LogEvent ''combat_victory''
     [(''creature_name'', PText c), (''player_level'', PNum pl), (''xp_gained'', PNum xp), (''item_dropped'', PBool dropped),
      (''leveled_up'', PBool up)]"
| "analyticsCall (ItemDropped r slot il pl) = LogEvent ''item_dropped''
     [(''rarity'', PText r), (''slot'', PText slot), (''item_level'', PNum il), (''player_level'', PNum pl)]"
| "analyticsCall (CombatDefeated c pl) = LogEvent ''combat_defeat'' [(''creature_name'', PText c), (''player_level'', PNum pl)]"
| "analyticsCall (CombatFled c pl) = LogEvent ''combat_fled'' [(''creature_name'', PText c), (''player_level'', PNum pl)]"
| "analyticsCall (DistanceMilestone m metres) = LogEvent ''distance_milestone''
     [(''milestone_m'', PNum m), (''total_distance_m'', PNum (math_round metres))]"
| "analyticsCall (PlayerSessionStart pl metres) = LogEvent ''player_session_start''
     [(''player_level'', PNum pl), (''total_distance_m'', PNum (math_round metres))]"
| "analyticsCall (LevelUp l) = LogEvent ''level_up'' [(''new_level'', PNum l)]"
| "analyticsCall TrackingStarted = LogEvent ''tracking_started'' []"
| "analyticsCall TrackingStopped = LogEvent ''tracking_stopped'' []"
| "analyticsCall (SignIn provider) = LogLogin [(''method'', PText provider)]"
| "analyticsCall SignOut = LogEvent ''sign_out'' []"
| "analyticsCall AccountDeleted = LogEvent ''account_deleted'' []"

definition analytics :: "app_environment \<Rightarrow> sink \<Rightarrow> analytics_event \<Rightarrow> bool \<Rightarrow> sink" where
  "analytics env s ev ok =
     (let s1 = s\<lparr> sk_analytics := sk_analytics s @ [analyticsCall ev] \<rparr>
      in if ok then s1
         else case analyticsCall ev of
             LogEvent name _ \<Rightarrow> logAt env s1 LvWarn [ArgText ''Analytics:'', ArgText name, ArgError ''rejected''] True
           | LogLogin _ \<Rightarrow> logAt env s1 LvWarn [ArgText ''Analytics: sign_in'', ArgError ''rejected''] True)"

section \<open>The error boundary\<close>

record boundary =
  eb_hasError :: bool
  eb_error :: "string option"

definition boundary_init :: boundary where
  "boundary_init = \<lparr> eb_hasError = False, eb_error = None \<rparr>"

definition getDerivedStateFromError :: "string \<Rightarrow> boundary" where
  "getDerivedStateFromError err = \<lparr> eb_hasError = True, eb_error = Some err \<rparr>"

definition componentDidCatch :: "app_environment \<Rightarrow> sink \<Rightarrow> string \<Rightarrow> string \<Rightarrow> bool \<Rightarrow> sink" where
  "componentDidCatch env s err componentStack ok =
     logAt env (recordError s (ArgError err) (Some ''ReactRenderError'') ok) LvDebug
       [ArgText ''ErrorBoundary caught a render error:'', ArgError err, ArgText componentStack] ok"

definition boundaryReset :: "boundary \<Rightarrow> boundary" where
  "boundaryReset b = b\<lparr> eb_hasError := False, eb_error := None \<rparr>"

section \<open>Starting the backend\<close>

text \<open>
  What \<open>_doInitialize\<close> waits for: the next look at the list of apps, with the retries left, or the
  crash reporter. \<open>fb_promise\<close>: \<open>initializationPromise\<close> is set. \<open>apps\<close> and \<open>projectId\<close> are what the
  package answers at that moment.
\<close>

datatype fb_frame = Waiting nat | StartingCrashlytics

record firebase =
  fb_initialized :: bool
  fb_promise :: bool
  fb_frame :: "fb_frame option"
  fb_failures :: nat

definition firebase_init :: firebase where
  "firebase_init = \<lparr> fb_initialized = False, fb_promise = False, fb_frame = None, fb_failures = 0 \<rparr>"

definition fbFails :: "firebase \<Rightarrow> firebase" where
  "fbFails fb = fb\<lparr> fb_promise := False, fb_frame := None, fb_failures := Suc (fb_failures fb) \<rparr>"

definition fbLoop :: "firebase \<Rightarrow> nat \<Rightarrow> bool \<Rightarrow> bool \<Rightarrow> firebase" where
  "fbLoop fb retries apps projectId =
     (if \<not> apps \<and> retries > 0 then fb\<lparr> fb_frame := Some (Waiting retries) \<rparr>
      else if \<not> apps then fbFails fb
      else if \<not> projectId then fbFails fb
      else fb\<lparr> fb_frame := Some StartingCrashlytics \<rparr>)"

text \<open>The call runs to its first wait before its promise is assigned.\<close>

definition fbInitialize :: "firebase \<Rightarrow> bool \<Rightarrow> bool \<Rightarrow> firebase" where
  "fbInitialize fb apps projectId =
     (if fb_initialized fb \<or> fb_promise fb then fb
      else (fbLoop fb 10 apps projectId)\<lparr> fb_promise := True \<rparr>)"

definition fbTimer :: "firebase \<Rightarrow> bool \<Rightarrow> bool \<Rightarrow> firebase" where
  "fbTimer fb apps projectId =
     (case fb_frame fb of
        Some (Waiting retries) \<Rightarrow> fbLoop (fb\<lparr> fb_frame := None \<rparr>) (retries - 1) apps projectId
      | _ \<Rightarrow> fb)"

text \<open>A crash reporter that does not start is only logged.\<close>

definition fbCrashlyticsSettles :: "firebase \<Rightarrow> firebase" where
  "fbCrashlyticsSettles fb =
     (if fb_frame fb = Some StartingCrashlytics then fb\<lparr> fb_frame := None, fb_initialized := True \<rparr> else fb)"

definition fbGetApp :: "firebase \<Rightarrow> 'a \<Rightarrow> string + 'a" where
  "fbGetApp fb app =
     (if fb_initialized fb then Inr app else Inl ''Firebase has not been initialized. Call initialize() first.'')"

datatype fb_event = FbInitialize bool bool | FbTimer bool bool | FbCrashlytics

fun fb_step :: "firebase \<Rightarrow> fb_event \<Rightarrow> firebase" where
  "fb_step fb (FbInitialize apps pid) = fbInitialize fb apps pid"
| "fb_step fb (FbTimer apps pid) = fbTimer fb apps pid"
| "fb_step fb FbCrashlytics = fbCrashlyticsSettles fb"

section \<open>Lemmas: reports\<close>

text \<open>A release build prints nothing, and loses no warning and no error.\<close>

lemma release_is_quiet: "sk_console (logAt Production s lv args True) = sk_console s"
  by (cases lv) (simp_all add: logAt_def crashlyticsLog_def recordError_def)

lemma forwarding_ignores_environment:
  "sk_errors (logAt env s lv args ok) = sk_errors (logAt env' s lv args ok)"
  "sk_breadcrumbs (logAt env s lv args ok) = sk_breadcrumbs (logAt env' s lv args ok)"
  by (cases lv; simp add: logAt_def crashlyticsLog_def recordError_def print_def)+

lemma logged_error_reported:
  "sk_errors (logAt env s LvError args True) =
     sk_errors s @ [(case firstError args of Some e \<Rightarrow> arg_text e | None \<Rightarrow> toMessage args, None)]"
  by (simp add: logAt_def recordError_def print_def split: option.split)

text \<open>An error of rendering is reported exactly once and under its label, and can be dismissed.\<close>

lemma render_error_reported_once:
  "sk_errors (componentDidCatch env s err st True) = sk_errors s @ [(err, Some ''ReactRenderError'')]"
  "sk_breadcrumbs (componentDidCatch env s err st ok) = sk_breadcrumbs s"
  "boundaryReset (getDerivedStateFromError err) = boundary_init"
  by (simp_all add: componentDidCatch_def logAt_def recordError_def print_def boundaryReset_def getDerivedStateFromError_def
      boundary_init_def)

text \<open>A rejected analytics call leaves one breadcrumb and no error; totals are off by at most half a metre.\<close>

lemma analytics_failure_harmless:
  "sk_errors (analytics env s ev ok) = sk_errors s"
  "length (sk_breadcrumbs (analytics env s ev ok)) = length (sk_breadcrumbs s) + (if ok then 0 else 1)"
  "sk_analytics (analytics env s ev ok) = sk_analytics s @ [analyticsCall ev]"
  by (simp_all add: analytics_def logAt_def crashlyticsLog_def print_def Let_def split: analytics_call.split)

lemma milestone_rounded:
  "\<exists>n. analyticsCall (DistanceMilestone m metres) = LogEvent ''distance_milestone'' [(''milestone_m'', PNum m), (''total_distance_m'', PNum n)] \<and>
     \<bar>of_int n - metres\<bar> \<le> 1 / 2"
proof -
  have "\<bar>of_int (math_round metres) - metres\<bar> \<le> 1 / 2" unfolding math_round_def by linarith
  then show ?thesis by simp
qed

lemma no_crash_in_release: "sk_crashes (snd (crashTest (ENV_CONFIG Production) s ok)) = sk_crashes s"
  by (simp add: crashTest_def ENV_CONFIG_def print_def)

section \<open>Lemmas: the backend\<close>

text \<open>At most one start is under way, with at most ten looks left, and only while its promise is held.\<close>

definition fb_ok :: "firebase \<Rightarrow> bool" where
  "fb_ok fb \<longleftrightarrow> (fb_frame fb \<noteq> None \<longrightarrow> fb_promise fb \<and> \<not> fb_initialized fb) \<and> (fb_initialized fb \<longrightarrow> fb_promise fb) \<and>
     (case fb_frame fb of Some (Waiting n) \<Rightarrow> 0 < n \<and> n \<le> 10 | _ \<Rightarrow> True)"

interpretation firebase_machine: step_machine fb_step fb_ok "\<lambda>_. True"
proof
  fix fb e assume "fb_ok fb"
  then show "fb_ok (fb_step fb e)"
    by (cases e) (auto simp: fb_ok_def fbInitialize_def fbTimer_def fbCrashlyticsSettles_def fbLoop_def fbFails_def
        split: option.splits fb_frame.splits if_splits)
qed

lemma firebase_init_ok: "fb_ok firebase_init"
  by (simp add: fb_ok_def firebase_init_def)

text \<open>The loop ends: with the apps missing throughout, the last look fails and the next call starts afresh.\<close>

lemma waits_end:
  assumes "fb_frame fb = Some (Waiting n)" and "0 < n" and "\<not> fb_initialized fb"
  shows "((\<lambda>f. fbTimer f False pid) ^^ n) fb = fbFails (fb\<lparr> fb_frame := None \<rparr>)"
  using assms
proof (induction n arbitrary: fb)
  case (Suc n)
  show ?case
  proof (cases n)
    case 0
    then show ?thesis using Suc.prems by (simp add: fbTimer_def fbLoop_def)
  next
    case (Suc m)
    have step: "fbTimer fb False pid = fb\<lparr> fb_frame := Some (Waiting n) \<rparr>"
      using Suc.prems Suc by (simp add: fbTimer_def fbLoop_def)
    show ?thesis
      using Suc.IH[of "fb\<lparr> fb_frame := Some (Waiting n) \<rparr>"] Suc.prems Suc unfolding funpow_Suc_right o_apply step by simp
  qed
qed simp

lemma waits_left:
  assumes "fb_frame fb = Some (Waiting n)" and "m < n"
  shows "fb_frame (((\<lambda>f. fbTimer f False pid) ^^ m) fb) = Some (Waiting (n - m))"
  using assms(2)
proof (induction m)
  case (Suc m)
  then show ?case by (simp add: fbTimer_def fbLoop_def)
qed (use assms(1) in simp)

lemma apps_found:
  assumes "fb_frame fb = Some (Waiting n)"
  shows "fb_initialized (fbCrashlyticsSettles (fbTimer fb True True))"
  using assms by (simp add: fbTimer_def fbLoop_def fbCrashlyticsSettles_def)

text \<open>
  A start that fails before its first wait clears the promise first and assigns the rejected one
  afterwards: no later call tries again.
\<close>

lemma early_failure_wedges:
  assumes "\<not> fb_initialized fb" and "\<not> fb_promise fb" and "fb_frame fb = None"
  shows "\<not> fb_initialized (foldl fb_step (fbInitialize fb True False) es)"
proof -
  let ?stuck = "\<lambda>f. \<not> fb_initialized f \<and> fb_promise f \<and> fb_frame f = None"
  have "?stuck (fb_step f e)" if "?stuck f" for f e
    using that by (cases e) (simp_all add: fbInitialize_def fbTimer_def fbCrashlyticsSettles_def)
  then have "?stuck f \<Longrightarrow> ?stuck (foldl fb_step f es)" for f by (induction es arbitrary: f) simp_all
  moreover have "?stuck (fbInitialize fb True False)" using assms by (simp add: fbInitialize_def fbLoop_def fbFails_def)
  ultimately show ?thesis by blast
qed

end
