(* ===== verification/Samples.thy ===== *)
theory Samples
  imports Startup RevealView ConflictRace Reporting
begin

text \<open>
  Concrete values at which the properties are exercised: a new Martial player, a foe, a controller
  in the middle of a fight with a generator that always draws zero, a guest whose save is on the
  device, an app in the background, a player who carries a blade, and a home screen with a foe.
\<close>

definition sample_player :: player where
  "sample_player = new_Player (no_params\<lparr> q_archetype := Some Martial, q_level := Some 1 \<rparr>)"

definition sample_creature :: creature where
  "sample_creature =
     \<lparr> c_id = ''c1'', c_name = ''Alley Cur'', c_type = ''Beast'', c_level = 1, c_hp = 30, c_maxHp = 30,
       c_attack = 8, c_defense = 3, c_speed = 6, c_rarity = Common, c_description = ''A stray.'',
       c_encounterRate = 1 / 2, c_resistances = (\<lambda>d. if d = Fire then 1 / 2 else 0) \<rparr>"

definition sample_location :: location where
  "sample_location = \<lparr> l_latitude = 10, l_longitude = 20 \<rparr>"

definition sample_encounter :: encounter where
  "sample_encounter =
     \<lparr> e_creature = sample_creature, e_location = sample_location, e_timestamp = 5, e_playerLevel = 1,
       e_status = Active, e_daylight = Some True \<rparr>"

definition sample_hook :: hook where
  "sample_hook = (hook_init (sconst 0) 1000)
     \<lparr> h_player := Some sample_player, h_encounter := Some (0, sample_encounter), h_nextRef := 1,
       h_showCombatModal := True, h_playerCombatState := Some (initCombatState Martial),
       h_creatureCombatState := Some noEffects \<rparr>"

text \<open>The same fight on the enemy's turn, and in the kill beat.\<close>

definition sample_enemy_turn :: hook where
  "sample_enemy_turn = sample_hook\<lparr> h_counterPending := True, h_isEnemyTurn := True,
     h_counterTimer := Some (Brace 8 6 sample_creature (Some 0)) \<rparr>"

definition sample_kill_beat :: hook where
  "sample_kill_beat = sample_hook\<lparr> h_killBeatPending := True, h_killBeatTimer := Some sample_player \<rparr>"

text \<open>A walker without an encounter who reports eleven hundred metres.\<close>

definition sample_walk :: hook where
  "sample_walk = sample_hook\<lparr> h_encounter := None \<rparr>"

definition sample_report :: distance_data where
  "sample_report =
     \<lparr> dd_incremental = 1100, dd_total = 1100,
       dd_location = \<lparr> l_latitude = 10, l_longitude = 20, l_accuracy = 5, l_altitude = None, l_heading = None,
         l_speed = 1, l_timestamp = 1000 \<rparr> \<rparr>"

definition sample_entry :: walk_entry where
  "sample_entry = \<lparr> w_creatureName = ''Alley Cur'', w_rarity = Common, w_won = True, w_xpGained = 15,
     w_item = None, w_timestamp = 1000 \<rparr>"

definition sample_item :: item where
  "sample_item =
     \<lparr> i_id = ''i1'', i_name = ''Iron Blade'', i_description = ''A blade.'', i_rarity = Common, i_level = 1,
       i_attack = Some 3, i_defense = None, i_maxHp = None, i_dropChance = 1 / 2, i_affixes = None,
       i_type = Weapon \<rparr>"

definition basic_strike :: ability where
  "basic_strike = hd (ARCHETYPE_ABILITIES Martial)"

lemma sample_player_ok [simp]: "player_ok sample_player"
  unfolding sample_player_def by (rule new_Player_ok) simp

lemma sample_creature_ok [simp]: "creature_ok sample_creature"
  by (simp add: creature_ok_def sample_creature_def)

lemma sample_encounter_ok [simp]: "encounter_ok sample_encounter"
  by (simp add: encounter_ok_def sample_encounter_def)

lemma valid_draw_0 [simp]: "valid_draw 0"
  by (simp add: valid_draw_def)

lemma sample_hook_ok [simp]: "hook_ok sample_hook" "hook_ok sample_enemy_turn" "hook_ok sample_kill_beat"
  by (simp_all add: sample_hook_def sample_enemy_turn_def sample_kill_beat_def hook_ok_def hook_init_def check_ok_def beat_ok_def)

lemma sample_hook_fields [simp]:
  "h_encounter sample_hook = Some (0, sample_encounter)" "h_player sample_hook = Some sample_player"
  "\<not> h_victoryProcessed sample_hook" "\<not> h_forceItemDrop sample_hook" "h_forcedRarity sample_hook = None"
  "\<not> h_killBeatPending sample_hook" "\<not> h_counterPending sample_hook"
  "h_playerCombatState sample_hook = Some (initCombatState Martial)" "h_creatureCombatState sample_hook = Some noEffects"
  "h_rng sample_hook = sconst 0" "h_service sample_hook = es_init" "h_now sample_hook = 1000"
  by (simp_all add: sample_hook_def hook_init_def)

lemma sample_beat_fields [simp]:
  "h_counterPending sample_enemy_turn" "h_counterTimer sample_enemy_turn = Some (Brace 8 6 sample_creature (Some 0))"
  "h_player sample_enemy_turn = Some sample_player" "h_encounter sample_enemy_turn = Some (0, sample_encounter)"
  "h_killBeatPending sample_kill_beat" "\<not> h_counterPending sample_kill_beat" "\<not> h_fleeProcessed sample_kill_beat"
  "h_encounter sample_kill_beat = Some (0, sample_encounter)" "h_player sample_kill_beat = Some sample_player"
  by (simp_all add: sample_enemy_turn_def sample_kill_beat_def sample_hook_def hook_init_def)

lemma sample_encounter_fields [simp]: "e_creature sample_encounter = sample_creature" "c_hp sample_creature = 30"
  "p_archetype sample_player = Martial"
  by (simp_all add: sample_encounter_def sample_creature_def sample_player_def new_Player_def no_params_def Let_def)

lemma sample_walk_fields [simp]:
  "h_encounter sample_walk = None" "h_player sample_walk = Some sample_player" "h_rng sample_walk = sconst 0"
  "h_service sample_walk = es_init" "h_now sample_walk = 1000" "dd_incremental sample_report = 1100"
  by (simp_all add: sample_walk_def sample_report_def)

lemma sample_roll:
  obtains e sv r where "run_state (processDistanceUpdate (h_now sample_walk) (h_service sample_walk) (Some sample_report)
    (Some (plain_location (dd_location sample_report))) (p_level sample_player)) (h_rng sample_walk) = ((Some e, sv), r)"
proof -
  have "getProbabilityAfterIncremental es_init 1000 1100 = 1"
    using probability_certain[of es_init 1100]
    by (simp add: getProbabilityAfterIncremental_def getDistanceBasedProbabilityAfterIncremental_def timeBlocks_def
        timeSinceLastEncounter_def es_init_def jadd_def rnd_numeral)
  then have "fst (fst (run_state (processDistanceUpdate 1000 es_init (Some sample_report)
    (Some (plain_location (dd_location sample_report))) (p_level sample_player)) (sconst 0))) \<noteq> None"
    by (subst process_iff) (simp_all add: es_init_def rnd_nonneg)
  then show ?thesis using that by (metis option.exhaust prod.collapse sample_walk_fields(3-5))
qed

lemma basic_strike_ok [simp]: "ability_ok basic_strike"
  using roster_ok[of Martial] by (simp add: basic_strike_def list_all_iff abilities_martial_def)

lemma sample_not_full: "\<not> isInventoryFull sample_player"
  by (simp add: isInventoryFull_iff sample_player_def new_Player_def no_params_def normalizeInventory_def
      createEmptyInventory_def MAX_INVENTORY_SIZE_def Let_def)

lemma sample_hp: "0 \<le> p_hp sample_player"
  using sample_player_ok by (simp add: player_ok_def)

section \<open>A guest\<close>

definition sample_save :: player_data where
  "sample_save = p_toJSON sample_player"

definition sample_guest :: auth_user where
  "sample_guest = \<lparr> au_uid = ''guest'', au_displayName = None, au_email = None, au_isAnonymous = True, au_photoURL = None \<rparr>"

definition sample_user :: auth_user where
  "sample_user = \<lparr> au_uid = ''user'', au_displayName = None, au_email = None, au_isAnonymous = False, au_photoURL = None \<rparr>"

definition sample_world :: "(storage_key \<Rightarrow> stored option) auth_world" where
  "sample_world =
     \<lparr> aw_authUser = Some sample_guest, aw_authLoading = False, aw_conflictState = None, aw_prevUid = Some ''guest'',
       aw_lastNonAnonUid = None, aw_conflictResolutionPending = False, aw_conflictResolving = False,
       aw_pendingBelatedSignIn = False, aw_currentUser = Some sample_guest,
       aw_store = [PLAYER_DATA \<mapsto> JPlayer sample_save, PLAYER_SAVED_AT \<mapsto> JNumber 3],
       aw_cloud = cloud_start Map.empty (Some ''guest''), aw_session = session_init, aw_hook = sample_hook, aw_alerts = [] \<rparr>"

definition sample_deletion :: deletion_answers where
  "sample_deletion =
     \<lparr> da_drained = [], da_docReached = True, da_docInTime = True, da_first = Deleted,
       da_reauth = \<lparr> ra_providerId = None, ra_isIos = False, ra_dialog = Cancelled, ra_accepted = False \<rparr>, da_second = Deleted, da_anonymous = Some (sample_guest\<lparr> au_uid := ''guest2'' \<rparr>) \<rparr>"

text \<open>A class chosen while the cloud stays silent through every retry.\<close>

definition sample_offline :: "session_event list" where
  "sample_offline =
     [Initialize, LoadResumes 0 (Some (None, 0)), ZeroTimeout, SelectArchetype Mage,
      CheckSettles 0 (Fulfilled Unavailable), SelectionResumes 0,
      SelectionResumes 0, CheckSettles 1 Rejected, SelectionResumes 0,
      SelectionResumes 0, CheckSettles 2 (Fulfilled Unavailable), SelectionResumes 0]"

definition sample_home :: home where
  "sample_home =
     \<lparr> hm_hook = sample_walk, hm_currentDistance = 0, hm_currentLocation = None, hm_milestones = [], hm_alerts = [] \<rparr>"

lemma sample_stats:
  "0 \<le> deriveAttack (at_str (computeAttributes Martial 1)) (at_agi (computeAttributes Martial 1))"
  "0 \<le> deriveDefense (at_str (computeAttributes Martial 1)) (at_agi (computeAttributes Martial 1))"
  using derive_ge_1 by (metis order_trans zero_le_one)+

lemma sample_save_valid: "rulesValidPlayerData sample_save" "1 \<le> d_level sample_save"
  by (simp_all add: rulesValidPlayerData_def sample_save_def p_toJSON_def sample_player_def new_Player_def no_params_def Let_def
      sample_stats)

lemma sample_world_save: "local_save (id (aw_store sample_world)) = Some (sample_save, 3)"
  using sample_save_valid(2) by (simp add: local_save_def sample_world_def stored_time_def)

lemma sample_guest_idle: "\<not> aw_conflictResolving sample_world" "au_isAnonymous sample_guest"
  by (simp_all add: sample_world_def sample_guest_def)

lemma sample_deletion_ok:
  "deletion_succeeds sample_world sample_guest sample_deletion" "aw_currentUser sample_world = Some sample_guest"
  "cn_user (aw_cloud sample_world) = Some ''guest''" "au_uid sample_guest = ''guest''"
  "fst (clearAllUserData mem_storage m)" "map_option au_uid (da_anonymous sample_deletion) = Some ''guest2''"
  by (simp_all add: deletion_succeeds_def sample_deletion_def sample_world_def sample_guest_def cloud_start_def
      clearAllUserData_def mem_storage_def)

lemma sample_offline_ok: "run_ok session_step offline session_init sample_offline"
  by (simp add: sample_offline_def offline_def session_run_simps)

lemma sample_walk_ok: "hook_ok sample_walk"
  using sample_hook_ok(1) by (simp add: sample_walk_def hook_ok_def)

lemma sample_distance: "p_totalDistance sample_player = 0"
  by (simp add: sample_player_def new_Player_def no_params_def Let_def)

section \<open>Windows and screens\<close>

lemma sample_forced:
  obtains re where "h_encounter (foldl hook_step (hook_init (sconst 0) 1000) [PlayerChanged (Some sample_player), ForceEncounter]) = Some re"
    "h_player (foldl hook_step (hook_init (sconst 0) 1000) [PlayerChanged (Some sample_player), ForceEncounter]) = Some sample_player"
proof -
  have "h_player (hookForceEncounter h) = h_player h \<and> h_encounter (hookForceEncounter h) \<noteq> None" for h
    by (auto simp: hookForceEncounter_def rollForced_def run_rand_def refreshTimes_def presentEncounter_def cancelCounterBeat_def
        Let_def split: prod.splits)
  then show ?thesis using that by fastforce
qed

text \<open>The app in the background, before and after a foe is held.\<close>

definition sample_screen :: screen where
  "sample_screen = \<lparr> sn_hook = sample_walk, sn_appState = AppBackground, sn_prevAppState = AppBackground,
     sn_permission = permission_init \<rparr>"

definition sample_away :: screen where
  "sample_away = sample_screen\<lparr> sn_hook := fst (holdEliteEncounter (sn_hook sample_screen) (7, sample_encounter) True None True) \<rparr>"

lemma sample_screen_ok:
  "screen_ok sample_screen" "sn_appState sample_screen \<noteq> AppActive" "h_encounter (sn_hook sample_screen) = None"
  "walkCheckStarts (sn_hook sample_screen)"
  "holdEliteEncounter (sn_hook sample_screen) (7, sample_encounter) True None True = (sn_hook sample_away, True)"
  using sample_walk_ok
  by (simp_all add: sample_screen_def sample_away_def screen_ok_def permission_ok_def permission_init_def holdEliteEncounter_def
      walkCheckStarts_def walkBlocked_def sample_walk_def sample_hook_def hook_init_def Let_def)

text \<open>A player who carries one blade.\<close>

definition sample_carrier :: player where
  "sample_carrier = fst (addItemToInventory sample_player sample_item)"

lemma sample_carrier_ok: "player_ok sample_carrier"
  unfolding sample_carrier_def by (rule player_ops_ok) (simp_all add: sample_item_def item_ok_def stat_or_0_def)

lemma sample_carrier_row:
  "shownRows (inventory_step \<lparr> iv_window = window_init, iv_player = Some sample_carrier \<rparr> (SlotPress SWeapon)) = [(sample_item, 0)]"
  "i_level sample_item \<le> p_level sample_carrier"
proof -
  have inv: "p_inventory sample_player = replicate 50 None" "p_level sample_player = 1"
    by (simp_all add: sample_player_def new_Player_def no_params_def normalizeInventory_def createEmptyInventory_def
        MAX_INVENTORY_SIZE_def Let_def)
  then have "p_inventory sample_carrier = Some sample_item # replicate 49 None"
    by (simp add: sample_carrier_def addItemToInventory_def numeral_eq_Suc)
  then show "shownRows (inventory_step \<lparr> iv_window = window_init, iv_player = Some sample_carrier \<rparr> (SlotPress SWeapon)) = [(sample_item, 0)]"
    by (simp add: slot_pressed shownRows_def itemRows_def filteredInventoryData_def numeral_eq_Suc sample_item_def canEquipInSlot_def)
  show "i_level sample_item \<le> p_level sample_carrier"
    using inv by (simp add: sample_carrier_def addItemToInventory_def sample_item_def split: option.split)
qed

text \<open>The home screen after an encounter was forced, with debugging switched on.\<close>

definition sample_ui_run :: "ui_event list" where
  "sample_ui_run = [Happens (PlayerChanged (Some sample_player)), Happens ForceEncounter, DebugSwitch True]"

definition sample_ui :: home_ui where
  "sample_ui = foldl ui_step (ui_init (ENV_CONFIG Production) (sconst 0) 1000) sample_ui_run"

definition sample_props :: home_props where
  "sample_props =
     \<lparr> hp_ui = sample_ui, hp_layout = None, hp_impact = impact_init, hp_distance = 0, hp_location = None, hp_tracking = False,
       hp_window = window_init,
       hp_showSettings = True, hp_isIos = False, hp_authUser = None, hp_authLoading = False, hp_conflict = None,
       hp_resolving = False, hp_autoResolve = False, hp_theme = theme_init,
       hp_sync = \<lparr> sy_lastSuccessfulSyncAt = None, sy_pendingWrites = 0, sy_writesSuspended = False \<rparr>,
       hp_version = ''1.0'', hp_cleared = True \<rparr>"

lemma sample_ui_possible: "run_ok ui_step (ui_possible (ENV_CONFIG Production)) (ui_init (ENV_CONFIG Production) (sconst 0) 1000) sample_ui_run"
  by (simp add: sample_ui_run_def)

lemma sample_ui_home:
  "shownScreen (hu_needsArchetype sample_ui) (h_player (hu_hook sample_ui)) = HomeView"
  "h_encounter (hu_hook sample_ui) \<noteq> None" "controlEnabled cfg sample_ui TapFlee"
proof -
  have "h_player (hookForceEncounter h) = h_player h \<and> h_encounter (hookForceEncounter h) \<noteq> None \<and>
      h_showEncounterModal (hookForceEncounter h) \<and> \<not> h_showCombatModal (hookForceEncounter h)" for h
    by (auto simp: hookForceEncounter_def rollForced_def run_rand_def refreshTimes_def presentEncounter_def cancelCounterBeat_def
        Let_def split: prod.splits)
  then show "shownScreen (hu_needsArchetype sample_ui) (h_player (hu_hook sample_ui)) = HomeView"
    "h_encounter (hu_hook sample_ui) \<noteq> None" "controlEnabled cfg sample_ui TapFlee"
    by (simp_all add: sample_ui_def sample_ui_run_def ui_init_def shownScreen_def shown_iff)
qed

text \<open>A guest who signed in to an account that exists, with the conflict open.\<close>

definition sample_conflict :: "(storage_key \<Rightarrow> stored option) auth_world" where
  "sample_conflict = handleGoogleSignIn mem_storage sample_world (Token (Some ''t'')) AlreadyInUse (Some sample_user) FetchTimedOut"

lemma sample_conflict_open:
  obtains c where "aw_conflictState sample_conflict = Some c" "\<not> aw_conflictResolving sample_conflict"
    "aw_conflictResolutionPending sample_conflict"
proof -
  have "conflict_open id sample_conflict (sample_save, 3) (cloud_side (au_uid sample_user) FetchTimedOut)"
    unfolding sample_conflict_def
    by (rule mem.google_conflict_opens[OF reliable_mem sample_world_save sample_guest_idle(1) sample_deletion_ok(2) sample_guest_idle(2)])
  then show ?thesis using that by (auto simp: conflict_open_def)
qed

end
