(* ===== verification/Spec2Isabelle.thy ===== *)
theory Spec2Isabelle
  imports Samples
begin

text \<open>
  A verification library for StrideQuest, a walking role-playing game written in TypeScript with
  React Native. The player walks; position reports add up to a distance; distance triggers
  encounters; an encounter is presented, held for later, or resolved in passing; a fight gives
  experience and items. The save lives on the device and in a cloud document of the account.

  \<^bold>\<open>The parts of the program and the theories that model them.\<close> All paths are below \<open>src/src\<close>
  unless they name another directory. Definitions keep the names of the source; a prefix is added
  where two parts use the same name (\<open>p_\<close> player, \<open>c_\<close> creature, \<open>e_\<close> encounter, \<open>h_\<close>
  encounter controller, \<open>ss_\<close> session, \<open>aw_\<close> accounts, \<open>cl_\<close> and \<open>cn_\<close> cloud, \<open>hm_\<close> home
  screen, and so on).

  \<^item> \<open>JsNumber\<close>: the numbers of the language. \<open>Prelude\<close>, \<open>Rand\<close>: shared lists, draws, the
    state monad of random computations, and the generic interfaces.
  \<^item> \<open>CombatMath\<close>: \<open>models/combat.ts\<close>, \<open>DamageType.ts\<close>, \<open>evasion.ts\<close>, \<open>combatRewards.ts\<close>,
    \<open>combatPacing.ts\<close> and the constants of \<open>constants/config.ts\<close> they read.
  \<^item> \<open>Archetypes\<close>, \<open>Items\<close>: \<open>models/Archetype.ts\<close>, \<open>models/Item.ts\<close>.
  \<^item> \<open>PlayerModel\<close>, \<open>PlayerOps\<close>: \<open>models/Player.ts\<close>, its methods, and the player as a machine.
  \<^item> \<open>Creatures\<close>: \<open>models/Creature.ts\<close> with all templates and the rarity table.
  \<^item> \<open>Abilities\<close>: \<open>models/Ability.ts\<close>, \<open>constants/abilities.ts\<close>.
  \<^item> \<open>Loot\<close>: \<open>services/LootService.ts\<close>, \<open>models/AutoCombat.ts\<close>.
  \<^item> \<open>Geo\<close>: \<open>services/LocationService.ts\<close>, \<open>models/sun.ts\<close>.
  \<^item> \<open>Encounters\<close>: \<open>models/Encounter.ts\<close>, \<open>models/encounterRouting.ts\<close>,
    \<open>services/EncounterService.ts\<close>.
  \<^item> \<open>CombatText\<close>: \<open>models/CombatHitEvent.ts\<close>, \<open>models/CombatLog.ts\<close>, \<open>utils/combatText.ts\<close>.
  \<^item> \<open>Storage\<close>: \<open>utils/storage.ts\<close> over the interface \<open>device_storage\<close> of the key-value package.
  \<^item> \<open>EncounterHook\<close>: every handler and timer of \<open>hooks/useEncounter.ts\<close>; \<open>EncounterFlow\<close>: the
    hook as a machine, and its invariant; \<open>FightLemmas\<close>: what victory, counter strike, ability,
    routing and drain do; \<open>FightPhases\<close>: the abstract machine of five phases that the hook refines.
  \<^item> \<open>CloudSync\<close>: \<open>services/CloudSyncService.ts\<close>, and beside the app \<open>src/firestore.rules\<close> and
    \<open>src/functions/src/index.ts\<close>.
  \<^item> \<open>PlayerSession\<close>: \<open>hooks/usePlayer.ts\<close>.
  \<^item> \<open>AuthFlow\<close>: \<open>hooks/useAuth.ts\<close>, \<open>services/AuthService.ts\<close>, over the joint state of the
    store, the cloud, the session and the encounter controller.
  \<^item> \<open>Home\<close>: the handlers of \<open>screens/HomeScreen.tsx\<close> and \<open>components/inventory/InventoryModal.tsx\<close>
    that change the player, and \<open>hooks/useDebugActions.ts\<close>.
  \<^item> \<open>AppShell\<close>: \<open>hooks/useLocation.ts\<close>, \<open>services/BatteryOptimizationService.ts\<close>,
    \<open>hooks/useAutoResolveSetting.ts\<close>, \<open>hooks/useTheme.tsx\<close>, the resolution in
    \<open>constants/theme.ts\<close>, \<open>constants/environment.ts\<close>, \<open>models/stageLayout.ts\<close>.
  \<^item> \<open>CombatView\<close>: the logic of \<open>components/combat/CombatModal.tsx\<close> and \<open>EncounterModal.tsx\<close>,
    \<open>hooks/useCombatImpact.ts\<close>, and the poses and art of \<open>creatures/registry.ts\<close> and
    \<open>creatures/paintedRegistry.ts\<close>, beside the controller.
  \<^item> \<open>AppLifecycle\<close>: \<open>hooks/useAppLifecycle.ts\<close>, \<open>services/NotificationService.ts\<close>, and the effects
    of \<open>screens/HomeScreen.tsx\<close> that run on mount, on return and on a notification.
  \<^item> \<open>InventoryView\<close>: the window of \<open>components/inventory/InventoryModal.tsx\<close> with the buttons of
    \<open>ItemDetailsModal.tsx\<close>.
  \<^item> \<open>Reporting\<close>: \<open>utils/logger.ts\<close>, \<open>services/CrashlyticsService.ts\<close>, \<open>AnalyticsService.ts\<close>,
    \<open>FirebaseService.ts\<close>, \<open>components/common/ErrorBoundary.tsx\<close>.
  \<^item> \<open>Screens\<close>: what \<open>DistanceDisplay\<close>, \<open>AccountConflictModal\<close>, \<open>WalkSummaryModal\<close>, \<open>PlayerStats\<close>,
    \<open>ArchetypeSelectionScreen\<close>, \<open>SettingsModal\<close>, \<open>BetaIndicator\<close>, \<open>Equipment\<close>, \<open>RewardRevealModal\<close>,
    \<open>RewardGlowCanvas\<close>, \<open>CombatFxCanvas\<close>, \<open>CombatLog\<close> and \<open>DebugPanel\<close> compute before they draw.
  \<^item> \<open>HomeWindows\<close>: which of the encounter window, the combat window and the minimised bar the home
    screen shows, and the screen as a machine of touches on enabled controls.
  \<^item> \<open>Elements\<close>: the trees components render. \<open>Artwork\<close>: which drawing a creature, ability, slot, element
    or resource gets (\<open>creatures/registry.ts\<close>, \<open>components/icons\<close>), \<open>CreaturePlate.tsx\<close>,
    \<open>CreatureStage.tsx\<close>, \<open>useCreatureBodyAnim.ts\<close>, the palettes of \<open>constants/theme.ts\<close>. \<open>Motion\<close>: the
    animations of panels, numbers, bursts, glow and pools as functions of their clocks.
  \<^item> \<open>FightScreens\<close>, \<open>HomeScreens\<close>: the trees of all windows and of \<open>screens/HomeScreen.tsx\<close>, with the
    handler each touch calls, the tracking button, and the crash screen. \<open>RevealView\<close>: the reset and
    the plan of a reward's reveal.
  \<^item> \<open>ConflictRace\<close>: \<open>resolveConflict\<close> of \<open>hooks/useAuth.ts\<close>, wait by wait.
  \<^item> \<open>ThemeRun\<close>: the provider of \<open>hooks/useTheme.tsx\<close> as a machine. \<open>Startup\<close>: the calls of a cold start,
    every notification with its channel, \<open>src/App.tsx\<close> and \<open>src/index.ts\<close>.
  \<^item> \<open>Samples\<close>: concrete values at which the properties below are exercised.

  \<^bold>\<open>How the code is represented.\<close> An object or the refs and state of a hook are a record, a handler
  is a function on it. A number that takes part in fractional arithmetic is a \<^typ>\<open>real\<close> and every
  operation on it rounds to binary64; counters, levels, hit points and times are \<^typ>\<open>int\<close>.
  \<open>Math.random\<close> reads a stream of draws that is part of the state, and the clock is an argument or
  a field. A pending \<open>setTimeout\<close> is the data its callback captured, and its firing is an event. In
  \<open>PlayerSession\<close> everything a function awaits is a frame that an event resumes; in \<open>CloudSync\<close> an
  issued write stays in a list until an event delivers or loses it; the drain of the walk log, the
  beats of a fight and the battery prompt are likewise split at their waits. The other asynchronous
  handlers, among them those of \<open>AuthFlow\<close>, are single steps; for the resolution of a conflict
  \<open>ConflictRace\<close> shows that its waits make no difference, for the others interleavings inside them
  are not covered. React state is set at once. What a component renders is a tree of texts, icons,
  bars, boxes, pressable areas and windows; \<open>offers\<close> collects the handlers a touch on an enabled part
  can reach, without regard to which window lies on top.

  \<^bold>\<open>Code outside the repository\<close> is a parameter. The key-value storage is a record of six functions,
  each of which may reject, with the contract \<open>device_storage\<close>: a successful read returns the
  content, an accepted write changes exactly what it names, a rejected one changes nothing. It is
  met by \<open>mem_storage\<close> and by a variant whose reads fail. The answers of the authentication, store,
  location and battery packages are arguments or events. JSON text is represented by the value it
  parses to, with two values for text of the wrong shape and text that does not parse.

  \<^bold>\<open>Interfaces.\<close> \<open>guarded_machine\<close> and its special case \<open>step_machine\<close> give invariants of
  event sequences and are interpreted on the player, the location service, the controller (twice),
  the cloud, the session (twice), the battery prompt, the combat window (twice), the screen (twice),
  the inventory window, the start of the backend, the debug panel, the panels of a fight, the
  tracking button and the theme (twice); \<open>damageable\<close> on player and creature;
  \<open>weighted_table\<close> on the encounter and the loot table; \<open>device_storage\<close> as above.

  \<^bold>\<open>What is shown.\<close> The controller: an invariant of every event sequence, the refinement of the phase
  machine, the exact effect of a victory, of the counter strike and of an ability, the equality of
  the two ways to win, that a turn ends, and that neither encounters nor drained entries are lost
  (C1 to C10, where C9 is a defect). The combat window: every hit is shown once, and every enabled
  button does what it offers (C11, C12). Cloud, session, accounts: the newest save wins whatever the
  order of delivery, nothing of an old account survives a switch, offline characters are never
  uploaded, conflicts and deletion do what they promise, the resolution of a conflict cannot be
  disturbed, and the first screen appears (C13 to C19). The player: its invariant, conservation of
  experience and of items (C20 to C22). Storage: round trips, reconciliation, the walk log, and a
  defect (C23 to C26). The home screen: distance and milestones, the foe that waits on return,
  exactly one surface for a foe and a way out of every fight, the way from a tapped slot to a worn
  item, and no debugging in a released app (C27 to C32).
  Arithmetic, encounters and loot: bounds, monotonicity and exact values (C33 to C37). Location and
  device services: totals, the battery prompt, the start of the backend (C38 to C40). Lemmas of the
  component theories show more, among them \<open>distance_spec\<close>, \<open>dot_totals\<close>, \<open>passive_combat_spec\<close>,
  \<open>user_data_erased\<close>, \<open>theme_follows_sun\<close>, \<open>choice_shown\<close>, \<open>fill_inventory\<close>, \<open>permission_once\<close>,
  \<open>preview_is_damage\<close>, \<open>class_card_honest\<close>, \<open>toFixed_close\<close>, \<open>resist_chips_true\<close>, \<open>template_drawn\<close>,
  \<open>body_style_sane\<close>, \<open>panels_settle\<close>, \<open>playReveal_ok\<close>, \<open>boot_order\<close> and \<open>restart_keeps_tracking\<close>.
  Further defects are the lemmas \<open>kill_beat_loses_distance\<close>, \<open>stale_selection_strands\<close>,
  \<open>provisional_mark_lost\<close>, \<open>drained_entries_cross_accounts\<close>, \<open>late_load_overrides_choice\<close>,
  \<open>early_failure_wedges\<close>, \<open>future_save_negative_age\<close> and \<open>failed_read_erases_save\<close>; comments that do not
  fit the drawings are refuted by \<open>body_box_pokes_out\<close> and \<open>day_plate_is_light\<close>.

  \<^bold>\<open>Bounds.\<close> No definition uses fuel: every loop of the source is a structural recursion or a
  \<open>function\<close> with a termination proof (the level-up loop by the experience left, the loop that fills
  the inventory by the empty slots). The exponent range of numbers is unbounded. Where a result is
  exact only for moderate values the bound is a hypothesis (attack up to \<open>2 ^ 26\<close>, damage up to
  \<open>2 ^ 52\<close>, creature levels up to \<open>2 ^ 40\<close>), far above what the game reaches.

  \<^bold>\<open>Not modelled.\<close> The style sheets, the vector paths of creatures and icons, the order in which
  windows lie on each other, and the curves that animations follow between two targets, which belong
  to the animation packages: none of them changes the game or what a touch can call. What the
  analytics, crash, notification, location and backend packages do with a call. Constants of
  \<open>constants/config.ts\<close> that no code reads. Native code and the scripts that prepare artwork and
  builds.
\<close>

section \<open>The encounter controller\<close>

text \<open>
  C1: starting from the empty controller, after every sequence of taps, timer firings, distance
  reports and outside changes the controller is well formed: player, foes and combat states are
  valid, the feeds are numbered in order, the enemy's turn is shown exactly while a counter timer
  runs, and a counter beat never overlaps a kill beat.
\<close>

theorem encounter_invariant:
  assumes "valid_rng r" and "list_all event_ok es"
  shows "hook_ok (foldl hook_step (hook_init r now) es)"
  using encounter_machine.run_inv[OF hook_init_ok[OF assms(1)] assms(2)] .

theorem encounter_invariant_witness:
  "hook_ok (foldl hook_step (hook_init (sconst 0) 7)
     [PlayerChanged (Some sample_player), ForceEncounter, Fight, UseAbility basic_strike, CounterTimer, Flee])"
  by (rule encounter_invariant) simp_all





text \<open>
  C4: without the debug settings, skipping an encounter through the idle-mode toggle leaves exactly
  the player that winning the fight leaves, and consumes exactly the same random draws.
\<close>

theorem auto_resolve_costs_nothing:
  assumes "hook_ok h" and "h_encounter h = Some (ref, enc)" and "h_player h = Some p"
    and "\<not> h_victoryProcessed h" and "\<not> h_forceItemDrop h" and "h_forcedRarity h = None"
  shows "h_player (resolvePassiveEncounter h enc bg ActiveTier) = h_player (handleVictory h None) \<and>
    h_rng (resolvePassiveEncounter h enc bg ActiveTier) = h_rng (handleVictory h None)"
  using victory_as_auto_resolve[OF assms] by simp

theorem auto_resolve_costs_nothing_witness:
  "h_player (resolvePassiveEncounter sample_hook sample_encounter False ActiveTier) = h_player (handleVictory sample_hook None)"
  using auto_resolve_costs_nothing[of sample_hook 0 sample_encounter sample_player False]
  by simp



text \<open>
  C6: while the enemy's turn runs, abilities, flight and closing the window do nothing at all, and
  the turn is over after at most two firings of its timer. It lasts between one and two seconds,
  never gets longer as the player gains combat turns, and the part before the strike lasts at least
  550 milliseconds.
\<close>

theorem enemy_turn_freezes_and_ends:
  assumes "hook_ok h" and "h_counterPending h"
  shows "handleAbility h ab = (h, False) \<and> handleFlee h = h \<and> handleCloseCombatModal h = h \<and>
    (\<exists>n \<le> 2. \<not> h_counterPending ((counterTimerFires ^^ n) h)) \<and>
    1000 \<le> counterBeatMs k \<and> counterBeatMs (k + int j) \<le> counterBeatMs k \<and> counterBeatMs k \<le> 2000 \<and> 550 \<le> braceMs h"
proof -
  have r: "1000 \<le> counterBeatMs k \<and> counterBeatMs k \<le> 2000" for k
    using counterBeatMs_range[of k] by (simp add: COUNTER_BEAT_MIN_MS_def COUNTER_BEAT_MAX_MS_def)
  have "550 \<le> braceMs h"
    using r[of "case h_player h of None \<Rightarrow> 0 | Some p \<Rightarrow> p_combatTurnsTaken p"]
    by (simp add: braceMs_def COUNTER_STRIKE_HOLD_MS_def Let_def)
  moreover have "counterBeatMs (k + int j) \<le> counterBeatMs k" by (rule counterBeatMs_antimono) simp
  ultimately show ?thesis using frozen_turn[OF assms(2)] enemy_turn_ends[OF assms(1)] r by simp
qed

theorem enemy_turn_freezes_and_ends_witness:
  "handleFlee sample_enemy_turn = sample_enemy_turn \<and> (\<exists>n \<le> 2. \<not> h_counterPending ((counterTimerFires ^^ n) sample_enemy_turn)) \<and>
   counterBeatMs 20 \<le> counterBeatMs 3"
  using enemy_turn_freezes_and_ends[of sample_enemy_turn basic_strike 3 17] by simp

text \<open>
  C7: a used ability was affordable and passes the turn: its cost is deducted and the turn's
  regeneration added up to the maximum, and either the foe is down and the kill beat runs, or the
  counter is scheduled against this very encounter. On the next turn some ability of the class is
  affordable again, so a fight never gets stuck.
\<close>

theorem ability_passes_turn:
  assumes "hook_ok h" and "ability_ok ab" and "handleAbility h ab = (h', True)" and "h_player h = Some p"
  shows "(\<exists>pst. h_playerCombatState h = Some pst \<and> a_resourceCost ab \<le> cs_resource pst \<and> turn_passed h' ab (p_archetype p) pst) \<and>
    (\<exists>st. h_playerCombatState h' = Some st \<and> (\<exists>ab2 \<in> set (ARCHETYPE_ABILITIES (p_archetype p)). a_resourceCost ab2 \<le> cs_resource st))"
proof
  show "\<exists>pst. h_playerCombatState h = Some pst \<and> a_resourceCost ab \<le> cs_resource pst \<and> turn_passed h' ab (p_archetype p) pst"
    by (rule handleAbility_used[OF assms(1-3)]) (use assms(4) in auto)
  show "\<exists>st. h_playerCombatState h' = Some st \<and> (\<exists>ab2 \<in> set (ARCHETYPE_ABILITIES (p_archetype p)). a_resourceCost ab2 \<le> cs_resource st)"
    by (rule next_turn_affordable[OF assms]) auto
qed

theorem ability_passes_turn_witness:
  "\<exists>st. h_playerCombatState (fst (handleAbility sample_hook basic_strike)) = Some st \<and>
     (\<exists>ab2 \<in> set (ARCHETYPE_ABILITIES Martial). a_resourceCost ab2 \<le> cs_resource st)"
proof -
  have "snd (handleAbility sample_hook basic_strike)"
    by (simp add: handleAbility_def c_isDefeated_def basic_strike_def abilities_martial_def initCombatState_def
        tickCreatureDots_def noEffects_def Let_def)
  then have "handleAbility sample_hook basic_strike = (fst (handleAbility sample_hook basic_strike), True)" by (metis prod.collapse)
  from ability_passes_turn[OF _ _ this, of sample_player] show ?thesis by simp
qed

text \<open>
  C8: a rolled encounter is never lost. Whatever the store answers, a distance report that rolls an
  encounter presents it, holds it, or resolves it into the walk log; the chance shown for it is the
  probability that was used; and in the foreground an elite is always presented.
\<close>

theorem rolled_encounter_settled:
  assumes "h_encounter h = None" and "h_player h = Some p"
    and "run_state (processDistanceUpdate (h_now h) (h_service h) (Some dd) (Some (plain_location (dd_location dd))) (p_level p)) (h_rng h)
      = ((Some e, sv), r)"
  shows "settled h e (onDistanceEncounterUpdate h dd (Some p) existing saveOk) \<and>
    h_lastEncounterChance (onDistanceEncounterUpdate h dd (Some p) existing saveOk) =
      Some (getProbabilityAfterIncremental (h_service h) (h_now h) (dd_incremental dd)) \<and>
    (\<not> h_isBackground h \<and> isEliteCreature (c_rarity (e_creature e)) \<longrightarrow>
      h_encounter (onDistanceEncounterUpdate h dd (Some p) existing saveOk) = Some (h_nextRef h, e))"
  using onDistance_settled[OF assms] elite_presented[of "h\<lparr> h_rng := r, h_service := sv \<rparr>" e]
  unfolding onDistance_route[OF assms(1,3)] by (simp add: refreshTimes_def)

theorem rolled_encounter_settled_witness:
  "\<exists>e. settled sample_walk e (onDistanceEncounterUpdate sample_walk sample_report (Some sample_player) None True)"
  by (rule sample_roll) (use rolled_encounter_settled[of sample_walk sample_player sample_report] in fastforce)

text \<open>
  C9: flight is not blocked during the kill beat and does not end it. After fleeing inside the
  beat the pending flag outlives the fight, and in the next presented encounter every ability is
  refused.
\<close>

theorem flee_in_kill_beat_freezes_next_fight:
  assumes "h_killBeatPending h" and "\<not> h_fleeProcessed h" and "\<not> h_counterPending h"
  shows "\<not> snd (handleAbility (handleFight (presentEncounter (killBeatFires (handleFlee h)) e)) ab)"
  using frozen_by_kill_beat[OF killBeat_after_flee[OF assms]] by simp

theorem flee_in_kill_beat_freezes_next_fight_witness:
  "\<not> snd (handleAbility (handleFight (presentEncounter (killBeatFires (handleFlee sample_kill_beat)) sample_encounter)) basic_strike)"
  using flee_in_kill_beat_freezes_next_fight[of sample_kill_beat sample_encounter basic_strike] by simp



section \<open>The combat window\<close>



text \<open>
  C12: buttons do what they offer. In every reachable state with an encounter: the Fight button, when
  it is enabled, opens the combat window on that foe, and the auto-resolve button, when it is
  offered, ends the encounter in a win whose reward is on its way. In the open combat window a
  disabled ability button changes nothing; an enabled one is only drawn on the player's turn or
  while the killing blow plays out, and on the player's turn tapping it always hands over to the
  enemy's turn or the killing blow.
\<close>

theorem enabled_buttons_act:
  assumes "valid_rng r" and "list_all event_ok es" and h: "h = foldl hook_step (hook_init r now) es"
    and p: "h_player h = Some p" and re: "h_encounter h = Some re" and ab: "ability_ok ab"
  shows "(\<not> encounterButtonsDisabled (snd re) (Some (p_hp p)) \<longrightarrow>
      h_showCombatModal (handleFight h) \<and> h_encounter (handleFight h) = Some re) \<and>
    (canAutoResolve (snd re) \<longrightarrow> phase_of (handleAutoResolve h) = NoFoe \<and> h_rewardRevealTimer (handleAutoResolve h) \<noteq> None) \<and>
    (h_showCombatModal h \<longrightarrow>
      (if buttonDisabled (combatRender h) (e_creature (snd re)) p ab then tapAbility (combatRender h) h ab = h
       else phase_of h \<in> {YourTurn, KillTurn} \<and>
         (phase_of h = YourTurn \<longrightarrow> phase_of (tapAbility (combatRender h) h ab) \<in> {EnemyTurn, KillTurn})))"
proof (intro conjI impI)
  have ok: "stage_ok h" unfolding h by (rule stage_machine.run_inv[OF stage_init[OF assms(1)] assms(2)])
  show "h_showCombatModal (handleFight h)" "h_encounter (handleFight h) = Some re"
    if "\<not> encounterButtonsDisabled (snd re) (Some (p_hp p))"
    using tap_fight_opens[OF re p that] re by simp_all
  show "phase_of (handleAutoResolve h) = NoFoe" "h_rewardRevealTimer (handleAutoResolve h) \<noteq> None" if "canAutoResolve (snd re)"
    by (rule tap_auto_resolve_wins[OF ok re p that])+
  assume "h_showCombatModal h"
  then show "if buttonDisabled (combatRender h) (e_creature (snd re)) p ab then tapAbility (combatRender h) h ab = h
       else phase_of h \<in> {YourTurn, KillTurn} \<and>
         (phase_of h = YourTurn \<longrightarrow> phase_of (tapAbility (combatRender h) h ab) \<in> {EnemyTurn, KillTurn})"
    by (rule tap_decides[OF ok ab _ p]) (use re in auto)
qed

theorem enabled_buttons_act_witness:
  "\<exists>h re. h = foldl hook_step (hook_init (sconst 0) 1000) [PlayerChanged (Some sample_player), ForceEncounter] \<and>
     h_encounter h = Some re \<and> (\<not> encounterButtonsDisabled (snd re) (Some (p_hp sample_player)) \<longrightarrow> h_showCombatModal (handleFight h))"
proof (rule sample_forced)
  fix re
  assume *: "h_encounter (foldl hook_step (hook_init (sconst 0) 1000) [PlayerChanged (Some sample_player), ForceEncounter]) = Some re"
    "h_player (foldl hook_step (hook_init (sconst 0) 1000) [PlayerChanged (Some sample_player), ForceEncounter]) = Some sample_player"
  have "\<not> encounterButtonsDisabled (snd re) (Some (p_hp sample_player)) \<longrightarrow>
    h_showCombatModal (handleFight (foldl hook_step (hook_init (sconst 0) 1000) [PlayerChanged (Some sample_player), ForceEncounter]))"
    using enabled_buttons_act[OF _ _ refl *(2,1) basic_strike_ok] by (simp del: foldl_Cons)
  then show ?thesis using *(1) by blast
qed

section \<open>The cloud, the session and accounts\<close>

text \<open>
  C13: the cloud keeps the newest save. After every sequence of saves, deliveries, losses,
  suspensions, deletions and user changes the unsettled writes carry strictly increasing times and
  are counted exactly; in whatever order they reach the store, the documents come out the same, the
  document of the current user is at least as new as every valid write of that user, and no
  document is replaced by an older one.
\<close>

theorem cloud_keeps_newest:
  assumes "w = foldl cloud_step (cloud_start docs user) es" and "mset ws = mset (cl_pendingWrite (cn_service w))"
  shows "sorted_wrt (\<lambda>a b. cw_stamp a < cw_stamp b) (cl_pendingWrite (cn_service w)) \<and>
    sy_pendingWrites (getSyncStatus (cn_service w)) = int (length ws) \<and>
    deliver_all (cn_docs w) (cn_user w) ws = deliver_all (cn_docs w) (cn_user w) (cl_pendingWrite (cn_service w)) \<and>
    (\<forall>x \<in> set ws. isOwner (cn_user w) (cw_uid x) \<and> rulesValidPlayerData (cw_data x) \<longrightarrow>
      (\<exists>d t. deliver_all (cn_docs w) (cn_user w) ws (cw_uid x) = Some (d, t) \<and> cw_stamp x \<le> t)) \<and>
    (\<forall>uid d t. cn_docs w uid = Some (d, t) \<longrightarrow>
      (\<exists>d' t'. deliver_all (cn_docs w) (cn_user w) ws uid = Some (d', t') \<and> t \<le> t'))"
proof -
  have ok: "service_ok (cn_service w)" unfolding assms(1) by (rule pending_stamps)
  have n: "length ws = length (cl_pendingWrite (cn_service w))" using assms(2) by (rule mset_eq_length)
  show ?thesis
  proof (intro conjI ballI allI impI)
    show "deliver_all (cn_docs w) (cn_user w) ws = deliver_all (cn_docs w) (cn_user w) (cl_pendingWrite (cn_service w))"
      using ok by (intro deliver_all_perm[OF _ assms(2)]) (simp add: service_ok_def)
  qed (use ok n in \<open>auto simp: service_ok_def getSyncStatus_def intro: deliver_all_newest deliver_all_time\<close>)
qed

theorem cloud_keeps_newest_witness:
  "\<exists>d t. deliver_all Map.empty (Some ''u'')
     (rev (cl_pendingWrite (cn_service (foldl cloud_step (cloud_start Map.empty (Some ''u''))
        [CSave sample_save 7, CSave sample_save 5])))) ''u'' = Some (d, t) \<and> 8 \<le> t"
  using cloud_keeps_newest[OF refl, of "rev (cl_pendingWrite (cn_service (foldl cloud_step (cloud_start Map.empty (Some ''u''))
        [CSave sample_save 7, CSave sample_save 5])))" "Map.empty" "Some ''u''" "[CSave sample_save 7, CSave sample_save 5]"]
  by (auto simp: cloud_start_def cloud_init_def cloudSavePlayerData_def isOwner_def sample_save_valid)



text \<open>
  C15: a character created without the cloud never overwrites the account. In every session in which
  no cloud check is answered and no load finds a confirmed save (nor an empty store under a live
  character), nothing is handed to the cloud service, whatever number of the issued writes were
  performed the local save carries the time zero, and a later reconciliation adopts every valid
  cloud record.
\<close>

theorem offline_never_uploads:
  assumes "run_ok session_step offline session_init es" and "device_storage io peek" and "local_time (peek st) = 0"
    and "(st', cloud') = performWrites io user (st, cloud) (ss_writes (foldl session_step session_init es)) ts"
    and "io_multiGet io st' [PLAYER_DATA, PLAYER_SAVED_AT] = Some vs" and "1 \<le> d_level d" and "0 < t"
  shows "cloud' = cloud \<and> local_time (peek st') = 0 \<and> SavePlayer p \<notin> set (ss_writes (foldl session_step session_init es)) \<and>
    fst (reconcileCloudPlayerData io st' (CloudFound (JPlayer d) t)) = Adopted d"
proof -
  have "unconfirmed session_init" by (simp add: unconfirmed_def session_init_def)
  then have "unconfirmed (foldl session_step session_init es)"
    by (rule offline_session.guarded_run_inv) (rule assms(1))
  then have local: "\<forall>x \<in> set (ss_writes (foldl session_step session_init es)). \<exists>d. x = WriteLocal d 0"
    by (simp add: unconfirmed_def)
  have "local_time (peek st') = 0" "cloud' = cloud"
    using device_storage.provisional_writes[OF assms(2) local, of "(st, cloud)" user ts] assms(3) assms(4)[symmetric] by simp_all
  moreover have "fst (reconcileCloudPlayerData io st' (CloudFound (JPlayer d) t)) = Adopted d"
    by (rule device_storage.newer_cloud_adopted[OF assms(2,5) _ assms(6)]) (use calculation assms(7) in simp)
  ultimately show ?thesis using local by auto
qed

theorem offline_never_uploads_witness:
  "fst (reconcileCloudPlayerData mem_storage
     (fst (performWrites mem_storage (Some ''u'') (Map.empty, cloud_init) (ss_writes (foldl session_step session_init sample_offline)) [4]))
     (CloudFound (JPlayer sample_save) 9)) = Adopted sample_save"
  using offline_never_uploads[of sample_offline mem_storage id Map.empty _ _ "Some ''u''" cloud_init "[4]", OF _ mem.device_storage_axioms _ prod.collapse]
  by (auto simp: sample_offline_ok local_time_def local_save_def mem_storage_def sample_save_valid(2))



text \<open>
  C17: resolving a conflict of accounts cannot be disturbed. Callbacks of the auth package and further
  touches on the buttons may arrive at any of the waits of the handler: it ends after at most four
  waits, and apart from who is noted as signed in it leaves the world that the handler leaves when it
  runs at once at the time one of the waits was over.
\<close>

theorem resolution_uninterrupted:
  assumes "aw_conflictState w = Some c" and "\<not> aw_conflictResolving w" and "aw_conflictResolutionPending w"
    and "4 \<le> length (waits es)" and "race io (resolveBegin w (Some c) choice) es = (w', t)"
  shows "t = None \<and> (\<exists>now \<in> set (waits es). erased w' = erased (resolveConflict io w choice now))"
proof -
  obtain v t0 where v: "resolveBegin w (Some c) choice = (v, t0)" by force
  note start = begin_rest[OF assms(1-3) v]
  obtain t' where t': "t0 = Some t'" "running v" "remaining t' \<le> 4" using start[of io 0] by blast
  have whole: "rest io v t' now = resolveConflict io w choice now" for now using start[of io now] t'(1) by simp
  have "t = None" using race_ends[OF t'(2), of t' es io] t' assms(4,5) v by simp
  then show ?thesis using race_undisturbed[OF t'(2), of io t' es w'] assms(5) v t'(1) whole by simp
qed

theorem resolution_uninterrupted_witness:
  "\<exists>w'. race mem_storage (resolveBegin sample_conflict (aw_conflictState sample_conflict) ChooseLocal)
       [AuthCallback (Some sample_user), WaitOver 6, ConflictTap (aw_conflictState sample_conflict) ChooseCloud, WaitOver 7,
        AuthCallback None, WaitOver 8, WaitOver 9] = (w', None) \<and>
     (\<exists>now \<in> {6, 7, 8, 9}. erased w' = erased (resolveConflict mem_storage sample_conflict ChooseLocal now))"
proof (rule sample_conflict_open)
  fix c
  let ?es = "[AuthCallback (Some sample_user), WaitOver 6, ConflictTap (Some c) ChooseCloud, WaitOver 7, AuthCallback None, WaitOver 8, WaitOver 9]"
  assume c: "aw_conflictState sample_conflict = Some c" "\<not> aw_conflictResolving sample_conflict"
    "aw_conflictResolutionPending sample_conflict"
  obtain w' t where "race mem_storage (resolveBegin sample_conflict (Some c) ChooseLocal) ?es = (w', t)" by force
  then show ?thesis using resolution_uninterrupted[OF c, of ?es mem_storage ChooseLocal w' t] c(1) by (simp del: race.simps)
qed





section \<open>The player\<close>

text \<open>
  C20: after every sequence of the player's methods a new player is well formed: attributes are
  those of the class at the level, attack, defense and maximum hit points are the derived base plus
  the worn gear, hit points are in range, items sit in slots of their kind, and the inventory keeps
  its fixed length.
\<close>

theorem player_invariant:
  assumes "1 \<le> l" and "list_all op_ok ops"
  shows "player_ok (foldl player_step (new_Player (no_params\<lparr> q_archetype := Some a, q_level := Some l \<rparr>)) ops)"
  using player_machine.run_inv[OF new_Player_ok[OF assms(1)] assms(2)] .

theorem player_invariant_witness:
  "player_ok (foldl player_step (new_Player (no_params\<lparr> q_archetype := Some Mage, q_level := Some 3 \<rparr>))
     [TakeDamage 20, AddExperience 900, SetArchetype Agile, EquipItem 0 None, FullHeal])"
  by (rule player_invariant) simp_all

text \<open>
  C21: gaining experience conserves it: what the levels cost plus what is left grows by exactly the
  amount, the level grows by the number of level-ups reported, what remains is below the next
  threshold, the player stays well formed, the missing hit points and everything owned stay; and
  granting more in any number of portions gives the player that receives the sum at once.
\<close>

theorem experience_conserved:
  assumes "player_ok p" and "0 \<le> n" and "addExperience p n = (p', g)" and "list_all (\<lambda>k. 0 \<le> k) ns"
  shows "player_ok p' \<and> lifetime_xp p' = lifetime_xp p + n \<and> 0 \<le> g \<and> p_level p' = p_level p + g \<and>
    p_experience p' < experienceForNextLevel (p_level p') \<and> p_maxHp p' - p_hp p' = p_maxHp p - p_hp p \<and> owned p' = owned p \<and>
    foldl (\<lambda>q k. fst (addExperience q k)) p' ns = fst (addExperience p (n + sum_list ns))"
  using addExperience_result[OF assms(1-3)] addExperience_portions[OF assms(1,2,4)] assms(3) by simp

theorem experience_conserved_witness:
  "lifetime_xp (fst (addExperience sample_player 1000)) = lifetime_xp sample_player + 1000 \<and>
   foldl (\<lambda>q n. fst (addExperience q n)) (fst (addExperience sample_player 1000)) [400, 0, 250] = fst (addExperience sample_player 1650)"
  using experience_conserved[of sample_player 1000 "fst (addExperience sample_player 1000)" "snd (addExperience sample_player 1000)" "[400, 0, 250]"]
  by simp

text \<open>
  C22: items are conserved. Equipping succeeds exactly when the slot of the inventory holds an item
  whose level the player has reached, never creates or destroys an item, leaves a well-formed
  player, and changes nothing when it is refused; from the inventory window it also needs the slot
  to hold the selected item still, and the merge of the home screen leaves the result as it is. A
  looted item goes into the first empty slot, or nowhere if the inventory is full; removing a slot
  gives back exactly what it held.
\<close>

theorem equip_conserves:
  assumes "player_ok p"
  shows "(snd (equipItem p i pref) \<longleftrightarrow> equippable p i) \<and> owned (fst (equipItem p i pref)) = owned p \<and>
    player_ok (fst (equipItem p i pref)) \<and> (\<not> equippable p i \<longrightarrow> fst (equipItem p i pref) = p) \<and>
    (snd (handleEquip p i sel pref) \<longleftrightarrow> stillSelected p i sel \<and> equippable p i) \<and>
    onItemEquipped (fst (handleEquip p i sel pref)) (fst (handleEquip p i sel pref)) = fst (handleEquip p i sel pref) \<and>
    (if isInventoryFull p then addItemToInventory p it = (p, - 1)
     else owned (fst (addItemToInventory p it)) = add_mset it (owned p) \<and>
       (\<exists>j < length (p_inventory p). p_inventory p ! j = None \<and> (\<forall>m < j. p_inventory p ! m \<noteq> None) \<and>
         snd (addItemToInventory p it) = int j \<and> p_inventory (fst (addItemToInventory p it)) = (p_inventory p)[j := Some it])) \<and>
    owned (fst (removeItemFromInventory p k)) + mset_set (set_option (snd (removeItemFromInventory p k))) = owned p"
proof -
  have equips: "snd (equipItem p i pref)" if "equippable p i"
    by (rule equipItem_done[OF that, of pref]) simp
  have "(snd (equipItem p i pref) \<longleftrightarrow> equippable p i) \<and> owned (fst (equipItem p i pref)) = owned p \<and>
    player_ok (fst (equipItem p i pref)) \<and> (\<not> equippable p i \<longrightarrow> fst (equipItem p i pref) = p)"
    using equips equipItem_owned equipItem_ok[OF assms] equipItem_refused[of p i pref] assms
    by (cases "equippable p i") auto
  moreover have "if isInventoryFull p then addItemToInventory p it = (p, - 1)
     else owned (fst (addItemToInventory p it)) = add_mset it (owned p) \<and>
       (\<exists>j < length (p_inventory p). p_inventory p ! j = None \<and> (\<forall>m < j. p_inventory p ! m \<noteq> None) \<and>
         snd (addItemToInventory p it) = int j \<and> p_inventory (fst (addItemToInventory p it)) = (p_inventory p)[j := Some it])"
    using addItem_full[of p it] addItem_free[of p it] addItem_owned[of p it] by auto
  ultimately show ?thesis using equip_from_window[OF assms, of i sel pref] removeItem_owned[of p k] by simp
qed

theorem equip_conserves_witness:
  "owned (fst (equipItem sample_player 0 None)) = owned sample_player \<and> fst (equipItem sample_player (- 1) None) = sample_player \<and>
   owned (fst (addItemToInventory sample_player sample_item)) = add_mset sample_item (owned sample_player)"
  using equip_conserves[of sample_player 0 None sample_item sample_item 0] equip_conserves[of sample_player "- 1" None sample_item sample_item 0]
  by (simp add: equippable_def sample_not_full)

section \<open>Device storage\<close>

text \<open>
  C23: for every storage package that keeps the contract, a save that was accepted and can be read
  back yields exactly the saved data and time, leaves the store alone, hands the same pair to the
  cloud service, and builds the very same player again; so does the clone every handler works on.
\<close>

theorem snapshot_round_trip:
  assumes "device_storage io peek" and "player_ok p" and "savePlayerData io s p now = ((True, s'), up)"
    and "io_multiGet io s' [PLAYER_DATA, PLAYER_SAVED_AT] = Some vs"
  shows "\<exists>d. readLocalPlayerSnapshot io s' = ((Some d, now), s') \<and> up = Some (d, now) \<and> p_fromJSON d = p \<and> clone_player p = p"
proof -
  have "p_fromJSON (p_toJSON p) = p" using fromJSON_toJSON[of p] assms(2) by (simp add: player_ok_def inventory_ok_iff)
  moreover have "1 \<le> p_level p" using assms(2) by (simp add: player_ok_def)
  ultimately show ?thesis
    using device_storage.save_then_read[OF assms(1), of p s now vs] assms(3,4) clone_ok[OF assms(2)]
    by (auto simp: savePlayerData_def Let_def split: prod.splits)
qed

theorem snapshot_round_trip_witness:
  "\<exists>d. fst (readLocalPlayerSnapshot mem_storage (snd (fst (savePlayerData mem_storage Map.empty sample_player 42)))) = (Some d, 42) \<and>
     p_fromJSON d = sample_player"
  using snapshot_round_trip[OF mem.device_storage_axioms sample_player_ok, of Map.empty 42]
  by (fastforce simp: savePlayerData_def mem_storage_def Let_def)





text \<open>
  C26: a held foe that is written to the store and read back is the same encounter, except that
  the creature has lost its resistances.
\<close>

theorem held_foe_loses_resistances:
  assumes "e_timestamp e \<noteq> 0" and "e_playerLevel e \<noteq> 0" and "c_description (e_creature e) \<noteq> []"
  shows "encounterOfData now (heldEncounterData e) = e\<lparr> e_creature := (e_creature e)\<lparr> c_resistances := DEFAULT_RESISTANCES \<rparr> \<rparr>"
  using held_foe_round_trip[OF assms] .

theorem held_foe_loses_resistances_witness:
  "c_resistances (e_creature (encounterOfData 9 (heldEncounterData sample_encounter))) Fire = 0 \<and>
   c_resistances (e_creature sample_encounter) Fire \<noteq> 0"
  using held_foe_loses_resistances[of sample_encounter 9]
  by (simp add: sample_encounter_def sample_creature_def DEFAULT_RESISTANCES_def)

section \<open>The home screen\<close>

text \<open>
  C27: walking. Over any sequence of distance reports, whatever encounters they roll and however the
  store answers, the player's total grows by exactly the reported increments in order, and the
  announced milestones are exactly those between the totals before and after, in order and once
  each.
\<close>

theorem walk_distance:
  assumes "hook_ok (hm_hook s)" and "h_player (hm_hook s) = Some p" and "rnd (p_totalDistance p) = p_totalDistance p"
    and "list_all (\<lambda>r. 0 \<le> dd_incremental (fst r)) rs"
  shows "\<exists>q. h_player (hm_hook (walk s rs)) = Some q \<and>
    p_totalDistance q = foldl jadd (p_totalDistance p) (map (dd_incremental \<circ> fst) rs) \<and>
    map fst (hm_milestones (walk s rs)) =
      map fst (hm_milestones s) @ filter (crossed (p_totalDistance p) (p_totalDistance q)) MILESTONES"
  using walk_effect[OF assms] .

theorem walk_distance_witness:
  "\<exists>q. h_player (hm_hook (walk sample_home [(sample_report, None, True), (sample_report, None, False)])) = Some q \<and>
     p_totalDistance q = 2200 \<and> map fst (hm_milestones (walk sample_home [(sample_report, None, True), (sample_report, None, False)])) = [1000]"
  using walk_distance[of sample_home sample_player "[(sample_report, None, True), (sample_report, None, False)]"]
  by (auto simp: sample_home_def sample_walk_ok sample_distance jadd_def rnd_numeral MILESTONES_def crossed_def)

text \<open>
  C28: a foe met in the background is waiting on return. Holding it asks for one write of the foe and
  one notification of the kind the tap handler listens for. When the store accepted the write and can be
  read, then coming back to the app presents that foe as the held one and the collected fights as
  the walk summary, a second report of the foreground surfaces nothing again, and tapping the
  notification presents the same foe.
\<close>

theorem foe_surfaces_on_return:
  assumes s: "screen_ok s" "sn_appState s \<noteq> AppActive" and none: "h_encounter (sn_hook s) = None"
    and held: "holdEliteEncounter (sn_hook s) re True None True = (h', True)"
    and io: "device_storage io peek" "fst (savePendingEncounter io st (heldEncounterData (snd re)))"
      "io_getItem io (snd (savePendingEncounter io st (heldEncounterData (snd re)))) PENDING_ENCOUNTER = Some v"
    and pending: "pending = fst (loadPendingEncounter io (snd (savePendingEncounter io st (heldEncounterData (snd re)))))"
    and t: "t = appStateChanges (s\<lparr> sn_hook := h' \<rparr>) AppActive pending entries"
  shows "h_effects h' = h_effects (sn_hook s) @ [SavePending (heldEncounterData (snd re)), NotifyEncounter (snd re)] \<and>
    notificationOf (NotifyEncounter (snd re)) = Some (showEncounterNotification (snd re)) \<and>
    h_heldFoe (sn_hook t) = Some (h_nextRef h', encounterOfData (h_now h') (heldEncounterData (snd re))) \<and>
    \<not> h_isBackground (sn_hook t) \<and>
    (walkCheckStarts (sn_hook s) \<and> entries \<noteq> [] \<longrightarrow> h_walkSummary (checkWalkSummaryEnd (sn_hook t)) = Some entries) \<and>
    sn_hook (appStateChanges t AppActive pending' entries') = sn_hook t \<and>
    h_heldFoe (sn_hook (onForegroundEvent (s\<lparr> sn_hook := h' \<rparr>) True (Some (nt_dataType (showEncounterNotification (snd re)))) pending entries)) =
      h_heldFoe (sn_hook t)"
proof -
  note an = held_foe_announced[OF held]
  let ?k = "h'\<lparr> h_isBackground := False \<rparr>"
  have pend: "pending = Some (heldEncounterData (snd re))"
    unfolding pending by (simp add: device_storage.pending_round_trip[OF io])
  have k: "h_encounter ?k = None" "walkCheckStarts ?k = walkCheckStarts (sn_hook s)"
    using none an(2,5) by (simp_all add: walkCheckStarts_def walkBlocked_def)
  have th: "sn_hook t = surface ?k pending entries"
    using return_surfaces[of "s\<lparr> sn_hook := h' \<rparr>" pending entries] s by (simp add: t screen_ok_def)
  have active: "sn_appState t = AppActive" "sn_prevAppState t = AppActive"
    using s by (simp_all add: t appStateChanges_def handleAppStateChange_def foregroundEffect_def Let_def)
  have bg: "\<not> h_isBackground (sn_hook t)" using surface_fields(5)[OF k(1)] th by simp
  have "sn_hook (appStateChanges t AppActive pending' entries') = sn_hook t"
    using no_second_surface[of t AppActive pending' entries'] active bg by simp
  moreover have "h_heldFoe (sn_hook t) = Some (h_nextRef h', encounterOfData (h_now h') (heldEncounterData (snd re)))"
    using surface_fields(1)[OF k(1), of pending entries] by (simp add: th pend)
  moreover have "h_walkSummary (checkWalkSummaryEnd (sn_hook t)) = Some entries" if "walkCheckStarts (sn_hook s)" "entries \<noteq> []"
    using drained_summary_shown[OF k(1), of entries pending] that k(2) by (simp add: th)
  ultimately show ?thesis
    using an(1) bg none an(2) by (simp add: onForegroundEvent_def showEncounterNotification_def refreshHeldFoe_def pend)
qed

theorem foe_surfaces_on_return_witness:
  "h_walkSummary (checkWalkSummaryEnd (sn_hook (appStateChanges sample_away AppActive (Some (heldEncounterData sample_encounter)) [sample_entry]))) =
     Some [sample_entry]"
proof -
  let ?d = "heldEncounterData sample_encounter"
  have io: "fst (savePendingEncounter mem_storage Map.empty (heldEncounterData (snd (7, sample_encounter))))"
    "io_getItem mem_storage (snd (savePendingEncounter mem_storage Map.empty (heldEncounterData (snd (7, sample_encounter))))) PENDING_ENCOUNTER =
       Some (Some (JEncounter ?d))"
    "Some ?d = fst (loadPendingEncounter mem_storage (snd (savePendingEncounter mem_storage Map.empty (heldEncounterData (snd (7, sample_encounter))))))"
    by (simp_all add: savePendingEncounter_def loadPendingEncounter_def mem_storage_def isValidEncounterData_def)
  have "sample_screen\<lparr> sn_hook := sn_hook sample_away \<rparr> = sample_away" by (simp add: sample_away_def)
  then show ?thesis
    using foe_surfaces_on_return[OF sample_screen_ok(1-3,5) mem.device_storage_axioms io refl, where entries = "[sample_entry]"]
      sample_screen_ok(4) by simp
qed

text \<open>
  C29: a foe is always in reach. In every state the home screen gets into by touches on enabled
  controls and by whatever else happens (timers, distance reports, the debug panel, changes of
  player and account), exactly one surface is drawn for a foe, the encounter window, the combat
  window or the minimised bar, and none if there is no foe. The controls of the fight that can be
  touched in the tree the screen renders are exactly those whose handlers the state admits.
\<close>

theorem foe_always_in_reach:
  assumes "valid_rng r" and "run_ok ui_step (ui_possible cfg) (ui_init cfg r now) es" and "hp_ui s = foldl ui_step (ui_init cfg r now) es"
    and "shownScreen (hu_needsArchetype (hp_ui s)) (h_player (hu_hook (hp_ui s))) = HomeView"
  shows "length (shownSurfaces (hu_needsArchetype (hp_ui s)) (hu_hook (hp_ui s))) =
      (if h_encounter (hu_hook (hp_ui s)) = None then 0 else 1) \<and>
    (Foe c \<in> offers (homeScreen cfg localized s) \<longleftrightarrow>
      controlEnabled cfg (hp_ui s) c \<and> (\<forall>b. c = TapFoeCard b \<longrightarrow> b = hp_cleared s))"
proof -
  have "ui_ok (hp_ui s)" unfolding assms(3) by (rule home_screen.guarded_run_inv[OF ui_init_ok[OF assms(1)] assms(2)])
  then show ?thesis using one_surface assms(4) foe_controls_drawn by blast
qed

theorem foe_always_in_reach_witness:
  "length (shownSurfaces (hu_needsArchetype sample_ui) (hu_hook sample_ui)) = 1 \<and>
   Foe TapFlee \<in> offers (homeScreen (ENV_CONFIG Production) (\<lambda>_. ''now'') sample_props)"
proof -
  have ui: "hp_ui sample_props = foldl ui_step (ui_init (ENV_CONFIG Production) (sconst 0) 1000) sample_ui_run" "hp_ui sample_props = sample_ui"
    by (simp_all add: sample_props_def sample_ui_def)
  show ?thesis
    using foe_always_in_reach[OF _ sample_ui_possible ui(1), of TapFlee "\<lambda>_. ''now''"]
    unfolding ui(2) by (simp add: sample_ui_home del: controlEnabled.simps)
qed

text \<open>
  C30: a fight can always be left. From every state the home screen gets into, at most four steps,
  each a touch on a control that is then enabled or a timer of the enemy's turn that is then
  pending, end the encounter and leave no surface of it behind.
\<close>

theorem fight_can_be_left:
  assumes "valid_rng r" and "run_ok ui_step (ui_possible cfg) (ui_init cfg r now) es" and "u = foldl ui_step (ui_init cfg r now) es"
    and "shownScreen (hu_needsArchetype u) (h_player (hu_hook u)) = HomeView"
  shows "\<exists>out. length out \<le> 4 \<and> run_ok ui_step (patient cfg) u out \<and>
    h_encounter (hu_hook (foldl ui_step u out)) = None \<and> surfaces (foldl ui_step u out) = []"
proof -
  have "ui_ok u" unfolding assms(3) by (rule home_screen.guarded_run_inv[OF ui_init_ok[OF assms(1)] assms(2)])
  then obtain out where "length out \<le> 4" "exits cfg u out" using way_out assms(4) by blast
  then show ?thesis by (intro exI[of _ out]) (simp add: exits_def shownSurfaces_def)
qed

theorem fight_can_be_left_witness:
  "h_encounter (hu_hook sample_ui) \<noteq> None \<and>
   (\<exists>out. length out \<le> 4 \<and> run_ok ui_step (patient (ENV_CONFIG Production)) sample_ui out \<and>
     h_encounter (hu_hook (foldl ui_step sample_ui out)) = None)"
proof
  show "h_encounter (hu_hook sample_ui) \<noteq> None" by (rule sample_ui_home)
  show "\<exists>out. length out \<le> 4 \<and> run_ok ui_step (patient (ENV_CONFIG Production)) sample_ui out \<and>
     h_encounter (hu_hook (foldl ui_step sample_ui out)) = None"
    using fight_can_be_left[OF _ sample_ui_possible sample_ui_def sample_ui_home(1)] by auto
qed

text \<open>
  C31: from a tapped slot to a worn item. Tapping an equipment slot lists exactly the carried items
  that fit it, each with its place in the inventory. Tapping a row opens that item; its Equip button
  is enabled exactly when the player's level reaches the item's; and pressing it puts that very item
  into the tapped slot, leaves the other slots alone, loses nothing the player owned, keeps the
  player well formed and closes the details.
\<close>

theorem tapped_slot_filled:
  assumes "player_ok p" and v: "v = inventory_step \<lparr> iv_window = window_init, iv_player = Some p \<rparr> (SlotPress s)"
  shows "((it, i) \<in> set (shownRows v) \<longleftrightarrow> i < length (p_inventory p) \<and> p_inventory p ! i = Some it \<and> canEquipInSlot it s) \<and>
    (n < length (shownRows v) \<and> shownRows v ! n = (it, i) \<longrightarrow>
      (equipEnabled (inventory_step v (RowPress n)) \<longleftrightarrow> i_level it \<le> p_level p) \<and>
      (i_level it \<le> p_level p \<longrightarrow>
        (\<exists>q. foldl inventory_step v [RowPress n, EquipPress] = v\<lparr> iv_player := Some q \<rparr> \<and> player_ok q \<and> owned q = owned p \<and>
           p_equipment q s = Some it \<and> (\<forall>t. t \<noteq> s \<longrightarrow> p_equipment q t = p_equipment p t))))"
proof (intro conjI impI)
  show "(it, i) \<in> set (shownRows v) \<longleftrightarrow> i < length (p_inventory p) \<and> p_inventory p ! i = Some it \<and> canEquipInSlot it s"
    by (simp add: v slot_pressed shownRows_def itemRows_iff)
next
  assume "n < length (shownRows v) \<and> shownRows v ! n = (it, i)"
  then have n: "n < length (shownRows v)" "shownRows v ! n = (it, i)" by simp_all
  show "equipEnabled (inventory_step v (RowPress n)) \<longleftrightarrow> i_level it \<le> p_level p" by (rule tapped_slot_equips(1)[OF v n])
  assume "i_level it \<le> p_level p"
  from tapped_slot_equips(2)[OF v n this] equipItem_owned[of p "int i" "Some s"] equipItem_ok[OF assms(1), of "int i" "Some s"]
  show "\<exists>q. foldl inventory_step v [RowPress n, EquipPress] = v\<lparr> iv_player := Some q \<rparr> \<and> player_ok q \<and> owned q = owned p \<and>
    p_equipment q s = Some it \<and> (\<forall>t. t \<noteq> s \<longrightarrow> p_equipment q t = p_equipment p t)"
    by fastforce
qed

theorem tapped_slot_filled_witness:
  "\<exists>q. iv_player (foldl inventory_step \<lparr> iv_window = window_init, iv_player = Some sample_carrier \<rparr> [SlotPress SWeapon, RowPress 0, EquipPress]) =
     Some q \<and> p_equipment q SWeapon = Some sample_item"
  using tapped_slot_filled[OF sample_carrier_ok refl, of sample_item 0 SWeapon 0] sample_carrier_row by auto

text \<open>
  C32: no debugging in a released app. In an environment other than development and testing the tree
  the home screen renders has no control of the debug panel, no switch that shows it and no button
  that defeats the foe, whatever the state of the app, the stored debug switch included.
\<close>

theorem no_debug_control_drawn:
  assumes "e \<noteq> Development" and "e \<noteq> Testing"
  shows "DebugButton b \<notin> offers (homeScreen (ENV_CONFIG e) localized s) \<and>
    DebugShow m \<notin> offers (homeScreen (ENV_CONFIG e) localized s) \<and>
    Foe TapDebugDefeat \<notin> offers (homeScreen (ENV_CONFIG e) localized s)"
  using no_debug_in_production[of "ENV_CONFIG e"] assms by (simp add: ENV_CONFIG_def)

theorem no_debug_control_drawn_witness:
  "hu_debugMode (hp_ui sample_props) \<and>
   DebugShow True \<notin> offers (homeScreen (ENV_CONFIG Production) (\<lambda>_. ''now'') sample_props) \<and>
   Foe TapDebugDefeat \<notin> offers (homeScreen (ENV_CONFIG Production) (\<lambda>_. ''now'') sample_props)"
  using no_debug_control_drawn[of Production] by (simp add: sample_props_def sample_ui_def sample_ui_run_def)

section \<open>Combat arithmetic\<close>

text \<open>
  C33: damage. Every hit deals at least one point before resistance and, at full multiplier, at most
  the attack; a stronger attack never lowers it, more defense never raises it, and equal attack and
  defense halve the attack. Full resistance then blocks everything, none changes nothing, full
  vulnerability doubles; more resistance never raises the damage, which stays between zero and
  twice the attack; and the tier shown for the hit agrees with what happened to the damage.
\<close>

theorem damage_spec:
  assumes "1 \<le> a" and "a \<le> b" and "b \<le> 2 ^ 26" and "d \<le> e" and "- 1 \<le> r" and "r \<le> s"
    and raw: "raw = mitigateDamage b d 1"
  shows "1 \<le> mitigateDamage a e 1 \<and> mitigateDamage a e 1 \<le> raw \<and> raw \<le> b \<and> mitigateDamage a a 1 = max 1 (a div 2) \<and>
    applyResistance raw 1 = 0 \<and> applyResistance raw 0 = raw \<and> applyResistance raw (- 1) = 2 * raw \<and>
    0 \<le> applyResistance raw s \<and> applyResistance raw s \<le> applyResistance raw r \<and> applyResistance raw r \<le> 2 * b \<and>
    (case classifyResist r of Resisted \<Rightarrow> applyResistance raw r \<le> raw | Vulnerable \<Rightarrow> raw \<le> applyResistance raw r
      | Neutral \<Rightarrow> applyResistance raw r = raw)"
proof -
  have hit: "1 \<le> mitigateDamage a e 1" "mitigateDamage a e 1 \<le> raw" "raw \<le> b" "mitigateDamage a a 1 = max 1 (a div 2)"
    using mitigateDamage_ge_1 order_trans[OF mitigateDamage_antimono_defense[OF assms(4)] mitigateDamage_mono_attack[OF assms(2,3)]]
      mitigateDamage_le_attack[of b d] mitigateDamage_equal[of a] assms(1-3) raw by auto
  have range: "0 \<le> raw" "raw \<le> 2 ^ 52" "raw \<le> 2 ^ 53" using hit assms(3) by auto
  show ?thesis
    using hit applyResistance_immune applyResistance_neutral[OF range(1,3)] applyResistance_double[OF range(1,2)] applyResistance_nonneg
      applyResistance_antimono[OF range(1) assms(6)] applyResistance_bounds(3)[OF range(1,2) assms(5)] classifyResist_damage[OF range(1,2), of r]
    by (auto split: resist_tier.split)
qed

theorem damage_spec_witness:
  "mitigateDamage 10 12 1 \<le> 16 \<and> applyResistance 16 (1 / 2) \<le> applyResistance 16 (1 / 4) \<and> applyResistance 16 (- 1) = 32"
proof -
  have "16 = mitigateDamage 20 5 1" by code_simp
  then show ?thesis using damage_spec[of 10 20 5 12 "1 / 4" "1 / 2" 16] by simp
qed

text \<open>
  C34: evasion: the chance to evade at all is at most three fifths, the chance to dodge stays
  between zero and the defender's cap, grows with the streak of undodged hits and with the speed
  advantage, and is never better for the creature than for the player; a dodge resets the streak
  and everything else extends it by one; the damage after evasion is between zero and the hit.
\<close>

theorem evasion_spec:
  assumes "0 \<le> m" and "m \<le> n" and "delta \<le> eps" and "dmg \<le> 2 ^ 53"
  shows "jadd (dodge_chance delta d n) (glance_chance delta d) \<le> 3 / 5 \<and> 0 \<le> dodge_chance delta d n \<and>
    dodge_chance delta d n \<le> cap_dodge d \<and> dodge_chance delta d m \<le> dodge_chance eps d n \<and>
    dodge_chance delta DCreature n \<le> dodge_chance delta DPlayer n \<and>
    snd (rollEvasion a b d n x) = (if fst (rollEvasion a b d n x) = Dodged then 0 else n + 1) \<and>
    0 \<le> applyEvasionDamage dmg ev \<and> applyEvasionDamage dmg ev \<le> max 0 dmg"
proof -
  have "0 \<le> n" using assms by simp
  then show ?thesis
    by (intro conjI evade_total_less_1 dodge_chance_range dodge_chance_favours_player rollEvasion_streak
        applyEvasionDamage_range[OF assms(4)]
        order_trans[OF dodge_chance_mono_streak[OF assms(1,2)] dodge_chance_mono_delta[OF assms(3)]])
qed

theorem evasion_spec_witness:
  "dodge_chance 0 DPlayer 0 \<le> dodge_chance 5 DPlayer 3 \<and> applyEvasionDamage 9 Glancing = 4"
proof
  show "dodge_chance 0 DPlayer 0 \<le> dodge_chance 5 DPlayer 3" using evasion_spec[of 0 3 0 5 9] by simp
  show "applyEvasionDamage 9 Glancing = 4" by code_simp
qed

section \<open>Encounters and loot\<close>

text \<open>
  C35: a random encounter is active, its creature is well formed, at full health and within two
  levels of the player; its rarity is the one the level's table and the first draw decide, whatever
  the place and the time of day, and has positive weight at that level. No elite appears below
  level 3, no epic below level 12, and never a legendary.
\<close>

theorem random_encounter_spec:
  assumes "valid_rng r"
  shows "fresh_encounter pl (fst (run_state (createRandomEncounter now loc pl None) r)) \<and>
    c_rarity (e_creature (fst (run_state (createRandomEncounter now loc pl None) r))) = rollEncounterRarity pl (shd r) \<and>
    (\<exists>w > 0. (rollEncounterRarity pl (shd r), w) \<in> set (encounterWeights pl)) \<and>
    (isEliteCreature (rollEncounterRarity pl (shd r)) \<longrightarrow> 3 \<le> pl) \<and> (rollEncounterRarity pl (shd r) = Epic \<longrightarrow> 12 \<le> pl) \<and>
    rollEncounterRarity pl (shd r) \<noteq> Legendary"
proof -
  note d = valid_rng_shd[OF assms]
  have "(isEliteCreature (rollEncounterRarity pl (shd r)) \<longrightarrow> 3 \<le> pl) \<and> (rollEncounterRarity pl (shd r) = Epic \<longrightarrow> 12 \<le> pl)"
    using rollEncounterRarity_positive[OF d, of pl]
    by (auto simp: encounterWeights_bands isEliteCreature_def ELITE_RARITIES_def split: if_splits)
  then show ?thesis
    using rand_allD(1)[OF createRandomEncounter_spec assms] createRandomEncounter_rarity[OF assms]
      rollEncounterRarity_positive[OF d] rollEncounterRarity_not_legendary[OF d, of pl] by simp
qed

theorem random_encounter_spec_witness:
  "fresh_encounter 4 (fst (run_state (createRandomEncounter 1000 sample_location 4 None) (sconst (1 / 2)))) \<and>
   rollEncounterRarity 4 (1 / 2) \<noteq> Epic"
  using random_encounter_spec[of "sconst (1 / 2)" 4 1000 sample_location] by (auto simp: valid_draw_def)

text \<open>
  C36: generated loot: one level below the player (at least one), of the forced rarity or of one
  that the level allows, with a base value in the rarity's range and affixes of distinct kinds, and
  statistics that are exactly the scaled base plus the scaled affixes; it is a valid item that the
  player's level can equip.
\<close>

theorem loot_spec:
  assumes "valid_rng r" and "0 \<le> m" and "1 \<le> pl"
  shows "generated_ok pl override m (fst (run_state (generateItem now pl override m) r)) \<and>
    item_ok (fst (run_state (generateItem now pl override m) r)) \<and> i_level (fst (run_state (generateItem now pl override m) r)) \<le> pl"
  using rand_allD(1)[OF generateItem_spec assms(1), of pl override m now]
    generated_item_ok[OF rand_allD(1)[OF generateItem_spec assms(1)] assms(2)] assms(3) by simp

theorem loot_spec_witness:
  "generated_ok 8 (Some Epic) 2 (fst (run_state (generateItem 1000 8 (Some Epic) 2) (sconst 0)))"
  using loot_spec[of "sconst 0" 2 8 "Some Epic" 1000] by simp

text \<open>
  C37: the encounter roll. A distance report yields an encounter exactly when the draw is below the
  probability announced for it; then the distance starts again at zero and no report within the
  minimum time rolls another. With the default configuration, once that time has passed and 1050
  metres have been walked, the report always yields one.
\<close>

theorem encounter_roll_spec:
  assumes "valid_rng r" and "0 \<le> es_encounterChancePerMeter s"
  shows "(fst (fst (run_state (processDistanceUpdate now s (Some dd) (Some loc) pl) r)) \<noteq> None \<longleftrightarrow>
      shd r < getProbabilityAfterIncremental s now (dd_incremental dd)) \<and>
    (\<forall>e s'. fst (run_state (processDistanceUpdate now s (Some dd) (Some loc) pl) r) = (Some e, s') \<longrightarrow>
      es_distanceSinceLastEncounter s' = 0 \<and> es_lastEncounterTime s' = Some now \<and>
      (\<not> es_bypassTimeConstraint s \<and> now \<noteq> 0 \<and> t < now + es_minTimeBetweenEncounters s \<longrightarrow>
        fst (fst (run_state (processDistanceUpdate t s' dd' loc' pl') r')) = None)) \<and>
    (es_encounterChancePerMeter s = rnd (1 / 1000) \<and> es_minEncounterDistance s = 50 \<and> timeConstraintMet s now \<and>
      1050 \<le> jadd (es_distanceSinceLastEncounter s) (dd_incremental dd) \<longrightarrow>
      fst (fst (run_state (processDistanceUpdate now s (Some dd) (Some loc) pl) r)) \<noteq> None)"
proof (intro conjI allI impI)
  show roll: "fst (fst (run_state (processDistanceUpdate now s (Some dd) (Some loc) pl) r)) \<noteq> None \<longleftrightarrow>
    shd r < getProbabilityAfterIncremental s now (dd_incremental dd)" by (rule process_iff[OF assms])
  fix e s'
  assume run: "fst (run_state (processDistanceUpdate now s (Some dd) (Some loc) pl) r) = (Some e, s')"
  then show "es_distanceSinceLastEncounter s' = 0" and "es_lastEncounterTime s' = Some now" by (rule process_reset)+
  assume "\<not> es_bypassTimeConstraint s \<and> now \<noteq> 0 \<and> t < now + es_minTimeBetweenEncounters s"
  then show "fst (fst (run_state (processDistanceUpdate t s' dd' loc' pl') r')) = None"
    by (intro process_blocked(1) process_spacing[OF run]) simp_all
next
  assume "es_encounterChancePerMeter s = rnd (1 / 1000) \<and> es_minEncounterDistance s = 50 \<and> timeConstraintMet s now \<and>
      1050 \<le> jadd (es_distanceSinceLastEncounter s) (dd_incremental dd)"
  then have "getProbabilityAfterIncremental s now (dd_incremental dd) = 1"
    using probability_certain[of s]
    by (simp add: getProbabilityAfterIncremental_def timeBlocks_iff getDistanceBasedProbabilityAfterIncremental_def)
  moreover have "shd r < 1" using valid_rng_shd[OF assms(1)] by (auto simp: valid_draw_def intro: le_less_trans)
  ultimately show "fst (fst (run_state (processDistanceUpdate now s (Some dd) (Some loc) pl) r)) \<noteq> None"
    using process_iff[OF assms, of now dd loc pl] by simp
qed

theorem encounter_roll_spec_witness:
  "fst (fst (run_state (processDistanceUpdate 1000 es_init (Some (sample_report\<lparr> dd_incremental := 20 \<rparr>)) (Some sample_location) 1) (sconst 0))) = None \<and>
   fst (fst (run_state (processDistanceUpdate 1000 es_init (Some sample_report) (Some sample_location) 1) (sconst 0))) \<noteq> None"
proof
  show "fst (fst (run_state (processDistanceUpdate 1000 es_init (Some (sample_report\<lparr> dd_incremental := 20 \<rparr>)) (Some sample_location) 1) (sconst 0))) = None"
    using encounter_roll_spec[where r = "sconst 0" and s = es_init and now = 1000 and dd = "sample_report\<lparr> dd_incremental := 20 \<rparr>"
        and loc = sample_location and pl = 1 and t = 0 and dd' = None and loc' = None and pl' = 1 and r' = "sconst 0"]
    by (simp add: es_init_def rnd_nonneg getProbabilityAfterIncremental_def timeBlocks_def timeSinceLastEncounter_def
        getDistanceBasedProbabilityAfterIncremental_def distanceProbability_def jadd_def rnd_numeral)
  show "fst (fst (run_state (processDistanceUpdate 1000 es_init (Some sample_report) (Some sample_location) 1) (sconst 0))) \<noteq> None"
    using encounter_roll_spec[where r = "sconst 0" and s = es_init and now = 1000 and dd = sample_report and loc = sample_location
        and pl = 1 and t = 0 and dd' = None and loc' = None and pl' = 1 and r' = "sconst 0"]
    by (auto simp: es_init_def rnd_nonneg timeConstraintMet_def timeSinceLastEncounter_def jadd_def rnd_numeral)
qed

section \<open>Location and device services\<close>

text \<open>
  C38: tracking: over every session without a reset the total distance is exactly the sum of the
  reported increments in order, each of which is at least one and less than a thousand metres, and
  the service keeps exactly one watch while tracking and none otherwise.
\<close>

theorem tracking_totals:
  assumes "ResetDistance \<notin> set es"
  shows "loc_ok (fst (loc_run loc_init es)) \<and>
    ls_totalDistance (fst (loc_run loc_init es)) = foldl jadd 0 (distance_reports (snd (loc_run loc_init es))) \<and>
    (\<forall>x \<in> set (distance_reports (snd (loc_run loc_init es))). 1 \<le> x \<and> x < 1000)"
  using loc_run_total[OF loc_init_ok assms] loc_run_reports by (auto simp: loc_init_def)

theorem tracking_totals_witness: "loc_ok (fst (loc_run loc_init [StartTracking, StopTracking, StartTracking]))"
  using tracking_totals[of "[StartTracking, StopTracking, StartTracking]"] by simp

text \<open>
  C39: on a device whose store accepts every call, the battery dialog is shown at most once, however
  the requests overlap and whatever the native module answers; and tracking survives a restart: it
  resumes exactly if it was on.
\<close>

theorem battery_prompt_once:
  assumes "device_storage io peek" and "reliable io"
  shows "bt_dialogs (foldl (battery_step io) \<lparr> bt_promptInFlight = False, bt_asked = None, bt_store = s, bt_dialogs = 0 \<rparr> es) \<le> 1 \<and>
    tk_isTracking (relaunch io android native (useStartTracking io android native t True) True) \<and>
    ls_isTracking (tk_service (relaunch io android native (useStartTracking io android native t True) True)) \<and>
    \<not> tk_isTracking (relaunch io android native (useStopTracking io t) granted)"
  using device_storage.prompted_at_most_once[OF assms] device_storage.tracking_resumes[OF assms]
  by (simp add: battery_ok_def)

theorem battery_prompt_once_witness:
  "bt_dialogs (foldl (battery_step mem_storage) \<lparr> bt_promptInFlight = False, bt_asked = None, bt_store = Map.empty, bt_dialogs = 0 \<rparr>
     [RequestExemption True True, RequestExemption True True, ExemptionResumes (Some False) (Some True),
      RequestExemption True True, ExemptionResumes (Some False) (Some True)]) \<le> 1"
  using battery_prompt_once[OF mem.device_storage_axioms reliable_mem] by blast

text \<open>
  C40: starting the backend. Whatever was called before, a start that is waiting for the native app
  has at most ten looks left. If the app stays missing, that many looks end the start in a failure
  after which the next call begins afresh; if it appears at any look before, the start completes.
\<close>

theorem backend_start_ends:
  assumes fb: "fb = foldl fb_step firebase_init es" and wait: "fb_frame fb = Some (Waiting n)"
  shows "0 < n \<and> n \<le> 10 \<and>
    ((\<lambda>f. fbTimer f False pid) ^^ n) fb = fbFails (fb\<lparr> fb_frame := None \<rparr>) \<and>
    fb_frame (fbInitialize (((\<lambda>f. fbTimer f False pid) ^^ n) fb) False pid') = Some (Waiting 10) \<and>
    (m < n \<longrightarrow> fb_initialized (fbCrashlyticsSettles (fbTimer (((\<lambda>f. fbTimer f False pid) ^^ m) fb) True True)))"
proof -
  have "fb_ok fb" unfolding fb by (rule firebase_machine.run_inv[OF firebase_init_ok]) (simp add: list_all_iff)
  then have n: "0 < n" "n \<le> 10" "\<not> fb_initialized fb" using wait by (auto simp: fb_ok_def)
  show ?thesis
    using n waits_end[OF wait n(1,3), of pid] apps_found[OF waits_left[OF wait, of m pid]]
    by (auto simp: fbInitialize_def fbFails_def fbLoop_def)
qed

theorem backend_start_ends_witness:
  "fb_initialized (fbCrashlyticsSettles (fbTimer (((\<lambda>f. fbTimer f False True) ^^ 3) (foldl fb_step firebase_init [FbInitialize False True])) True True))"
  using backend_start_ends[of _ "[FbInitialize False True]" 10 True True 3]
  by (simp add: firebase_init_def fbInitialize_def fbLoop_def)

end
